(* ===== verification/Prelude.thy ===== *)
theory Prelude
  imports Main "HOL-Library.Word" "HOL-Library.Signed_Division"
begin

text \<open>
  Shared vocabulary of the development.

  \<^item> Go strings are byte strings: \<open>string\<close> is a list of 8-bit characters.
  \<^item> A Go pointer that is only tested for nil and read is an \<open>option\<close>; \<open>None\<close> is nil.
  \<^item> An error result is \<open>'e option\<close>, a pair of value and error is \<open>'e + 'a\<close>.
  \<^item> A Go panic is a value of \<open>go_panic\<close>, on the left of a sum.
  \<^item> \<open>int64\<close> is a 64-bit word, read with \<open>sint\<close>; Go's \<open>/\<close> truncates towards zero.
\<close>

named_theorems go_unfold \<open>definitions of the pointer helpers and of other small accessors\<close>

type_synonym int64 = "64 word"
type_synonym byte = "8 word"

datatype go_panic =
    NilDereference
  | IndexOutOfRange
  | CloseOfClosedChannel
  | FailedTypeAssertion
  | NonPositiveInterval

text \<open>Sequencing of computations that may panic or fail.\<close>

definition bind_sum :: "'e + 'a \<Rightarrow> ('a \<Rightarrow> 'e + 'b) \<Rightarrow> 'e + 'b" where
  "bind_sum m f = (case m of Inl e \<Rightarrow> Inl e | Inr a \<Rightarrow> f a)"

lemma bind_sum_simps [simp]:
  "bind_sum (Inl e) f = Inl e"
  "bind_sum (Inr a) f = f a"
  by (simp_all add: bind_sum_def)

lemma bind_sum_Inr_iff:
  "bind_sum m f = Inr b \<longleftrightarrow> (\<exists>a. m = Inr a \<and> f a = Inr b)"
  by (cases m) simp_all

definition deref :: "'a option \<Rightarrow> go_panic + 'a" where
  "deref p = (case p of None \<Rightarrow> Inl NilDereference | Some v \<Rightarrow> Inr v)"

lemma deref_simps [simp]:
  "deref None = Inl NilDereference"
  "deref (Some v) = Inr v"
  by (simp_all add: deref_def)

definition go_index :: "'a list \<Rightarrow> int \<Rightarrow> go_panic + 'a" where
  "go_index xs i = (if 0 \<le> i \<and> i < int (length xs) then Inr (xs ! nat i) else Inl IndexOutOfRange)"

lemma go_index_Inr_iff:
  "go_index xs i = Inr x \<longleftrightarrow> 0 \<le> i \<and> i < int (length xs) \<and> x = xs ! nat i"
  by (auto simp: go_index_def)

text \<open>Go's signed division on \<open>int64\<close>.\<close>

definition int64_div :: "int64 \<Rightarrow> int64 \<Rightarrow> int64" where
  "int64_div a b = word_of_int (sint a sdiv sint b)"

text \<open>The non-nil errors of a list of validation results, in order.\<close>

fun present :: "'e option list \<Rightarrow> 'e list" where
  "present [] = []"
| "present (None # es) = present es"
| "present (Some e # es) = e # present es"

lemma present_Nil_iff [simp]: "present es = [] \<longleftrightarrow> (\<forall>e\<in>set es. e = None)"
  by (induction es rule: present.induct) auto

lemma present_append [simp]: "present (xs @ ys) = present xs @ present ys"
  by (induction xs rule: present.induct) auto

lemma set_present: "set (present es) = {e. Some e \<in> set es}"
  by (induction es rule: present.induct) auto

text \<open>The first element that satisfies a test, as the scanning loops of the code find it.\<close>

fun find_first :: "('a \<Rightarrow> bool) \<Rightarrow> 'a list \<Rightarrow> 'a option" where
  "find_first p [] = None"
| "find_first p (x # xs) = (if p x then Some x else find_first p xs)"

lemma find_first_None_iff: "find_first p xs = None \<longleftrightarrow> (\<forall>x\<in>set xs. \<not> p x)"
  by (induction xs) auto

lemma find_first_SomeD: "find_first p xs = Some x \<Longrightarrow> x \<in> set xs \<and> p x"
  by (induction xs) (auto split: if_splits)

fun index_of :: "('a \<Rightarrow> bool) \<Rightarrow> 'a list \<Rightarrow> nat option" where
  "index_of p [] = None"
| "index_of p (x # xs) = (if p x then Some 0 else map_option Suc (index_of p xs))"

lemma index_of_None_iff: "index_of p xs = None \<longleftrightarrow> (\<forall>x\<in>set xs. \<not> p x)"
  by (induction xs) auto

lemma index_of_SomeD:
  "index_of p xs = Some i \<Longrightarrow> i < length xs \<and> p (xs ! i) \<and> (\<forall>j<i. \<not> p (xs ! j))"
proof (induction xs arbitrary: i)
  case Nil
  then show ?case by simp
next
  case (Cons x xs)
  show ?case
  proof (cases "p x")
    case True
    with Cons.prems show ?thesis by simp
  next
    case False
    with Cons.prems obtain j where j: "index_of p xs = Some j" and i: "i = Suc j" by auto
    from Cons.IH [OF j] False i show ?thesis by (auto simp: less_Suc_eq_0_disj)
  qed
qed

lemma index_of_find_first: "map_option (\<lambda>i. xs ! i) (index_of p xs) = find_first p xs"
  by (induction xs) (auto simp: option.map_comp comp_def)

lemma filter_singletonD:
  assumes "filter p xs = [x]" and "y \<in> set xs" and "p y"
  shows "y = x"
proof -
  have "y \<in> set (filter p xs)" using assms(2,3) by simp
  with assms(1) show ?thesis by simp
qed

text \<open>Lists of no, one, or more elements.\<close>

lemma list_cases3 [case_names Nil single more]:
  "(xs = [] \<Longrightarrow> P) \<Longrightarrow> (\<And>x. xs = [x] \<Longrightarrow> P) \<Longrightarrow> (\<And>x y zs. xs = x # y # zs \<Longrightarrow> P) \<Longrightarrow> P"
  by (cases xs rule: remdups_adj.cases) auto

subsection \<open>Systems with an invariant\<close>

locale invariant_system =
  fixes init :: "'s \<Rightarrow> bool" and step :: "'s \<Rightarrow> 's \<Rightarrow> bool" and I :: "'s \<Rightarrow> bool"
  assumes I_init: "init s \<Longrightarrow> I s"
    and I_step: "I s \<Longrightarrow> step s t \<Longrightarrow> I t"
begin

lemma I_steps: "step\<^sup>*\<^sup>* s t \<Longrightarrow> I s \<Longrightarrow> I t"
  by (induction rule: rtranclp_induct) (auto intro: I_step)

lemma I_reachable: "init s \<Longrightarrow> step\<^sup>*\<^sup>* s t \<Longrightarrow> I t"
  by (blast intro: I_init I_steps)

end

text \<open>A system that also counts down: all its runs end, and end where no step is left.\<close>

locale ending_system = invariant_system +
  fixes togo :: "'a \<Rightarrow> nat"
  assumes togo_step: "I s \<Longrightarrow> step s t \<Longrightarrow> togo t < togo s"
begin

lemma run_bound: "(step ^^ n) s t \<Longrightarrow> I s \<Longrightarrow> n + togo t \<le> togo s"
proof (induction n arbitrary: t)
  case (Suc n)
  from Suc.prems(1) obtain u where u: "(step ^^ n) s u" "step u t" by auto
  then have "I u" using I_steps [of s u] Suc.prems(2) relpowp_imp_rtranclp by metis
  with u Suc.IH [OF u(1) Suc.prems(2)] togo_step [of u t] show ?case by simp
qed simp

lemma runs_end: "I s \<Longrightarrow> \<exists>t. step\<^sup>*\<^sup>* s t \<and> I t \<and> (\<forall>u. \<not> step t u)"
proof (induction "togo s" arbitrary: s rule: less_induct)
  case less
  show ?case
  proof (cases "\<forall>u. \<not> step s u")
    case True
    with less.prems show ?thesis by blast
  next
    case False
    then obtain u where u: "step s u" by blast
    with less.prems have "togo u < togo s" "I u" using togo_step I_step by blast+
    from less.hyps [OF this] show ?thesis using u by (meson converse_rtranclp_into_rtranclp)
  qed
qed

end

end
