(* ===== verification/GoString.thy ===== *)
theory GoString
  imports Prelude
begin

text \<open>
  The part of Go's standard library on strings, numbers and paths that the program calls:
  \<open>strings.Fields\<close>, \<open>strings.SplitN\<close> with a limit of two, \<open>strings.Join\<close>,
  \<open>strconv.Itoa\<close>, \<open>strconv.Atoi\<close>, and \<open>filepath.Clean\<close>, \<open>Join\<close>, \<open>Base\<close>
  and \<open>Dir\<close> on Unix. Strings are UTF-8 byte strings, as in Go.
\<close>

subsection \<open>White space and strings.Fields\<close>

text \<open>
  \<open>space_len s\<close> is the number of bytes of the white space character \<open>s\<close> starts with, or 0:
  the characters of \<open>unicode.IsSpace\<close> in their UTF-8 encoding. No byte of these encodings but
  the first is the first byte of another character, so a scan by bytes finds the same white
  space as a scan by runes, also in strings that are not valid UTF-8.
\<close>

fun space_len :: "string \<Rightarrow> nat" where
  "space_len [] = 0"
| "space_len (c # s) =
    (if c \<in> {CHR 0x09, CHR 0x0A, CHR 0x0B, CHR 0x0C, CHR 0x0D, CHR 0x20} then 1
     else if c = CHR 0xC2 then (case s of [] \<Rightarrow> 0 | d # _ \<Rightarrow> if d \<in> {CHR 0x85, CHR 0xA0} then 2 else 0)
     else case s of
       d # e # _ \<Rightarrow>
         if (c = CHR 0xE1 \<and> d = CHR 0x9A \<and> e = CHR 0x80)
          \<or> (c = CHR 0xE2 \<and> d = CHR 0x80 \<and>
              e \<in> {CHR 0x80, CHR 0x81, CHR 0x82, CHR 0x83, CHR 0x84, CHR 0x85, CHR 0x86,
                    CHR 0x87, CHR 0x88, CHR 0x89, CHR 0x8A, CHR 0xA8, CHR 0xA9, CHR 0xAF})
          \<or> (c = CHR 0xE2 \<and> d = CHR 0x81 \<and> e = CHR 0x9F)
          \<or> (c = CHR 0xE3 \<and> d = CHR 0x80 \<and> e = CHR 0x80)
         then 3 else 0
     | _ \<Rightarrow> 0)"

declare space_len.simps(2) [simp del]

lemma space_len_le: "space_len s \<le> length s"
  by (cases s) (auto simp: space_len.simps(2) split: list.splits)

lemma space_len_append: "0 < space_len s \<Longrightarrow> space_len (s @ t) = space_len s"
  by (cases s) (auto simp: space_len.simps(2) split: list.splits if_splits)

text \<open>An ASCII byte never completes a white space character that began before it.\<close>

definition ascii :: "char \<Rightarrow> bool" where
  "ascii c \<longleftrightarrow> c \<notin> {CHR 0x80, CHR 0x81, CHR 0x82, CHR 0x83, CHR 0x84, CHR 0x85, CHR 0x86,
     CHR 0x87, CHR 0x88, CHR 0x89, CHR 0x8A, CHR 0x9A, CHR 0x9F, CHR 0xA0, CHR 0xA8, CHR 0xA9, CHR 0xAF}"

lemma space_len_ascii:
  assumes "s \<noteq> []" and "space_len s = 0" and "ascii c"
  shows "space_len (s @ c # t) = 0"
  using assms
  by (cases s) (auto simp: space_len.simps(2) ascii_def split: list.splits if_splits)

fun no_space :: "string \<Rightarrow> bool" where
  "no_space [] = True"
| "no_space (c # s) = (space_len (c # s) = 0 \<and> no_space s)"

lemma no_space_append:
  "no_space s \<Longrightarrow> no_space t \<Longrightarrow> t = [] \<or> ascii (hd t) \<Longrightarrow> no_space (s @ t)"
proof (induction s)
  case Nil
  then show ?case by simp
next
  case (Cons c s)
  then show ?case
    using space_len_ascii [of "c # s" "hd t" "tl t"] by (cases t) auto
qed

lemma no_space_appendD2: "no_space (s @ t) \<Longrightarrow> no_space t"
  by (induction s) auto

lemma no_space_appendD1: "no_space (s @ t) \<Longrightarrow> no_space s"
proof (induction s)
  case Nil
  then show ?case by simp
next
  case (Cons c s)
  then show ?case
    using space_len_append [of "c # s" t] by fastforce
qed

fun take_word :: "string \<Rightarrow> string" where
  "take_word [] = []"
| "take_word (c # s) = (if space_len (c # s) = 0 then c # take_word s else [])"

fun drop_word :: "string \<Rightarrow> string" where
  "drop_word [] = []"
| "drop_word (c # s) = (if space_len (c # s) = 0 then drop_word s else c # s)"

lemma take_drop_word: "take_word s @ drop_word s = s"
  by (induction s) auto

lemma length_drop_word: "length (drop_word s) \<le> length s"
  by (induction s) auto

function fields :: "string \<Rightarrow> string list" where
  "fields s =
    (if s = [] then []
     else if 0 < space_len s then fields (drop (space_len s) s)
     else take_word s # fields (drop_word s))"
  by pat_completeness auto
termination
proof (relation "measure length", simp_all)
  fix s :: string
  assume "s \<noteq> []" and "space_len s = 0"
  then show "length (drop_word s) < length s"
    using length_drop_word by (cases s) (auto simp: less_Suc_eq_le)
qed

declare fields.simps [simp del]

lemma take_word_no_space: "no_space (take_word s)"
proof (induction s)
  case Nil
  then show ?case by simp
next
  case (Cons c s)
  show ?case
  proof (cases "space_len (c # s) = 0")
    case True
    have "space_len (c # take_word s) = 0"
      using space_len_append [of "c # take_word s" "drop_word s"] True take_drop_word [of s]
      by fastforce
    with True Cons.IH show ?thesis by simp
  next
    case False
    then show ?thesis by simp
  qed
qed

text \<open>Every field is non-empty and holds no white space.\<close>

definition field_word :: "string \<Rightarrow> bool" where
  "field_word w \<longleftrightarrow> w \<noteq> [] \<and> no_space w"

lemma fields_words: "w \<in> set (fields s) \<Longrightarrow> field_word w"
proof (induction s rule: fields.induct)
  case (1 s)
  show ?case
  proof (cases "s = [] \<or> 0 < space_len s")
    case True
    with 1 show ?thesis by (auto simp: fields.simps [of s] split: if_splits)
  next
    case False
    then have "take_word s \<noteq> []" by (cases s) auto
    with False 1 take_word_no_space show ?thesis
      by (auto simp: fields.simps [of s] field_word_def)
  qed
qed

lemma take_word_append:
  "no_space w \<Longrightarrow> take_word (w @ CHR '' '' # t) = w \<and> drop_word (w @ CHR '' '' # t) = CHR '' '' # t"
proof (induction w)
  case Nil
  then show ?case by (simp add: space_len.simps(2))
next
  case (Cons c w)
  then have "space_len ((c # w) @ CHR '' '' # t) = 0"
    by (intro space_len_ascii) (auto simp: ascii_def)
  with Cons show ?case by simp
qed

lemma take_word_all: "no_space w \<Longrightarrow> take_word w = w \<and> drop_word w = []"
  by (induction w) auto

fun str_join :: "string list \<Rightarrow> string \<Rightarrow> string" where
  "str_join [] sep = []"
| "str_join [w] sep = w"
| "str_join (w # v # ws) sep = w @ sep @ str_join (v # ws) sep"

lemma fields_Nil [simp]: "fields [] = []"
  by (subst fields.simps) simp

lemma fields_word:
  assumes "field_word w"
  shows "fields w = [w]"
proof -
  have "w \<noteq> []" and "space_len w = 0"
    using assms by (cases w; simp add: field_word_def)+
  then show ?thesis
    using assms by (simp add: fields.simps [of w] field_word_def take_word_all)
qed

lemma fields_word_space:
  assumes "field_word w"
  shows "fields (w @ CHR '' '' # t) = w # fields t"
proof -
  have sp: "space_len (CHR '' '' # t) = 1" by (simp add: space_len.simps(2))
  have "fields (CHR '' '' # t) = fields t"
    by (subst fields.simps) (simp add: sp)
  moreover have "space_len (w @ CHR '' '' # t) = 0"
    using assms space_len_ascii [of w "CHR '' ''" t]
    by (cases w) (auto simp: field_word_def ascii_def)
  ultimately show ?thesis
    using assms take_word_append [of w t]
    by (subst fields.simps) (auto simp: field_word_def)
qed

text \<open>Splitting a list of words joined by one space gives the words back.\<close>

lemma fields_join:
  "(\<forall>w\<in>set ws. field_word w) \<Longrightarrow> fields (str_join ws '' '') = ws"
proof (induction ws "'' ''" rule: str_join.induct)
  case 1
  then show ?case by simp
next
  case (2 w)
  then show ?case by (simp add: fields_word)
next
  case (3 w v ws)
  then show ?case by (simp add: fields_word_space)
qed

subsection \<open>strings.SplitN with a limit of two, prefixes and suffixes\<close>

definition splitN2 :: "char \<Rightarrow> string \<Rightarrow> string list" where
  "splitN2 c s =
    (if c \<in> set s then [takeWhile (\<lambda>d. d \<noteq> c) s, tl (dropWhile (\<lambda>d. d \<noteq> c) s)] else [s])"

lemma splitN2_split: "c \<notin> set k \<Longrightarrow> splitN2 c (k @ c # v) = [k, v]"
  by (auto simp: splitN2_def takeWhile_append dropWhile_append)

lemma splitN2_single: "c \<notin> set s \<Longrightarrow> splitN2 c s = [s]"
  by (simp add: splitN2_def)

lemma splitN2_cases:
  obtains (single) "c \<notin> set s" "splitN2 c s = [s]"
  | (pair) k v where "s = k @ c # v" "c \<notin> set k" "splitN2 c s = [k, v]"
proof (cases "c \<in> set s")
  case True
  then obtain k v where "s = k @ c # v" "c \<notin> set k" by (meson split_list_first)
  then show thesis by (intro pair) (auto simp: splitN2_split)
next
  case False
  then show thesis by (intro single) (simp_all add: splitN2_single)
qed

definition has_prefix :: "string \<Rightarrow> string \<Rightarrow> bool" where
  "has_prefix s p \<longleftrightarrow> take (length p) s = p"

definition trim_suffix :: "string \<Rightarrow> string \<Rightarrow> string" where
  "trim_suffix s p =
    (if length p \<le> length s \<and> drop (length s - length p) s = p
     then take (length s - length p) s else s)"

subsection \<open>Decimal numbers\<close>

definition digit :: "nat \<Rightarrow> char" where
  "digit d = char_of (48 + d)"

fun nat_dec :: "nat \<Rightarrow> string" where
  "nat_dec n = (if n < 10 then [digit n] else nat_dec (n div 10) @ [digit (n mod 10)])"

declare nat_dec.simps [simp del]

definition itoa :: "int \<Rightarrow> string" where
  "itoa i = (if i < 0 then CHR ''-'' # nat_dec (nat (- i)) else nat_dec (nat i))"

definition digit_val :: "char \<Rightarrow> nat" where
  "digit_val c = of_char c - 48"

definition is_digit :: "char \<Rightarrow> bool" where
  "is_digit c \<longleftrightarrow> 48 \<le> (of_char c :: nat) \<and> (of_char c :: nat) \<le> 57"

definition undec :: "string \<Rightarrow> nat" where
  "undec s = foldl (\<lambda>n c. 10 * n + digit_val c) 0 s"

lemma digit_val_digit [simp]: "d < 10 \<Longrightarrow> digit_val (digit d) = d"
  by (simp add: digit_val_def digit_def)

lemma is_digit_digit [simp]: "d < 10 \<Longrightarrow> is_digit (digit d)"
  by (simp add: is_digit_def digit_def)

lemma undec_nat_dec [simp]: "undec (nat_dec n) = n"
proof (induction n rule: nat_dec.induct)
  case (1 n)
  then show ?case
    by (subst nat_dec.simps) (simp add: undec_def)
qed

lemma nat_dec_digits: "c \<in> set (nat_dec n) \<Longrightarrow> is_digit c"
proof (induction n rule: nat_dec.induct)
  case (1 n)
  then show ?case
    by (subst (asm) (2) nat_dec.simps) (auto split: if_splits)
qed

lemma nat_dec_nonempty: "nat_dec n \<noteq> []"
  by (subst nat_dec.simps) simp

lemma nat_dec_inj: "nat_dec m = nat_dec n \<longleftrightarrow> m = n"
  by (metis undec_nat_dec)

lemma itoa_of_nat_inj: "itoa (int m) = itoa (int n) \<longleftrightarrow> m = n"
  by (simp add: itoa_def nat_dec_inj)

text \<open>
  \<open>strconv.Atoi\<close> on a 64-bit platform: an optional sign, at least one digit, nothing else, and
  the value in range. \<open>None\<close> stands for the error results, whose value the program ignores.
\<close>

definition atoi :: "string \<Rightarrow> int option" where
  "atoi s =
    (let neg = (s \<noteq> [] \<and> hd s = CHR ''-'');
         pos = (s \<noteq> [] \<and> hd s = CHR ''+'');
         ds = (if neg \<or> pos then tl s else s);
         v = (if neg then - int (undec ds) else int (undec ds))
     in if ds \<noteq> [] \<and> list_all is_digit ds \<and> - (2 ^ 63) \<le> v \<and> v < 2 ^ 63 then Some v else None)"

lemma atoi_nat_dec:
  assumes "n < 2 ^ 63"
  shows "atoi (nat_dec n) = Some (int n)"
proof -
  obtain c t where ct: "nat_dec n = c # t"
    using nat_dec_nonempty [of n] by (cases "nat_dec n") auto
  have "is_digit c" using nat_dec_digits [of c n] ct by simp
  then have "c \<noteq> CHR ''-''" "c \<noteq> CHR ''+''" by (auto simp: is_digit_def)
  moreover have "list_all is_digit (nat_dec n)"
    by (auto simp: list_all_iff nat_dec_digits)
  moreover have "int n < 2 ^ 63" using assms by (metis of_nat_less_iff of_nat_numeral of_nat_power)
  ultimately show ?thesis
    using ct undec_nat_dec [of n] by (auto simp: atoi_def Let_def)
qed

subsection \<open>Unix paths\<close>

fun split_on :: "char \<Rightarrow> string \<Rightarrow> string list" where
  "split_on c [] = [[]]"
| "split_on c (d # s) =
    (if d = c then [] # split_on c s
     else case split_on c s of [] \<Rightarrow> [[d]] | w # ws \<Rightarrow> (d # w) # ws)"

lemma split_on_single: "c \<notin> set w \<Longrightarrow> split_on c w = [w]"
  by (induction w) auto

lemma split_on_append: "c \<notin> set w \<Longrightarrow> split_on c (w @ c # s) = w # split_on c s"
  by (induction w) auto

lemma split_on_join:
  "ws \<noteq> [] \<Longrightarrow> \<forall>w\<in>set ws. c \<notin> set w \<Longrightarrow> split_on c (str_join ws [c]) = ws"
  by (induction ws "[c]" rule: str_join.induct) (auto simp: split_on_single split_on_append)

text \<open>
  \<open>filepath.Clean\<close> removes empty and \<open>.\<close> elements, and each inner \<open>..\<close> together with the
  element before it. The stack holds the kept elements, last first.
\<close>

fun clean_elems :: "bool \<Rightarrow> string list \<Rightarrow> string list \<Rightarrow> string list" where
  "clean_elems rooted stk [] = rev stk"
| "clean_elems rooted stk (e # es) =
    (if e = '''' \<or> e = ''.'' then clean_elems rooted stk es
     else if e = ''..'' then
       (case stk of
          t # stk' \<Rightarrow> if t \<noteq> ''..'' then clean_elems rooted stk' es
                    else clean_elems rooted (e # stk) es
        | [] \<Rightarrow> if rooted then clean_elems rooted stk es else clean_elems rooted [e] es)
     else clean_elems rooted (e # stk) es)"

definition path_clean :: "string \<Rightarrow> string" where
  "path_clean p =
    (if p = [] then ''.''
     else let rooted = (hd p = CHR ''/'');
              es = clean_elems rooted [] (split_on CHR ''/'' p)
          in if rooted then CHR ''/'' # str_join es ''/''
             else if es = [] then ''.'' else str_join es ''/'')"

fun path_join :: "string list \<Rightarrow> string" where
  "path_join [] = []"
| "path_join (e # es) = (if e = [] then path_join es else path_clean (str_join (e # es) ''/''))"

definition path_base :: "string \<Rightarrow> string" where
  "path_base p =
    (if p = [] then ''.''
     else let q = rev (dropWhile (\<lambda>c. c = CHR ''/'') (rev p));
              b = rev (takeWhile (\<lambda>c. c \<noteq> CHR ''/'') (rev q))
          in if b = [] then ''/'' else b)"

definition path_dir :: "string \<Rightarrow> string" where
  "path_dir p = path_clean (rev (dropWhile (\<lambda>c. c \<noteq> CHR ''/'') (rev p)))"

end
