(* ===== verification/Handlers.thy ===== *)
theory Handlers
  imports GoString
begin

text \<open>
  Handler lists (\<open>handlers.go\<close>): a handler is a name and a function; the type of the function
  is left open here (\<open>'f\<close>), and running a list is given the interpretation of the functions.
  A list operation of the code that builds \<open>newList\<close> in a loop is a fold in the same order.
  \<open>GoSlices\<close> models the same operations on the slices the code uses and relates the two.
\<close>

datatype 'e outcome = Returned "'e option" | Panicked go_panic | Blocked

record 'f handler =
  Name :: string
  Fn :: 'f

definition Prepend :: "'f handler list \<Rightarrow> 'f handler list \<Rightarrow> 'f handler list" where
  "Prepend l handlers = handlers @ l"

definition Append :: "'f handler list \<Rightarrow> 'f handler list \<Rightarrow> 'f handler list" where
  "Append l handlers = l @ handlers"

definition AppendAfter :: "'f handler list \<Rightarrow> string \<Rightarrow> 'f handler \<Rightarrow> 'f handler list" where
  "AppendAfter l name handler =
     foldl (\<lambda>newList h. if Name h = name then Append newList [h, handler] else Append newList [h]) [] l"

definition Len :: "'f handler list \<Rightarrow> nat" where
  "Len l = length l"

fun Has :: "'f handler list \<Rightarrow> string \<Rightarrow> bool" where
  "Has [] name = False"
| "Has (h # l) name = (if Name h = name then True else Has l name)"

definition Swap :: "'f handler list \<Rightarrow> 'f handler \<Rightarrow> 'f handler list" where
  "Swap l handler =
     foldl (\<lambda>newList h. if Name h = Name handler then newList @ [handler] else newList @ [h]) [] l"

definition Swappend :: "'f handler list \<Rightarrow> 'f handler \<Rightarrow> 'f handler list" where
  "Swappend l handler = (if Has l (Name handler) then Swap l handler else Append l [handler])"

definition Remove :: "'f handler list \<Rightarrow> string \<Rightarrow> 'f handler list" where
  "Remove l name = foldl (\<lambda>newList h. if Name h \<noteq> name then newList @ [h] else newList) [] l"

definition Clear :: "'f handler list \<Rightarrow> 'f handler list" where
  "Clear l = take 0 l"

text \<open>
  Running a list: each handler in turn, stopping at the first that returns an error (or panics,
  or never returns).
\<close>

fun HandlerList_Run ::
  "('f \<Rightarrow> 's \<Rightarrow> 'e outcome \<times> 's) \<Rightarrow> 'f handler list \<Rightarrow> 's \<Rightarrow> 'e outcome \<times> 's" where
  "HandlerList_Run exec [] s = (Returned None, s)"
| "HandlerList_Run exec (h # l) s =
    (case exec (Fn h) s of
       (Returned None, s') \<Rightarrow> HandlerList_Run exec l s'
     | (r, s') \<Rightarrow> (r, s'))"

record 'f handlers =
  Validation :: "'f handler list"
  FcInit :: "'f handler list"

definition Handlers_list :: "'f handlers \<Rightarrow> bool \<Rightarrow> 'f handler list" where
  "Handlers_list hs disableValidation =
    (let l = []; l = (if \<not> disableValidation then Append l (Validation hs) else l)
     in Append l (FcInit hs))"

definition Handlers_Run ::
  "('f \<Rightarrow> 's \<Rightarrow> 'e outcome \<times> 's) \<Rightarrow> 'f handlers \<Rightarrow> bool \<Rightarrow> 's \<Rightarrow> 'e outcome \<times> 's" where
  "Handlers_Run exec hs disableValidation s =
     HandlerList_Run exec (Handlers_list hs disableValidation) s"

subsection \<open>The folds as list functions\<close>

lemma AppendAfter_concat:
  "AppendAfter l name handler = concat (map (\<lambda>h. if Name h = name then [h, handler] else [h]) l)"
proof -
  have "foldl (\<lambda>newList h. if Name h = name then Append newList [h, handler] else Append newList [h]) acc l
      = acc @ concat (map (\<lambda>h. if Name h = name then [h, handler] else [h]) l)" for acc
    by (induction l arbitrary: acc) (auto simp: Append_def)
  from this [of "[]"] show ?thesis by (simp add: AppendAfter_def)
qed

lemma Swap_map: "Swap l handler = map (\<lambda>h. if Name h = Name handler then handler else h) l"
proof -
  have "foldl (\<lambda>newList h. if Name h = Name handler then newList @ [handler] else newList @ [h]) acc l
      = acc @ map (\<lambda>h. if Name h = Name handler then handler else h) l" for acc
    by (induction l arbitrary: acc) auto
  from this [of "[]"] show ?thesis by (simp add: Swap_def)
qed

lemma Remove_filter: "Remove l name = filter (\<lambda>h. Name h \<noteq> name) l"
proof -
  have "foldl (\<lambda>newList h. if Name h \<noteq> name then newList @ [h] else newList) acc l
      = acc @ filter (\<lambda>h. Name h \<noteq> name) l" for acc
    by (induction l arbitrary: acc) auto
  from this [of "[]"] show ?thesis by (simp add: Remove_def)
qed

lemma Has_iff: "Has l name \<longleftrightarrow> name \<in> Name ` set l"
  by (induction l) auto

lemmas handler_list_simps =
  AppendAfter_concat Swap_map Remove_filter Has_iff Append_def Prepend_def Clear_def Len_def

subsection \<open>Running an appended list\<close>

lemma HandlerList_Run_append:
  "HandlerList_Run exec (l @ l') s =
    (case HandlerList_Run exec l s of
       (Returned None, s') \<Rightarrow> HandlerList_Run exec l' s'
     | (r, s') \<Rightarrow> (r, s'))"
  by (induction l arbitrary: s)
    (auto split: prod.splits outcome.splits option.splits)

text \<open>The states a run passes through: the handlers that ran, and the state after them.\<close>

fun ran :: "('f \<Rightarrow> 's \<Rightarrow> 'e outcome \<times> 's) \<Rightarrow> 'f handler list \<Rightarrow> 's \<Rightarrow> 'f handler list" where
  "ran exec [] s = []"
| "ran exec (h # l) s =
    h # (case exec (Fn h) s of (Returned None, s') \<Rightarrow> ran exec l s' | _ \<Rightarrow> [])"

lemma ran_prefix: "\<exists>rest. l = ran exec l s @ rest"
  by (induction l arbitrary: s) (auto split: prod.splits outcome.splits option.splits)

lemma ran_all: "HandlerList_Run exec l s = (Returned None, s') \<Longrightarrow> ran exec l s = l"
  by (induction l arbitrary: s) (auto split: prod.splits outcome.splits option.splits)

text \<open>A predicate that every handler of the list keeps holds after the run.\<close>

lemma HandlerList_Run_inv:
  assumes "\<And>h t. h \<in> set l \<Longrightarrow> P t \<Longrightarrow> P (snd (exec (Fn h) t))" and "P s"
  shows "P (snd (HandlerList_Run exec l s))"
  using assms
proof (induction l arbitrary: s)
  case Nil
  then show ?case by simp
next
  case (Cons h l)
  obtain r s' where e: "exec (Fn h) s = (r, s')" by fastforce
  with Cons.prems have "P s'" by (metis list.set_intros(1) snd_conv)
  with Cons e show ?case by (auto split: outcome.splits option.splits)
qed

subsection \<open>The contract of a handler container\<close>

text \<open>
  What the clients of handler lists (snapshot loading, the jailer, \<open>NewMachine\<close>) use of them:
  the names in order, and how appending and removing change them.
\<close>

locale handler_container =
  fixes names :: "'c \<Rightarrow> string list"
    and append1 :: "'c \<Rightarrow> 'h \<Rightarrow> 'c"
    and remove :: "'c \<Rightarrow> string \<Rightarrow> 'c"
    and has :: "'c \<Rightarrow> string \<Rightarrow> bool"
    and hname :: "'h \<Rightarrow> string"
  assumes names_append: "names (append1 l h) = names l @ [hname h]"
    and names_remove: "names (remove l n) = filter (\<lambda>m. m \<noteq> n) (names l)"
    and has_names: "has l n \<longleftrightarrow> n \<in> set (names l)"
begin

lemma names_remove_all: "names (foldl remove l ns) = filter (\<lambda>m. m \<notin> set ns) (names l)"
  by (induction ns arbitrary: l) (auto simp: names_remove intro: filter_cong)

lemma has_after_remove: "\<not> has (remove l n) n"
  by (simp add: has_names names_remove)

lemma names_replace:
  "names (append1 (foldl remove l ns) h) = filter (\<lambda>m. m \<notin> set ns) (names l) @ [hname h]"
  by (simp add: names_append names_remove_all)

end

interpretation hl: handler_container "map Name" "\<lambda>l h. Append l [h]" Remove Has Name
  by unfold_locales (auto simp: handler_list_simps filter_map comp_def)

subsection \<open>Properties\<close>

text \<open>Running the handlers of a machine runs the validation handlers first, unless validation is
  disabled, then the initialisation handlers; each list stops at the first handler that does not
  return without an error, and the outcome and the state are those of that handler.\<close>

lemma Handlers_Run_spec:
  "Handlers_Run exec hs disabled s =
     (case HandlerList_Run exec (if disabled then [] else Validation hs) s of
        (Returned None, s') \<Rightarrow> HandlerList_Run exec (FcInit hs) s'
      | (r, s') \<Rightarrow> (r, s'))
   \<and> HandlerList_Run exec (h # l) s =
       (case fst (exec (Fn h) s) of
          Returned None \<Rightarrow> HandlerList_Run exec l (snd (exec (Fn h) s))
        | _ \<Rightarrow> exec (Fn h) s)"
  by (auto simp: Handlers_Run_def Handlers_list_def Let_def Append_def HandlerList_Run_append
      split: prod.split outcome.split option.split)

end
