(* ===== verification/GoSlices.thy ===== *)
theory GoSlices
  imports Handlers
begin

text \<open>
  Handler lists as the code stores them: Go slices that share backing arrays. A slice is a
  pointer to an array, a length and a capacity; \<open>append\<close> writes into the array while the
  capacity lasts and otherwise copies to a new array, whose size \<open>grow\<close> the language leaves to the
  implementation (at least what is needed). \<open>view\<close> is the list a slice stands for.
\<close>

record slice =
  ptr :: nat
  len :: nat
  cap :: nat

record 'a store =
  arrays :: "nat \<Rightarrow> 'a list"
  fresh :: nat

definition view :: "'a store \<Rightarrow> slice \<Rightarrow> 'a list" where
  "view st s = take (len s) (arrays st (ptr s))"

definition slice_ok :: "'a store \<Rightarrow> slice \<Rightarrow> bool" where
  "slice_ok st s \<longleftrightarrow> len s \<le> cap s \<and> cap s \<le> length (arrays st (ptr s)) \<and> ptr s < fresh st"

definition go_append ::
  "(nat \<Rightarrow> nat \<Rightarrow> nat) \<Rightarrow> 'a \<Rightarrow> 'a store \<Rightarrow> slice \<Rightarrow> 'a list \<Rightarrow> slice \<times> 'a store" where
  "go_append grow zero st s xs =
    (let n = len s + length xs; a = arrays st (ptr s)
     in if n \<le> cap s
        then (s\<lparr>len := n\<rparr>,
              st\<lparr>arrays := (arrays st)(ptr s := take (len s) a @ xs @ drop n a)\<rparr>)
        else let c = grow (cap s) n; p = fresh st
          in (\<lparr>ptr = p, len = n, cap = c\<rparr>,
              st\<lparr>arrays := (arrays st)(p := take (len s) a @ xs @ replicate (c - n) zero),
                 fresh := Suc p\<rparr>))"

definition enough :: "(nat \<Rightarrow> nat \<Rightarrow> nat) \<Rightarrow> bool" where
  "enough grow \<longleftrightarrow> (\<forall>c n. n \<le> grow c n)"

definition slice_Append ::
  "(nat \<Rightarrow> nat \<Rightarrow> nat) \<Rightarrow> 'f handler \<Rightarrow> 'f handler store \<Rightarrow> slice \<Rightarrow> 'f handler list
     \<Rightarrow> slice \<times> 'f handler store" where
  "slice_Append grow zero st l handlers = go_append grow zero st l handlers"

definition slice_Prepend ::
  "(nat \<Rightarrow> nat \<Rightarrow> nat) \<Rightarrow> 'f handler \<Rightarrow> 'f handler store \<Rightarrow> slice \<Rightarrow> slice
     \<Rightarrow> slice \<times> 'f handler store" where
  "slice_Prepend grow zero st l handlers = go_append grow zero st handlers (view st l)"

definition slice_Clear :: "slice \<Rightarrow> slice" where
  "slice_Clear l = l\<lparr>len := 0\<rparr>"

subsection \<open>Refinement of the list operations\<close>

lemma view_go_append:
  assumes "slice_ok st s"
  shows "view (snd (go_append grow zero st s xs)) (fst (go_append grow zero st s xs)) = view st s @ xs"
  using assms by (auto simp: go_append_def view_def slice_ok_def Let_def)

lemma slice_ok_go_append:
  assumes "slice_ok st s" and "enough grow"
  shows "slice_ok (snd (go_append grow zero st s xs)) (fst (go_append grow zero st s xs))"
  using assms by (auto simp: go_append_def slice_ok_def Let_def enough_def)

text \<open>
  A slice \<open>t\<close> keeps its list across an append to \<open>s\<close> if it lives in another array, or is no
  longer than \<open>s\<close>, or the append has to copy.
\<close>

lemma view_frame:
  assumes "slice_ok st s" and "slice_ok st t"
    and "ptr t \<noteq> ptr s \<or> len t \<le> len s \<or> cap s < len s + length xs"
  shows "view (snd (go_append grow zero st s xs)) t = view st t"
  using assms by (auto simp: go_append_def view_def slice_ok_def Let_def min_def)

text \<open>The aliasing case: the element a longer slice of the same array holds is overwritten.\<close>

lemma view_overwritten:
  assumes "slice_ok st s" and "len s + length xs \<le> cap s" and "ptr t = ptr s"
    and "len t = len s + length xs"
  shows "view (snd (go_append grow zero st s xs)) t = view st s @ xs"
  using assms by (auto simp: go_append_def view_def slice_ok_def Let_def)

lemma view_Clear: "view st (slice_Clear l) = []"
  by (simp add: view_def slice_Clear_def)

lemma slice_ok_Clear: "slice_ok st l \<Longrightarrow> slice_ok st (slice_Clear l)"
  by (simp add: slice_ok_def slice_Clear_def)

subsection \<open>Properties\<close>


text \<open>\<open>Clear\<close> keeps the backing array, so appending to a cleared list overwrites the original.\<close>

lemma Clear_then_Append_overwrites:
  assumes "slice_ok st l" and "0 < len l" and "enough grow"
    and "slice_Append grow zero st (slice_Clear l) [h] = (l', st')"
  shows "view st' l' = [h] \<and> view st' l = h # tl (view st l)"
proof -
  have ok: "slice_ok st (slice_Clear l)" using assms(1) by (rule slice_ok_Clear)
  have "view st' l' = [h]"
    using view_go_append [OF ok, of grow zero "[h]"] assms(4)
    by (simp add: slice_Append_def view_Clear)
  moreover have "view st' l = h # tl (view st l)"
    using assms by (cases "arrays st (ptr l)"; cases "len l")
      (auto simp: slice_Append_def go_append_def slice_Clear_def view_def slice_ok_def Let_def)
  ultimately show ?thesis by simp
qed

text \<open>Two lists made by appending to the same list with spare capacity share their last element:
  the second \<open>Append\<close> replaces what the first one appended. (The default list of \<open>FcInit\<close>
  handlers, from which every machine starts, is such a list when Go rounds its capacity up.)\<close>

lemma second_Append_overwrites_first:
  assumes "slice_ok st l" and "len l < cap l"
    and "slice_Append grow zero st l [h1] = (l1, st1)"
    and "slice_Append grow zero st1 l [h2] = (l2, st2)"
  shows "view st1 l1 = Append (view st l) [h1] \<and> view st2 l1 = Append (view st l) [h2]"
proof -
  have l1: "l1 = l\<lparr>len := Suc (len l)\<rparr>"
    and st1: "st1 = st\<lparr>arrays := (arrays st)(ptr l := take (len l) (arrays st (ptr l)) @ h1 #
        drop (Suc (len l)) (arrays st (ptr l)))\<rparr>"
    using assms by (auto simp: slice_Append_def go_append_def Let_def)
  have v1: "view st1 l1 = view st l @ [h1]"
    using view_go_append [OF assms(1), of grow zero "[h1]"] assms(3) by (simp add: slice_Append_def)
  have ok1: "slice_ok st1 l" using assms(1) by (auto simp: st1 slice_ok_def)
  have "view st2 l1 = view st1 l @ [h2]"
    using view_overwritten [OF ok1, of "[h2]" l1 grow zero] assms(2,4)
    by (simp add: slice_Append_def l1)
  moreover have "view st1 l = view st l"
    using assms(1) by (auto simp: st1 view_def slice_ok_def min_def)
  ultimately show ?thesis using v1 by (simp add: Append_def)
qed

text \<open>A store with one array of two places, of which a list uses the first.\<close>

definition demo_store :: "nat handler store" where
  "demo_store = \<lparr>arrays = (\<lambda>_. [\<lparr>Name = ''a'', Fn = 0\<rparr>, \<lparr>Name = '''', Fn = 0\<rparr>]), fresh = 1\<rparr>"

definition demo_slice :: slice where
  "demo_slice = \<lparr>ptr = 0, len = 1, cap = 2\<rparr>"

lemma demo_ok: "slice_ok demo_store demo_slice"
  by (simp add: slice_ok_def demo_store_def demo_slice_def)


lemma second_Append_overwrites_first_witness:
  "\<exists>l1 st1 l2 st2.
     slice_Append (\<lambda>c n. 2 * n) \<lparr>Name = '''', Fn = 0\<rparr> demo_store demo_slice [\<lparr>Name = ''b'', Fn = 1\<rparr>] = (l1, st1)
   \<and> slice_Append (\<lambda>c n. 2 * n) \<lparr>Name = '''', Fn = 0\<rparr> st1 demo_slice [\<lparr>Name = ''c'', Fn = 2\<rparr>] = (l2, st2)
   \<and> map Name (view st1 l1) = [''a'', ''b''] \<and> map Name (view st2 l1) = [''a'', ''c'']"
proof -
  let ?grow = "\<lambda>(c::nat) n::nat. 2 * n" and ?z = "\<lparr>Name = '''', Fn = 0::nat\<rparr>"
  obtain l1 st1 where a: "slice_Append ?grow ?z demo_store demo_slice [\<lparr>Name = ''b'', Fn = 1\<rparr>] = (l1, st1)"
    by fastforce
  obtain l2 st2 where b: "slice_Append ?grow ?z st1 demo_slice [\<lparr>Name = ''c'', Fn = 2\<rparr>] = (l2, st2)"
    by fastforce
  have "len demo_slice < cap demo_slice" by (simp add: demo_slice_def)
  from second_Append_overwrites_first [OF demo_ok this a b] a b show ?thesis
    by (auto simp: view_def demo_store_def demo_slice_def Append_def)
qed

end
