(* ===== verification/Models.thy ===== *)
theory Models
  imports GoString
begin

text \<open>
  The data of the Firecracker API (\<open>client/models\<close>) that the SDK builds and sends, one record
  per struct with the struct's fields in their order, and the pointer helpers
  (\<open>pointer_helpers.go\<close>). A pointer field is an \<open>option\<close>. Where two structs share a field
  name, the record of the second carries a prefix. The validation methods of these types are in
  \<open>Validation\<close>.
\<close>

subsection \<open>Pointer helpers\<close>

definition BoolValue :: "bool option \<Rightarrow> bool" where
  "BoolValue b = (case b of None \<Rightarrow> False | Some v \<Rightarrow> v)"

definition StringValue :: "string option \<Rightarrow> string" where
  "StringValue str = (case str of None \<Rightarrow> '''' | Some v \<Rightarrow> v)"

definition Int64Value :: "int64 option \<Rightarrow> int64" where
  "Int64Value v = (case v of None \<Rightarrow> 0 | Some x \<Rightarrow> x)"

definition IntValue :: "int64 option \<Rightarrow> int64" where
  "IntValue v = (case v of None \<Rightarrow> 0 | Some x \<Rightarrow> x)"

definition go_Bool :: "bool \<Rightarrow> bool option" where
  "go_Bool b = Some b"

definition go_String :: "string \<Rightarrow> string option" where
  "go_String str = Some str"

definition go_Int64 :: "int64 \<Rightarrow> int64 option" where
  "go_Int64 v = Some v"

definition go_Int :: "int64 \<Rightarrow> int64 option" where
  "go_Int v = Some v"

lemmas pointer_helpers [go_unfold] =
  BoolValue_def StringValue_def Int64Value_def IntValue_def
  go_Bool_def go_String_def go_Int64_def go_Int_def

lemma pointer_roundtrip [simp]:
  "BoolValue (go_Bool b) = b"
  "StringValue (go_String s) = s"
  "Int64Value (go_Int64 v) = v"
  "IntValue (go_Int v) = v"
  by (simp_all add: go_unfold)

subsection \<open>API structs\<close>

record TokenBucket =
  OneTimeBurst :: "int64 option"
  RefillTime :: "int64 option"
  Size :: "int64 option"

record RateLimiter =
  Bandwidth :: "TokenBucket option"
  Ops :: "TokenBucket option"

record Drive =
  CacheType :: "string option"
  DriveID :: "string option"
  IoEngine :: "string option"
  IsReadOnly :: "bool option"
  IsRootDevice :: "bool option"
  Partuuid :: string
  PathOnHost :: "string option"
  drv_RateLimiter :: "RateLimiter option"

record PartialDrive =
  pd_DriveID :: "string option"
  pd_PathOnHost :: string
  pd_RateLimiter :: "RateLimiter option"

record ApiNetworkInterface =
  GuestMac :: string
  ani_HostDevName :: "string option"
  ani_IfaceID :: "string option"
  RxRateLimiter :: "RateLimiter option"
  TxRateLimiter :: "RateLimiter option"

record PartialNetworkInterface =
  pni_IfaceID :: "string option"
  pni_RxRateLimiter :: "RateLimiter option"
  pni_TxRateLimiter :: "RateLimiter option"

record MachineConfiguration =
  CPUTemplate :: string
  MemSizeMib :: "int64 option"
  Smt :: "bool option"
  TrackDirtyPages :: "bool option"
  VcpuCount :: "int64 option"

record BootSource =
  BootArgs :: string
  bs_InitrdPath :: string
  bs_KernelImagePath :: "string option"

record Logger =
  Level :: "string option"
  lg_LogPath :: "string option"
  ShowLevel :: "bool option"
  ShowLogOrigin :: "bool option"

record Metrics =
  mt_MetricsPath :: "string option"

record MmdsConfig =
  IPV4Address :: "string option"
  mc_NetworkInterfaces :: "string list"
  mc_Version :: "string option"

record Vsock =
  GuestCid :: "int64 option"
  UdsPath :: "string option"
  VsockID :: string

record VM =
  vm_State :: "string option"

record InstanceActionInfo =
  ActionType :: "string option"

record MemoryBackend =
  BackendPath :: "string option"
  BackendType :: "string option"

record SnapshotCreateParams =
  scp_MemFilePath :: "string option"
  scp_SnapshotPath :: "string option"
  SnapshotType :: string
  scp_Version :: string

record SnapshotLoadParams =
  slp_EnableDiffSnapshots :: bool
  slp_MemBackend :: "MemoryBackend option"
  slp_MemFilePath :: string
  slp_ResumeVM :: bool
  slp_SnapshotPath :: "string option"

record Balloon =
  AmountMib :: "int64 option"
  DeflateOnOom :: "bool option"
  StatsPollingIntervals :: int64

record BalloonUpdate =
  bu_AmountMib :: "int64 option"

record BalloonStatsUpdate =
  bsu_StatsPollingIntervals :: "int64 option"

record BalloonStats =
  ActualMib :: "int64 option"
  ActualPages :: "int64 option"
  AvailableMemory :: int64
  DiskCaches :: int64
  FreeMemory :: int64
  HugetlbAllocations :: int64
  HugetlbFailures :: int64
  MajorFaults :: int64
  MinorFaults :: int64
  SwapIn :: int64
  SwapOut :: int64
  TargetMib :: "int64 option"
  TargetPages :: "int64 option"
  TotalMemory :: int64

record InstanceInfo =
  AppName :: "string option"
  ii_ID :: "string option"
  ii_State :: "string option"
  VmmVersion :: "string option"

record FirecrackerVersion =
  fv_FirecrackerVersion :: "string option"

record ApiError =
  FaultMessage :: string

record EntropyDevice =
  ed_RateLimiter :: "RateLimiter option"

record FullVMConfiguration =
  fvc_Balloon :: "Balloon option"
  fvc_BootSource :: "BootSource option"
  fvc_Drives :: "Drive option list"
  fvc_Logger :: "Logger option"
  fvc_MachineConfig :: "MachineConfiguration option"
  fvc_Metrics :: "Metrics option"
  fvc_MmdsConfig :: "MmdsConfig option"
  fvc_NetworkInterfaces :: "ApiNetworkInterface option list"
  fvc_Vsock :: "Vsock option"

subsection \<open>Constants of the API\<close>

definition VMStatePaused :: string where "VMStatePaused = ''Paused''"
definition VMStateResumed :: string where "VMStateResumed = ''Resumed''"
definition ActionInstanceStart :: string where "ActionInstanceStart = ''InstanceStart''"
definition ActionSendCtrlAltDel :: string where "ActionSendCtrlAltDel = ''SendCtrlAltDel''"

subsection \<open>Snapshot configuration (snapshot.go)\<close>

record SnapshotConfig =
  MemFilePath :: string
  MemBackend :: "MemoryBackend option"
  SnapshotPath :: string
  EnableDiffSnapshots :: bool
  ResumeVM :: bool

definition GetMemBackendPath :: "SnapshotConfig \<Rightarrow> string" where
  "GetMemBackendPath cfg =
    (case MemBackend cfg of
       Some mb \<Rightarrow> (case BackendPath mb of Some p \<Rightarrow> p | None \<Rightarrow> MemFilePath cfg)
     | None \<Rightarrow> MemFilePath cfg)"

end
