(* ===== verification/World.thy ===== *)
theory World
  imports Models Handlers
begin

text \<open>
  The outside of the program. Everything the SDK asks of the operating system, of the Firecracker
  process and of the libraries that are not part of the repository is an \<open>event\<close>; an
  \<open>env\<close> answers each event, and may base the answer on the whole history of events before it
  (\<open>trace\<close>). Nothing is assumed about the answers here: properties hold for every environment, or
  name the documented behaviour they rely on.

  Error values keep the format string of the \<open>fmt.Errorf\<close> call that makes them. \<open>Wrapf\<close> is a
  call with \<open>%w\<close> (the cause stays reachable for \<open>errors.As\<close>), \<open>Errorf\<close> one without. Arguments
  that dump a whole struct (\<open>%+v\<close>) are left out.
\<close>

datatype errno = ENOENT | EEXIST | EOther nat

datatype go_error =
    OsError errno
  | LibError nat
  | CtxErr
  | Errorf string "string list" "go_error option"
  | Wrapf string "string list" go_error
  | MultiError "go_error list"
  | ApiErrorResponse string int ApiError
  | ErrAlreadyStarted
  | ErrMissingJailerConfig
  | ErrRequiredHandlerMissing
  | LinkNotFoundError string
  | QdiscNotFoundError string
  | FilterNotFoundError string

definition IsNotExist :: "go_error option \<Rightarrow> bool" where
  "IsNotExist err \<longleftrightarrow> err = Some (OsError ENOENT)"

type_synonym result = "go_error outcome"

subsection \<open>Contexts, commands and API requests\<close>

datatype ctx = CtxBackground | CtxUser nat | CtxWithTimeout ctx int64

datatype stream = OsStdin | OsStdout | OsStderr | UserStream nat

record command =
  cmd_bin :: string
  cmd_args :: "string list"
  cmd_stdin :: "stream option"
  cmd_stdout :: "stream option"
  cmd_stderr :: "stream option"

datatype api_body =
    BLogger Logger
  | BMetrics Metrics
  | BMachineConfiguration MachineConfiguration
  | BBootSource BootSource
  | BNetworkInterface ApiNetworkInterface
  | BPartialNetworkInterface PartialNetworkInterface
  | BDrive Drive
  | BPartialDrive PartialDrive
  | BVsock Vsock
  | BVM VM
  | BSnapshotCreate SnapshotCreateParams
  | BSnapshotLoad SnapshotLoadParams
  | BAction InstanceActionInfo
  | BJson string
  | BMmdsConfig MmdsConfig
  | BBalloon Balloon
  | BBalloonUpdate BalloonUpdate
  | BBalloonStatsUpdate BalloonStatsUpdate
  | BCPUConfig string
  | BEntropyDevice EntropyDevice

text \<open>An \<open>http.Client\<close> of the user, by its address.\<close>

datatype http_client = HTTPClientAt nat

record api_params =
  Body :: "api_body option"
  PathParams :: "(string \<times> string) list"
  ptimeout :: int64
  Context :: "ctx option"
  HTTPClient :: "http_client option"

record client_operation =
  OpID :: string
  Method :: string
  PathPattern :: string
  Params :: api_params

text \<open>
  A response as the transport hands it to the reader of an operation: the status code, and what
  the consumer makes of the body for the payload type of the reader and for an API error.
\<close>

datatype 'p consumed = Consumed 'p | ConsumedEOF | ConsumeFailed go_error

record 'p http_response =
  Code :: int
  ok_body :: "'p consumed"
  err_body :: "ApiError consumed"

subsection \<open>CNI and network namespaces\<close>

type_synonym ip = "byte list"

record IPNet =
  net_IP :: ip
  net_Mask :: "byte list"

record cni_interface =
  if_Name :: string
  if_Mac :: string
  if_Sandbox :: string

record cni_ipconfig =
  ipc_Interface :: "int option"
  ipc_Address :: IPNet
  ipc_Gateway :: ip

record cni_dns =
  dns_Nameservers :: "string list"
  dns_Domain :: string
  dns_Search :: "string list"
  dns_Options :: "string list"

record cni_result =
  Interfaces :: "cni_interface list"
  IPs :: "cni_ipconfig list"
  Routes :: "string list"
  DNS :: cni_dns

text \<open>A network configuration list of libcni, which the SDK passes on without looking inside.\<close>

datatype network_config_list = NetworkConfigList nat

record runtime_conf =
  rt_ContainerID :: string
  rt_NetNS :: string
  rt_IfName :: string
  rt_Args :: "(string \<times> string) list"

record cni_plugin =
  cp_BinPath :: "string list"
  cp_CacheDir :: string

datatype ns_status = NsIsNS | NsPathNotNS go_error | NsPathNotExist go_error | NsOther go_error

subsection \<open>Events and environments\<close>

text \<open>What a program that uses the SDK asks of its host and of its SSH library besides.\<close>

datatype host_event =
    HAccess string
  | HMkdir string
  | HWriteFile string string
  | HReadFile string
  | HRemoveAll string
  | HMkdirTemp string string
  | HSleep int64
  | HSshDial string string
  | HSshClose
  | HSessionNew
  | HSessionStart string
  | HSessionRun string
  | HSessionClose

datatype event =
    EvStat string
  | EvLink string string
  | EvChown string int64 int64
  | EvMkfifo string
  | EvOpenAppend string
  | EvOpenExcl string
  | EvOpenFifo string
  | EvRemove string
  | EvMkdirAll string
  | EvStartCmd "string option" command
  | EvApi client_operation
  | EvNsCheck string
  | EvUnshareNet
  | EvMountNS string
  | EvUnmount string
  | EvCniLoad string string
  | EvCniDel cni_plugin network_config_list runtime_conf
  | EvCniAdd cni_plugin network_config_list runtime_conf
  | EvCniParse
  | EvGetNS string
  | EvNetNSDo string
  | EvLinkByName string
  | EvUUID
  | EvSignal
  | EvUserHandler nat
  | EvHost host_event

type_synonym trace = "event list"

text \<open>What the loop that waits for the API socket observes, one choice of its select after another.\<close>

datatype wait_event = WTimeout | WExit "go_error option" | WTick

record env =
  sys :: "trace \<Rightarrow> event \<Rightarrow> go_error option"
  api_unit :: "trace \<Rightarrow> client_operation \<Rightarrow> go_error + unit http_response"
  api_machine :: "trace \<Rightarrow> client_operation \<Rightarrow> go_error + MachineConfiguration http_response"
  api_info :: "trace \<Rightarrow> client_operation \<Rightarrow> go_error + InstanceInfo http_response"
  api_version :: "trace \<Rightarrow> client_operation \<Rightarrow> go_error + FirecrackerVersion http_response"
  api_balloon :: "trace \<Rightarrow> client_operation \<Rightarrow> go_error + Balloon http_response"
  api_stats :: "trace \<Rightarrow> client_operation \<Rightarrow> go_error + BalloonStats http_response"
  api_export :: "trace \<Rightarrow> client_operation \<Rightarrow> go_error + FullVMConfiguration http_response"
  api_json :: "trace \<Rightarrow> client_operation \<Rightarrow> go_error + string http_response"
  default_timeout :: int64
  cni_load :: "trace \<Rightarrow> string \<Rightarrow> string \<Rightarrow> go_error + network_config_list"
  cni_add :: "trace \<Rightarrow> cni_plugin \<Rightarrow> network_config_list \<Rightarrow> runtime_conf \<Rightarrow> go_error + cni_result"
  cni_parse :: "cni_result \<Rightarrow> go_error option"
  ns_check :: "trace \<Rightarrow> string \<Rightarrow> ns_status"
  link_mtu :: "trace \<Rightarrow> string \<Rightarrow> go_error + int64"
  link_not_found :: "go_error \<Rightarrow> bool"
  new_uuid :: "trace \<Rightarrow> go_error + string"
  wait_events :: "trace \<Rightarrow> wait_event list"
  map_order :: "(string \<rightharpoonup> string option) \<Rightarrow> string list"
  getenv :: "string \<Rightarrow> string"
  numa_cpulist :: "int64 \<Rightarrow> string option"
  goarch :: string
  process_done :: "go_error \<Rightarrow> bool"
  start_pid :: "trace \<Rightarrow> int"
  merr_append :: "go_error list option \<Rightarrow> go_error option \<Rightarrow> go_error list option"
  merr_or_nil :: "go_error list option \<Rightarrow> go_error option"

text \<open>A system call: one event, answered by an error or nil.\<close>

definition syscall :: "env \<Rightarrow> event \<Rightarrow> trace \<Rightarrow> go_error option \<times> trace" where
  "syscall e ev tr = (sys e tr ev, tr @ [ev])"

lemma syscall_simps [simp]:
  "fst (syscall e ev tr) = sys e tr ev"
  "snd (syscall e ev tr) = tr @ [ev]"
  by (simp_all add: syscall_def)

text \<open>The documented behaviour of hashicorp's multierror that the clean-up code relies on.\<close>

definition multierror_doc :: "env \<Rightarrow> bool" where
  "multierror_doc e \<longleftrightarrow>
     (\<forall>m. merr_append e m None = Some (case m of None \<Rightarrow> [] | Some es \<Rightarrow> es))
   \<and> (\<forall>m err. (\<forall>es. err \<noteq> MultiError es) \<longrightarrow>
        merr_append e m (Some err) = Some ((case m of None \<Rightarrow> [] | Some es \<Rightarrow> es) @ [err]))
   \<and> (\<forall>m es. merr_append e m (Some (MultiError es)) = Some ((case m of None \<Rightarrow> [] | Some es' \<Rightarrow> es') @ es))
   \<and> merr_or_nil e None = None
   \<and> (\<forall>es. merr_or_nil e (Some es) = (if es = [] then None else Some (MultiError es)))"

subsection \<open>An environment for examples\<close>

text \<open>
  Every system call succeeds, the API accepts every request, CNI returns the result of a plugin
  that made one tap. The examples that show a property at work start from it.
\<close>

definition calm_append :: "go_error list option \<Rightarrow> go_error option \<Rightarrow> go_error list option" where
  "calm_append m err =
    (let es = (case m of None \<Rightarrow> [] | Some es \<Rightarrow> es)
     in Some (case err of
          None \<Rightarrow> es
        | Some (MultiError es') \<Rightarrow> es @ es'
        | Some err' \<Rightarrow> es @ [err']))"

definition calm_or_nil :: "go_error list option \<Rightarrow> go_error option" where
  "calm_or_nil m = (case m of None \<Rightarrow> None | Some es \<Rightarrow> if es = [] then None else Some (MultiError es))"

definition calm_response :: "int \<Rightarrow> 'p \<Rightarrow> 'p http_response" where
  "calm_response c p = \<lparr>Code = c, ok_body = Consumed p, err_body = ConsumedEOF\<rparr>"

definition calm_result :: cni_result where
  "calm_result =
     \<lparr>Interfaces =
        [\<lparr>if_Name = ''tap0'', if_Mac = ''02:00:00:00:00:01'', if_Sandbox = ''/var/run/netns/vm1''\<rparr>,
         \<lparr>if_Name = ''tap0'', if_Mac = ''02:00:00:00:00:02'', if_Sandbox = ''vm1''\<rparr>],
      IPs =
        [\<lparr>ipc_Interface = Some 1,
          ipc_Address = \<lparr>net_IP = [10, 0, 0, 2], net_Mask = [255, 255, 255, 0]\<rparr>,
          ipc_Gateway = [10, 0, 0, 1]\<rparr>],
      Routes = [],
      DNS = \<lparr>dns_Nameservers = [''8.8.8.8''], dns_Domain = '''', dns_Search = [], dns_Options = []\<rparr>\<rparr>"

definition calm_env :: env where
  "calm_env =
     \<lparr>sys = (\<lambda>tr ev. None),
      api_unit = (\<lambda>tr op. Inr (calm_response 204 ())),
      api_machine = (\<lambda>tr op. Inr (calm_response 200
         \<lparr>CPUTemplate = '''', MemSizeMib = Some 128, Smt = None, TrackDirtyPages = None, VcpuCount = Some 1\<rparr>)),
      api_info = (\<lambda>tr op. Inr (calm_response 200
         \<lparr>AppName = None, ii_ID = None, ii_State = None, VmmVersion = None\<rparr>)),
      api_version = (\<lambda>tr op. Inr (calm_response 200 \<lparr>fv_FirecrackerVersion = Some ''1.0.0''\<rparr>)),
      api_balloon = (\<lambda>tr op. Inr (calm_response 200
         \<lparr>AmountMib = None, DeflateOnOom = None, StatsPollingIntervals = 0\<rparr>)),
      api_stats = (\<lambda>tr op. Inl CtxErr),
      api_export = (\<lambda>tr op. Inl CtxErr),
      api_json = (\<lambda>tr op. Inr (calm_response 200 ''{}'')),
      default_timeout = 30000000000,
      cni_load = (\<lambda>tr dir net. Inr (NetworkConfigList 0)),
      cni_add = (\<lambda>tr plugin conf rt. Inr calm_result),
      cni_parse = (\<lambda>result. None),
      ns_check = (\<lambda>tr p. NsPathNotExist (OsError ENOENT)),
      link_mtu = (\<lambda>tr n. Inr 1500),
      link_not_found = (\<lambda>err. False),
      new_uuid = (\<lambda>tr. Inr ''vm1''),
      wait_events = (\<lambda>tr. [WTick]),
      map_order = (\<lambda>m. []),
      getenv = (\<lambda>n. ''''),
      numa_cpulist = (\<lambda>n. None),
      goarch = ''amd64'',
      process_done = (\<lambda>err. False),
      start_pid = (\<lambda>tr. 42),
      merr_append = calm_append,
      merr_or_nil = calm_or_nil\<rparr>"

lemma calm_multierror: "multierror_doc calm_env"
proof -
  have "merr_append calm_env m (Some err) = Some ((case m of None \<Rightarrow> [] | Some es \<Rightarrow> es) @ [err])"
    if "\<forall>es. err \<noteq> MultiError es" for m err
    using that by (cases err) (auto simp: calm_env_def calm_append_def Let_def)
  then show ?thesis
    by (simp add: multierror_doc_def calm_env_def calm_append_def calm_or_nil_def Let_def)
qed

end
