(* ===== verification/Responses.thy ===== *)
theory Responses
  imports World GoString
begin

text \<open>
  The readers of responses (\<open>client/operations/*_responses.go\<close>), one for each operation: which status
  code is a success, which one has an error type of its own, and what the rest becomes. The consumer
  of the body is the environment's. The second half holds the texts of the errors that the readers
  make. That all readers are instances of one reader with parameters is a lemma, \<open>reader_eqs\<close>.
\<close>

datatype 'p read_result = ReadOK 'p | ReadDefault int ApiError

definition zero_ApiError :: ApiError where
  "zero_ApiError = \<lparr>FaultMessage = ''''\<rparr>"

text \<open>The \<open>readResponse\<close> methods: an end of file leaves the fresh payload as it is.\<close>

definition readPayload :: "'p \<Rightarrow> 'p consumed \<Rightarrow> go_error + 'p" where
  "readPayload zero c =
    (case c of Consumed p \<Rightarrow> Inr p | ConsumedEOF \<Rightarrow> Inr zero | ConsumeFailed err \<Rightarrow> Inl err)"

definition zero_Balloon :: Balloon where
  "zero_Balloon = \<lparr>AmountMib = None, DeflateOnOom = None, StatsPollingIntervals = 0\<rparr>"

definition zero_BalloonStats :: BalloonStats where
  "zero_BalloonStats = \<lparr>ActualMib = None, ActualPages = None, AvailableMemory = 0, DiskCaches = 0,
     FreeMemory = 0, HugetlbAllocations = 0, HugetlbFailures = 0, MajorFaults = 0, MinorFaults = 0,
     SwapIn = 0, SwapOut = 0, TargetMib = None, TargetPages = None, TotalMemory = 0\<rparr>"

definition zero_InstanceInfo :: InstanceInfo where
  "zero_InstanceInfo = \<lparr>AppName = None, ii_ID = None, ii_State = None, VmmVersion = None\<rparr>"

definition zero_FirecrackerVersion :: FirecrackerVersion where
  "zero_FirecrackerVersion = \<lparr>fv_FirecrackerVersion = None\<rparr>"

definition zero_MachineConfiguration :: MachineConfiguration where
  "zero_MachineConfiguration = \<lparr>CPUTemplate = '''', MemSizeMib = None, Smt = None,
     TrackDirtyPages = None, VcpuCount = None\<rparr>"

definition zero_FullVMConfiguration :: FullVMConfiguration where
  "zero_FullVMConfiguration = \<lparr>fvc_Balloon = None, fvc_BootSource = None, fvc_Drives = [],
     fvc_Logger = None, fvc_MachineConfig = None, fvc_Metrics = None, fvc_MmdsConfig = None,
     fvc_NetworkInterfaces = [], fvc_Vsock = None\<rparr>"

subsection \<open>The readers of the operations\<close>

definition CreateSnapshotReader_ReadResponse ::
  "unit http_response \<Rightarrow> go_error + unit read_result" where
  "CreateSnapshotReader_ReadResponse response =
    (if Code response = 204 then Inr (ReadOK ())
     else if Code response = 400 then
       (case readPayload zero_ApiError (err_body response) of
          Inl err \<Rightarrow> Inl err
        | Inr payload \<Rightarrow> Inl (ApiErrorResponse ''CreateSnapshotBadRequest'' 400 payload))
     else
       (case readPayload zero_ApiError (err_body response) of
          Inl err \<Rightarrow> Inl err
        | Inr payload \<Rightarrow>
            if Code response div 100 = 2 then Inr (ReadDefault (Code response) payload)
            else Inl (ApiErrorResponse ''CreateSnapshotDefault'' (Code response) payload)))"

definition CreateSyncActionReader_ReadResponse ::
  "unit http_response \<Rightarrow> go_error + unit read_result" where
  "CreateSyncActionReader_ReadResponse response =
    (if Code response = 204 then Inr (ReadOK ())
     else if Code response = 400 then
       (case readPayload zero_ApiError (err_body response) of
          Inl err \<Rightarrow> Inl err
        | Inr payload \<Rightarrow> Inl (ApiErrorResponse ''CreateSyncActionBadRequest'' 400 payload))
     else
       (case readPayload zero_ApiError (err_body response) of
          Inl err \<Rightarrow> Inl err
        | Inr payload \<Rightarrow>
            if Code response div 100 = 2 then Inr (ReadDefault (Code response) payload)
            else Inl (ApiErrorResponse ''CreateSyncActionDefault'' (Code response) payload)))"

definition DescribeBalloonConfigReader_ReadResponse ::
  "Balloon http_response \<Rightarrow> go_error + Balloon read_result" where
  "DescribeBalloonConfigReader_ReadResponse response =
    (if Code response = 200 then 
       (case readPayload zero_Balloon (ok_body response) of Inl err \<Rightarrow> Inl err | Inr p \<Rightarrow> Inr (ReadOK p))
     else if Code response = 400 then
       (case readPayload zero_ApiError (err_body response) of
          Inl err \<Rightarrow> Inl err
        | Inr payload \<Rightarrow> Inl (ApiErrorResponse ''DescribeBalloonConfigBadRequest'' 400 payload))
     else
       (case readPayload zero_ApiError (err_body response) of
          Inl err \<Rightarrow> Inl err
        | Inr payload \<Rightarrow>
            if Code response div 100 = 2 then Inr (ReadDefault (Code response) payload)
            else Inl (ApiErrorResponse ''DescribeBalloonConfigDefault'' (Code response) payload)))"

definition DescribeBalloonStatsReader_ReadResponse ::
  "BalloonStats http_response \<Rightarrow> go_error + BalloonStats read_result" where
  "DescribeBalloonStatsReader_ReadResponse response =
    (if Code response = 200 then 
       (case readPayload zero_BalloonStats (ok_body response) of Inl err \<Rightarrow> Inl err | Inr p \<Rightarrow> Inr (ReadOK p))
     else if Code response = 400 then
       (case readPayload zero_ApiError (err_body response) of
          Inl err \<Rightarrow> Inl err
        | Inr payload \<Rightarrow> Inl (ApiErrorResponse ''DescribeBalloonStatsBadRequest'' 400 payload))
     else
       (case readPayload zero_ApiError (err_body response) of
          Inl err \<Rightarrow> Inl err
        | Inr payload \<Rightarrow>
            if Code response div 100 = 2 then Inr (ReadDefault (Code response) payload)
            else Inl (ApiErrorResponse ''DescribeBalloonStatsDefault'' (Code response) payload)))"

definition DescribeInstanceReader_ReadResponse ::
  "InstanceInfo http_response \<Rightarrow> go_error + InstanceInfo read_result" where
  "DescribeInstanceReader_ReadResponse response =
    (if Code response = 200 then 
       (case readPayload zero_InstanceInfo (ok_body response) of Inl err \<Rightarrow> Inl err | Inr p \<Rightarrow> Inr (ReadOK p))
     else
       (case readPayload zero_ApiError (err_body response) of
          Inl err \<Rightarrow> Inl err
        | Inr payload \<Rightarrow>
            if Code response div 100 = 2 then Inr (ReadDefault (Code response) payload)
            else Inl (ApiErrorResponse ''DescribeInstanceDefault'' (Code response) payload)))"

definition GetExportVMConfigReader_ReadResponse ::
  "FullVMConfiguration http_response \<Rightarrow> go_error + FullVMConfiguration read_result" where
  "GetExportVMConfigReader_ReadResponse response =
    (if Code response = 200 then 
       (case readPayload zero_FullVMConfiguration (ok_body response) of Inl err \<Rightarrow> Inl err | Inr p \<Rightarrow> Inr (ReadOK p))
     else
       (case readPayload zero_ApiError (err_body response) of
          Inl err \<Rightarrow> Inl err
        | Inr payload \<Rightarrow>
            if Code response div 100 = 2 then Inr (ReadDefault (Code response) payload)
            else Inl (ApiErrorResponse ''GetExportVMConfigDefault'' (Code response) payload)))"

definition GetFirecrackerVersionReader_ReadResponse ::
  "FirecrackerVersion http_response \<Rightarrow> go_error + FirecrackerVersion read_result" where
  "GetFirecrackerVersionReader_ReadResponse response =
    (if Code response = 200 then 
       (case readPayload zero_FirecrackerVersion (ok_body response) of Inl err \<Rightarrow> Inl err | Inr p \<Rightarrow> Inr (ReadOK p))
     else
       (case readPayload zero_ApiError (err_body response) of
          Inl err \<Rightarrow> Inl err
        | Inr payload \<Rightarrow>
            if Code response div 100 = 2 then Inr (ReadDefault (Code response) payload)
            else Inl (ApiErrorResponse ''GetFirecrackerVersionDefault'' (Code response) payload)))"

definition GetMachineConfigurationReader_ReadResponse ::
  "MachineConfiguration http_response \<Rightarrow> go_error + MachineConfiguration read_result" where
  "GetMachineConfigurationReader_ReadResponse response =
    (if Code response = 200 then 
       (case readPayload zero_MachineConfiguration (ok_body response) of Inl err \<Rightarrow> Inl err | Inr p \<Rightarrow> Inr (ReadOK p))
     else
       (case readPayload zero_ApiError (err_body response) of
          Inl err \<Rightarrow> Inl err
        | Inr payload \<Rightarrow>
            if Code response div 100 = 2 then Inr (ReadDefault (Code response) payload)
            else Inl (ApiErrorResponse ''GetMachineConfigurationDefault'' (Code response) payload)))"

definition GetMmdsReader_ReadResponse ::
  "string http_response \<Rightarrow> go_error + string read_result" where
  "GetMmdsReader_ReadResponse response =
    (if Code response = 200 then 
       (case readPayload ''null'' (ok_body response) of Inl err \<Rightarrow> Inl err | Inr p \<Rightarrow> Inr (ReadOK p))
     else if Code response = 404 then
       (case readPayload zero_ApiError (err_body response) of
          Inl err \<Rightarrow> Inl err
        | Inr payload \<Rightarrow> Inl (ApiErrorResponse ''GetMmdsNotFound'' 404 payload))
     else
       (case readPayload zero_ApiError (err_body response) of
          Inl err \<Rightarrow> Inl err
        | Inr payload \<Rightarrow>
            if Code response div 100 = 2 then Inr (ReadDefault (Code response) payload)
            else Inl (ApiErrorResponse ''GetMmdsDefault'' (Code response) payload)))"

definition LoadSnapshotReader_ReadResponse ::
  "unit http_response \<Rightarrow> go_error + unit read_result" where
  "LoadSnapshotReader_ReadResponse response =
    (if Code response = 204 then Inr (ReadOK ())
     else if Code response = 400 then
       (case readPayload zero_ApiError (err_body response) of
          Inl err \<Rightarrow> Inl err
        | Inr payload \<Rightarrow> Inl (ApiErrorResponse ''LoadSnapshotBadRequest'' 400 payload))
     else
       (case readPayload zero_ApiError (err_body response) of
          Inl err \<Rightarrow> Inl err
        | Inr payload \<Rightarrow>
            if Code response div 100 = 2 then Inr (ReadDefault (Code response) payload)
            else Inl (ApiErrorResponse ''LoadSnapshotDefault'' (Code response) payload)))"

definition PatchBalloonReader_ReadResponse ::
  "unit http_response \<Rightarrow> go_error + unit read_result" where
  "PatchBalloonReader_ReadResponse response =
    (if Code response = 204 then Inr (ReadOK ())
     else if Code response = 400 then
       (case readPayload zero_ApiError (err_body response) of
          Inl err \<Rightarrow> Inl err
        | Inr payload \<Rightarrow> Inl (ApiErrorResponse ''PatchBalloonBadRequest'' 400 payload))
     else
       (case readPayload zero_ApiError (err_body response) of
          Inl err \<Rightarrow> Inl err
        | Inr payload \<Rightarrow>
            if Code response div 100 = 2 then Inr (ReadDefault (Code response) payload)
            else Inl (ApiErrorResponse ''PatchBalloonDefault'' (Code response) payload)))"

definition PatchBalloonStatsIntervalReader_ReadResponse ::
  "unit http_response \<Rightarrow> go_error + unit read_result" where
  "PatchBalloonStatsIntervalReader_ReadResponse response =
    (if Code response = 204 then Inr (ReadOK ())
     else if Code response = 400 then
       (case readPayload zero_ApiError (err_body response) of
          Inl err \<Rightarrow> Inl err
        | Inr payload \<Rightarrow> Inl (ApiErrorResponse ''PatchBalloonStatsIntervalBadRequest'' 400 payload))
     else
       (case readPayload zero_ApiError (err_body response) of
          Inl err \<Rightarrow> Inl err
        | Inr payload \<Rightarrow>
            if Code response div 100 = 2 then Inr (ReadDefault (Code response) payload)
            else Inl (ApiErrorResponse ''PatchBalloonStatsIntervalDefault'' (Code response) payload)))"

definition PatchGuestDriveByIDReader_ReadResponse ::
  "unit http_response \<Rightarrow> go_error + unit read_result" where
  "PatchGuestDriveByIDReader_ReadResponse response =
    (if Code response = 204 then Inr (ReadOK ())
     else if Code response = 400 then
       (case readPayload zero_ApiError (err_body response) of
          Inl err \<Rightarrow> Inl err
        | Inr payload \<Rightarrow> Inl (ApiErrorResponse ''PatchGuestDriveByIDBadRequest'' 400 payload))
     else
       (case readPayload zero_ApiError (err_body response) of
          Inl err \<Rightarrow> Inl err
        | Inr payload \<Rightarrow>
            if Code response div 100 = 2 then Inr (ReadDefault (Code response) payload)
            else Inl (ApiErrorResponse ''PatchGuestDriveByIDDefault'' (Code response) payload)))"

definition PatchGuestNetworkInterfaceByIDReader_ReadResponse ::
  "unit http_response \<Rightarrow> go_error + unit read_result" where
  "PatchGuestNetworkInterfaceByIDReader_ReadResponse response =
    (if Code response = 204 then Inr (ReadOK ())
     else if Code response = 400 then
       (case readPayload zero_ApiError (err_body response) of
          Inl err \<Rightarrow> Inl err
        | Inr payload \<Rightarrow> Inl (ApiErrorResponse ''PatchGuestNetworkInterfaceByIDBadRequest'' 400 payload))
     else
       (case readPayload zero_ApiError (err_body response) of
          Inl err \<Rightarrow> Inl err
        | Inr payload \<Rightarrow>
            if Code response div 100 = 2 then Inr (ReadDefault (Code response) payload)
            else Inl (ApiErrorResponse ''PatchGuestNetworkInterfaceByIDDefault'' (Code response) payload)))"

definition PatchMachineConfigurationReader_ReadResponse ::
  "unit http_response \<Rightarrow> go_error + unit read_result" where
  "PatchMachineConfigurationReader_ReadResponse response =
    (if Code response = 204 then Inr (ReadOK ())
     else if Code response = 400 then
       (case readPayload zero_ApiError (err_body response) of
          Inl err \<Rightarrow> Inl err
        | Inr payload \<Rightarrow> Inl (ApiErrorResponse ''PatchMachineConfigurationBadRequest'' 400 payload))
     else
       (case readPayload zero_ApiError (err_body response) of
          Inl err \<Rightarrow> Inl err
        | Inr payload \<Rightarrow>
            if Code response div 100 = 2 then Inr (ReadDefault (Code response) payload)
            else Inl (ApiErrorResponse ''PatchMachineConfigurationDefault'' (Code response) payload)))"

definition PatchMmdsReader_ReadResponse ::
  "unit http_response \<Rightarrow> go_error + unit read_result" where
  "PatchMmdsReader_ReadResponse response =
    (if Code response = 204 then Inr (ReadOK ())
     else if Code response = 400 then
       (case readPayload zero_ApiError (err_body response) of
          Inl err \<Rightarrow> Inl err
        | Inr payload \<Rightarrow> Inl (ApiErrorResponse ''PatchMmdsBadRequest'' 400 payload))
     else
       (case readPayload zero_ApiError (err_body response) of
          Inl err \<Rightarrow> Inl err
        | Inr payload \<Rightarrow>
            if Code response div 100 = 2 then Inr (ReadDefault (Code response) payload)
            else Inl (ApiErrorResponse ''PatchMmdsDefault'' (Code response) payload)))"

definition PatchVMReader_ReadResponse ::
  "unit http_response \<Rightarrow> go_error + unit read_result" where
  "PatchVMReader_ReadResponse response =
    (if Code response = 204 then Inr (ReadOK ())
     else if Code response = 400 then
       (case readPayload zero_ApiError (err_body response) of
          Inl err \<Rightarrow> Inl err
        | Inr payload \<Rightarrow> Inl (ApiErrorResponse ''PatchVMBadRequest'' 400 payload))
     else
       (case readPayload zero_ApiError (err_body response) of
          Inl err \<Rightarrow> Inl err
        | Inr payload \<Rightarrow>
            if Code response div 100 = 2 then Inr (ReadDefault (Code response) payload)
            else Inl (ApiErrorResponse ''PatchVMDefault'' (Code response) payload)))"

definition PutBalloonReader_ReadResponse ::
  "unit http_response \<Rightarrow> go_error + unit read_result" where
  "PutBalloonReader_ReadResponse response =
    (if Code response = 204 then Inr (ReadOK ())
     else if Code response = 400 then
       (case readPayload zero_ApiError (err_body response) of
          Inl err \<Rightarrow> Inl err
        | Inr payload \<Rightarrow> Inl (ApiErrorResponse ''PutBalloonBadRequest'' 400 payload))
     else
       (case readPayload zero_ApiError (err_body response) of
          Inl err \<Rightarrow> Inl err
        | Inr payload \<Rightarrow>
            if Code response div 100 = 2 then Inr (ReadDefault (Code response) payload)
            else Inl (ApiErrorResponse ''PutBalloonDefault'' (Code response) payload)))"

definition PutCPUConfigurationReader_ReadResponse ::
  "unit http_response \<Rightarrow> go_error + unit read_result" where
  "PutCPUConfigurationReader_ReadResponse response =
    (if Code response = 204 then Inr (ReadOK ())
     else if Code response = 400 then
       (case readPayload zero_ApiError (err_body response) of
          Inl err \<Rightarrow> Inl err
        | Inr payload \<Rightarrow> Inl (ApiErrorResponse ''PutCPUConfigurationBadRequest'' 400 payload))
     else
       (case readPayload zero_ApiError (err_body response) of
          Inl err \<Rightarrow> Inl err
        | Inr payload \<Rightarrow>
            if Code response div 100 = 2 then Inr (ReadDefault (Code response) payload)
            else Inl (ApiErrorResponse ''PutCPUConfigurationDefault'' (Code response) payload)))"

definition PutEntropyDeviceReader_ReadResponse ::
  "unit http_response \<Rightarrow> go_error + unit read_result" where
  "PutEntropyDeviceReader_ReadResponse response =
    (if Code response = 204 then Inr (ReadOK ())
     else
       (case readPayload zero_ApiError (err_body response) of
          Inl err \<Rightarrow> Inl err
        | Inr payload \<Rightarrow>
            if Code response div 100 = 2 then Inr (ReadDefault (Code response) payload)
            else Inl (ApiErrorResponse ''PutEntropyDeviceDefault'' (Code response) payload)))"

definition PutGuestBootSourceReader_ReadResponse ::
  "unit http_response \<Rightarrow> go_error + unit read_result" where
  "PutGuestBootSourceReader_ReadResponse response =
    (if Code response = 204 then Inr (ReadOK ())
     else if Code response = 400 then
       (case readPayload zero_ApiError (err_body response) of
          Inl err \<Rightarrow> Inl err
        | Inr payload \<Rightarrow> Inl (ApiErrorResponse ''PutGuestBootSourceBadRequest'' 400 payload))
     else
       (case readPayload zero_ApiError (err_body response) of
          Inl err \<Rightarrow> Inl err
        | Inr payload \<Rightarrow>
            if Code response div 100 = 2 then Inr (ReadDefault (Code response) payload)
            else Inl (ApiErrorResponse ''PutGuestBootSourceDefault'' (Code response) payload)))"

definition PutGuestDriveByIDReader_ReadResponse ::
  "unit http_response \<Rightarrow> go_error + unit read_result" where
  "PutGuestDriveByIDReader_ReadResponse response =
    (if Code response = 204 then Inr (ReadOK ())
     else if Code response = 400 then
       (case readPayload zero_ApiError (err_body response) of
          Inl err \<Rightarrow> Inl err
        | Inr payload \<Rightarrow> Inl (ApiErrorResponse ''PutGuestDriveByIDBadRequest'' 400 payload))
     else
       (case readPayload zero_ApiError (err_body response) of
          Inl err \<Rightarrow> Inl err
        | Inr payload \<Rightarrow>
            if Code response div 100 = 2 then Inr (ReadDefault (Code response) payload)
            else Inl (ApiErrorResponse ''PutGuestDriveByIDDefault'' (Code response) payload)))"

definition PutGuestNetworkInterfaceByIDReader_ReadResponse ::
  "unit http_response \<Rightarrow> go_error + unit read_result" where
  "PutGuestNetworkInterfaceByIDReader_ReadResponse response =
    (if Code response = 204 then Inr (ReadOK ())
     else if Code response = 400 then
       (case readPayload zero_ApiError (err_body response) of
          Inl err \<Rightarrow> Inl err
        | Inr payload \<Rightarrow> Inl (ApiErrorResponse ''PutGuestNetworkInterfaceByIDBadRequest'' 400 payload))
     else
       (case readPayload zero_ApiError (err_body response) of
          Inl err \<Rightarrow> Inl err
        | Inr payload \<Rightarrow>
            if Code response div 100 = 2 then Inr (ReadDefault (Code response) payload)
            else Inl (ApiErrorResponse ''PutGuestNetworkInterfaceByIDDefault'' (Code response) payload)))"

definition PutGuestVsockReader_ReadResponse ::
  "unit http_response \<Rightarrow> go_error + unit read_result" where
  "PutGuestVsockReader_ReadResponse response =
    (if Code response = 204 then Inr (ReadOK ())
     else if Code response = 400 then
       (case readPayload zero_ApiError (err_body response) of
          Inl err \<Rightarrow> Inl err
        | Inr payload \<Rightarrow> Inl (ApiErrorResponse ''PutGuestVsockBadRequest'' 400 payload))
     else
       (case readPayload zero_ApiError (err_body response) of
          Inl err \<Rightarrow> Inl err
        | Inr payload \<Rightarrow>
            if Code response div 100 = 2 then Inr (ReadDefault (Code response) payload)
            else Inl (ApiErrorResponse ''PutGuestVsockDefault'' (Code response) payload)))"

definition PutLoggerReader_ReadResponse ::
  "unit http_response \<Rightarrow> go_error + unit read_result" where
  "PutLoggerReader_ReadResponse response =
    (if Code response = 204 then Inr (ReadOK ())
     else if Code response = 400 then
       (case readPayload zero_ApiError (err_body response) of
          Inl err \<Rightarrow> Inl err
        | Inr payload \<Rightarrow> Inl (ApiErrorResponse ''PutLoggerBadRequest'' 400 payload))
     else
       (case readPayload zero_ApiError (err_body response) of
          Inl err \<Rightarrow> Inl err
        | Inr payload \<Rightarrow>
            if Code response div 100 = 2 then Inr (ReadDefault (Code response) payload)
            else Inl (ApiErrorResponse ''PutLoggerDefault'' (Code response) payload)))"

definition PutMachineConfigurationReader_ReadResponse ::
  "unit http_response \<Rightarrow> go_error + unit read_result" where
  "PutMachineConfigurationReader_ReadResponse response =
    (if Code response = 204 then Inr (ReadOK ())
     else if Code response = 400 then
       (case readPayload zero_ApiError (err_body response) of
          Inl err \<Rightarrow> Inl err
        | Inr payload \<Rightarrow> Inl (ApiErrorResponse ''PutMachineConfigurationBadRequest'' 400 payload))
     else
       (case readPayload zero_ApiError (err_body response) of
          Inl err \<Rightarrow> Inl err
        | Inr payload \<Rightarrow>
            if Code response div 100 = 2 then Inr (ReadDefault (Code response) payload)
            else Inl (ApiErrorResponse ''PutMachineConfigurationDefault'' (Code response) payload)))"

definition PutMetricsReader_ReadResponse ::
  "unit http_response \<Rightarrow> go_error + unit read_result" where
  "PutMetricsReader_ReadResponse response =
    (if Code response = 204 then Inr (ReadOK ())
     else if Code response = 400 then
       (case readPayload zero_ApiError (err_body response) of
          Inl err \<Rightarrow> Inl err
        | Inr payload \<Rightarrow> Inl (ApiErrorResponse ''PutMetricsBadRequest'' 400 payload))
     else
       (case readPayload zero_ApiError (err_body response) of
          Inl err \<Rightarrow> Inl err
        | Inr payload \<Rightarrow>
            if Code response div 100 = 2 then Inr (ReadDefault (Code response) payload)
            else Inl (ApiErrorResponse ''PutMetricsDefault'' (Code response) payload)))"

definition PutMmdsReader_ReadResponse ::
  "unit http_response \<Rightarrow> go_error + unit read_result" where
  "PutMmdsReader_ReadResponse response =
    (if Code response = 204 then Inr (ReadOK ())
     else if Code response = 400 then
       (case readPayload zero_ApiError (err_body response) of
          Inl err \<Rightarrow> Inl err
        | Inr payload \<Rightarrow> Inl (ApiErrorResponse ''PutMmdsBadRequest'' 400 payload))
     else
       (case readPayload zero_ApiError (err_body response) of
          Inl err \<Rightarrow> Inl err
        | Inr payload \<Rightarrow>
            if Code response div 100 = 2 then Inr (ReadDefault (Code response) payload)
            else Inl (ApiErrorResponse ''PutMmdsDefault'' (Code response) payload)))"

definition PutMmdsConfigReader_ReadResponse ::
  "unit http_response \<Rightarrow> go_error + unit read_result" where
  "PutMmdsConfigReader_ReadResponse response =
    (if Code response = 204 then Inr (ReadOK ())
     else if Code response = 400 then
       (case readPayload zero_ApiError (err_body response) of
          Inl err \<Rightarrow> Inl err
        | Inr payload \<Rightarrow> Inl (ApiErrorResponse ''PutMmdsConfigBadRequest'' 400 payload))
     else
       (case readPayload zero_ApiError (err_body response) of
          Inl err \<Rightarrow> Inl err
        | Inr payload \<Rightarrow>
            if Code response div 100 = 2 then Inr (ReadDefault (Code response) payload)
            else Inl (ApiErrorResponse ''PutMmdsConfigDefault'' (Code response) payload)))"

lemmas reader_defs =
  CreateSnapshotReader_ReadResponse_def
  CreateSyncActionReader_ReadResponse_def
  DescribeBalloonConfigReader_ReadResponse_def
  DescribeBalloonStatsReader_ReadResponse_def
  DescribeInstanceReader_ReadResponse_def
  GetExportVMConfigReader_ReadResponse_def
  GetFirecrackerVersionReader_ReadResponse_def
  GetMachineConfigurationReader_ReadResponse_def
  GetMmdsReader_ReadResponse_def
  LoadSnapshotReader_ReadResponse_def
  PatchBalloonReader_ReadResponse_def
  PatchBalloonStatsIntervalReader_ReadResponse_def
  PatchGuestDriveByIDReader_ReadResponse_def
  PatchGuestNetworkInterfaceByIDReader_ReadResponse_def
  PatchMachineConfigurationReader_ReadResponse_def
  PatchMmdsReader_ReadResponse_def
  PatchVMReader_ReadResponse_def
  PutBalloonReader_ReadResponse_def
  PutCPUConfigurationReader_ReadResponse_def
  PutEntropyDeviceReader_ReadResponse_def
  PutGuestBootSourceReader_ReadResponse_def
  PutGuestDriveByIDReader_ReadResponse_def
  PutGuestNetworkInterfaceByIDReader_ReadResponse_def
  PutGuestVsockReader_ReadResponse_def
  PutLoggerReader_ReadResponse_def
  PutMachineConfigurationReader_ReadResponse_def
  PutMetricsReader_ReadResponse_def
  PutMmdsReader_ReadResponse_def
  PutMmdsConfigReader_ReadResponse_def

subsection \<open>One reader with parameters\<close>

definition read_default :: "string \<Rightarrow> 'p http_response \<Rightarrow> go_error + 'p read_result" where
  "read_default name response =
    (case readPayload zero_ApiError (err_body response) of
       Inl err \<Rightarrow> Inl err
     | Inr payload \<Rightarrow>
         if Code response div 100 = 2 then Inr (ReadDefault (Code response) payload)
         else Inl (ApiErrorResponse (name @ ''Default'') (Code response) payload))"

definition read_failure :: "string \<Rightarrow> 'p http_response \<Rightarrow> go_error + 'p read_result" where
  "read_failure tname response =
    (case readPayload zero_ApiError (err_body response) of
       Inl err \<Rightarrow> Inl err
     | Inr payload \<Rightarrow> Inl (ApiErrorResponse tname (Code response) payload))"

text \<open>The readers: success code, an error code of their own if they have one, and the default.\<close>

definition ReadResponse ::
  "string \<Rightarrow> int \<Rightarrow> 'p \<Rightarrow> bool \<Rightarrow> (int \<times> string) option \<Rightarrow> 'p http_response
     \<Rightarrow> go_error + 'p read_result" where
  "ReadResponse name ok_code zero has_body failure response =
    (if Code response = ok_code then
       (if has_body then
          (case readPayload zero (ok_body response) of Inl err \<Rightarrow> Inl err | Inr p \<Rightarrow> Inr (ReadOK p))
        else Inr (ReadOK zero))
     else case failure of
       Some (code, tname) \<Rightarrow>
         if Code response = code then read_failure (name @ tname) response
         else read_default name response
     | None \<Rightarrow> read_default name response)"

lemma reader_eqs:
  "CreateSnapshotReader_ReadResponse = ReadResponse ''CreateSnapshot'' 204 () False (Some (400, ''BadRequest''))"
  "CreateSyncActionReader_ReadResponse = ReadResponse ''CreateSyncAction'' 204 () False (Some (400, ''BadRequest''))"
  "DescribeBalloonConfigReader_ReadResponse = ReadResponse ''DescribeBalloonConfig'' 200 zero_Balloon True (Some (400, ''BadRequest''))"
  "DescribeBalloonStatsReader_ReadResponse = ReadResponse ''DescribeBalloonStats'' 200 zero_BalloonStats True (Some (400, ''BadRequest''))"
  "DescribeInstanceReader_ReadResponse = ReadResponse ''DescribeInstance'' 200 zero_InstanceInfo True None"
  "GetExportVMConfigReader_ReadResponse = ReadResponse ''GetExportVMConfig'' 200 zero_FullVMConfiguration True None"
  "GetFirecrackerVersionReader_ReadResponse = ReadResponse ''GetFirecrackerVersion'' 200 zero_FirecrackerVersion True None"
  "GetMachineConfigurationReader_ReadResponse = ReadResponse ''GetMachineConfiguration'' 200 zero_MachineConfiguration True None"
  "GetMmdsReader_ReadResponse = ReadResponse ''GetMmds'' 200 ''null'' True (Some (404, ''NotFound''))"
  "LoadSnapshotReader_ReadResponse = ReadResponse ''LoadSnapshot'' 204 () False (Some (400, ''BadRequest''))"
  "PatchBalloonReader_ReadResponse = ReadResponse ''PatchBalloon'' 204 () False (Some (400, ''BadRequest''))"
  "PatchBalloonStatsIntervalReader_ReadResponse = ReadResponse ''PatchBalloonStatsInterval'' 204 () False (Some (400, ''BadRequest''))"
  "PatchGuestDriveByIDReader_ReadResponse = ReadResponse ''PatchGuestDriveByID'' 204 () False (Some (400, ''BadRequest''))"
  "PatchGuestNetworkInterfaceByIDReader_ReadResponse = ReadResponse ''PatchGuestNetworkInterfaceByID'' 204 () False (Some (400, ''BadRequest''))"
  "PatchMachineConfigurationReader_ReadResponse = ReadResponse ''PatchMachineConfiguration'' 204 () False (Some (400, ''BadRequest''))"
  "PatchMmdsReader_ReadResponse = ReadResponse ''PatchMmds'' 204 () False (Some (400, ''BadRequest''))"
  "PatchVMReader_ReadResponse = ReadResponse ''PatchVM'' 204 () False (Some (400, ''BadRequest''))"
  "PutBalloonReader_ReadResponse = ReadResponse ''PutBalloon'' 204 () False (Some (400, ''BadRequest''))"
  "PutCPUConfigurationReader_ReadResponse = ReadResponse ''PutCPUConfiguration'' 204 () False (Some (400, ''BadRequest''))"
  "PutEntropyDeviceReader_ReadResponse = ReadResponse ''PutEntropyDevice'' 204 () False None"
  "PutGuestBootSourceReader_ReadResponse = ReadResponse ''PutGuestBootSource'' 204 () False (Some (400, ''BadRequest''))"
  "PutGuestDriveByIDReader_ReadResponse = ReadResponse ''PutGuestDriveByID'' 204 () False (Some (400, ''BadRequest''))"
  "PutGuestNetworkInterfaceByIDReader_ReadResponse = ReadResponse ''PutGuestNetworkInterfaceByID'' 204 () False (Some (400, ''BadRequest''))"
  "PutGuestVsockReader_ReadResponse = ReadResponse ''PutGuestVsock'' 204 () False (Some (400, ''BadRequest''))"
  "PutLoggerReader_ReadResponse = ReadResponse ''PutLogger'' 204 () False (Some (400, ''BadRequest''))"
  "PutMachineConfigurationReader_ReadResponse = ReadResponse ''PutMachineConfiguration'' 204 () False (Some (400, ''BadRequest''))"
  "PutMetricsReader_ReadResponse = ReadResponse ''PutMetrics'' 204 () False (Some (400, ''BadRequest''))"
  "PutMmdsReader_ReadResponse = ReadResponse ''PutMmds'' 204 () False (Some (400, ''BadRequest''))"
  "PutMmdsConfigReader_ReadResponse = ReadResponse ''PutMmdsConfig'' 204 () False (Some (400, ''BadRequest''))"
  by (rule ext, simp add: reader_defs ReadResponse_def read_failure_def read_default_def split: sum.split)+

subsection \<open>Which responses are errors\<close>

lemma ReadResponse_cases:
  assumes "Code r \<noteq> ok_code"
  shows "(\<exists>err. ReadResponse name ok_code zero hb failure r = Inl err)
    \<or> (Code r div 100 = 2 \<and> (\<exists>p. ReadResponse name ok_code zero hb failure r = Inr (ReadDefault (Code r) p)))"
  using assms
  by (auto simp: ReadResponse_def read_default_def read_failure_def readPayload_def
      split: option.splits consumed.splits)

lemma ReadResponse_OK_iff:
  "ReadResponse name ok_code zero hb failure r = Inr (ReadOK p) \<longleftrightarrow>
     Code r = ok_code \<and> (if hb then readPayload zero (ok_body r) = Inr p else p = zero)"
  by (auto simp: ReadResponse_def read_default_def read_failure_def readPayload_def
      split: option.splits consumed.splits if_splits sum.splits)

lemma ReadResponse_default_code:
  "ReadResponse name ok_code zero hb failure r = Inr (ReadDefault c p) \<Longrightarrow> c = Code r"
  by (auto simp: ReadResponse_def read_default_def read_failure_def readPayload_def
      split: option.splits consumed.splits if_splits sum.splits)

subsection \<open>The texts of the errors\<close>

text \<open>\<open>%+v\<close> of a pointer to a \<open>models.Error\<close>.\<close>

definition ApiError_plusv :: "ApiError \<Rightarrow> string" where
  "ApiError_plusv payload = ''&{FaultMessage:'' @ FaultMessage payload @ ''}''"

definition CreateSnapshotBadRequest_Error :: "ApiError \<Rightarrow> string" where
  "CreateSnapshotBadRequest_Error payload = ''[PUT /snapshot/create]['' @ itoa 400 @ ''] createSnapshotBadRequest  '' @ ApiError_plusv payload"

definition CreateSnapshotDefault_Error :: "int \<Rightarrow> ApiError \<Rightarrow> string" where
  "CreateSnapshotDefault_Error code payload = ''[PUT /snapshot/create]['' @ itoa code @ ''] createSnapshot default  '' @ ApiError_plusv payload"

definition CreateSyncActionBadRequest_Error :: "ApiError \<Rightarrow> string" where
  "CreateSyncActionBadRequest_Error payload = ''[PUT /actions]['' @ itoa 400 @ ''] createSyncActionBadRequest  '' @ ApiError_plusv payload"

definition CreateSyncActionDefault_Error :: "int \<Rightarrow> ApiError \<Rightarrow> string" where
  "CreateSyncActionDefault_Error code payload = ''[PUT /actions]['' @ itoa code @ ''] createSyncAction default  '' @ ApiError_plusv payload"

definition DescribeBalloonConfigBadRequest_Error :: "ApiError \<Rightarrow> string" where
  "DescribeBalloonConfigBadRequest_Error payload = ''[GET /balloon]['' @ itoa 400 @ ''] describeBalloonConfigBadRequest  '' @ ApiError_plusv payload"

definition DescribeBalloonConfigDefault_Error :: "int \<Rightarrow> ApiError \<Rightarrow> string" where
  "DescribeBalloonConfigDefault_Error code payload = ''[GET /balloon]['' @ itoa code @ ''] describeBalloonConfig default  '' @ ApiError_plusv payload"

definition DescribeBalloonStatsBadRequest_Error :: "ApiError \<Rightarrow> string" where
  "DescribeBalloonStatsBadRequest_Error payload = ''[GET /balloon/statistics]['' @ itoa 400 @ ''] describeBalloonStatsBadRequest  '' @ ApiError_plusv payload"

definition DescribeBalloonStatsDefault_Error :: "int \<Rightarrow> ApiError \<Rightarrow> string" where
  "DescribeBalloonStatsDefault_Error code payload = ''[GET /balloon/statistics]['' @ itoa code @ ''] describeBalloonStats default  '' @ ApiError_plusv payload"

definition DescribeInstanceDefault_Error :: "int \<Rightarrow> ApiError \<Rightarrow> string" where
  "DescribeInstanceDefault_Error code payload = ''[GET /]['' @ itoa code @ ''] describeInstance default  '' @ ApiError_plusv payload"

definition GetExportVMConfigDefault_Error :: "int \<Rightarrow> ApiError \<Rightarrow> string" where
  "GetExportVMConfigDefault_Error code payload = ''[GET /vm/config]['' @ itoa code @ ''] getExportVmConfig default  '' @ ApiError_plusv payload"

definition GetFirecrackerVersionDefault_Error :: "int \<Rightarrow> ApiError \<Rightarrow> string" where
  "GetFirecrackerVersionDefault_Error code payload = ''[GET /version]['' @ itoa code @ ''] getFirecrackerVersion default  '' @ ApiError_plusv payload"

definition GetMachineConfigurationDefault_Error :: "int \<Rightarrow> ApiError \<Rightarrow> string" where
  "GetMachineConfigurationDefault_Error code payload = ''[GET /machine-config]['' @ itoa code @ ''] getMachineConfiguration default  '' @ ApiError_plusv payload"

definition GetMmdsNotFound_Error :: "ApiError \<Rightarrow> string" where
  "GetMmdsNotFound_Error payload = ''[GET /mmds]['' @ itoa 404 @ ''] getMmdsNotFound  '' @ ApiError_plusv payload"

definition GetMmdsDefault_Error :: "int \<Rightarrow> ApiError \<Rightarrow> string" where
  "GetMmdsDefault_Error code payload = ''[GET /mmds]['' @ itoa code @ ''] getMmds default  '' @ ApiError_plusv payload"

definition LoadSnapshotBadRequest_Error :: "ApiError \<Rightarrow> string" where
  "LoadSnapshotBadRequest_Error payload = ''[PUT /snapshot/load]['' @ itoa 400 @ ''] loadSnapshotBadRequest  '' @ ApiError_plusv payload"

definition LoadSnapshotDefault_Error :: "int \<Rightarrow> ApiError \<Rightarrow> string" where
  "LoadSnapshotDefault_Error code payload = ''[PUT /snapshot/load]['' @ itoa code @ ''] loadSnapshot default  '' @ ApiError_plusv payload"

definition PatchBalloonBadRequest_Error :: "ApiError \<Rightarrow> string" where
  "PatchBalloonBadRequest_Error payload = ''[PATCH /balloon]['' @ itoa 400 @ ''] patchBalloonBadRequest  '' @ ApiError_plusv payload"

definition PatchBalloonDefault_Error :: "int \<Rightarrow> ApiError \<Rightarrow> string" where
  "PatchBalloonDefault_Error code payload = ''[PATCH /balloon]['' @ itoa code @ ''] patchBalloon default  '' @ ApiError_plusv payload"

definition PatchBalloonStatsIntervalBadRequest_Error :: "ApiError \<Rightarrow> string" where
  "PatchBalloonStatsIntervalBadRequest_Error payload = ''[PATCH /balloon/statistics]['' @ itoa 400 @ ''] patchBalloonStatsIntervalBadRequest  '' @ ApiError_plusv payload"

definition PatchBalloonStatsIntervalDefault_Error :: "int \<Rightarrow> ApiError \<Rightarrow> string" where
  "PatchBalloonStatsIntervalDefault_Error code payload = ''[PATCH /balloon/statistics]['' @ itoa code @ ''] patchBalloonStatsInterval default  '' @ ApiError_plusv payload"

definition PatchGuestDriveByIDBadRequest_Error :: "ApiError \<Rightarrow> string" where
  "PatchGuestDriveByIDBadRequest_Error payload = ''[PATCH /drives/{drive_id}]['' @ itoa 400 @ ''] patchGuestDriveByIdBadRequest  '' @ ApiError_plusv payload"

definition PatchGuestDriveByIDDefault_Error :: "int \<Rightarrow> ApiError \<Rightarrow> string" where
  "PatchGuestDriveByIDDefault_Error code payload = ''[PATCH /drives/{drive_id}]['' @ itoa code @ ''] patchGuestDriveByID default  '' @ ApiError_plusv payload"

definition PatchGuestNetworkInterfaceByIDBadRequest_Error :: "ApiError \<Rightarrow> string" where
  "PatchGuestNetworkInterfaceByIDBadRequest_Error payload = ''[PATCH /network-interfaces/{iface_id}]['' @ itoa 400 @ ''] patchGuestNetworkInterfaceByIdBadRequest  '' @ ApiError_plusv payload"

definition PatchGuestNetworkInterfaceByIDDefault_Error :: "int \<Rightarrow> ApiError \<Rightarrow> string" where
  "PatchGuestNetworkInterfaceByIDDefault_Error code payload = ''[PATCH /network-interfaces/{iface_id}]['' @ itoa code @ ''] patchGuestNetworkInterfaceByID default  '' @ ApiError_plusv payload"

definition PatchMachineConfigurationBadRequest_Error :: "ApiError \<Rightarrow> string" where
  "PatchMachineConfigurationBadRequest_Error payload = ''[PATCH /machine-config]['' @ itoa 400 @ ''] patchMachineConfigurationBadRequest  '' @ ApiError_plusv payload"

definition PatchMachineConfigurationDefault_Error :: "int \<Rightarrow> ApiError \<Rightarrow> string" where
  "PatchMachineConfigurationDefault_Error code payload = ''[PATCH /machine-config]['' @ itoa code @ ''] patchMachineConfiguration default  '' @ ApiError_plusv payload"

definition PatchMmdsBadRequest_Error :: "ApiError \<Rightarrow> string" where
  "PatchMmdsBadRequest_Error payload = ''[PATCH /mmds]['' @ itoa 400 @ ''] patchMmdsBadRequest  '' @ ApiError_plusv payload"

definition PatchMmdsDefault_Error :: "int \<Rightarrow> ApiError \<Rightarrow> string" where
  "PatchMmdsDefault_Error code payload = ''[PATCH /mmds]['' @ itoa code @ ''] patchMmds default  '' @ ApiError_plusv payload"

definition PatchVMBadRequest_Error :: "ApiError \<Rightarrow> string" where
  "PatchVMBadRequest_Error payload = ''[PATCH /vm]['' @ itoa 400 @ ''] patchVmBadRequest  '' @ ApiError_plusv payload"

definition PatchVMDefault_Error :: "int \<Rightarrow> ApiError \<Rightarrow> string" where
  "PatchVMDefault_Error code payload = ''[PATCH /vm]['' @ itoa code @ ''] patchVm default  '' @ ApiError_plusv payload"

definition PutBalloonBadRequest_Error :: "ApiError \<Rightarrow> string" where
  "PutBalloonBadRequest_Error payload = ''[PUT /balloon]['' @ itoa 400 @ ''] putBalloonBadRequest  '' @ ApiError_plusv payload"

definition PutBalloonDefault_Error :: "int \<Rightarrow> ApiError \<Rightarrow> string" where
  "PutBalloonDefault_Error code payload = ''[PUT /balloon]['' @ itoa code @ ''] putBalloon default  '' @ ApiError_plusv payload"

definition PutCPUConfigurationBadRequest_Error :: "ApiError \<Rightarrow> string" where
  "PutCPUConfigurationBadRequest_Error payload = ''[PUT /cpu-config]['' @ itoa 400 @ ''] putCpuConfigurationBadRequest  '' @ ApiError_plusv payload"

definition PutCPUConfigurationDefault_Error :: "int \<Rightarrow> ApiError \<Rightarrow> string" where
  "PutCPUConfigurationDefault_Error code payload = ''[PUT /cpu-config]['' @ itoa code @ ''] putCpuConfiguration default  '' @ ApiError_plusv payload"

definition PutEntropyDeviceDefault_Error :: "int \<Rightarrow> ApiError \<Rightarrow> string" where
  "PutEntropyDeviceDefault_Error code payload = ''[PUT /entropy]['' @ itoa code @ ''] putEntropyDevice default  '' @ ApiError_plusv payload"

definition PutGuestBootSourceBadRequest_Error :: "ApiError \<Rightarrow> string" where
  "PutGuestBootSourceBadRequest_Error payload = ''[PUT /boot-source]['' @ itoa 400 @ ''] putGuestBootSourceBadRequest  '' @ ApiError_plusv payload"

definition PutGuestBootSourceDefault_Error :: "int \<Rightarrow> ApiError \<Rightarrow> string" where
  "PutGuestBootSourceDefault_Error code payload = ''[PUT /boot-source]['' @ itoa code @ ''] putGuestBootSource default  '' @ ApiError_plusv payload"

definition PutGuestDriveByIDBadRequest_Error :: "ApiError \<Rightarrow> string" where
  "PutGuestDriveByIDBadRequest_Error payload = ''[PUT /drives/{drive_id}]['' @ itoa 400 @ ''] putGuestDriveByIdBadRequest  '' @ ApiError_plusv payload"

definition PutGuestDriveByIDDefault_Error :: "int \<Rightarrow> ApiError \<Rightarrow> string" where
  "PutGuestDriveByIDDefault_Error code payload = ''[PUT /drives/{drive_id}]['' @ itoa code @ ''] putGuestDriveByID default  '' @ ApiError_plusv payload"

definition PutGuestNetworkInterfaceByIDBadRequest_Error :: "ApiError \<Rightarrow> string" where
  "PutGuestNetworkInterfaceByIDBadRequest_Error payload = ''[PUT /network-interfaces/{iface_id}]['' @ itoa 400 @ ''] putGuestNetworkInterfaceByIdBadRequest  '' @ ApiError_plusv payload"

definition PutGuestNetworkInterfaceByIDDefault_Error :: "int \<Rightarrow> ApiError \<Rightarrow> string" where
  "PutGuestNetworkInterfaceByIDDefault_Error code payload = ''[PUT /network-interfaces/{iface_id}]['' @ itoa code @ ''] putGuestNetworkInterfaceByID default  '' @ ApiError_plusv payload"

definition PutGuestVsockBadRequest_Error :: "ApiError \<Rightarrow> string" where
  "PutGuestVsockBadRequest_Error payload = ''[PUT /vsock]['' @ itoa 400 @ ''] putGuestVsockBadRequest  '' @ ApiError_plusv payload"

definition PutGuestVsockDefault_Error :: "int \<Rightarrow> ApiError \<Rightarrow> string" where
  "PutGuestVsockDefault_Error code payload = ''[PUT /vsock]['' @ itoa code @ ''] putGuestVsock default  '' @ ApiError_plusv payload"

definition PutLoggerBadRequest_Error :: "ApiError \<Rightarrow> string" where
  "PutLoggerBadRequest_Error payload = ''[PUT /logger]['' @ itoa 400 @ ''] putLoggerBadRequest  '' @ ApiError_plusv payload"

definition PutLoggerDefault_Error :: "int \<Rightarrow> ApiError \<Rightarrow> string" where
  "PutLoggerDefault_Error code payload = ''[PUT /logger]['' @ itoa code @ ''] putLogger default  '' @ ApiError_plusv payload"

definition PutMachineConfigurationBadRequest_Error :: "ApiError \<Rightarrow> string" where
  "PutMachineConfigurationBadRequest_Error payload = ''[PUT /machine-config]['' @ itoa 400 @ ''] putMachineConfigurationBadRequest  '' @ ApiError_plusv payload"

definition PutMachineConfigurationDefault_Error :: "int \<Rightarrow> ApiError \<Rightarrow> string" where
  "PutMachineConfigurationDefault_Error code payload = ''[PUT /machine-config]['' @ itoa code @ ''] putMachineConfiguration default  '' @ ApiError_plusv payload"

definition PutMetricsBadRequest_Error :: "ApiError \<Rightarrow> string" where
  "PutMetricsBadRequest_Error payload = ''[PUT /metrics]['' @ itoa 400 @ ''] putMetricsBadRequest  '' @ ApiError_plusv payload"

definition PutMetricsDefault_Error :: "int \<Rightarrow> ApiError \<Rightarrow> string" where
  "PutMetricsDefault_Error code payload = ''[PUT /metrics]['' @ itoa code @ ''] putMetrics default  '' @ ApiError_plusv payload"

definition PutMmdsBadRequest_Error :: "ApiError \<Rightarrow> string" where
  "PutMmdsBadRequest_Error payload = ''[PUT /mmds]['' @ itoa 400 @ ''] putMmdsBadRequest  '' @ ApiError_plusv payload"

definition PutMmdsDefault_Error :: "int \<Rightarrow> ApiError \<Rightarrow> string" where
  "PutMmdsDefault_Error code payload = ''[PUT /mmds]['' @ itoa code @ ''] putMmds default  '' @ ApiError_plusv payload"

definition PutMmdsConfigBadRequest_Error :: "ApiError \<Rightarrow> string" where
  "PutMmdsConfigBadRequest_Error payload = ''[PUT /mmds/config]['' @ itoa 400 @ ''] putMmdsConfigBadRequest  '' @ ApiError_plusv payload"

definition PutMmdsConfigDefault_Error :: "int \<Rightarrow> ApiError \<Rightarrow> string" where
  "PutMmdsConfigDefault_Error code payload = ''[PUT /mmds/config]['' @ itoa code @ ''] putMmdsConfig default  '' @ ApiError_plusv payload"

text \<open>The call of \<open>Error\<close> on an error value dispatches on its type.\<close>

definition api_error_text :: "string \<Rightarrow> int \<Rightarrow> ApiError \<Rightarrow> string option" where
  "api_error_text tname code payload =
    map_option (\<lambda>text. text code payload) (map_of
     [(''CreateSnapshotBadRequest'', \<lambda>code. CreateSnapshotBadRequest_Error),
      (''CreateSnapshotDefault'', CreateSnapshotDefault_Error),
      (''CreateSyncActionBadRequest'', \<lambda>code. CreateSyncActionBadRequest_Error),
      (''CreateSyncActionDefault'', CreateSyncActionDefault_Error),
      (''DescribeBalloonConfigBadRequest'', \<lambda>code. DescribeBalloonConfigBadRequest_Error),
      (''DescribeBalloonConfigDefault'', DescribeBalloonConfigDefault_Error),
      (''DescribeBalloonStatsBadRequest'', \<lambda>code. DescribeBalloonStatsBadRequest_Error),
      (''DescribeBalloonStatsDefault'', DescribeBalloonStatsDefault_Error),
      (''DescribeInstanceDefault'', DescribeInstanceDefault_Error),
      (''GetExportVMConfigDefault'', GetExportVMConfigDefault_Error),
      (''GetFirecrackerVersionDefault'', GetFirecrackerVersionDefault_Error),
      (''GetMachineConfigurationDefault'', GetMachineConfigurationDefault_Error),
      (''GetMmdsNotFound'', \<lambda>code. GetMmdsNotFound_Error),
      (''GetMmdsDefault'', GetMmdsDefault_Error),
      (''LoadSnapshotBadRequest'', \<lambda>code. LoadSnapshotBadRequest_Error),
      (''LoadSnapshotDefault'', LoadSnapshotDefault_Error),
      (''PatchBalloonBadRequest'', \<lambda>code. PatchBalloonBadRequest_Error),
      (''PatchBalloonDefault'', PatchBalloonDefault_Error),
      (''PatchBalloonStatsIntervalBadRequest'', \<lambda>code. PatchBalloonStatsIntervalBadRequest_Error),
      (''PatchBalloonStatsIntervalDefault'', PatchBalloonStatsIntervalDefault_Error),
      (''PatchGuestDriveByIDBadRequest'', \<lambda>code. PatchGuestDriveByIDBadRequest_Error),
      (''PatchGuestDriveByIDDefault'', PatchGuestDriveByIDDefault_Error),
      (''PatchGuestNetworkInterfaceByIDBadRequest'', \<lambda>code. PatchGuestNetworkInterfaceByIDBadRequest_Error),
      (''PatchGuestNetworkInterfaceByIDDefault'', PatchGuestNetworkInterfaceByIDDefault_Error),
      (''PatchMachineConfigurationBadRequest'', \<lambda>code. PatchMachineConfigurationBadRequest_Error),
      (''PatchMachineConfigurationDefault'', PatchMachineConfigurationDefault_Error),
      (''PatchMmdsBadRequest'', \<lambda>code. PatchMmdsBadRequest_Error),
      (''PatchMmdsDefault'', PatchMmdsDefault_Error),
      (''PatchVMBadRequest'', \<lambda>code. PatchVMBadRequest_Error),
      (''PatchVMDefault'', PatchVMDefault_Error),
      (''PutBalloonBadRequest'', \<lambda>code. PutBalloonBadRequest_Error),
      (''PutBalloonDefault'', PutBalloonDefault_Error),
      (''PutCPUConfigurationBadRequest'', \<lambda>code. PutCPUConfigurationBadRequest_Error),
      (''PutCPUConfigurationDefault'', PutCPUConfigurationDefault_Error),
      (''PutEntropyDeviceDefault'', PutEntropyDeviceDefault_Error),
      (''PutGuestBootSourceBadRequest'', \<lambda>code. PutGuestBootSourceBadRequest_Error),
      (''PutGuestBootSourceDefault'', PutGuestBootSourceDefault_Error),
      (''PutGuestDriveByIDBadRequest'', \<lambda>code. PutGuestDriveByIDBadRequest_Error),
      (''PutGuestDriveByIDDefault'', PutGuestDriveByIDDefault_Error),
      (''PutGuestNetworkInterfaceByIDBadRequest'', \<lambda>code. PutGuestNetworkInterfaceByIDBadRequest_Error),
      (''PutGuestNetworkInterfaceByIDDefault'', PutGuestNetworkInterfaceByIDDefault_Error),
      (''PutGuestVsockBadRequest'', \<lambda>code. PutGuestVsockBadRequest_Error),
      (''PutGuestVsockDefault'', PutGuestVsockDefault_Error),
      (''PutLoggerBadRequest'', \<lambda>code. PutLoggerBadRequest_Error),
      (''PutLoggerDefault'', PutLoggerDefault_Error),
      (''PutMachineConfigurationBadRequest'', \<lambda>code. PutMachineConfigurationBadRequest_Error),
      (''PutMachineConfigurationDefault'', PutMachineConfigurationDefault_Error),
      (''PutMetricsBadRequest'', \<lambda>code. PutMetricsBadRequest_Error),
      (''PutMetricsDefault'', PutMetricsDefault_Error),
      (''PutMmdsBadRequest'', \<lambda>code. PutMmdsBadRequest_Error),
      (''PutMmdsDefault'', PutMmdsDefault_Error),
      (''PutMmdsConfigBadRequest'', \<lambda>code. PutMmdsConfigBadRequest_Error),
      (''PutMmdsConfigDefault'', PutMmdsConfigDefault_Error)] tname)"

lemma error_texts_1:
  "api_error_text ''CreateSnapshotBadRequest'' code p = Some (CreateSnapshotBadRequest_Error p)"
  "api_error_text ''CreateSnapshotDefault'' code p = Some (CreateSnapshotDefault_Error code p)"
  "api_error_text ''CreateSyncActionBadRequest'' code p = Some (CreateSyncActionBadRequest_Error p)"
  "api_error_text ''CreateSyncActionDefault'' code p = Some (CreateSyncActionDefault_Error code p)"
  "api_error_text ''DescribeBalloonConfigBadRequest'' code p = Some (DescribeBalloonConfigBadRequest_Error p)"
  "api_error_text ''DescribeBalloonConfigDefault'' code p = Some (DescribeBalloonConfigDefault_Error code p)"
  "api_error_text ''DescribeBalloonStatsBadRequest'' code p = Some (DescribeBalloonStatsBadRequest_Error p)"
  "api_error_text ''DescribeBalloonStatsDefault'' code p = Some (DescribeBalloonStatsDefault_Error code p)"
  "api_error_text ''DescribeInstanceDefault'' code p = Some (DescribeInstanceDefault_Error code p)"
  by (simp_all add: api_error_text_def)

lemma error_texts_2:
  "api_error_text ''GetExportVMConfigDefault'' code p = Some (GetExportVMConfigDefault_Error code p)"
  "api_error_text ''GetFirecrackerVersionDefault'' code p = Some (GetFirecrackerVersionDefault_Error code p)"
  "api_error_text ''GetMachineConfigurationDefault'' code p = Some (GetMachineConfigurationDefault_Error code p)"
  "api_error_text ''GetMmdsNotFound'' code p = Some (GetMmdsNotFound_Error p)"
  "api_error_text ''GetMmdsDefault'' code p = Some (GetMmdsDefault_Error code p)"
  "api_error_text ''LoadSnapshotBadRequest'' code p = Some (LoadSnapshotBadRequest_Error p)"
  "api_error_text ''LoadSnapshotDefault'' code p = Some (LoadSnapshotDefault_Error code p)"
  "api_error_text ''PatchBalloonBadRequest'' code p = Some (PatchBalloonBadRequest_Error p)"
  "api_error_text ''PatchBalloonDefault'' code p = Some (PatchBalloonDefault_Error code p)"
  by (simp_all add: api_error_text_def)

lemma error_texts_3:
  "api_error_text ''PatchBalloonStatsIntervalBadRequest'' code p = Some (PatchBalloonStatsIntervalBadRequest_Error p)"
  "api_error_text ''PatchBalloonStatsIntervalDefault'' code p = Some (PatchBalloonStatsIntervalDefault_Error code p)"
  "api_error_text ''PatchGuestDriveByIDBadRequest'' code p = Some (PatchGuestDriveByIDBadRequest_Error p)"
  "api_error_text ''PatchGuestDriveByIDDefault'' code p = Some (PatchGuestDriveByIDDefault_Error code p)"
  "api_error_text ''PatchGuestNetworkInterfaceByIDBadRequest'' code p = Some (PatchGuestNetworkInterfaceByIDBadRequest_Error p)"
  "api_error_text ''PatchGuestNetworkInterfaceByIDDefault'' code p = Some (PatchGuestNetworkInterfaceByIDDefault_Error code p)"
  "api_error_text ''PatchMachineConfigurationBadRequest'' code p = Some (PatchMachineConfigurationBadRequest_Error p)"
  "api_error_text ''PatchMachineConfigurationDefault'' code p = Some (PatchMachineConfigurationDefault_Error code p)"
  "api_error_text ''PatchMmdsBadRequest'' code p = Some (PatchMmdsBadRequest_Error p)"
  by (simp_all add: api_error_text_def)

lemma error_texts_4:
  "api_error_text ''PatchMmdsDefault'' code p = Some (PatchMmdsDefault_Error code p)"
  "api_error_text ''PatchVMBadRequest'' code p = Some (PatchVMBadRequest_Error p)"
  "api_error_text ''PatchVMDefault'' code p = Some (PatchVMDefault_Error code p)"
  "api_error_text ''PutBalloonBadRequest'' code p = Some (PutBalloonBadRequest_Error p)"
  "api_error_text ''PutBalloonDefault'' code p = Some (PutBalloonDefault_Error code p)"
  "api_error_text ''PutCPUConfigurationBadRequest'' code p = Some (PutCPUConfigurationBadRequest_Error p)"
  "api_error_text ''PutCPUConfigurationDefault'' code p = Some (PutCPUConfigurationDefault_Error code p)"
  "api_error_text ''PutEntropyDeviceDefault'' code p = Some (PutEntropyDeviceDefault_Error code p)"
  "api_error_text ''PutGuestBootSourceBadRequest'' code p = Some (PutGuestBootSourceBadRequest_Error p)"
  by (simp_all add: api_error_text_def)

lemma error_texts_5:
  "api_error_text ''PutGuestBootSourceDefault'' code p = Some (PutGuestBootSourceDefault_Error code p)"
  "api_error_text ''PutGuestDriveByIDBadRequest'' code p = Some (PutGuestDriveByIDBadRequest_Error p)"
  "api_error_text ''PutGuestDriveByIDDefault'' code p = Some (PutGuestDriveByIDDefault_Error code p)"
  "api_error_text ''PutGuestNetworkInterfaceByIDBadRequest'' code p = Some (PutGuestNetworkInterfaceByIDBadRequest_Error p)"
  "api_error_text ''PutGuestNetworkInterfaceByIDDefault'' code p = Some (PutGuestNetworkInterfaceByIDDefault_Error code p)"
  "api_error_text ''PutGuestVsockBadRequest'' code p = Some (PutGuestVsockBadRequest_Error p)"
  "api_error_text ''PutGuestVsockDefault'' code p = Some (PutGuestVsockDefault_Error code p)"
  "api_error_text ''PutLoggerBadRequest'' code p = Some (PutLoggerBadRequest_Error p)"
  "api_error_text ''PutLoggerDefault'' code p = Some (PutLoggerDefault_Error code p)"
  by (simp_all add: api_error_text_def)

lemma error_texts_6:
  "api_error_text ''PutMachineConfigurationBadRequest'' code p = Some (PutMachineConfigurationBadRequest_Error p)"
  "api_error_text ''PutMachineConfigurationDefault'' code p = Some (PutMachineConfigurationDefault_Error code p)"
  "api_error_text ''PutMetricsBadRequest'' code p = Some (PutMetricsBadRequest_Error p)"
  "api_error_text ''PutMetricsDefault'' code p = Some (PutMetricsDefault_Error code p)"
  "api_error_text ''PutMmdsBadRequest'' code p = Some (PutMmdsBadRequest_Error p)"
  "api_error_text ''PutMmdsDefault'' code p = Some (PutMmdsDefault_Error code p)"
  "api_error_text ''PutMmdsConfigBadRequest'' code p = Some (PutMmdsConfigBadRequest_Error p)"
  "api_error_text ''PutMmdsConfigDefault'' code p = Some (PutMmdsConfigDefault_Error code p)"
  by (simp_all add: api_error_text_def)

lemmas error_texts = error_texts_1 error_texts_2 error_texts_3 error_texts_4 error_texts_5 error_texts_6

lemmas error_text_defs = ApiError_plusv_def
  CreateSnapshotBadRequest_Error_def
  CreateSnapshotDefault_Error_def
  CreateSyncActionBadRequest_Error_def
  CreateSyncActionDefault_Error_def
  DescribeBalloonConfigBadRequest_Error_def
  DescribeBalloonConfigDefault_Error_def
  DescribeBalloonStatsBadRequest_Error_def
  DescribeBalloonStatsDefault_Error_def
  DescribeInstanceDefault_Error_def
  GetExportVMConfigDefault_Error_def
  GetFirecrackerVersionDefault_Error_def
  GetMachineConfigurationDefault_Error_def
  GetMmdsNotFound_Error_def
  GetMmdsDefault_Error_def
  LoadSnapshotBadRequest_Error_def
  LoadSnapshotDefault_Error_def
  PatchBalloonBadRequest_Error_def
  PatchBalloonDefault_Error_def
  PatchBalloonStatsIntervalBadRequest_Error_def
  PatchBalloonStatsIntervalDefault_Error_def
  PatchGuestDriveByIDBadRequest_Error_def
  PatchGuestDriveByIDDefault_Error_def
  PatchGuestNetworkInterfaceByIDBadRequest_Error_def
  PatchGuestNetworkInterfaceByIDDefault_Error_def
  PatchMachineConfigurationBadRequest_Error_def
  PatchMachineConfigurationDefault_Error_def
  PatchMmdsBadRequest_Error_def
  PatchMmdsDefault_Error_def
  PatchVMBadRequest_Error_def
  PatchVMDefault_Error_def
  PutBalloonBadRequest_Error_def
  PutBalloonDefault_Error_def
  PutCPUConfigurationBadRequest_Error_def
  PutCPUConfigurationDefault_Error_def
  PutEntropyDeviceDefault_Error_def
  PutGuestBootSourceBadRequest_Error_def
  PutGuestBootSourceDefault_Error_def
  PutGuestDriveByIDBadRequest_Error_def
  PutGuestDriveByIDDefault_Error_def
  PutGuestNetworkInterfaceByIDBadRequest_Error_def
  PutGuestNetworkInterfaceByIDDefault_Error_def
  PutGuestVsockBadRequest_Error_def
  PutGuestVsockDefault_Error_def
  PutLoggerBadRequest_Error_def
  PutLoggerDefault_Error_def
  PutMachineConfigurationBadRequest_Error_def
  PutMachineConfigurationDefault_Error_def
  PutMetricsBadRequest_Error_def
  PutMetricsDefault_Error_def
  PutMmdsBadRequest_Error_def
  PutMmdsDefault_Error_def
  PutMmdsConfigBadRequest_Error_def
  PutMmdsConfigDefault_Error_def

lemmas error_text_eqs = error_texts [unfolded error_text_defs(2-)]

end
