(* ===== verification/Operations.thy ===== *)
theory Operations
  imports Responses "HOL-Library.Sublist"
begin

text \<open>
  The generated operations client (\<open>client/operations\<close>): for each operation that the SDK calls, the
  request it submits, and how its reader sorts the response by status code. The transport is the
  environment's; \<open>Submit\<close> of go-openapi's runtime is documented to return what the reader of the
  operation makes of the response, and that is how it is composed here. The final type assertion
  of each operation is modelled: it panics on a result of the reader's default type.
\<close>

type_synonym 'p api_result = "go_panic + (go_error + 'p)"

subsection \<open>Parameters and submission\<close>

definition NewParams :: "env \<Rightarrow> api_params" where
  "NewParams e = \<lparr>Body = None, PathParams = [], ptimeout = default_timeout e,
     Context = None, HTTPClient = None\<rparr>"

definition NewParamsWithContext :: "ctx \<Rightarrow> api_params" where
  "NewParamsWithContext ctx = \<lparr>Body = None, PathParams = [], ptimeout = 0,
     Context = Some ctx, HTTPClient = None\<rparr>"

definition SetContext :: "ctx \<Rightarrow> api_params \<Rightarrow> api_params" where
  "SetContext ctx p = p\<lparr>Context := Some ctx\<rparr>"

definition SetBody :: "api_body option \<Rightarrow> api_params \<Rightarrow> api_params" where
  "SetBody b p = p\<lparr>Body := b\<rparr>"

definition SetTimeout :: "int64 \<Rightarrow> api_params \<Rightarrow> api_params" where
  "SetTimeout t p = p\<lparr>ptimeout := t\<rparr>"

definition SetPathParam :: "string \<Rightarrow> string \<Rightarrow> api_params \<Rightarrow> api_params" where
  "SetPathParam name v p = p\<lparr>PathParams := [(name, v)]\<rparr>"

lemmas params_defs = NewParams_def NewParamsWithContext_def SetContext_def SetBody_def
  SetTimeout_def SetPathParam_def

definition op_submit ::
  "(trace \<Rightarrow> client_operation \<Rightarrow> go_error + 'p http_response)
     \<Rightarrow> ('p http_response \<Rightarrow> go_error + 'p read_result) \<Rightarrow> client_operation \<Rightarrow> trace
     \<Rightarrow> 'p api_result \<times> trace" where
  "op_submit answer reader op tr =
    ((case answer tr op of
        Inl err \<Rightarrow> Inr (Inl err)
      | Inr response \<Rightarrow>
          (case reader response of
             Inl err \<Rightarrow> Inr (Inl err)
           | Inr (ReadOK p) \<Rightarrow> Inr (Inr p)
           | Inr (ReadDefault _ _) \<Rightarrow> Inl FailedTypeAssertion)),
     tr @ [EvApi op])"

lemma snd_op_submit [simp]: "snd (op_submit answer reader op tr) = tr @ [EvApi op]"
  by (simp add: op_submit_def)

subsection \<open>The operations\<close>

definition ops_CreateSnapshot :: "env \<Rightarrow> api_params \<Rightarrow> trace \<Rightarrow> unit api_result \<times> trace" where
  "ops_CreateSnapshot e params = op_submit (api_unit e) CreateSnapshotReader_ReadResponse
     \<lparr>OpID = ''createSnapshot'', Method = ''PUT'', PathPattern = ''/snapshot/create'', Params = params\<rparr>"

definition ops_CreateSyncAction :: "env \<Rightarrow> api_params \<Rightarrow> trace \<Rightarrow> unit api_result \<times> trace" where
  "ops_CreateSyncAction e params = op_submit (api_unit e) CreateSyncActionReader_ReadResponse
     \<lparr>OpID = ''createSyncAction'', Method = ''PUT'', PathPattern = ''/actions'', Params = params\<rparr>"

definition ops_DescribeBalloonConfig :: "env \<Rightarrow> api_params \<Rightarrow> trace \<Rightarrow> Balloon api_result \<times> trace" where
  "ops_DescribeBalloonConfig e params = op_submit (api_balloon e) DescribeBalloonConfigReader_ReadResponse
     \<lparr>OpID = ''describeBalloonConfig'', Method = ''GET'', PathPattern = ''/balloon'', Params = params\<rparr>"

definition ops_DescribeBalloonStats :: "env \<Rightarrow> api_params \<Rightarrow> trace \<Rightarrow> BalloonStats api_result \<times> trace" where
  "ops_DescribeBalloonStats e params = op_submit (api_stats e) DescribeBalloonStatsReader_ReadResponse
     \<lparr>OpID = ''describeBalloonStats'', Method = ''GET'', PathPattern = ''/balloon/statistics'', Params = params\<rparr>"

definition ops_DescribeInstance :: "env \<Rightarrow> api_params \<Rightarrow> trace \<Rightarrow> InstanceInfo api_result \<times> trace" where
  "ops_DescribeInstance e params = op_submit (api_info e) DescribeInstanceReader_ReadResponse
     \<lparr>OpID = ''describeInstance'', Method = ''GET'', PathPattern = ''/'', Params = params\<rparr>"

definition ops_GetExportVMConfig :: "env \<Rightarrow> api_params \<Rightarrow> trace \<Rightarrow> FullVMConfiguration api_result \<times> trace" where
  "ops_GetExportVMConfig e params = op_submit (api_export e) GetExportVMConfigReader_ReadResponse
     \<lparr>OpID = ''getExportVmConfig'', Method = ''GET'', PathPattern = ''/vm/config'', Params = params\<rparr>"

definition ops_GetFirecrackerVersion :: "env \<Rightarrow> api_params \<Rightarrow> trace \<Rightarrow> FirecrackerVersion api_result \<times> trace" where
  "ops_GetFirecrackerVersion e params = op_submit (api_version e) GetFirecrackerVersionReader_ReadResponse
     \<lparr>OpID = ''getFirecrackerVersion'', Method = ''GET'', PathPattern = ''/version'', Params = params\<rparr>"

definition ops_GetMachineConfiguration :: "env \<Rightarrow> api_params \<Rightarrow> trace \<Rightarrow> MachineConfiguration api_result \<times> trace" where
  "ops_GetMachineConfiguration e params = op_submit (api_machine e) GetMachineConfigurationReader_ReadResponse
     \<lparr>OpID = ''getMachineConfiguration'', Method = ''GET'', PathPattern = ''/machine-config'', Params = params\<rparr>"

definition ops_GetMmds :: "env \<Rightarrow> api_params \<Rightarrow> trace \<Rightarrow> string api_result \<times> trace" where
  "ops_GetMmds e params = op_submit (api_json e) GetMmdsReader_ReadResponse
     \<lparr>OpID = ''getMmds'', Method = ''GET'', PathPattern = ''/mmds'', Params = params\<rparr>"

definition ops_LoadSnapshot :: "env \<Rightarrow> api_params \<Rightarrow> trace \<Rightarrow> unit api_result \<times> trace" where
  "ops_LoadSnapshot e params = op_submit (api_unit e) LoadSnapshotReader_ReadResponse
     \<lparr>OpID = ''loadSnapshot'', Method = ''PUT'', PathPattern = ''/snapshot/load'', Params = params\<rparr>"

definition ops_PatchBalloon :: "env \<Rightarrow> api_params \<Rightarrow> trace \<Rightarrow> unit api_result \<times> trace" where
  "ops_PatchBalloon e params = op_submit (api_unit e) PatchBalloonReader_ReadResponse
     \<lparr>OpID = ''patchBalloon'', Method = ''PATCH'', PathPattern = ''/balloon'', Params = params\<rparr>"

definition ops_PatchBalloonStatsInterval :: "env \<Rightarrow> api_params \<Rightarrow> trace \<Rightarrow> unit api_result \<times> trace" where
  "ops_PatchBalloonStatsInterval e params = op_submit (api_unit e) PatchBalloonStatsIntervalReader_ReadResponse
     \<lparr>OpID = ''patchBalloonStatsInterval'', Method = ''PATCH'', PathPattern = ''/balloon/statistics'', Params = params\<rparr>"

definition ops_PatchGuestDriveByID :: "env \<Rightarrow> api_params \<Rightarrow> trace \<Rightarrow> unit api_result \<times> trace" where
  "ops_PatchGuestDriveByID e params = op_submit (api_unit e) PatchGuestDriveByIDReader_ReadResponse
     \<lparr>OpID = ''patchGuestDriveByID'', Method = ''PATCH'', PathPattern = ''/drives/{drive_id}'', Params = params\<rparr>"

definition ops_PatchGuestNetworkInterfaceByID :: "env \<Rightarrow> api_params \<Rightarrow> trace \<Rightarrow> unit api_result \<times> trace" where
  "ops_PatchGuestNetworkInterfaceByID e params = op_submit (api_unit e) PatchGuestNetworkInterfaceByIDReader_ReadResponse
     \<lparr>OpID = ''patchGuestNetworkInterfaceByID'', Method = ''PATCH'', PathPattern = ''/network-interfaces/{iface_id}'', Params = params\<rparr>"

definition ops_PatchMachineConfiguration :: "env \<Rightarrow> api_params \<Rightarrow> trace \<Rightarrow> unit api_result \<times> trace" where
  "ops_PatchMachineConfiguration e params = op_submit (api_unit e) PatchMachineConfigurationReader_ReadResponse
     \<lparr>OpID = ''patchMachineConfiguration'', Method = ''PATCH'', PathPattern = ''/machine-config'', Params = params\<rparr>"

definition ops_PatchMmds :: "env \<Rightarrow> api_params \<Rightarrow> trace \<Rightarrow> unit api_result \<times> trace" where
  "ops_PatchMmds e params = op_submit (api_unit e) PatchMmdsReader_ReadResponse
     \<lparr>OpID = ''patchMmds'', Method = ''PATCH'', PathPattern = ''/mmds'', Params = params\<rparr>"

definition ops_PatchVM :: "env \<Rightarrow> api_params \<Rightarrow> trace \<Rightarrow> unit api_result \<times> trace" where
  "ops_PatchVM e params = op_submit (api_unit e) PatchVMReader_ReadResponse
     \<lparr>OpID = ''patchVm'', Method = ''PATCH'', PathPattern = ''/vm'', Params = params\<rparr>"

definition ops_PutBalloon :: "env \<Rightarrow> api_params \<Rightarrow> trace \<Rightarrow> unit api_result \<times> trace" where
  "ops_PutBalloon e params = op_submit (api_unit e) PutBalloonReader_ReadResponse
     \<lparr>OpID = ''putBalloon'', Method = ''PUT'', PathPattern = ''/balloon'', Params = params\<rparr>"

definition ops_PutCPUConfiguration :: "env \<Rightarrow> api_params \<Rightarrow> trace \<Rightarrow> unit api_result \<times> trace" where
  "ops_PutCPUConfiguration e params = op_submit (api_unit e) PutCPUConfigurationReader_ReadResponse
     \<lparr>OpID = ''putCpuConfiguration'', Method = ''PUT'', PathPattern = ''/cpu-config'', Params = params\<rparr>"

definition ops_PutEntropyDevice :: "env \<Rightarrow> api_params \<Rightarrow> trace \<Rightarrow> unit api_result \<times> trace" where
  "ops_PutEntropyDevice e params = op_submit (api_unit e) PutEntropyDeviceReader_ReadResponse
     \<lparr>OpID = ''putEntropyDevice'', Method = ''PUT'', PathPattern = ''/entropy'', Params = params\<rparr>"

definition ops_PutGuestBootSource :: "env \<Rightarrow> api_params \<Rightarrow> trace \<Rightarrow> unit api_result \<times> trace" where
  "ops_PutGuestBootSource e params = op_submit (api_unit e) PutGuestBootSourceReader_ReadResponse
     \<lparr>OpID = ''putGuestBootSource'', Method = ''PUT'', PathPattern = ''/boot-source'', Params = params\<rparr>"

definition ops_PutGuestDriveByID :: "env \<Rightarrow> api_params \<Rightarrow> trace \<Rightarrow> unit api_result \<times> trace" where
  "ops_PutGuestDriveByID e params = op_submit (api_unit e) PutGuestDriveByIDReader_ReadResponse
     \<lparr>OpID = ''putGuestDriveByID'', Method = ''PUT'', PathPattern = ''/drives/{drive_id}'', Params = params\<rparr>"

definition ops_PutGuestNetworkInterfaceByID :: "env \<Rightarrow> api_params \<Rightarrow> trace \<Rightarrow> unit api_result \<times> trace" where
  "ops_PutGuestNetworkInterfaceByID e params = op_submit (api_unit e) PutGuestNetworkInterfaceByIDReader_ReadResponse
     \<lparr>OpID = ''putGuestNetworkInterfaceByID'', Method = ''PUT'', PathPattern = ''/network-interfaces/{iface_id}'', Params = params\<rparr>"

definition ops_PutGuestVsock :: "env \<Rightarrow> api_params \<Rightarrow> trace \<Rightarrow> unit api_result \<times> trace" where
  "ops_PutGuestVsock e params = op_submit (api_unit e) PutGuestVsockReader_ReadResponse
     \<lparr>OpID = ''putGuestVsock'', Method = ''PUT'', PathPattern = ''/vsock'', Params = params\<rparr>"

definition ops_PutLogger :: "env \<Rightarrow> api_params \<Rightarrow> trace \<Rightarrow> unit api_result \<times> trace" where
  "ops_PutLogger e params = op_submit (api_unit e) PutLoggerReader_ReadResponse
     \<lparr>OpID = ''putLogger'', Method = ''PUT'', PathPattern = ''/logger'', Params = params\<rparr>"

definition ops_PutMachineConfiguration :: "env \<Rightarrow> api_params \<Rightarrow> trace \<Rightarrow> unit api_result \<times> trace" where
  "ops_PutMachineConfiguration e params = op_submit (api_unit e) PutMachineConfigurationReader_ReadResponse
     \<lparr>OpID = ''putMachineConfiguration'', Method = ''PUT'', PathPattern = ''/machine-config'', Params = params\<rparr>"

definition ops_PutMetrics :: "env \<Rightarrow> api_params \<Rightarrow> trace \<Rightarrow> unit api_result \<times> trace" where
  "ops_PutMetrics e params = op_submit (api_unit e) PutMetricsReader_ReadResponse
     \<lparr>OpID = ''putMetrics'', Method = ''PUT'', PathPattern = ''/metrics'', Params = params\<rparr>"

definition ops_PutMmds :: "env \<Rightarrow> api_params \<Rightarrow> trace \<Rightarrow> unit api_result \<times> trace" where
  "ops_PutMmds e params = op_submit (api_unit e) PutMmdsReader_ReadResponse
     \<lparr>OpID = ''putMmds'', Method = ''PUT'', PathPattern = ''/mmds'', Params = params\<rparr>"

definition ops_PutMmdsConfig :: "env \<Rightarrow> api_params \<Rightarrow> trace \<Rightarrow> unit api_result \<times> trace" where
  "ops_PutMmdsConfig e params = op_submit (api_unit e) PutMmdsConfigReader_ReadResponse
     \<lparr>OpID = ''putMmdsConfig'', Method = ''PUT'', PathPattern = ''/mmds/config'', Params = params\<rparr>"

lemmas ops_defs =
  ops_CreateSnapshot_def
  ops_CreateSyncAction_def
  ops_DescribeBalloonConfig_def
  ops_DescribeBalloonStats_def
  ops_DescribeInstance_def
  ops_GetExportVMConfig_def
  ops_GetFirecrackerVersion_def
  ops_GetMachineConfiguration_def
  ops_GetMmds_def
  ops_LoadSnapshot_def
  ops_PatchBalloon_def
  ops_PatchBalloonStatsInterval_def
  ops_PatchGuestDriveByID_def
  ops_PatchGuestNetworkInterfaceByID_def
  ops_PatchMachineConfiguration_def
  ops_PatchMmds_def
  ops_PatchVM_def
  ops_PutBalloon_def
  ops_PutCPUConfiguration_def
  ops_PutEntropyDevice_def
  ops_PutGuestBootSource_def
  ops_PutGuestDriveByID_def
  ops_PutGuestNetworkInterfaceByID_def
  ops_PutGuestVsock_def
  ops_PutLogger_def
  ops_PutMachineConfiguration_def
  ops_PutMetrics_def
  ops_PutMmds_def
  ops_PutMmdsConfig_def

subsection \<open>Outcomes\<close>

lemma op_submit_panics_iff:
  "fst (op_submit answer reader op tr) = Inl FailedTypeAssertion \<longleftrightarrow>
     (\<exists>r c p. answer tr op = Inr r \<and> reader r = Inr (ReadDefault c p))"
  by (simp add: op_submit_def split: sum.split read_result.split)

lemma op_submit_no_other_panic:
  "fst (op_submit answer reader op tr) = Inl p \<Longrightarrow> p = FailedTypeAssertion"
  by (auto simp: op_submit_def split: sum.splits read_result.splits)

subsection \<open>Operations without a response body\<close>

definition no_content_ops :: "(env \<Rightarrow> api_params \<Rightarrow> trace \<Rightarrow> unit api_result \<times> trace) list" where
  "no_content_ops =
     [ops_CreateSnapshot,
      ops_CreateSyncAction,
      ops_LoadSnapshot,
      ops_PatchBalloon,
      ops_PatchBalloonStatsInterval,
      ops_PatchGuestDriveByID,
      ops_PatchGuestNetworkInterfaceByID,
      ops_PatchMachineConfiguration,
      ops_PatchMmds,
      ops_PatchVM,
      ops_PutBalloon,
      ops_PutCPUConfiguration,
      ops_PutEntropyDevice,
      ops_PutGuestBootSource,
      ops_PutGuestDriveByID,
      ops_PutGuestNetworkInterfaceByID,
      ops_PutGuestVsock,
      ops_PutLogger,
      ops_PutMachineConfiguration,
      ops_PutMetrics,
      ops_PutMmds,
      ops_PutMmdsConfig]"

text \<open>
  Each of them submits with a reader for status 204 that has at most an error type for 400, and the
  texts of these errors name its method and its path.
\<close>

definition names_request :: "client_operation \<Rightarrow> int \<Rightarrow> ApiError \<Rightarrow> string \<Rightarrow> bool" where
  "names_request op code payload text \<longleftrightarrow>
     prefix (''['' @ Method op @ '' '' @ PathPattern op @ '']['' @ itoa code @ ''] '') text
   \<and> suffix (''&{FaultMessage:'' @ FaultMessage payload @ ''}'') text"

definition named :: "client_operation \<Rightarrow> int \<Rightarrow> ApiError \<Rightarrow> string \<Rightarrow> bool" where
  "named op code p tname \<longleftrightarrow> (\<exists>text. api_error_text tname code p = Some text \<and> names_request op code p text)"

lemma namedI:
  assumes "api_error_text tname code p = Some (pre @ itoa code @ mid @ ApiError_plusv p)"
    and "pre = ''['' @ Method op @ '' '' @ PathPattern op @ ''][''" and "take 2 mid = ''] ''"
  shows "named op code p tname"
proof -
  obtain m where "mid = '']'' @ '' '' @ m"
    using assms(3) append_take_drop_id [of 2 mid] by (metis append.assoc append_Cons append_Nil)
  with assms(1,2) show ?thesis
    by (auto simp: named_def names_request_def ApiError_plusv_def suffix_appendI suffix_ConsI)
qed

definition texts_name :: "client_operation \<Rightarrow> string \<Rightarrow> (int \<times> string) option \<Rightarrow> bool" where
  "texts_name op name failure \<longleftrightarrow>
     (\<forall>code p. named op code p (name @ ''Default''))
   \<and> (\<forall>code t p. failure = Some (code, t) \<longrightarrow> named op code p (name @ t))"

lemma texts_nameI:
  "(\<And>code p. named op code p (name @ ''Default'')) \<Longrightarrow> texts_name op name None"
  "(\<And>code p. named op code p (name @ ''Default'')) \<Longrightarrow> (\<And>p. named op code' p (name @ t)) \<Longrightarrow>
     texts_name op name (Some (code', t))"
  by (simp_all add: texts_name_def)

lemma no_content_all:
  "list_all (\<lambda>ops. \<exists>name failure op.
      ops e params tr = op_submit (api_unit e) (ReadResponse name 204 () False failure) op tr
    \<and> texts_name op name failure
    \<and> (failure = None \<or> failure = Some (400, ''BadRequest''))) no_content_ops"
  unfolding no_content_ops_def ops_defs reader_eqs list.pred_inject
  by (intro conjI exI TrueI; (rule refl)?)
    (((rule texts_nameI; rule namedI, simp only: append.simps, rule error_text_eqs; simp) | simp)+)

lemma no_content_submit:
  assumes "ops \<in> set no_content_ops"
  obtains name failure op where
    "ops e params tr = op_submit (api_unit e) (ReadResponse name 204 () False failure) op tr"
    "texts_name op name failure" "failure = None \<or> failure = Some (400, ''BadRequest'')"
proof -
  have "\<exists>name failure op. ops e params tr = op_submit (api_unit e) (ReadResponse name 204 () False failure) op tr
      \<and> texts_name op name failure \<and> (failure = None \<or> failure = Some (400, ''BadRequest''))"
    using no_content_all [of e params tr] assms unfolding list_all_iff by (rule bspec)
  then show thesis using that by blast
qed

lemma no_content_outcome:
  assumes "failure = None \<or> failure = Some (400, tname)"
  shows "case fst (op_submit answer (ReadResponse name 204 () False failure) op tr) of
     Inr (Inr u) \<Rightarrow> (\<exists>r. answer tr op = Inr r \<and> Code r = 204)
   | Inr (Inl err) \<Rightarrow> answer tr op = Inl err
       \<or> (\<exists>r. answer tr op = Inr r \<and> Code r \<noteq> 204 \<and>
            (Code r div 100 = 2 \<longrightarrow> err_body r = ConsumeFailed err))
   | Inl p \<Rightarrow> p = FailedTypeAssertion
       \<and> (\<exists>r q. answer tr op = Inr r \<and> Code r \<noteq> 204 \<and> Code r div 100 = 2
            \<and> readPayload zero_ApiError (err_body r) = Inr q)"
proof (cases "answer tr op")
  case (Inl err)
  then show ?thesis by (simp add: op_submit_def)
next
  case (Inr r)
  from assms show ?thesis
    by (elim disjE; cases "Code r = 204"; cases "Code r = 400")
      (simp_all add: op_submit_def Inr ReadResponse_def read_failure_def read_default_def readPayload_def
        split: consumed.split)
qed

subsection \<open>Properties\<close>

text \<open>C21: Each of the 22 operations without a response body submits one request and succeeds exactly on
  status 204. It returns an error if the transport fails, on any status outside 2xx, and on a 2xx
  whose body cannot be read; on a 2xx other than 204 whose body can be read it panics, in the type
  assertion on the result of its reader.\<close>

theorem no_content_operations:
  assumes "ops \<in> set no_content_ops"
  shows "\<exists>op. snd (ops e params tr) = tr @ [EvApi op] \<and>
   (case fst (ops e params tr) of
     Inr (Inr u) \<Rightarrow> (\<exists>r. api_unit e tr op = Inr r \<and> Code r = 204)
   | Inr (Inl err) \<Rightarrow> api_unit e tr op = Inl err
       \<or> (\<exists>r. api_unit e tr op = Inr r \<and> Code r \<noteq> 204 \<and>
            (Code r div 100 = 2 \<longrightarrow> err_body r = ConsumeFailed err))
   | Inl p \<Rightarrow> p = FailedTypeAssertion
       \<and> (\<exists>r q. api_unit e tr op = Inr r \<and> Code r \<noteq> 204 \<and> Code r div 100 = 2
            \<and> readPayload zero_ApiError (err_body r) = Inr q))"
proof -
  from assms obtain name failure op where
    s: "ops e params tr = op_submit (api_unit e) (ReadResponse name 204 () False failure) op tr"
    and "failure = None \<or> failure = Some (400, ''BadRequest'')" by (rule no_content_submit)
  then show ?thesis
    using no_content_outcome [where answer = "api_unit e" and name = name and op = op and tr = tr
        and failure = failure and tname = "''BadRequest''"]
    by (intro exI [of _ op]) (simp only: s snd_op_submit)
qed

theorem no_content_operations_witness:
  "fst (ops_PutLogger (calm_env\<lparr>api_unit := (\<lambda>tr op. Inr (calm_response 202 ()))\<rparr>)
      (NewParams calm_env) []) = Inl FailedTypeAssertion
   \<and> (\<exists>op. snd (ops_PutLogger (calm_env\<lparr>api_unit := (\<lambda>tr op. Inr (calm_response 202 ()))\<rparr>)
        (NewParams calm_env) []) = [] @ [EvApi op])"
proof -
  let ?e = "calm_env\<lparr>api_unit := (\<lambda>tr op. Inr (calm_response 202 ()))\<rparr>"
  have "ops_PutLogger \<in> set no_content_ops" by (simp add: no_content_ops_def)
  from no_content_operations [OF this, of ?e "NewParams calm_env" "[]"]
  have "\<exists>op. snd (ops_PutLogger ?e (NewParams calm_env) []) = [] @ [EvApi op]" by blast
  then show ?thesis
    by (simp add: ops_PutLogger_def op_submit_def reader_defs calm_response_def readPayload_def)
qed

text \<open>The text of an error that an operation makes of a response names the request: it starts with
  the method, the path pattern and the status code of the response, and ends with the fault message.\<close>

lemma operation_error_text:
  assumes "ops \<in> set no_content_ops" and "fst (ops e params tr) = Inr (Inl (ApiErrorResponse t code payload))"
    and "\<forall>op err. api_unit e tr op \<noteq> Inl err"
    and "\<forall>op r err. api_unit e tr op = Inr r \<longrightarrow> err_body r \<noteq> ConsumeFailed err"
  shows "\<exists>op r text. snd (ops e params tr) = tr @ [EvApi op] \<and> api_unit e tr op = Inr r
    \<and> api_error_text t code payload = Some text
    \<and> prefix (''['' @ Method op @ '' '' @ PathPattern op @ '']['' @ itoa (Code r) @ ''] '') text
    \<and> suffix (''&{FaultMessage:'' @ FaultMessage payload @ ''}'') text"
proof -
  from assms(1) obtain name failure op where
    s: "ops e params tr = op_submit (api_unit e) (ReadResponse name 204 () False failure) op tr"
    and n: "texts_name op name failure" by (rule no_content_submit)
  from assms(3) obtain r where r: "api_unit e tr op = Inr r" by (cases "api_unit e tr op") auto
  with assms(2,4) s have c: "code = Code r" "t = name @ ''Default'' \<or> (\<exists>f. failure = Some (code, f) \<and> t = name @ f)"
    by (auto simp: op_submit_def ReadResponse_def read_default_def read_failure_def readPayload_def
        split: if_splits option.splits consumed.splits sum.splits read_result.splits)
  with n have "named op code payload t" by (auto simp: texts_name_def)
  with s r c(1) show ?thesis
    by (intro exI [of _ op] exI [of _ r]) (auto simp: named_def names_request_def)
qed

lemma operation_error_text_witness:
  "\<exists>text. api_error_text ''PutGuestVsockBadRequest'' 400 zero_ApiError = Some text \<and> prefix ''[PUT /vsock][400] '' text"
proof -
  let ?e = "calm_env\<lparr>api_unit := (\<lambda>tr op. Inr (calm_response 400 ()))\<rparr>"
  have o: "ops_PutGuestVsock ?e (NewParams ?e) [] =
      (Inr (Inl (ApiErrorResponse ''PutGuestVsockBadRequest'' 400 zero_ApiError)),
       [EvApi \<lparr>OpID = ''putGuestVsock'', Method = ''PUT'', PathPattern = ''/vsock'', Params = NewParams ?e\<rparr>])"
    by (simp add: ops_PutGuestVsock_def op_submit_def reader_defs calm_response_def readPayload_def)
  have "ops_PutGuestVsock \<in> set no_content_ops" by (simp add: no_content_ops_def)
  moreover have "itoa 400 = ''400''" by code_simp
  ultimately show ?thesis
    using operation_error_text [of ops_PutGuestVsock ?e "NewParams ?e" "[]"] o
    by (auto simp: calm_response_def simp del: itoa_def)
qed

text \<open>An operation with a payload returns one only on status 200, and then the one that the
  consumer read, or a fresh one for an empty body; every call submits one request.\<close>

lemma payload_only_on_200:
  "(fst (op_submit answer (ReadResponse name 200 zero True failure) op tr) = Inr (Inr p) \<longleftrightarrow>
     (\<exists>r. answer tr op = Inr r \<and> Code r = 200 \<and>
        (ok_body r = Consumed p \<or> (ok_body r = ConsumedEOF \<and> p = zero))))
   \<and> snd (op_submit answer (ReadResponse name 200 zero True failure) op tr) = tr @ [EvApi op]"
proof -
  have "fst (op_submit answer reader op tr) = Inr (Inr p) \<longleftrightarrow>
      (\<exists>r. answer tr op = Inr r \<and> reader r = Inr (ReadOK p))" for reader
    by (simp add: op_submit_def split: sum.split read_result.split)
  then show ?thesis
    by (auto simp: ReadResponse_OK_iff readPayload_def split: consumed.split_asm)
qed

end
