(* ===== verification/Requests.thy ===== *)
theory Requests
  imports Operations
begin

text \<open>
  The request that an operation writes (\<open>WriteToRequest\<close> of \<open>client/operations/*_parameters.go\<close>): the
  timeout, the body if there is one, and the parameters of the path. The request of the go-openapi
  runtime is a parameter, with its setters; each may fail.
\<close>

record 'r request_lib =
  rl_SetTimeout :: "int64 \<Rightarrow> 'r \<Rightarrow> go_error option \<times> 'r"
  rl_SetBodyParam :: "api_body \<Rightarrow> 'r \<Rightarrow> go_error option \<times> 'r"
  rl_SetPathParam :: "string \<Rightarrow> string \<Rightarrow> 'r \<Rightarrow> go_error option \<times> 'r"

text \<open>One write after another, up to the first that fails.\<close>

fun write_all ::
  "('r \<Rightarrow> go_error option \<times> 'r) list \<Rightarrow> 'r \<Rightarrow> go_error option \<times> 'r" where
  "write_all [] r = (None, r)"
| "write_all (w # ws) r =
    (case w r of (Some err, r') \<Rightarrow> (Some err, r') | (None, r') \<Rightarrow> write_all ws r')"

definition write_timeout :: "'r request_lib \<Rightarrow> api_params \<Rightarrow> 'r \<Rightarrow> go_error option \<times> 'r" where
  "write_timeout lib params = rl_SetTimeout lib (ptimeout params)"

definition write_body :: "'r request_lib \<Rightarrow> api_params \<Rightarrow> 'r \<Rightarrow> go_error option \<times> 'r" where
  "write_body lib params r =
    (case Body params of None \<Rightarrow> (None, r) | Some body \<Rightarrow> rl_SetBodyParam lib body r)"

text \<open>A path parameter that was never set is the empty string.\<close>

definition path_param :: "string \<Rightarrow> api_params \<Rightarrow> string" where
  "path_param name params = (case map_of (PathParams params) name of None \<Rightarrow> '''' | Some v \<Rightarrow> v)"

definition write_path :: "'r request_lib \<Rightarrow> string \<Rightarrow> api_params \<Rightarrow> 'r \<Rightarrow> go_error option \<times> 'r" where
  "write_path lib name params = rl_SetPathParam lib name (path_param name params)"

definition CreateSnapshotParams_WriteToRequest ::
  "'r request_lib \<Rightarrow> api_params \<Rightarrow> 'r \<Rightarrow> go_error option \<times> 'r" where
  "CreateSnapshotParams_WriteToRequest lib params =
     write_all [write_timeout lib params, write_body lib params]"

definition CreateSyncActionParams_WriteToRequest ::
  "'r request_lib \<Rightarrow> api_params \<Rightarrow> 'r \<Rightarrow> go_error option \<times> 'r" where
  "CreateSyncActionParams_WriteToRequest lib params =
     write_all [write_timeout lib params, write_body lib params]"

definition DescribeBalloonConfigParams_WriteToRequest ::
  "'r request_lib \<Rightarrow> api_params \<Rightarrow> 'r \<Rightarrow> go_error option \<times> 'r" where
  "DescribeBalloonConfigParams_WriteToRequest lib params =
     write_all [write_timeout lib params]"

definition DescribeBalloonStatsParams_WriteToRequest ::
  "'r request_lib \<Rightarrow> api_params \<Rightarrow> 'r \<Rightarrow> go_error option \<times> 'r" where
  "DescribeBalloonStatsParams_WriteToRequest lib params =
     write_all [write_timeout lib params]"

definition DescribeInstanceParams_WriteToRequest ::
  "'r request_lib \<Rightarrow> api_params \<Rightarrow> 'r \<Rightarrow> go_error option \<times> 'r" where
  "DescribeInstanceParams_WriteToRequest lib params =
     write_all [write_timeout lib params]"

definition GetExportVMConfigParams_WriteToRequest ::
  "'r request_lib \<Rightarrow> api_params \<Rightarrow> 'r \<Rightarrow> go_error option \<times> 'r" where
  "GetExportVMConfigParams_WriteToRequest lib params =
     write_all [write_timeout lib params]"

definition GetFirecrackerVersionParams_WriteToRequest ::
  "'r request_lib \<Rightarrow> api_params \<Rightarrow> 'r \<Rightarrow> go_error option \<times> 'r" where
  "GetFirecrackerVersionParams_WriteToRequest lib params =
     write_all [write_timeout lib params]"

definition GetMachineConfigurationParams_WriteToRequest ::
  "'r request_lib \<Rightarrow> api_params \<Rightarrow> 'r \<Rightarrow> go_error option \<times> 'r" where
  "GetMachineConfigurationParams_WriteToRequest lib params =
     write_all [write_timeout lib params]"

definition GetMmdsParams_WriteToRequest ::
  "'r request_lib \<Rightarrow> api_params \<Rightarrow> 'r \<Rightarrow> go_error option \<times> 'r" where
  "GetMmdsParams_WriteToRequest lib params =
     write_all [write_timeout lib params]"

definition LoadSnapshotParams_WriteToRequest ::
  "'r request_lib \<Rightarrow> api_params \<Rightarrow> 'r \<Rightarrow> go_error option \<times> 'r" where
  "LoadSnapshotParams_WriteToRequest lib params =
     write_all [write_timeout lib params, write_body lib params]"

definition PatchBalloonParams_WriteToRequest ::
  "'r request_lib \<Rightarrow> api_params \<Rightarrow> 'r \<Rightarrow> go_error option \<times> 'r" where
  "PatchBalloonParams_WriteToRequest lib params =
     write_all [write_timeout lib params, write_body lib params]"

definition PatchBalloonStatsIntervalParams_WriteToRequest ::
  "'r request_lib \<Rightarrow> api_params \<Rightarrow> 'r \<Rightarrow> go_error option \<times> 'r" where
  "PatchBalloonStatsIntervalParams_WriteToRequest lib params =
     write_all [write_timeout lib params, write_body lib params]"

definition PatchGuestDriveByIDParams_WriteToRequest ::
  "'r request_lib \<Rightarrow> api_params \<Rightarrow> 'r \<Rightarrow> go_error option \<times> 'r" where
  "PatchGuestDriveByIDParams_WriteToRequest lib params =
     write_all [write_timeout lib params, write_body lib params, write_path lib ''drive_id'' params]"

definition PatchGuestNetworkInterfaceByIDParams_WriteToRequest ::
  "'r request_lib \<Rightarrow> api_params \<Rightarrow> 'r \<Rightarrow> go_error option \<times> 'r" where
  "PatchGuestNetworkInterfaceByIDParams_WriteToRequest lib params =
     write_all [write_timeout lib params, write_body lib params, write_path lib ''iface_id'' params]"

definition PatchMachineConfigurationParams_WriteToRequest ::
  "'r request_lib \<Rightarrow> api_params \<Rightarrow> 'r \<Rightarrow> go_error option \<times> 'r" where
  "PatchMachineConfigurationParams_WriteToRequest lib params =
     write_all [write_timeout lib params, write_body lib params]"

definition PatchMmdsParams_WriteToRequest ::
  "'r request_lib \<Rightarrow> api_params \<Rightarrow> 'r \<Rightarrow> go_error option \<times> 'r" where
  "PatchMmdsParams_WriteToRequest lib params =
     write_all [write_timeout lib params, write_body lib params]"

definition PatchVMParams_WriteToRequest ::
  "'r request_lib \<Rightarrow> api_params \<Rightarrow> 'r \<Rightarrow> go_error option \<times> 'r" where
  "PatchVMParams_WriteToRequest lib params =
     write_all [write_timeout lib params, write_body lib params]"

definition PutBalloonParams_WriteToRequest ::
  "'r request_lib \<Rightarrow> api_params \<Rightarrow> 'r \<Rightarrow> go_error option \<times> 'r" where
  "PutBalloonParams_WriteToRequest lib params =
     write_all [write_timeout lib params, write_body lib params]"

definition PutCPUConfigurationParams_WriteToRequest ::
  "'r request_lib \<Rightarrow> api_params \<Rightarrow> 'r \<Rightarrow> go_error option \<times> 'r" where
  "PutCPUConfigurationParams_WriteToRequest lib params =
     write_all [write_timeout lib params, write_body lib params]"

definition PutEntropyDeviceParams_WriteToRequest ::
  "'r request_lib \<Rightarrow> api_params \<Rightarrow> 'r \<Rightarrow> go_error option \<times> 'r" where
  "PutEntropyDeviceParams_WriteToRequest lib params =
     write_all [write_timeout lib params, write_body lib params]"

definition PutGuestBootSourceParams_WriteToRequest ::
  "'r request_lib \<Rightarrow> api_params \<Rightarrow> 'r \<Rightarrow> go_error option \<times> 'r" where
  "PutGuestBootSourceParams_WriteToRequest lib params =
     write_all [write_timeout lib params, write_body lib params]"

definition PutGuestDriveByIDParams_WriteToRequest ::
  "'r request_lib \<Rightarrow> api_params \<Rightarrow> 'r \<Rightarrow> go_error option \<times> 'r" where
  "PutGuestDriveByIDParams_WriteToRequest lib params =
     write_all [write_timeout lib params, write_body lib params, write_path lib ''drive_id'' params]"

definition PutGuestNetworkInterfaceByIDParams_WriteToRequest ::
  "'r request_lib \<Rightarrow> api_params \<Rightarrow> 'r \<Rightarrow> go_error option \<times> 'r" where
  "PutGuestNetworkInterfaceByIDParams_WriteToRequest lib params =
     write_all [write_timeout lib params, write_body lib params, write_path lib ''iface_id'' params]"

definition PutGuestVsockParams_WriteToRequest ::
  "'r request_lib \<Rightarrow> api_params \<Rightarrow> 'r \<Rightarrow> go_error option \<times> 'r" where
  "PutGuestVsockParams_WriteToRequest lib params =
     write_all [write_timeout lib params, write_body lib params]"

definition PutLoggerParams_WriteToRequest ::
  "'r request_lib \<Rightarrow> api_params \<Rightarrow> 'r \<Rightarrow> go_error option \<times> 'r" where
  "PutLoggerParams_WriteToRequest lib params =
     write_all [write_timeout lib params, write_body lib params]"

definition PutMachineConfigurationParams_WriteToRequest ::
  "'r request_lib \<Rightarrow> api_params \<Rightarrow> 'r \<Rightarrow> go_error option \<times> 'r" where
  "PutMachineConfigurationParams_WriteToRequest lib params =
     write_all [write_timeout lib params, write_body lib params]"

definition PutMetricsParams_WriteToRequest ::
  "'r request_lib \<Rightarrow> api_params \<Rightarrow> 'r \<Rightarrow> go_error option \<times> 'r" where
  "PutMetricsParams_WriteToRequest lib params =
     write_all [write_timeout lib params, write_body lib params]"

definition PutMmdsParams_WriteToRequest ::
  "'r request_lib \<Rightarrow> api_params \<Rightarrow> 'r \<Rightarrow> go_error option \<times> 'r" where
  "PutMmdsParams_WriteToRequest lib params =
     write_all [write_timeout lib params, write_body lib params]"

definition PutMmdsConfigParams_WriteToRequest ::
  "'r request_lib \<Rightarrow> api_params \<Rightarrow> 'r \<Rightarrow> go_error option \<times> 'r" where
  "PutMmdsConfigParams_WriteToRequest lib params =
     write_all [write_timeout lib params, write_body lib params]"

text \<open>The runtime calls \<open>WriteToRequest\<close> of the parameters of the operation, whose type goes with its id.\<close>

definition WriteToRequest ::
  "'r request_lib \<Rightarrow> client_operation \<Rightarrow> ('r \<Rightarrow> go_error option \<times> 'r) option" where
  "WriteToRequest lib op =
    map_option (\<lambda>w. w (Params op)) (map_of
     [(''createSnapshot'', CreateSnapshotParams_WriteToRequest lib),
      (''createSyncAction'', CreateSyncActionParams_WriteToRequest lib),
      (''describeBalloonConfig'', DescribeBalloonConfigParams_WriteToRequest lib),
      (''describeBalloonStats'', DescribeBalloonStatsParams_WriteToRequest lib),
      (''describeInstance'', DescribeInstanceParams_WriteToRequest lib),
      (''getExportVmConfig'', GetExportVMConfigParams_WriteToRequest lib),
      (''getFirecrackerVersion'', GetFirecrackerVersionParams_WriteToRequest lib),
      (''getMachineConfiguration'', GetMachineConfigurationParams_WriteToRequest lib),
      (''getMmds'', GetMmdsParams_WriteToRequest lib),
      (''loadSnapshot'', LoadSnapshotParams_WriteToRequest lib),
      (''patchBalloon'', PatchBalloonParams_WriteToRequest lib),
      (''patchBalloonStatsInterval'', PatchBalloonStatsIntervalParams_WriteToRequest lib),
      (''patchGuestDriveByID'', PatchGuestDriveByIDParams_WriteToRequest lib),
      (''patchGuestNetworkInterfaceByID'', PatchGuestNetworkInterfaceByIDParams_WriteToRequest lib),
      (''patchMachineConfiguration'', PatchMachineConfigurationParams_WriteToRequest lib),
      (''patchMmds'', PatchMmdsParams_WriteToRequest lib),
      (''patchVm'', PatchVMParams_WriteToRequest lib),
      (''putBalloon'', PutBalloonParams_WriteToRequest lib),
      (''putCpuConfiguration'', PutCPUConfigurationParams_WriteToRequest lib),
      (''putEntropyDevice'', PutEntropyDeviceParams_WriteToRequest lib),
      (''putGuestBootSource'', PutGuestBootSourceParams_WriteToRequest lib),
      (''putGuestDriveByID'', PutGuestDriveByIDParams_WriteToRequest lib),
      (''putGuestNetworkInterfaceByID'', PutGuestNetworkInterfaceByIDParams_WriteToRequest lib),
      (''putGuestVsock'', PutGuestVsockParams_WriteToRequest lib),
      (''putLogger'', PutLoggerParams_WriteToRequest lib),
      (''putMachineConfiguration'', PutMachineConfigurationParams_WriteToRequest lib),
      (''putMetrics'', PutMetricsParams_WriteToRequest lib),
      (''putMmds'', PutMmdsParams_WriteToRequest lib),
      (''putMmdsConfig'', PutMmdsConfigParams_WriteToRequest lib)] (OpID op))"

lemma writers:
  "WriteToRequest lib \<lparr>OpID = ''createSnapshot'', Method = m, PathPattern = pat, Params = p\<rparr> = Some (CreateSnapshotParams_WriteToRequest lib p)"
  "WriteToRequest lib \<lparr>OpID = ''createSyncAction'', Method = m, PathPattern = pat, Params = p\<rparr> = Some (CreateSyncActionParams_WriteToRequest lib p)"
  "WriteToRequest lib \<lparr>OpID = ''describeBalloonConfig'', Method = m, PathPattern = pat, Params = p\<rparr> = Some (DescribeBalloonConfigParams_WriteToRequest lib p)"
  "WriteToRequest lib \<lparr>OpID = ''describeBalloonStats'', Method = m, PathPattern = pat, Params = p\<rparr> = Some (DescribeBalloonStatsParams_WriteToRequest lib p)"
  "WriteToRequest lib \<lparr>OpID = ''describeInstance'', Method = m, PathPattern = pat, Params = p\<rparr> = Some (DescribeInstanceParams_WriteToRequest lib p)"
  "WriteToRequest lib \<lparr>OpID = ''getExportVmConfig'', Method = m, PathPattern = pat, Params = p\<rparr> = Some (GetExportVMConfigParams_WriteToRequest lib p)"
  "WriteToRequest lib \<lparr>OpID = ''getFirecrackerVersion'', Method = m, PathPattern = pat, Params = p\<rparr> = Some (GetFirecrackerVersionParams_WriteToRequest lib p)"
  "WriteToRequest lib \<lparr>OpID = ''getMachineConfiguration'', Method = m, PathPattern = pat, Params = p\<rparr> = Some (GetMachineConfigurationParams_WriteToRequest lib p)"
  "WriteToRequest lib \<lparr>OpID = ''getMmds'', Method = m, PathPattern = pat, Params = p\<rparr> = Some (GetMmdsParams_WriteToRequest lib p)"
  "WriteToRequest lib \<lparr>OpID = ''loadSnapshot'', Method = m, PathPattern = pat, Params = p\<rparr> = Some (LoadSnapshotParams_WriteToRequest lib p)"
  "WriteToRequest lib \<lparr>OpID = ''patchBalloon'', Method = m, PathPattern = pat, Params = p\<rparr> = Some (PatchBalloonParams_WriteToRequest lib p)"
  "WriteToRequest lib \<lparr>OpID = ''patchBalloonStatsInterval'', Method = m, PathPattern = pat, Params = p\<rparr> = Some (PatchBalloonStatsIntervalParams_WriteToRequest lib p)"
  "WriteToRequest lib \<lparr>OpID = ''patchGuestDriveByID'', Method = m, PathPattern = pat, Params = p\<rparr> = Some (PatchGuestDriveByIDParams_WriteToRequest lib p)"
  "WriteToRequest lib \<lparr>OpID = ''patchGuestNetworkInterfaceByID'', Method = m, PathPattern = pat, Params = p\<rparr> = Some (PatchGuestNetworkInterfaceByIDParams_WriteToRequest lib p)"
  "WriteToRequest lib \<lparr>OpID = ''patchMachineConfiguration'', Method = m, PathPattern = pat, Params = p\<rparr> = Some (PatchMachineConfigurationParams_WriteToRequest lib p)"
  "WriteToRequest lib \<lparr>OpID = ''patchMmds'', Method = m, PathPattern = pat, Params = p\<rparr> = Some (PatchMmdsParams_WriteToRequest lib p)"
  "WriteToRequest lib \<lparr>OpID = ''patchVm'', Method = m, PathPattern = pat, Params = p\<rparr> = Some (PatchVMParams_WriteToRequest lib p)"
  "WriteToRequest lib \<lparr>OpID = ''putBalloon'', Method = m, PathPattern = pat, Params = p\<rparr> = Some (PutBalloonParams_WriteToRequest lib p)"
  "WriteToRequest lib \<lparr>OpID = ''putCpuConfiguration'', Method = m, PathPattern = pat, Params = p\<rparr> = Some (PutCPUConfigurationParams_WriteToRequest lib p)"
  "WriteToRequest lib \<lparr>OpID = ''putEntropyDevice'', Method = m, PathPattern = pat, Params = p\<rparr> = Some (PutEntropyDeviceParams_WriteToRequest lib p)"
  "WriteToRequest lib \<lparr>OpID = ''putGuestBootSource'', Method = m, PathPattern = pat, Params = p\<rparr> = Some (PutGuestBootSourceParams_WriteToRequest lib p)"
  "WriteToRequest lib \<lparr>OpID = ''putGuestDriveByID'', Method = m, PathPattern = pat, Params = p\<rparr> = Some (PutGuestDriveByIDParams_WriteToRequest lib p)"
  "WriteToRequest lib \<lparr>OpID = ''putGuestNetworkInterfaceByID'', Method = m, PathPattern = pat, Params = p\<rparr> = Some (PutGuestNetworkInterfaceByIDParams_WriteToRequest lib p)"
  "WriteToRequest lib \<lparr>OpID = ''putGuestVsock'', Method = m, PathPattern = pat, Params = p\<rparr> = Some (PutGuestVsockParams_WriteToRequest lib p)"
  "WriteToRequest lib \<lparr>OpID = ''putLogger'', Method = m, PathPattern = pat, Params = p\<rparr> = Some (PutLoggerParams_WriteToRequest lib p)"
  "WriteToRequest lib \<lparr>OpID = ''putMachineConfiguration'', Method = m, PathPattern = pat, Params = p\<rparr> = Some (PutMachineConfigurationParams_WriteToRequest lib p)"
  "WriteToRequest lib \<lparr>OpID = ''putMetrics'', Method = m, PathPattern = pat, Params = p\<rparr> = Some (PutMetricsParams_WriteToRequest lib p)"
  "WriteToRequest lib \<lparr>OpID = ''putMmds'', Method = m, PathPattern = pat, Params = p\<rparr> = Some (PutMmdsParams_WriteToRequest lib p)"
  "WriteToRequest lib \<lparr>OpID = ''putMmdsConfig'', Method = m, PathPattern = pat, Params = p\<rparr> = Some (PutMmdsConfigParams_WriteToRequest lib p)"
  by (simp_all add: WriteToRequest_def)

lemmas writer_defs =
  CreateSnapshotParams_WriteToRequest_def
  CreateSyncActionParams_WriteToRequest_def
  DescribeBalloonConfigParams_WriteToRequest_def
  DescribeBalloonStatsParams_WriteToRequest_def
  DescribeInstanceParams_WriteToRequest_def
  GetExportVMConfigParams_WriteToRequest_def
  GetFirecrackerVersionParams_WriteToRequest_def
  GetMachineConfigurationParams_WriteToRequest_def
  GetMmdsParams_WriteToRequest_def
  LoadSnapshotParams_WriteToRequest_def
  PatchBalloonParams_WriteToRequest_def
  PatchBalloonStatsIntervalParams_WriteToRequest_def
  PatchGuestDriveByIDParams_WriteToRequest_def
  PatchGuestNetworkInterfaceByIDParams_WriteToRequest_def
  PatchMachineConfigurationParams_WriteToRequest_def
  PatchMmdsParams_WriteToRequest_def
  PatchVMParams_WriteToRequest_def
  PutBalloonParams_WriteToRequest_def
  PutCPUConfigurationParams_WriteToRequest_def
  PutEntropyDeviceParams_WriteToRequest_def
  PutGuestBootSourceParams_WriteToRequest_def
  PutGuestDriveByIDParams_WriteToRequest_def
  PutGuestNetworkInterfaceByIDParams_WriteToRequest_def
  PutGuestVsockParams_WriteToRequest_def
  PutLoggerParams_WriteToRequest_def
  PutMachineConfigurationParams_WriteToRequest_def
  PutMetricsParams_WriteToRequest_def
  PutMmdsParams_WriteToRequest_def
  PutMmdsConfigParams_WriteToRequest_def

subsection \<open>What is written\<close>

text \<open>The names between braces in the pattern of a path.\<close>

fun holes :: "string option \<Rightarrow> string \<Rightarrow> string list" where
  "holes acc [] = []"
| "holes None (c # s) = (if c = CHR ''{'' then holes (Some []) s else holes None s)"
| "holes (Some acc) (c # s) = (if c = CHR ''}'' then acc # holes None s else holes (Some (acc @ [c])) s)"

text \<open>
  What an operation ought to write: the timeout, a body unless it only reads, and the parameters that
  its pattern names.
\<close>

definition expected_writes ::
  "'r request_lib \<Rightarrow> client_operation \<Rightarrow> ('r \<Rightarrow> go_error option \<times> 'r) list" where
  "expected_writes lib op =
     write_timeout lib (Params op) #
     (if Method op = ''GET'' then [] else [write_body lib (Params op)]) @
     map (\<lambda>n. write_path lib n (Params op)) (holes None (PathPattern op))"

definition writes_pattern :: "'r request_lib \<Rightarrow> client_operation \<Rightarrow> bool" where
  "writes_pattern lib op \<longleftrightarrow> WriteToRequest lib op = Some (write_all (expected_writes lib op))"

lemma client_writes:
  "writes_pattern lib \<lparr>OpID = ''createSnapshot'', Method = ''PUT'', PathPattern = ''/snapshot/create'', Params = p\<rparr>"
  "writes_pattern lib \<lparr>OpID = ''createSyncAction'', Method = ''PUT'', PathPattern = ''/actions'', Params = p\<rparr>"
  "writes_pattern lib \<lparr>OpID = ''describeBalloonConfig'', Method = ''GET'', PathPattern = ''/balloon'', Params = p\<rparr>"
  "writes_pattern lib \<lparr>OpID = ''describeBalloonStats'', Method = ''GET'', PathPattern = ''/balloon/statistics'', Params = p\<rparr>"
  "writes_pattern lib \<lparr>OpID = ''describeInstance'', Method = ''GET'', PathPattern = ''/'', Params = p\<rparr>"
  "writes_pattern lib \<lparr>OpID = ''getExportVmConfig'', Method = ''GET'', PathPattern = ''/vm/config'', Params = p\<rparr>"
  "writes_pattern lib \<lparr>OpID = ''getFirecrackerVersion'', Method = ''GET'', PathPattern = ''/version'', Params = p\<rparr>"
  "writes_pattern lib \<lparr>OpID = ''getMachineConfiguration'', Method = ''GET'', PathPattern = ''/machine-config'', Params = p\<rparr>"
  "writes_pattern lib \<lparr>OpID = ''getMmds'', Method = ''GET'', PathPattern = ''/mmds'', Params = p\<rparr>"
  "writes_pattern lib \<lparr>OpID = ''loadSnapshot'', Method = ''PUT'', PathPattern = ''/snapshot/load'', Params = p\<rparr>"
  "writes_pattern lib \<lparr>OpID = ''patchBalloon'', Method = ''PATCH'', PathPattern = ''/balloon'', Params = p\<rparr>"
  "writes_pattern lib \<lparr>OpID = ''patchBalloonStatsInterval'', Method = ''PATCH'', PathPattern = ''/balloon/statistics'', Params = p\<rparr>"
  "writes_pattern lib \<lparr>OpID = ''patchGuestDriveByID'', Method = ''PATCH'', PathPattern = ''/drives/{drive_id}'', Params = p\<rparr>"
  "writes_pattern lib \<lparr>OpID = ''patchGuestNetworkInterfaceByID'', Method = ''PATCH'', PathPattern = ''/network-interfaces/{iface_id}'', Params = p\<rparr>"
  "writes_pattern lib \<lparr>OpID = ''patchMachineConfiguration'', Method = ''PATCH'', PathPattern = ''/machine-config'', Params = p\<rparr>"
  "writes_pattern lib \<lparr>OpID = ''patchMmds'', Method = ''PATCH'', PathPattern = ''/mmds'', Params = p\<rparr>"
  "writes_pattern lib \<lparr>OpID = ''patchVm'', Method = ''PATCH'', PathPattern = ''/vm'', Params = p\<rparr>"
  "writes_pattern lib \<lparr>OpID = ''putBalloon'', Method = ''PUT'', PathPattern = ''/balloon'', Params = p\<rparr>"
  "writes_pattern lib \<lparr>OpID = ''putCpuConfiguration'', Method = ''PUT'', PathPattern = ''/cpu-config'', Params = p\<rparr>"
  "writes_pattern lib \<lparr>OpID = ''putEntropyDevice'', Method = ''PUT'', PathPattern = ''/entropy'', Params = p\<rparr>"
  "writes_pattern lib \<lparr>OpID = ''putGuestBootSource'', Method = ''PUT'', PathPattern = ''/boot-source'', Params = p\<rparr>"
  "writes_pattern lib \<lparr>OpID = ''putGuestDriveByID'', Method = ''PUT'', PathPattern = ''/drives/{drive_id}'', Params = p\<rparr>"
  "writes_pattern lib \<lparr>OpID = ''putGuestNetworkInterfaceByID'', Method = ''PUT'', PathPattern = ''/network-interfaces/{iface_id}'', Params = p\<rparr>"
  "writes_pattern lib \<lparr>OpID = ''putGuestVsock'', Method = ''PUT'', PathPattern = ''/vsock'', Params = p\<rparr>"
  "writes_pattern lib \<lparr>OpID = ''putLogger'', Method = ''PUT'', PathPattern = ''/logger'', Params = p\<rparr>"
  "writes_pattern lib \<lparr>OpID = ''putMachineConfiguration'', Method = ''PUT'', PathPattern = ''/machine-config'', Params = p\<rparr>"
  "writes_pattern lib \<lparr>OpID = ''putMetrics'', Method = ''PUT'', PathPattern = ''/metrics'', Params = p\<rparr>"
  "writes_pattern lib \<lparr>OpID = ''putMmds'', Method = ''PUT'', PathPattern = ''/mmds'', Params = p\<rparr>"
  "writes_pattern lib \<lparr>OpID = ''putMmdsConfig'', Method = ''PUT'', PathPattern = ''/mmds/config'', Params = p\<rparr>"
  by (simp_all add: writes_pattern_def writers expected_writes_def writer_defs fun_eq_iff)

text \<open>All operations of the client, by the request that each submits.\<close>

definition client_ops :: "(env \<Rightarrow> api_params \<Rightarrow> trace \<Rightarrow> trace) list" where
  "client_ops =
     map (\<lambda>ops e params tr. snd (ops e params tr)) no_content_ops @
     [\<lambda>e params tr. snd (ops_DescribeBalloonConfig e params tr),
      \<lambda>e params tr. snd (ops_DescribeBalloonStats e params tr),
      \<lambda>e params tr. snd (ops_DescribeInstance e params tr),
      \<lambda>e params tr. snd (ops_GetExportVMConfig e params tr),
      \<lambda>e params tr. snd (ops_GetFirecrackerVersion e params tr),
      \<lambda>e params tr. snd (ops_GetMachineConfiguration e params tr),
      \<lambda>e params tr. snd (ops_GetMmds e params tr)]"

lemma client_ops_all:
  "list_all (\<lambda>ops. \<exists>op. ops e params tr = tr @ [EvApi op] \<and> Params op = params \<and> writes_pattern lib op) client_ops"
  unfolding client_ops_def no_content_ops_def list.map append.simps ops_defs snd_op_submit list.pred_inject
  by (intro conjI exI TrueI; (rule refl)?)
    (simp_all add: client_writes)

text \<open>C14: Each of the 29 operations of the client submits one request, with the parameters that it was
  given, and their \<open>WriteToRequest\<close> writes what the request needs: the timeout, then a body unless the
  method is GET, then exactly the parameters between braces in the operation's own path, in order,
  stopping at the first setter that fails.\<close>

theorem writers_match_patterns:
  assumes "ops \<in> set client_ops"
  shows "\<exists>op. ops e params tr = tr @ [EvApi op] \<and> Params op = params \<and>
    WriteToRequest lib op = Some (write_all (
      write_timeout lib params #
      (if Method op = ''GET'' then [] else [write_body lib params]) @
      map (\<lambda>n. write_path lib n params) (holes None (PathPattern op))))"
proof -
  have "\<exists>op. ops e params tr = tr @ [EvApi op] \<and> Params op = params \<and> writes_pattern lib op"
    using client_ops_all [of e params tr lib] assms unfolding list_all_iff by (rule bspec)
  then show ?thesis by (auto simp: writes_pattern_def expected_writes_def)
qed

text \<open>A request as a plain value, with setters that succeed.\<close>

record client_request =
  rq_timeout :: int64
  rq_body :: "api_body option"
  rq_path :: "(string \<times> string) list"

definition plain_lib :: "client_request request_lib" where
  "plain_lib =
     \<lparr>rl_SetTimeout = \<lambda>t r. (None, r\<lparr>rq_timeout := t\<rparr>),
      rl_SetBodyParam = \<lambda>b r. (None, r\<lparr>rq_body := Some b\<rparr>),
      rl_SetPathParam = \<lambda>n v r. (None, r\<lparr>rq_path := rq_path r @ [(n, v)]\<rparr>)\<rparr>"

theorem writers_match_patterns_witness:
  "\<exists>w. WriteToRequest plain_lib \<lparr>OpID = ''putGuestDriveByID'', Method = ''PUT'', PathPattern = ''/drives/{drive_id}'',
       Params = SetPathParam ''drive_id'' ''root'' (NewParams calm_env)\<rparr> = Some w
     \<and> rq_path (snd (w \<lparr>rq_timeout = 0, rq_body = None, rq_path = []\<rparr>)) = [(''drive_id'', ''root'')]"
proof -
  let ?p = "SetPathParam ''drive_id'' ''root'' (NewParams calm_env)"
  have "(\<lambda>e params tr. snd (ops_PutGuestDriveByID e params tr)) \<in> set client_ops"
    by (simp add: client_ops_def no_content_ops_def)
  from writers_match_patterns [OF this, of calm_env ?p "[]" plain_lib] show ?thesis
    by (auto simp: ops_PutGuestDriveByID_def write_timeout_def write_body_def write_path_def plain_lib_def
        path_param_def params_defs)
qed

text \<open>
  A request whose path parameters are those of its pattern, and that has no body if it only reads, is
  written as it is meant.
\<close>

definition addressed :: "client_operation \<Rightarrow> bool" where
  "addressed op \<longleftrightarrow> writes_pattern plain_lib op
     \<and> map fst (PathParams (Params op)) = holes None (PathPattern op) \<and> distinct (map fst (PathParams (Params op)))
     \<and> (Method op = ''GET'' \<longrightarrow> Body (Params op) = None)"

lemma write_all_append:
  "write_all (ws @ ws') r = (case write_all ws r of (Some err, r') \<Rightarrow> (Some err, r') | (None, r') \<Rightarrow> write_all ws' r')"
  by (induction ws r rule: write_all.induct) (auto split: prod.split option.split)

lemma plain_writes:
  "write_timeout plain_lib p r = (None, r\<lparr>rq_timeout := ptimeout p\<rparr>)"
  "write_body plain_lib p r = (None, case Body p of None \<Rightarrow> r | Some b \<Rightarrow> r\<lparr>rq_body := Some b\<rparr>)"
  by (simp_all add: write_timeout_def write_body_def plain_lib_def split: option.split)

lemma write_paths:
  "write_all (map (\<lambda>n. write_path plain_lib n p) ns) r =
     (None, r\<lparr>rq_path := rq_path r @ map (\<lambda>n. (n, path_param n p)) ns\<rparr>)"
  by (induction ns arbitrary: r) (simp_all add: write_path_def plain_lib_def)

lemma path_params_read:
  "distinct (map fst (PathParams p)) \<Longrightarrow>
     map (\<lambda>n. (n, path_param n p)) (map fst (PathParams p)) = PathParams p"
  by (rule nth_equalityI) (auto simp: path_param_def map_of_eq_Some_iff split: option.split,
    (metis (no_types, opaque_lifting) map_of_is_SomeI nth_mem option.distinct(1) option.inject prod.collapse)+)

lemma addressed_written:
  assumes "addressed op"
  shows "\<exists>w. WriteToRequest plain_lib op = Some w \<and>
    w \<lparr>rq_timeout = 0, rq_body = None, rq_path = []\<rparr> =
      (None, \<lparr>rq_timeout = ptimeout (Params op), rq_body = Body (Params op), rq_path = PathParams (Params op)\<rparr>)"
proof -
  from assms have "map (\<lambda>n. (n, path_param n (Params op))) (holes None (PathPattern op)) = PathParams (Params op)"
    using path_params_read [of "Params op"] unfolding addressed_def by metis
  with assms show ?thesis
    by (auto simp: addressed_def writes_pattern_def expected_writes_def write_paths plain_writes split: option.split)
qed

end
