(* ===== verification/Builders.thy ===== *)
theory Builders
  imports Models
begin

text \<open>
  The value builders: drives (\<open>drives.go\<close>), balloon (\<open>balloon.go\<close>), rate limiters
  (\<open>rate_limiter.go\<close>). The functional options of the code are functions on the record they
  edit, applied in order.
\<close>

definition apply_opts :: "('a \<Rightarrow> 'a) list \<Rightarrow> 'a \<Rightarrow> 'a" where
  "apply_opts opts x = foldl (\<lambda>d opt. opt d) x opts"

lemma apply_opts_simps [simp]:
  "apply_opts [] x = x"
  "apply_opts (opt # opts) x = apply_opts opts (opt x)"
  by (simp_all add: apply_opts_def)

lemma apply_opts_inv:
  "P x \<Longrightarrow> (\<And>opt y. opt \<in> set opts \<Longrightarrow> P y \<Longrightarrow> P (opt y)) \<Longrightarrow> P (apply_opts opts x)"
  by (induction opts arbitrary: x) auto

subsection \<open>Drives\<close>

record DrivesBuilder =
  rootDrive :: Drive
  drives :: "Drive list"

definition zero_Drive :: Drive where
  "zero_Drive = \<lparr>CacheType = None, DriveID = None, IoEngine = None, IsReadOnly = None,
     IsRootDevice = None, Partuuid = '''', PathOnHost = None, drv_RateLimiter = None\<rparr>"

definition rootDriveName :: string where
  "rootDriveName = ''root_drive''"

definition WithRootDrive :: "DrivesBuilder \<Rightarrow> string \<Rightarrow> (Drive \<Rightarrow> Drive) list \<Rightarrow> DrivesBuilder" where
  "WithRootDrive b rootDrivePath opts = b\<lparr>rootDrive := apply_opts opts
     (zero_Drive\<lparr>DriveID := go_String rootDriveName, PathOnHost := Some rootDrivePath,
        IsRootDevice := go_Bool True, IsReadOnly := go_Bool False\<rparr>)\<rparr>"

definition NewDrivesBuilder :: "string \<Rightarrow> DrivesBuilder" where
  "NewDrivesBuilder rootDrivePath =
     WithRootDrive \<lparr>rootDrive = zero_Drive, drives = []\<rparr> rootDrivePath []"

definition AddDrive :: "DrivesBuilder \<Rightarrow> string \<Rightarrow> bool \<Rightarrow> (Drive \<Rightarrow> Drive) list \<Rightarrow> DrivesBuilder" where
  "AddDrive b path readOnly opts =
    (let drive = apply_opts opts
       (zero_Drive\<lparr>DriveID := go_String (itoa (int (length (drives b)))), PathOnHost := Some path,
          IsRootDevice := go_Bool False, IsReadOnly := Some readOnly\<rparr>)
     in b\<lparr>drives := drives b @ [drive]\<rparr>)"

definition DrivesBuilder_Build :: "DrivesBuilder \<Rightarrow> Drive list" where
  "DrivesBuilder_Build b = drives b @ [rootDrive b]"

definition WithDriveID :: "string \<Rightarrow> Drive \<Rightarrow> Drive" where
  "WithDriveID i d = d\<lparr>DriveID := go_String i\<rparr>"

definition WithReadOnly :: "bool \<Rightarrow> Drive \<Rightarrow> Drive" where
  "WithReadOnly flag d = d\<lparr>IsReadOnly := go_Bool flag\<rparr>"

definition WithPartuuid :: "string \<Rightarrow> Drive \<Rightarrow> Drive" where
  "WithPartuuid uuid d = d\<lparr>Partuuid := uuid\<rparr>"

definition WithRateLimiter :: "RateLimiter \<Rightarrow> Drive \<Rightarrow> Drive" where
  "WithRateLimiter limiter d = d\<lparr>drv_RateLimiter := Some limiter\<rparr>"

definition WithCacheType :: "string \<Rightarrow> Drive \<Rightarrow> Drive" where
  "WithCacheType cacheType d = d\<lparr>CacheType := go_String cacheType\<rparr>"

definition WithIoEngine :: "string \<Rightarrow> Drive \<Rightarrow> Drive" where
  "WithIoEngine ioEngine d = d\<lparr>IoEngine := go_String ioEngine\<rparr>"

text \<open>
  A sequence of \<open>AddDrive\<close> calls, each with its path, its read-only flag and its options.
\<close>

fun add_drives :: "DrivesBuilder \<Rightarrow> (string \<times> bool \<times> (Drive \<Rightarrow> Drive) list) list \<Rightarrow> DrivesBuilder" where
  "add_drives b [] = b"
| "add_drives b ((path, ro, opts) # calls) = add_drives (AddDrive b path ro opts) calls"

lemma add_drives_root [simp]: "rootDrive (add_drives b calls) = rootDrive b"
  by (induction b calls rule: add_drives.induct) (simp_all add: AddDrive_def Let_def)

definition added_drive :: "nat \<Rightarrow> string \<times> bool \<times> (Drive \<Rightarrow> Drive) list \<Rightarrow> Drive" where
  "added_drive i call = (case call of (path, ro, opts) \<Rightarrow> apply_opts opts
     (zero_Drive\<lparr>DriveID := Some (itoa (int i)), PathOnHost := Some path,
        IsRootDevice := Some False, IsReadOnly := Some ro\<rparr>))"

lemma drives_add_drives:
  "drives (add_drives b calls) =
     drives b @ map2 added_drive [length (drives b)..<length (drives b) + length calls] calls"
proof (induction b calls rule: add_drives.induct)
  case (1 b)
  then show ?case by simp
next
  case (2 b path ro opts calls)
  have [simp]: "length (drives (AddDrive b path ro opts)) = Suc (length (drives b))"
    by (simp add: AddDrive_def Let_def)
  have "[length (drives b)..<length (drives b) + length ((path, ro, opts) # calls)] =
      length (drives b) # [Suc (length (drives b))..<Suc (length (drives b)) + length calls]"
    using upt_conv_Cons [of "length (drives b)" "Suc (length (drives b) + length calls)"]
    by (simp del: upt_Suc)
  with 2 show ?case
    by (simp add: AddDrive_def Let_def added_drive_def go_unfold del: upt_Suc)
qed

definition keeps_identity :: "(Drive \<Rightarrow> Drive) \<Rightarrow> bool" where
  "keeps_identity opt \<longleftrightarrow>
     (\<forall>d. DriveID (opt d) = DriveID d \<and> IsRootDevice (opt d) = IsRootDevice d)"

lemma keeps_identity_opts [simp, intro]:
  "keeps_identity (WithReadOnly f)" "keeps_identity (WithPartuuid u)"
  "keeps_identity (WithRateLimiter l)" "keeps_identity (WithCacheType c)"
  "keeps_identity (WithIoEngine e)"
  by (simp_all add: keeps_identity_def WithReadOnly_def WithPartuuid_def WithRateLimiter_def
      WithCacheType_def WithIoEngine_def)

lemma apply_opts_identity:
  assumes "\<forall>opt\<in>set opts. keeps_identity opt"
  shows "DriveID (apply_opts opts d) = DriveID d" "IsRootDevice (apply_opts opts d) = IsRootDevice d"
  using assms by (induction opts arbitrary: d) (auto simp: keeps_identity_def)

subsection \<open>Balloon\<close>

definition NewBalloonDevice :: "int64 \<Rightarrow> bool \<Rightarrow> (Balloon \<Rightarrow> Balloon) list \<Rightarrow> Balloon" where
  "NewBalloonDevice amountMib deflateOnOom opts = apply_opts opts
     \<lparr>AmountMib = Some amountMib, DeflateOnOom = Some deflateOnOom, StatsPollingIntervals = 0\<rparr>"

definition WithStatsPollingIntervals :: "int64 \<Rightarrow> Balloon \<Rightarrow> Balloon" where
  "WithStatsPollingIntervals s d = d\<lparr>StatsPollingIntervals := s\<rparr>"

definition UpdateAmountMib :: "Balloon \<Rightarrow> int64 \<Rightarrow> Balloon" where
  "UpdateAmountMib b amountMib = b\<lparr>AmountMib := Some amountMib\<rparr>"

definition UpdateStatsPollingIntervals :: "Balloon \<Rightarrow> int64 \<Rightarrow> Balloon" where
  "UpdateStatsPollingIntervals b s = b\<lparr>StatsPollingIntervals := s\<rparr>"

subsection \<open>Rate limiters\<close>

definition NewRateLimiter ::
  "TokenBucket \<Rightarrow> TokenBucket \<Rightarrow> (RateLimiter \<Rightarrow> RateLimiter) list \<Rightarrow> RateLimiter" where
  "NewRateLimiter bandwidth ops opts =
     apply_opts opts \<lparr>Bandwidth = Some bandwidth, Ops = Some ops\<rparr>"

definition WithBucketSize :: "TokenBucket \<Rightarrow> int64 \<Rightarrow> TokenBucket" where
  "WithBucketSize b sz = b\<lparr>Size := Some sz\<rparr>"

definition time_Millisecond :: int64 where
  "time_Millisecond = 1000000"

text \<open>A \<open>time.Duration\<close> is an \<open>int64\<close> of nanoseconds.\<close>

definition WithRefillDuration :: "TokenBucket \<Rightarrow> int64 \<Rightarrow> TokenBucket" where
  "WithRefillDuration b dur =
    (let ms = int64_div dur time_Millisecond in b\<lparr>RefillTime := Some ms\<rparr>)"

definition WithInitialSize :: "TokenBucket \<Rightarrow> int64 \<Rightarrow> TokenBucket" where
  "WithInitialSize b sz = b\<lparr>OneTimeBurst := Some sz\<rparr>"

subsection \<open>Properties\<close>

text \<open>A drives builder lists the added drives in the order of the calls, numbered from 0, and the
  root drive last; if no option touches the identity of a drive, the drive ids are all different
  and the last drive is the only root device.\<close>

lemma drives_builder_spec:
  assumes "list_all (\<lambda>(path, ro, opts). list_all keeps_identity opts) calls"
  shows "DrivesBuilder_Build (add_drives (NewDrivesBuilder root) calls) =
       map2 added_drive [0..<length calls] calls @ [rootDrive (NewDrivesBuilder root)]
    \<and> distinct (map DriveID (DrivesBuilder_Build (add_drives (NewDrivesBuilder root) calls)))
    \<and> map IsRootDevice (DrivesBuilder_Build (add_drives (NewDrivesBuilder root) calls))
        = replicate (length calls) (Some False) @ [Some True]"
proof -
  let ?ds = "map2 added_drive [0..<length calls] calls"
  have new: "drives (NewDrivesBuilder root) = []" "DriveID (rootDrive (NewDrivesBuilder root)) = Some ''root_drive''"
    "IsRootDevice (rootDrive (NewDrivesBuilder root)) = Some True"
    by (simp_all add: NewDrivesBuilder_def WithRootDrive_def rootDriveName_def go_unfold)
  have d: "drives (add_drives (NewDrivesBuilder root) calls) = ?ds"
    by (simp add: drives_add_drives new)
  have i: "DriveID (added_drive i c) = Some (itoa (int i)) \<and> IsRootDevice (added_drive i c) = Some False"
    if "c \<in> set calls" for i c
    using that assms
    by (auto simp: added_drive_def list_all_iff apply_opts_identity split: prod.splits)
  have ids: "map DriveID ?ds = map (\<lambda>i. Some (itoa (int i))) [0..<length calls]"
    and r: "map IsRootDevice ?ds = replicate (length calls) (Some False)"
    using i [OF nth_mem] by (intro nth_equalityI; simp)+
  have "''root_drive'' \<notin> range (\<lambda>i. itoa (int i))"
  proof
    assume "''root_drive'' \<in> range (\<lambda>i. itoa (int i))"
    then obtain i where i: "nat_dec i = ''root_drive''" by (auto simp: itoa_def)
    have "CHR ''r'' \<in> set (nat_dec i)" unfolding i by simp
    then show False by (auto dest: nat_dec_digits simp: is_digit_def)
  qed
  then have "distinct (map (\<lambda>i. Some (itoa (int i))) [0..<length calls] @ [Some ''root_drive''])"
    by (auto simp: distinct_map inj_on_def itoa_of_nat_inj)
  then have "distinct (map DriveID (?ds @ [rootDrive (NewDrivesBuilder root)]))"
    by (simp only: map_append ids new list.map)
  with d new r show ?thesis by (simp add: DrivesBuilder_Build_def)
qed

lemma drives_builder_spec_witness:
  "map DriveID (DrivesBuilder_Build (add_drives (NewDrivesBuilder ''/root.img'')
       [(''/a.img'', True, [WithPartuuid ''u'']), (''/b.img'', False, [])]))
     = [Some ''0'', Some ''1'', Some ''root_drive'']
   \<and> map IsRootDevice (DrivesBuilder_Build (add_drives (NewDrivesBuilder ''/root.img'')
       [(''/a.img'', True, [WithPartuuid ''u'']), (''/b.img'', False, [])]))
     = [Some False, Some False, Some True]"
  using drives_builder_spec [of "[(''/a.img'', True, [WithPartuuid ''u'']), (''/b.img'', False, [])]" "''/root.img''"]
  by (simp add: numeral_eq_Suc) code_simp

lemma sdiv_bound:
  fixes x :: int
  assumes "0 < d"
  shows "\<bar>x sdiv d\<bar> = \<bar>x\<bar> div d"
  using assms by (simp add: signed_divide_int_def abs_mult sgn_if pos_imp_zdiv_nonneg_iff)

lemma sint_int64_div:
  assumes "1 < sint d"
  shows "sint (int64_div a d) = sint a sdiv sint d"
proof -
  have "\<bar>sint a\<bar> \<le> 2 ^ 63" using sint_range_size [of a] by (simp add: word_size abs_le_iff)
  then have "\<bar>sint a\<bar> div sint d \<le> 2 ^ 63 div sint d" using assms by (intro zdiv_mono1) auto
  also have "\<dots> \<le> 2 ^ 63 div 2" using assms by (intro zdiv_mono2) auto
  finally have "\<bar>sint a sdiv sint d\<bar> < 2 ^ 63" using assms by (simp add: sdiv_bound)
  then show ?thesis
    by (simp add: int64_div_def sint_sbintrunc' signed_take_bit_int_eq_self)
qed

text \<open>The refill time of a token bucket is its duration in milliseconds, rounded towards zero, for
  every duration, negative ones included: no conversion overflows.\<close>

lemma WithRefillDuration_ms:
  "map_option sint (RefillTime (WithRefillDuration b dur)) = Some (sint dur sdiv 1000000)
   \<and> Size (WithRefillDuration b dur) = Size b \<and> OneTimeBurst (WithRefillDuration b dur) = OneTimeBurst b"
proof -
  have "sint time_Millisecond = 1000000" by (simp add: time_Millisecond_def)
  with sint_int64_div [of time_Millisecond dur] show ?thesis
    by (simp add: WithRefillDuration_def Let_def)
qed

end
