(* ===== verification/ApiClient.thy ===== *)
theory ApiClient
  imports Requests Builders
begin

text \<open>
  The SDK's client (\<open>firecracker.go\<close>, \<open>utils.go\<close>): one wrapper per API call, which builds the
  parameters of the operation (context with the request timeout, body, path parameter), applies
  the caller's options and submits. Timeouts are Go durations, \<open>int64\<close> nanoseconds with
  wrap-around.
\<close>

record Client =
  firecrackerRequestTimeout :: int64
  firecrackerInitTimeout :: int64

definition envValueOrDefaultInt :: "env \<Rightarrow> string \<Rightarrow> int64 \<Rightarrow> int64" where
  "envValueOrDefaultInt e envName def =
    (case atoi (getenv e envName) of
       None \<Rightarrow> def
     | Some envVal \<Rightarrow> if envVal = 0 then def else word_of_int envVal)"

definition firecrackerRequestTimeoutEnv :: string where
  "firecrackerRequestTimeoutEnv = ''FIRECRACKER_GO_SDK_REQUEST_TIMEOUT_MILLISECONDS''"

definition firecrackerInitTimeoutEnv :: string where
  "firecrackerInitTimeoutEnv = ''FIRECRACKER_GO_SDK_INIT_TIMEOUT_SECONDS''"

definition defaultFirecrackerRequestTimeout :: int64 where
  "defaultFirecrackerRequestTimeout = 500"

definition defaultFirecrackerInitTimeoutSeconds :: int64 where
  "defaultFirecrackerInitTimeoutSeconds = 3"

definition NewClient :: "env \<Rightarrow> (Client \<Rightarrow> Client) list \<Rightarrow> Client" where
  "NewClient e opts = apply_opts opts
     \<lparr>firecrackerRequestTimeout =
        envValueOrDefaultInt e firecrackerRequestTimeoutEnv defaultFirecrackerRequestTimeout,
      firecrackerInitTimeout =
        envValueOrDefaultInt e firecrackerInitTimeoutEnv defaultFirecrackerInitTimeoutSeconds\<rparr>"

text \<open>\<open>time.Duration(t) * time.Millisecond\<close>, and the same with \<open>/2\<close> before the product.\<close>

definition request_timeout :: "Client \<Rightarrow> int64" where
  "request_timeout f = firecrackerRequestTimeout f * time_Millisecond"

definition half_request_timeout :: "Client \<Rightarrow> int64" where
  "half_request_timeout f = int64_div (firecrackerRequestTimeout f) 2 * time_Millisecond"

type_synonym opts = "(api_params \<Rightarrow> api_params) list"

definition GetFirecrackerVersion ::
  "env \<Rightarrow> Client \<Rightarrow> ctx \<Rightarrow> opts \<Rightarrow> trace
     \<Rightarrow> FirecrackerVersion api_result \<times> trace" where
  "GetFirecrackerVersion e f ctx opts tr =
     ops_GetFirecrackerVersion e
      (apply_opts opts (SetContext ctx (NewParams e))) tr"

definition PutLogger ::
  "env \<Rightarrow> Client \<Rightarrow> ctx \<Rightarrow> Logger \<Rightarrow> opts \<Rightarrow> trace
     \<Rightarrow> unit api_result \<times> trace" where
  "PutLogger e f ctx logger opts tr =
     ops_PutLogger e
      (apply_opts opts (SetBody (Some (BLogger logger))
       (NewParamsWithContext (CtxWithTimeout ctx (request_timeout f))))) tr"

definition PutMetrics ::
  "env \<Rightarrow> Client \<Rightarrow> ctx \<Rightarrow> Metrics \<Rightarrow> opts \<Rightarrow> trace
     \<Rightarrow> unit api_result \<times> trace" where
  "PutMetrics e f ctx metrics opts tr =
     ops_PutMetrics e
      (apply_opts opts (SetBody (Some (BMetrics metrics))
       (NewParamsWithContext (CtxWithTimeout ctx (request_timeout f))))) tr"

definition PutMachineConfiguration ::
  "env \<Rightarrow> Client \<Rightarrow> ctx \<Rightarrow> MachineConfiguration \<Rightarrow> opts \<Rightarrow> trace
     \<Rightarrow> unit api_result \<times> trace" where
  "PutMachineConfiguration e f ctx cfg opts tr =
     ops_PutMachineConfiguration e
      (apply_opts opts (SetBody (Some (BMachineConfiguration cfg))
       (NewParamsWithContext (CtxWithTimeout ctx (request_timeout f))))) tr"

definition PutGuestBootSource ::
  "env \<Rightarrow> Client \<Rightarrow> ctx \<Rightarrow> BootSource \<Rightarrow> opts \<Rightarrow> trace
     \<Rightarrow> unit api_result \<times> trace" where
  "PutGuestBootSource e f ctx source opts tr =
     ops_PutGuestBootSource e
      (apply_opts opts (SetBody (Some (BBootSource source))
       (NewParamsWithContext (CtxWithTimeout ctx (request_timeout f))))) tr"

definition PutGuestNetworkInterfaceByID ::
  "env \<Rightarrow> Client \<Rightarrow> ctx \<Rightarrow> string \<Rightarrow> ApiNetworkInterface \<Rightarrow> opts \<Rightarrow> trace
     \<Rightarrow> unit api_result \<times> trace" where
  "PutGuestNetworkInterfaceByID e f ctx ifaceID ifaceCfg opts tr =
     ops_PutGuestNetworkInterfaceByID e
      (apply_opts opts (SetPathParam ''iface_id'' ifaceID (SetBody (Some (BNetworkInterface ifaceCfg))
       (NewParamsWithContext (CtxWithTimeout ctx (request_timeout f)))))) tr"

definition PatchGuestNetworkInterfaceByID ::
  "env \<Rightarrow> Client \<Rightarrow> ctx \<Rightarrow> string \<Rightarrow> PartialNetworkInterface \<Rightarrow> opts \<Rightarrow> trace
     \<Rightarrow> unit api_result \<times> trace" where
  "PatchGuestNetworkInterfaceByID e f ctx ifaceID ifaceCfg opts tr =
     ops_PatchGuestNetworkInterfaceByID e
      (apply_opts opts (SetPathParam ''iface_id'' ifaceID (SetBody (Some (BPartialNetworkInterface ifaceCfg))
       (NewParamsWithContext (CtxWithTimeout ctx (request_timeout f)))))) tr"

definition PutGuestDriveByID ::
  "env \<Rightarrow> Client \<Rightarrow> ctx \<Rightarrow> string \<Rightarrow> Drive \<Rightarrow> opts \<Rightarrow> trace
     \<Rightarrow> unit api_result \<times> trace" where
  "PutGuestDriveByID e f ctx driveID drive opts tr =
     ops_PutGuestDriveByID e
      (apply_opts opts (SetPathParam ''drive_id'' driveID (SetBody (Some (BDrive drive))
       (NewParamsWithContext (CtxWithTimeout ctx (half_request_timeout f)))))) tr"

definition PutGuestVsock ::
  "env \<Rightarrow> Client \<Rightarrow> ctx \<Rightarrow> Vsock \<Rightarrow> opts \<Rightarrow> trace
     \<Rightarrow> unit api_result \<times> trace" where
  "PutGuestVsock e f ctx vsock opts tr =
     ops_PutGuestVsock e
      (apply_opts opts (SetBody (Some (BVsock vsock))
       (SetContext ctx (NewParams e)))) tr"

definition PatchVM ::
  "env \<Rightarrow> Client \<Rightarrow> ctx \<Rightarrow> VM \<Rightarrow> opts \<Rightarrow> trace
     \<Rightarrow> unit api_result \<times> trace" where
  "PatchVM e f ctx vm opts tr =
     ops_PatchVM e
      (apply_opts opts (SetBody (Some (BVM vm))
       (NewParamsWithContext (CtxWithTimeout ctx (request_timeout f))))) tr"

definition CreateSnapshot ::
  "env \<Rightarrow> Client \<Rightarrow> ctx \<Rightarrow> SnapshotCreateParams \<Rightarrow> opts \<Rightarrow> trace
     \<Rightarrow> unit api_result \<times> trace" where
  "CreateSnapshot e f ctx snapshotParams opts tr =
     ops_CreateSnapshot e
      (apply_opts opts (SetBody (Some (BSnapshotCreate snapshotParams))
       (NewParamsWithContext ctx))) tr"

definition LoadSnapshot ::
  "env \<Rightarrow> Client \<Rightarrow> ctx \<Rightarrow> SnapshotLoadParams \<Rightarrow> opts \<Rightarrow> trace
     \<Rightarrow> unit api_result \<times> trace" where
  "LoadSnapshot e f ctx snapshotParams opts tr =
     ops_LoadSnapshot e
      (apply_opts opts (SetBody (Some (BSnapshotLoad snapshotParams))
       (NewParamsWithContext ctx))) tr"

definition CreateSyncAction ::
  "env \<Rightarrow> Client \<Rightarrow> ctx \<Rightarrow> InstanceActionInfo \<Rightarrow> opts \<Rightarrow> trace
     \<Rightarrow> unit api_result \<times> trace" where
  "CreateSyncAction e f ctx info opts tr =
     ops_CreateSyncAction e
      (apply_opts opts (SetBody (Some (BAction info))
       (SetContext ctx (NewParams e)))) tr"

definition PutMmds ::
  "env \<Rightarrow> Client \<Rightarrow> ctx \<Rightarrow> string option \<Rightarrow> opts \<Rightarrow> trace
     \<Rightarrow> unit api_result \<times> trace" where
  "PutMmds e f ctx metadata opts tr =
     ops_PutMmds e
      (apply_opts opts (SetBody (map_option BJson metadata)
       (SetContext ctx (NewParams e)))) tr"

definition GetMmds ::
  "env \<Rightarrow> Client \<Rightarrow> ctx \<Rightarrow> opts \<Rightarrow> trace
     \<Rightarrow> string api_result \<times> trace" where
  "GetMmds e f ctx opts tr =
     ops_GetMmds e
      (apply_opts opts (SetContext ctx (NewParams e))) tr"

definition PatchMmds ::
  "env \<Rightarrow> Client \<Rightarrow> ctx \<Rightarrow> string option \<Rightarrow> opts \<Rightarrow> trace
     \<Rightarrow> unit api_result \<times> trace" where
  "PatchMmds e f ctx metadata opts tr =
     ops_PatchMmds e
      (apply_opts opts (SetBody (map_option BJson metadata)
       (SetContext ctx (NewParams e)))) tr"

definition PutMmdsConfig ::
  "env \<Rightarrow> Client \<Rightarrow> ctx \<Rightarrow> MmdsConfig \<Rightarrow> trace
     \<Rightarrow> unit api_result \<times> trace" where
  "PutMmdsConfig e f ctx config tr =
     ops_PutMmdsConfig e
      (SetBody (Some (BMmdsConfig config))
       (SetContext ctx (NewParams e))) tr"

definition GetMachineConfiguration ::
  "env \<Rightarrow> Client \<Rightarrow> opts \<Rightarrow> trace
     \<Rightarrow> MachineConfiguration api_result \<times> trace" where
  "GetMachineConfiguration e f opts tr =
     ops_GetMachineConfiguration e
      (apply_opts opts (SetTimeout (request_timeout f) (NewParams e))) tr"

definition GetInstanceInfo ::
  "env \<Rightarrow> Client \<Rightarrow> ctx \<Rightarrow> opts \<Rightarrow> trace
     \<Rightarrow> InstanceInfo api_result \<times> trace" where
  "GetInstanceInfo e f ctx opts tr =
     ops_DescribeInstance e
      (apply_opts opts (SetContext ctx (NewParams e))) tr"

definition PatchGuestDriveByID ::
  "env \<Rightarrow> Client \<Rightarrow> ctx \<Rightarrow> string \<Rightarrow> string \<Rightarrow> opts \<Rightarrow> trace
     \<Rightarrow> unit api_result \<times> trace" where
  "PatchGuestDriveByID e f ctx driveID pathOnHost opts tr =
     ops_PatchGuestDriveByID e
      (apply_opts opts (SetPathParam ''drive_id'' driveID (SetBody (Some (BPartialDrive \<lparr>pd_DriveID = Some driveID, pd_PathOnHost = pathOnHost, pd_RateLimiter = None\<rparr>))
       (SetContext ctx (NewParams e))))) tr"

definition PutBalloon ::
  "env \<Rightarrow> Client \<Rightarrow> ctx \<Rightarrow> Balloon \<Rightarrow> opts \<Rightarrow> trace
     \<Rightarrow> unit api_result \<times> trace" where
  "PutBalloon e f ctx balloon opts tr =
     ops_PutBalloon e
      (apply_opts opts (SetBody (Some (BBalloon balloon))
       (NewParamsWithContext (CtxWithTimeout ctx (request_timeout f))))) tr"

definition DescribeBalloonConfig ::
  "env \<Rightarrow> Client \<Rightarrow> ctx \<Rightarrow> trace
     \<Rightarrow> Balloon api_result \<times> trace" where
  "DescribeBalloonConfig e f ctx tr =
     ops_DescribeBalloonConfig e
      (SetTimeout (request_timeout f) (SetContext ctx (NewParams e))) tr"

definition PatchBalloon ::
  "env \<Rightarrow> Client \<Rightarrow> ctx \<Rightarrow> BalloonUpdate \<Rightarrow> opts \<Rightarrow> trace
     \<Rightarrow> unit api_result \<times> trace" where
  "PatchBalloon e f ctx ballonUpdate opts tr =
     ops_PatchBalloon e
      (apply_opts opts (SetBody (Some (BBalloonUpdate ballonUpdate))
       (NewParamsWithContext (CtxWithTimeout ctx (request_timeout f))))) tr"

definition DescribeBalloonStats ::
  "env \<Rightarrow> Client \<Rightarrow> ctx \<Rightarrow> trace
     \<Rightarrow> BalloonStats api_result \<times> trace" where
  "DescribeBalloonStats e f ctx tr =
     ops_DescribeBalloonStats e
      (SetTimeout (request_timeout f) (SetContext ctx (NewParams e))) tr"

definition PatchBalloonStatsInterval ::
  "env \<Rightarrow> Client \<Rightarrow> ctx \<Rightarrow> BalloonStatsUpdate \<Rightarrow> opts \<Rightarrow> trace
     \<Rightarrow> unit api_result \<times> trace" where
  "PatchBalloonStatsInterval e f ctx balloonStatsUpdate opts tr =
     ops_PatchBalloonStatsInterval e
      (apply_opts opts (SetBody (Some (BBalloonStatsUpdate balloonStatsUpdate))
       (NewParamsWithContext (CtxWithTimeout ctx (request_timeout f))))) tr"

definition GetExportVMConfig ::
  "env \<Rightarrow> Client \<Rightarrow> opts \<Rightarrow> trace
     \<Rightarrow> FullVMConfiguration api_result \<times> trace" where
  "GetExportVMConfig e f opts tr =
     ops_GetExportVMConfig e
      (apply_opts opts (SetTimeout (request_timeout f) (NewParams e))) tr"

lemmas client_defs =
  GetExportVMConfig_def
  GetFirecrackerVersion_def
  PutLogger_def
  PutMetrics_def
  PutMachineConfiguration_def
  PutGuestBootSource_def
  PutGuestNetworkInterfaceByID_def
  PatchGuestNetworkInterfaceByID_def
  PutGuestDriveByID_def
  PutGuestVsock_def
  PatchVM_def
  CreateSnapshot_def
  LoadSnapshot_def
  CreateSyncAction_def
  PutMmds_def
  GetMmds_def
  PatchMmds_def
  PutMmdsConfig_def
  GetMachineConfiguration_def
  GetInstanceInfo_def
  PatchGuestDriveByID_def
  PutBalloon_def
  DescribeBalloonConfig_def
  PatchBalloon_def
  DescribeBalloonStats_def
  PatchBalloonStatsInterval_def

text \<open>Every wrapper submits exactly one request.\<close>

definition one_request :: "trace \<Rightarrow> trace \<Rightarrow> bool" where
  "one_request tr tr' \<longleftrightarrow> (\<exists>op. tr' = tr @ [EvApi op])"

lemma one_requestI [intro, simp]: "one_request tr (tr @ [EvApi op])"
  by (simp add: one_request_def)

subsection \<open>The request timeout\<close>

text \<open>
  The number of milliseconds in the environment is the timeout of a request, up to 9223372036854
  (292 years): from there the product wraps, first to a negative duration, with which a context
  is born expired. \<open>PutGuestDriveByID\<close> halves the number before the product, so that one
  millisecond leaves it no time at all.
\<close>

lemma sint_word_of_nat64:
  "n < 2 ^ 63 \<Longrightarrow> sint (word_of_int (int n) :: int64) = int n"
  by (subst signed_of_int) (auto simp: signed_take_bit_int_eq_self_iff)

lemma NewClient_timeout_ms:
  assumes "getenv e firecrackerRequestTimeoutEnv = nat_dec n" and "0 < n" and "n < 2 ^ 63"
  shows "firecrackerRequestTimeout (NewClient e []) = word_of_int (int n)"
  using assms by (simp add: NewClient_def envValueOrDefaultInt_def atoi_nat_dec)

lemma NewClient_request_timeout:
  assumes "getenv e firecrackerRequestTimeoutEnv = nat_dec n" and "0 < n" and "n < 2 ^ 63"
  shows "sint (request_timeout (NewClient e [])) = int n * 1000000 \<longleftrightarrow> n \<le> 9223372036854"
proof -
  have "request_timeout (NewClient e []) = word_of_int (int n * 1000000)"
    using assms by (simp add: request_timeout_def NewClient_timeout_ms time_Millisecond_def)
  then have "sint (request_timeout (NewClient e [])) = signed_take_bit 63 (int n * 1000000)"
    by (simp only: signed_of_int) simp
  then show ?thesis
    using assms(2) by (simp only: signed_take_bit_int_eq_self_iff) auto
qed

lemma NewClient_half_timeout:
  assumes "getenv e firecrackerRequestTimeoutEnv = nat_dec n" and "0 < n" and "n \<le> 9223372036854"
  shows "sint (half_request_timeout (NewClient e [])) = int (n div 2) * 1000000"
proof -
  have "sint (word_of_int (int n) :: int64) = int n" using assms by (intro sint_word_of_nat64) simp
  then have "half_request_timeout (NewClient e []) = word_of_int (int (n div 2) * 1000000)"
    using assms by (simp add: half_request_timeout_def NewClient_timeout_ms time_Millisecond_def
        int64_div_def signed_divide_int_def zdiv_int)
  then show ?thesis
    using assms(3) by (simp only: signed_of_int) (auto simp: signed_take_bit_int_eq_self_iff)
qed

lemma request_timeout_wraps:
  assumes "getenv e firecrackerRequestTimeoutEnv = nat_dec 9223372036855"
  shows "sint (request_timeout (NewClient e [])) = - 9223372036854551616"
proof -
  have "request_timeout (NewClient e []) = word_of_int 9223372036855000000"
    using NewClient_timeout_ms [OF assms]
    by (simp add: request_timeout_def time_Millisecond_def)
  then show ?thesis by (simp only: signed_of_int) (simp add: signed_take_bit_eq_take_bit_shift take_bit_eq_mod)
qed


lemma nat_dec_1: "nat_dec 1 = ''1''"
  by code_simp


end
