(* ===== verification/AliveWait.thy ===== *)
theory AliveWait
  imports ApiClient
begin

text \<open>
  \<open>waitForAliveVMM\<close> of \<open>utils.go\<close>: it asks the VMM for its machine configuration at every tick until it
  answers or the context is done. Whether the select of a round takes the branch of the context is
  the schedule \<open>expired\<close>. The loop may run for ever: \<open>None\<close> is a call that does not return.
\<close>

definition defaultAliveVMMCheckDur :: int64 where
  "defaultAliveVMMCheckDur = 10 * time_Millisecond"

text \<open>A ticker panics on an interval that is not positive; this one is.\<close>

lemma check_interval_positive: "0 < sint defaultAliveVMMCheckDur"
  by (simp add: defaultAliveVMMCheckDur_def time_Millisecond_def)

partial_function (option) alive_loop ::
  "env \<Rightarrow> Client \<Rightarrow> (nat \<Rightarrow> bool) \<Rightarrow> nat \<Rightarrow> trace \<Rightarrow> ((go_panic + go_error option) \<times> trace) option" where
  "alive_loop e f expired n tr =
    (if expired n then Some (Inr (Some CtxErr), tr)
     else case GetMachineConfiguration e f [] tr of
            (Inl p, tr1) \<Rightarrow> Some (Inl p, tr1)
          | (Inr (Inl err), tr1) \<Rightarrow> alive_loop e f expired (Suc n) tr1
          | (Inr (Inr cfg), tr1) \<Rightarrow> Some (Inr None, tr1))"

definition waitForAliveVMM ::
  "env \<Rightarrow> Client \<Rightarrow> (nat \<Rightarrow> bool) \<Rightarrow> trace \<Rightarrow> ((go_panic + go_error option) \<times> trace) option" where
  "waitForAliveVMM e f expired tr = alive_loop e f expired 0 tr"

text \<open>The request of a round, which is always the same, and the trace before the n-th round.\<close>

definition alive_request :: "env \<Rightarrow> Client \<Rightarrow> client_operation" where
  "alive_request e f = \<lparr>OpID = ''getMachineConfiguration'', Method = ''GET'', PathPattern = ''/machine-config'',
     Params = SetTimeout (request_timeout f) (NewParams e)\<rparr>"

definition asked :: "env \<Rightarrow> Client \<Rightarrow> trace \<Rightarrow> nat \<Rightarrow> trace" where
  "asked e f tr n = tr @ replicate n (EvApi (alive_request e f))"

lemma GetMachineConfiguration_request:
  "snd (GetMachineConfiguration e f [] tr) = tr @ [EvApi (alive_request e f)]"
  by (simp add: GetMachineConfiguration_def ops_GetMachineConfiguration_def alive_request_def)

lemma asked_Suc: "asked e f tr (Suc n) = snd (GetMachineConfiguration e f [] (asked e f tr n))"
  by (simp add: GetMachineConfiguration_request asked_def replicate_append_same)

text \<open>A round after which the loop goes on.\<close>

definition asks_again :: "env \<Rightarrow> Client \<Rightarrow> (nat \<Rightarrow> bool) \<Rightarrow> trace \<Rightarrow> nat \<Rightarrow> bool" where
  "asks_again e f expired tr n \<longleftrightarrow> \<not> expired n \<and>
     (\<exists>err. fst (GetMachineConfiguration e f [] (asked e f tr n)) = Inr (Inl err))"

lemma alive_again:
  "asks_again e f expired tr n \<Longrightarrow>
     alive_loop e f expired n (asked e f tr n) = alive_loop e f expired (Suc n) (asked e f tr (Suc n))"
  by (subst alive_loop.simps) (auto simp: asks_again_def asked_Suc split: prod.split sum.split)

lemma alive_skip:
  "\<forall>i<n. asks_again e f expired tr i \<Longrightarrow>
     alive_loop e f expired 0 tr = alive_loop e f expired n (asked e f tr n)"
  by (induction n) (simp_all add: asked_def [of _ _ _ 0] alive_again)

lemma alive_decides:
  assumes "alive_loop e f expired n t = Some x"
  shows "t = asked e f tr n \<longrightarrow> (\<exists>k. \<not> asks_again e f expired tr k)"
proof (rule alive_loop.raw_induct
    [where P = "\<lambda>e f expired n t x. t = asked e f tr n \<longrightarrow> (\<exists>k. \<not> asks_again e f expired tr k)", OF _ assms])
  fix al e f expired n t x
  assume IH: "\<And>e f expired n t x. al e f expired n t = Some x \<Longrightarrow>
      t = asked e f tr n \<longrightarrow> (\<exists>k. \<not> asks_again e f expired tr k)"
    and eq: "(if expired n then Some (Inr (Some CtxErr), t)
     else case GetMachineConfiguration e f [] t of
            (Inl p, tr1) \<Rightarrow> Some (Inl p, tr1)
          | (Inr (Inl err), tr1) \<Rightarrow> al e f expired (Suc n) tr1
          | (Inr (Inr cfg), tr1) \<Rightarrow> Some (Inr None, tr1)) = Some x"
  show "t = asked e f tr n \<longrightarrow> (\<exists>k. \<not> asks_again e f expired tr k)"
  proof (intro impI)
    assume t: "t = asked e f tr n"
    show "\<exists>k. \<not> asks_again e f expired tr k"
    proof (cases "asks_again e f expired tr n")
      case True
      then obtain err where "GetMachineConfiguration e f [] t = (Inr (Inl err), asked e f tr (Suc n))" "\<not> expired n"
        unfolding asks_again_def t asked_Suc by (metis prod.collapse)
      with eq have "al e f expired (Suc n) (asked e f tr (Suc n)) = Some x" by simp
      from IH [OF this] show ?thesis by blast
    qed blast
  qed
qed

text \<open>The first round that does not ask again decides.\<close>

lemma alive_first:
  assumes "\<not> asks_again e f expired tr n" and "\<forall>i<n. asks_again e f expired tr i"
  shows "waitForAliveVMM e f expired tr = Some
    (if expired n then (Inr (Some CtxErr), asked e f tr n)
     else (case fst (GetMachineConfiguration e f [] (asked e f tr n)) of Inl p \<Rightarrow> Inl p | Inr q \<Rightarrow> Inr None,
           asked e f tr (Suc n)))"
proof -
  obtain q where q: "GetMachineConfiguration e f [] (asked e f tr n) = (q, asked e f tr (Suc n))"
    by (metis asked_Suc prod.collapse)
  have "waitForAliveVMM e f expired tr = alive_loop e f expired n (asked e f tr n)"
    using alive_skip [OF assms(2)] by (simp add: waitForAliveVMM_def)
  also have "\<dots> = Some (if expired n then (Inr (Some CtxErr), asked e f tr n)
     else (case q of Inl p \<Rightarrow> Inl p | Inr q \<Rightarrow> Inr None, asked e f tr (Suc n)))"
    using assms(1) q by (subst alive_loop.simps) (auto simp: asks_again_def split: sum.split)
  finally show ?thesis using q by simp
qed

text \<open>It returns exactly when its context is done at some round or a request is not answered by an error.\<close>

lemma waitForAliveVMM_returns:
  "(\<exists>x. waitForAliveVMM e f expired tr = Some x) \<longleftrightarrow> (\<exists>n. \<not> asks_again e f expired tr n)"
proof
  assume "\<exists>x. waitForAliveVMM e f expired tr = Some x"
  then show "\<exists>n. \<not> asks_again e f expired tr n"
    using alive_decides [of e f expired 0 "asked e f tr 0" _ tr] by (auto simp: waitForAliveVMM_def asked_def)
next
  assume "\<exists>n. \<not> asks_again e f expired tr n"
  then obtain n where "\<not> asks_again e f expired tr n" "\<forall>i<n. asks_again e f expired tr i"
    using exists_least_iff [of "\<lambda>n. \<not> asks_again e f expired tr n"] by blast
  from alive_first [OF this] show "\<exists>x. waitForAliveVMM e f expired tr = Some x" by blast
qed

text \<open>
  It returns nil only if the VMM answered the last of its requests with status 200 and all before it
  failed; it sends nothing but these requests.
\<close>

lemma waitForAliveVMM_nil:
  assumes "waitForAliveVMM e f expired tr = Some (Inr None, tr')"
  shows "\<exists>n r. (\<forall>i<n. asks_again e f expired tr i) \<and> tr' = asked e f tr (Suc n)
    \<and> api_machine e (asked e f tr n) (alive_request e f) = Inr r \<and> Code r = 200"
proof -
  obtain n where n: "\<not> asks_again e f expired tr n" "\<forall>i<n. asks_again e f expired tr i"
    using assms waitForAliveVMM_returns [of e f expired tr]
      exists_least_iff [of "\<lambda>n. \<not> asks_again e f expired tr n"] by blast
  with assms alive_first [OF n] have "\<not> expired n" "tr' = asked e f tr (Suc n)"
    and "\<exists>q. fst (GetMachineConfiguration e f [] (asked e f tr n)) = Inr q"
    by (auto split: if_splits sum.splits)
  with n(1) obtain cfg where "fst (GetMachineConfiguration e f [] (asked e f tr n)) = Inr (Inr cfg)"
    by (metis asks_again_def sum.exhaust)
  then obtain r where "api_machine e (asked e f tr n) (alive_request e f) = Inr r" "Code r = 200"
    by (auto simp: GetMachineConfiguration_def ops_GetMachineConfiguration_def alive_request_def op_submit_def
        reader_eqs ReadResponse_OK_iff split: sum.splits read_result.splits)
  with n(2) \<open>tr' = asked e f tr (Suc n)\<close> show ?thesis by blast
qed

end
