(* ===== verification/Vmconf.thy ===== *)
theory Vmconf
  imports World
begin

text \<open>
  From a CNI result to the network configuration of a VM (\<open>cni/internal/cniutil.go\<close>,
  \<open>GetLink\<close> of \<open>cni/internal/netlink.go\<close>, \<open>cni/vmconf/vmconf.go\<close>), and the \<open>ip=\<close> boot parameter.
  A CNI result is a value here; its interfaces and IP configurations are non-nil, and an interface
  index that points outside the list panics as in Go. The textual form of an IP address is that
  of Go's \<open>net.IP\<close>.
\<close>

subsection \<open>Selecting interfaces\<close>

fun InterfaceIPs_loop ::
  "cni_interface list \<Rightarrow> string \<Rightarrow> string \<Rightarrow> cni_ipconfig list \<Rightarrow> cni_ipconfig list
     \<Rightarrow> go_panic + cni_ipconfig list" where
  "InterfaceIPs_loop ifaces ifaceName sandbox [] ifaceIPs = Inr ifaceIPs"
| "InterfaceIPs_loop ifaces ifaceName sandbox (ipconfig # ips) ifaceIPs =
    (case ipc_Interface ipconfig of
       None \<Rightarrow> InterfaceIPs_loop ifaces ifaceName sandbox ips ifaceIPs
     | Some i \<Rightarrow>
        bind_sum (go_index ifaces i) (\<lambda>iface.
          InterfaceIPs_loop ifaces ifaceName sandbox ips
            (if if_Name iface = ifaceName \<and> if_Sandbox iface = sandbox
             then ifaceIPs @ [ipconfig] else ifaceIPs)))"

definition InterfaceIPs :: "cni_result \<Rightarrow> string \<Rightarrow> string \<Rightarrow> go_panic + cni_ipconfig list" where
  "InterfaceIPs result ifaceName sandbox =
     InterfaceIPs_loop (Interfaces result) ifaceName sandbox (IPs result) []"

definition FilterBySandbox ::
  "string \<Rightarrow> cni_interface list \<Rightarrow> cni_interface list \<times> cni_interface list" where
  "FilterBySandbox sandbox ifaces =
     foldl (\<lambda>(ins, outs) iface.
       if if_Sandbox iface = sandbox then (ins @ [iface], outs) else (ins, outs @ [iface]))
       ([], []) ifaces"

definition IfacesWithName :: "string \<Rightarrow> cni_interface list \<Rightarrow> cni_interface list" where
  "IfacesWithName name ifaces =
     foldl (\<lambda>found iface. if if_Name iface = name then found @ [iface] else found) [] ifaces"

definition VMTapPair :: "cni_result \<Rightarrow> string \<Rightarrow> go_error + cni_interface \<times> cni_interface" where
  "VMTapPair result vmID =
    (case FilterBySandbox vmID (Interfaces result) of (vmIfaces, otherIfaces) \<Rightarrow>
       if length vmIfaces > 1 then
         Inl (Errorf ''expected to find at most 1 interface in sandbox %q, but instead found %d''
           [vmID, itoa (int (length vmIfaces))] None)
       else if length vmIfaces = 0 then Inl (LinkNotFoundError (''pseudo-device for '' @ vmID))
       else
         let vmIface = vmIfaces ! 0;
             tapName = if_Name vmIface;
             tapIfaces = IfacesWithName tapName otherIfaces
         in if length tapIfaces > 1 then
              Inl (Errorf ''expected to find at most 1 interface with name %q, but instead found %d''
                [tapName, itoa (int (length tapIfaces))] None)
            else if length tapIfaces = 0 then Inl (LinkNotFoundError tapName)
            else Inr (vmIface, tapIfaces ! 0))"

lemma FilterBySandbox_filter:
  "FilterBySandbox sandbox ifaces =
     (filter (\<lambda>i. if_Sandbox i = sandbox) ifaces, filter (\<lambda>i. if_Sandbox i \<noteq> sandbox) ifaces)"
proof -
  have "foldl (\<lambda>(ins, outs) iface.
       if if_Sandbox iface = sandbox then (ins @ [iface], outs) else (ins, outs @ [iface])) (a, b) ifaces
     = (a @ filter (\<lambda>i. if_Sandbox i = sandbox) ifaces, b @ filter (\<lambda>i. if_Sandbox i \<noteq> sandbox) ifaces)"
    for a b
    by (induction ifaces arbitrary: a b) auto
  then show ?thesis by (simp add: FilterBySandbox_def)
qed

lemma IfacesWithName_filter: "IfacesWithName name ifaces = filter (\<lambda>i. if_Name i = name) ifaces"
proof -
  have "foldl (\<lambda>found iface. if if_Name iface = name then found @ [iface] else found) a ifaces
     = a @ filter (\<lambda>i. if_Name i = name) ifaces" for a
    by (induction ifaces arbitrary: a) auto
  then show ?thesis by (simp add: IfacesWithName_def)
qed

lemma VMTapPair_Inr_iff:
  "VMTapPair result vmID = Inr (vm, tap) \<longleftrightarrow>
     filter (\<lambda>i. if_Sandbox i = vmID) (Interfaces result) = [vm]
   \<and> filter (\<lambda>i. if_Sandbox i \<noteq> vmID \<and> if_Name i = if_Name vm) (Interfaces result) = [tap]"
proof -
  define vms where "vms = filter (\<lambda>i. if_Sandbox i = vmID) (Interfaces result)"
  define taps where
    "taps n = filter (\<lambda>i. if_Sandbox i \<noteq> vmID \<and> if_Name i = n) (Interfaces result)" for n
  have *: "IfacesWithName n (filter (\<lambda>i. if_Sandbox i \<noteq> vmID) (Interfaces result)) = taps n" for n
    by (simp add: IfacesWithName_filter taps_def conj_commute)
  show ?thesis
  proof (cases vms rule: list_cases3)
    case (single v)
    then show ?thesis
      unfolding VMTapPair_def FilterBySandbox_filter prod.case * vms_def [symmetric]
        taps_def [symmetric] Let_def
      by (cases "taps (if_Name v)" rule: list_cases3) auto
  qed (unfold VMTapPair_def FilterBySandbox_filter prod.case * vms_def [symmetric]
        taps_def [symmetric] Let_def, auto)
qed

text \<open>The indices of a result that point into its list of interfaces.\<close>

definition result_ok :: "cni_result \<Rightarrow> bool" where
  "result_ok result \<longleftrightarrow>
     (\<forall>ip\<in>set (IPs result). \<forall>i. ipc_Interface ip = Some i \<longrightarrow>
        0 \<le> i \<and> i < int (length (Interfaces result)))"

definition points_to :: "cni_interface list \<Rightarrow> string \<Rightarrow> string \<Rightarrow> cni_ipconfig \<Rightarrow> bool" where
  "points_to ifaces name sandbox ip =
    (case ipc_Interface ip of
       None \<Rightarrow> False
     | Some i \<Rightarrow> 0 \<le> i \<and> i < int (length ifaces) \<and>
        if_Name (ifaces ! nat i) = name \<and> if_Sandbox (ifaces ! nat i) = sandbox)"

lemma InterfaceIPs_loop_Inr:
  "InterfaceIPs_loop ifaces n sb ips acc = Inr r \<longleftrightarrow>
     (\<forall>ip\<in>set ips. \<forall>i. ipc_Interface ip = Some i \<longrightarrow> 0 \<le> i \<and> i < int (length ifaces))
     \<and> r = acc @ filter (points_to ifaces n sb) ips"
proof (induction ips arbitrary: acc)
  case Nil
  then show ?case by auto
next
  case (Cons ip ips)
  show ?case
  proof (cases "ipc_Interface ip")
    case None
    with Cons show ?thesis by (simp add: points_to_def)
  next
    case (Some i)
    show ?thesis
    proof (cases "0 \<le> i \<and> i < int (length ifaces)")
      case True
      then show ?thesis
        using Some Cons.IH by (auto simp: points_to_def go_index_def)
    next
      case False
      with Some show ?thesis by (auto simp: go_index_def)
    qed
  qed
qed

lemma InterfaceIPs_Inr_iff:
  "InterfaceIPs result n sb = Inr r \<longleftrightarrow>
     result_ok result \<and> r = filter (points_to (Interfaces result) n sb) (IPs result)"
  by (simp add: InterfaceIPs_def InterfaceIPs_loop_Inr result_ok_def)

subsection \<open>Textual IP addresses\<close>

text \<open>
  \<open>net.IP.To4\<close>: the four bytes of an IPv4 address, also when stored in 16 bytes. The text of an
  IPv6 address shortens the first longest run of at least two zero groups.
\<close>

definition To4 :: "ip \<Rightarrow> ip option" where
  "To4 p =
    (if length p = 4 then Some p
     else if length p = 16 \<and> take 10 p = replicate 10 0 \<and> p ! 10 = 255 \<and> p ! 11 = 255
     then Some (drop 12 p) else None)"

definition byte_dec :: "byte \<Rightarrow> string" where
  "byte_dec b = nat_dec (unat b)"

definition dotted :: "byte list \<Rightarrow> string" where
  "dotted bs = str_join (map byte_dec bs) ''.''"

definition hex_digit :: "nat \<Rightarrow> char" where
  "hex_digit n = (if n < 10 then digit n else char_of (87 + n))"

fun hex :: "nat \<Rightarrow> string" where
  "hex n = (if n < 16 then [hex_digit n] else hex (n div 16) @ [hex_digit (n mod 16)])"

declare hex.simps [simp del]

fun groups16 :: "byte list \<Rightarrow> nat list" where
  "groups16 (a # b # bs) = (256 * unat a + unat b) # groups16 bs"
| "groups16 _ = []"

definition zero_run :: "nat list \<Rightarrow> nat \<Rightarrow> nat" where
  "zero_run gs i = length (takeWhile (\<lambda>g. g = 0) (drop i gs))"

definition best_run :: "nat list \<Rightarrow> nat \<times> nat" where
  "best_run gs =
     foldl (\<lambda>(s, l) i. if 2 \<le> zero_run gs i \<and> l < zero_run gs i then (i, zero_run gs i) else (s, l))
       (0, 0) [0..<length gs]"

definition v6_text :: "byte list \<Rightarrow> string" where
  "v6_text p =
    (let gs = groups16 p
     in case best_run gs of (s, l) \<Rightarrow>
       if l = 0 then str_join (map hex gs) '':''
       else str_join (map hex (take s gs)) '':'' @ ''::'' @ str_join (map hex (drop (s + l) gs)) '':'')"

definition byte_hex :: "byte \<Rightarrow> string" where
  "byte_hex b = [hex_digit (unat b div 16), hex_digit (unat b mod 16)]"

definition IP_String :: "ip \<Rightarrow> string" where
  "IP_String p =
    (if p = [] then ''<nil>''
     else case To4 p of
       Some q \<Rightarrow> dotted q
     | None \<Rightarrow> if length p = 16 then v6_text p else CHR ''?'' # concat (map byte_hex p))"

subsection \<open>Static network configuration\<close>

record StaticNetworkConf =
  TapName :: string
  snc_NetNSPath :: string
  snc_VMIfName :: string
  VMMacAddr :: string
  VMMTU :: int64
  VMIPConfig :: "cni_ipconfig option"
  VMRoutes :: "string list"
  VMNameservers :: "string list"
  VMDomain :: string
  VMSearchDomains :: "string list"
  VMResolverOptions :: "string list"

definition IPBootParam_fields :: "StaticNetworkConf \<Rightarrow> go_panic + string list" where
  "IPBootParam_fields c =
     bind_sum (deref (VMIPConfig c)) (\<lambda>ipc.
       let clientIP = IP_String (net_IP (ipc_Address ipc));
           serverIP = '''';
           defaultGateway = IP_String (ipc_Gateway ipc);
           mask = net_Mask (ipc_Address ipc)
       in
       bind_sum (go_index mask 0) (\<lambda>m0.
       bind_sum (go_index mask 1) (\<lambda>m1.
       bind_sum (go_index mask 2) (\<lambda>m2.
       bind_sum (go_index mask 3) (\<lambda>m3.
         let subnetMask = dotted [m0, m1, m2, m3];
             dhcpHostname = '''';
             device = snc_VMIfName c;
             autoconfiguration = ''off'';
             nameservers = take 2 (VMNameservers c @ ['''', '''']);
             ntpServer = ''''
         in Inr [clientIP, serverIP, defaultGateway, subnetMask, dhcpHostname, device,
                 autoconfiguration, nameservers ! 0, nameservers ! 1, ntpServer])))))"

definition IPBootParam :: "StaticNetworkConf \<Rightarrow> go_panic + string" where
  "IPBootParam c = bind_sum (IPBootParam_fields c) (\<lambda>fs. Inr (str_join fs '':''))"

definition GetLink :: "env \<Rightarrow> string \<Rightarrow> trace \<Rightarrow> (go_error + int64) \<times> trace" where
  "GetLink e name tr =
    ((case link_mtu e tr name of
        Inl err \<Rightarrow> if link_not_found e err then Inl (LinkNotFoundError name) else Inl err
      | Inr mtu \<Rightarrow> Inr mtu),
     tr @ [EvLinkByName name])"

definition mtuOf :: "env \<Rightarrow> string \<Rightarrow> string \<Rightarrow> trace \<Rightarrow> (go_error + int64) \<times> trace" where
  "mtuOf e ifaceName netNS tr =
    (case syscall e (EvNetNSDo netNS) tr of
       (Some err, tr1) \<Rightarrow> (Inl (Wrapf ''failed to find MTU: %w'' [] err), tr1)
     | (None, tr1) \<Rightarrow>
        (case GetLink e ifaceName tr1 of
           (Inl err, tr2) \<Rightarrow>
             (Inl (Wrapf ''failed to find MTU: %w'' []
               (Wrapf ''failed to find device %q in netns %q: %w'' [ifaceName, netNS] err)), tr2)
         | (Inr mtu, tr2) \<Rightarrow> (Inr mtu, tr2)))"

definition StaticNetworkConfFrom ::
  "env \<Rightarrow> cni_result \<Rightarrow> string \<Rightarrow> trace
     \<Rightarrow> (go_panic + (go_error + StaticNetworkConf)) \<times> trace" where
  "StaticNetworkConfFrom e result containerID tr =
    (case cni_parse e result of
       Some err \<Rightarrow> (Inr (Inl (Wrapf ''failed to parse cni result: %w'' [] err)), tr)
     | None \<Rightarrow>
    (case VMTapPair result containerID of
       Inl err \<Rightarrow> (Inr (Inl err), tr)
     | Inr (vmIface, tapIface) \<Rightarrow>
    (case InterfaceIPs result (if_Name vmIface) (if_Sandbox vmIface) of
       Inl p \<Rightarrow> (Inl p, tr)
     | Inr vmIPs \<Rightarrow>
    (if length vmIPs \<noteq> 1 then
       (Inr (Inl (Errorf ''expected to find 1 IP for vm interface %q, but instead found %+v''
          [if_Name vmIface] None)), tr)
     else
    (case syscall e (EvGetNS (if_Sandbox tapIface)) tr of
       (Some err, tr1) \<Rightarrow>
         (Inr (Inl (Wrapf ''failed to find netns at path %q: %w'' [if_Sandbox tapIface] err)), tr1)
     | (None, tr1) \<Rightarrow>
    (case mtuOf e (if_Name tapIface) (if_Sandbox tapIface) tr1 of
       (Inl err, tr2) \<Rightarrow> (Inr (Inl err), tr2)
     | (Inr tapMTU, tr2) \<Rightarrow>
         (Inr (Inr \<lparr>TapName = if_Name tapIface, snc_NetNSPath = if_Sandbox tapIface,
            snc_VMIfName = '''', VMMacAddr = if_Mac vmIface, VMMTU = tapMTU,
            VMIPConfig = Some (vmIPs ! 0), VMRoutes = Routes result,
            VMNameservers = dns_Nameservers (DNS result), VMDomain = dns_Domain (DNS result),
            VMSearchDomains = dns_Search (DNS result),
            VMResolverOptions = dns_Options (DNS result)\<rparr>), tr2)))))))"

subsection \<open>The text of an IPv4 address\<close>

lemma byte_dec_chars: "c \<in> set (byte_dec b) \<Longrightarrow> is_digit c"
  by (auto simp: byte_dec_def nat_dec_digits)

lemma not_digit [simp]: "\<not> is_digit CHR ''.''" "\<not> is_digit CHR '':''"
  by (simp_all add: is_digit_def)

lemma str_join_chars: "c \<in> set (str_join ws sep) \<Longrightarrow> (\<exists>w\<in>set ws. c \<in> set w) \<or> c \<in> set sep"
  by (induction ws sep rule: str_join.induct) auto

lemma dotted_no_colon: "CHR '':'' \<notin> set (dotted bs)"
  using byte_dec_chars not_digit(2) by (fastforce simp: dotted_def dest: str_join_chars)

text \<open>Reading the four numbers back.\<close>

definition parse_dotted :: "string \<Rightarrow> nat list" where
  "parse_dotted s = map undec (split_on CHR ''.'' s)"

lemma parse_dotted_dotted:
  assumes "bs \<noteq> []"
  shows "parse_dotted (dotted bs) = map unat bs"
proof -
  have "CHR ''.'' \<notin> set w" if "w \<in> set (map byte_dec bs)" for w
    using that byte_dec_chars not_digit(1) by fastforce
  then have "split_on CHR ''.'' (dotted bs) = map byte_dec bs"
    unfolding dotted_def using assms by (intro split_on_join) auto
  then show ?thesis by (simp add: parse_dotted_def byte_dec_def comp_def)
qed

lemma To4_length: "To4 p = Some q \<Longrightarrow> length q = 4"
  by (auto simp: To4_def split: if_splits)

lemma IP_String_v4:
  assumes "To4 p = Some q"
  shows "IP_String p = dotted q" and "parse_dotted (IP_String p) = map unat q"
    and "CHR '':'' \<notin> set (IP_String p)"
proof -
  have "p \<noteq> []" and "q \<noteq> []" using assms To4_length [OF assms] by (auto simp: To4_def)
  with assms show "IP_String p = dotted q" by (simp add: IP_String_def)
  with \<open>q \<noteq> []\<close> show "parse_dotted (IP_String p) = map unat q" "CHR '':'' \<notin> set (IP_String p)"
    by (simp_all add: parse_dotted_dotted dotted_no_colon)
qed

lemma IPBootParam_fields_mask:
  assumes "VMIPConfig c = Some ipc" and "4 \<le> length (net_Mask (ipc_Address ipc))"
  shows "IPBootParam_fields c = Inr
     [IP_String (net_IP (ipc_Address ipc)), '''', IP_String (ipc_Gateway ipc),
      dotted (take 4 (net_Mask (ipc_Address ipc))), '''', snc_VMIfName c, ''off'',
      (VMNameservers c @ ['''', '''']) ! 0, (VMNameservers c @ ['''', '''']) ! 1, '''']"
proof -
  obtain a b d f ms where "net_Mask (ipc_Address ipc) = a # b # d # f # ms"
    using assms(2) by (auto simp: numeral_eq_Suc Suc_le_length_iff)
  with assms(1) show ?thesis
    by (simp add: IPBootParam_fields_def go_index_def Let_def numeral_eq_Suc nth_take
      del: take_append)
qed

subsection \<open>Properties\<close>


text \<open>\<open>IPBootParam\<close> panics exactly when there is no IP configuration or its mask has fewer than
  four bytes, which nothing in the SDK checks.\<close>

lemma IPBootParam_panics_iff:
  "IPBootParam c = Inl p \<longleftrightarrow>
     (case VMIPConfig c of
        None \<Rightarrow> p = NilDereference
      | Some ipc \<Rightarrow> length (net_Mask (ipc_Address ipc)) < 4 \<and> p = IndexOutOfRange)"
proof (cases "VMIPConfig c")
  case None
  then show ?thesis by (auto simp: IPBootParam_def IPBootParam_fields_def)
next
  case (Some ipc)
  show ?thesis
  proof (cases "4 \<le> length (net_Mask (ipc_Address ipc))")
    case True
    with Some show ?thesis by (simp add: IPBootParam_def IPBootParam_fields_mask)
  next
    case False
    with Some show ?thesis
      by (auto simp: IPBootParam_def IPBootParam_fields_def go_index_def Let_def)
  qed
qed

text \<open>C40: For an IPv4 address, gateway and mask, the boot parameter is ten fields separated by
  colons from which the address, the gateway, the mask, the device and the first two nameservers
  are read back.\<close>

theorem IPBootParam_v4_roundtrip:
  assumes "VMIPConfig c = Some ipc"
    and "To4 (net_IP (ipc_Address ipc)) = Some a4" and "To4 (ipc_Gateway ipc) = Some g4"
    and "length (net_Mask (ipc_Address ipc)) = 4"
    and "CHR '':'' \<notin> set (snc_VMIfName c)"
    and "\<forall>n\<in>set (VMNameservers c). CHR '':'' \<notin> set n"
  shows "\<exists>s fs. IPBootParam c = Inr s \<and> split_on CHR '':'' s = fs \<and> length fs = 10
    \<and> parse_dotted (fs ! 0) = map unat a4
    \<and> parse_dotted (fs ! 2) = map unat g4
    \<and> parse_dotted (fs ! 3) = map unat (net_Mask (ipc_Address ipc))
    \<and> fs ! 5 = snc_VMIfName c \<and> fs ! 6 = ''off''
    \<and> take 2 (drop 7 fs) = take 2 (VMNameservers c @ ['''', ''''])
    \<and> fs ! 1 = '''' \<and> fs ! 4 = '''' \<and> fs ! 9 = ''''"
proof -
  let ?ns = "VMNameservers c @ ['''', '''']"
  define fs where "fs = [IP_String (net_IP (ipc_Address ipc)), '''', IP_String (ipc_Gateway ipc),
      dotted (take 4 (net_Mask (ipc_Address ipc))), '''', snc_VMIfName c, ''off'', ?ns ! 0, ?ns ! 1, '''']"
  have f: "IPBootParam_fields c = Inr fs"
    unfolding fs_def using assms(1,4) by (intro IPBootParam_fields_mask) auto
  have n: "CHR '':'' \<notin> set n" if "n \<in> set ?ns" for n using that assms(6) by auto
  have "?ns ! 0 \<in> set ?ns" "?ns ! 1 \<in> set ?ns" by (rule nth_mem; simp)+
  then have "\<forall>w\<in>set fs. CHR '':'' \<notin> set w"
    using assms(5) n IP_String_v4(3) [OF assms(2)] IP_String_v4(3) [OF assms(3)] dotted_no_colon
    by (auto simp: fs_def)
  then have "split_on CHR '':'' (str_join fs '':'') = fs"
    by (intro split_on_join) (auto simp: fs_def)
  moreover have "net_Mask (ipc_Address ipc) \<noteq> []" using assms(4) by auto
  moreover have "take 2 ?ns = [?ns ! 0, ?ns ! 1]" by (cases "VMNameservers c" rule: list_cases3) auto
  ultimately show ?thesis
    using f assms(4) IP_String_v4(2) [OF assms(2)] IP_String_v4(2) [OF assms(3)]
    by (auto simp: IPBootParam_def fs_def parse_dotted_dotted numeral_eq_Suc)
qed

theorem IPBootParam_v4_roundtrip_witness:
  "\<exists>c ipc. VMIPConfig c = Some ipc \<and> IPBootParam c = Inr ''10.0.0.2::10.0.0.1:255.255.255.0::eth0:off:8.8.8.8::''
     \<and> (\<exists>s fs. IPBootParam c = Inr s \<and> split_on CHR '':'' s = fs \<and> length fs = 10
          \<and> parse_dotted (fs ! 0) = [10, 0, 0, 2])"
proof -
  define ipc where "ipc = \<lparr>ipc_Interface = Some 0,
     ipc_Address = \<lparr>net_IP = [10, 0, 0, 2], net_Mask = [255, 255, 255, 0]\<rparr>, ipc_Gateway = [10, 0, 0, 1]\<rparr>"
  define c where "c = \<lparr>TapName = ''tap0'', snc_NetNSPath = ''/n'', snc_VMIfName = ''eth0'',
     VMMacAddr = '''', VMMTU = 1500, VMIPConfig = Some ipc, VMRoutes = [],
     VMNameservers = [''8.8.8.8''], VMDomain = '''', VMSearchDomains = [], VMResolverOptions = []\<rparr>"
  have "\<exists>s fs. IPBootParam c = Inr s \<and> split_on CHR '':'' s = fs \<and> length fs = 10
          \<and> parse_dotted (fs ! 0) = [10, 0, 0, 2]"
    using IPBootParam_v4_roundtrip [of c ipc "[10, 0, 0, 2]" "[10, 0, 0, 1]"]
    by (auto simp: c_def ipc_def To4_def)
  moreover have "IPBootParam c = Inr ''10.0.0.2::10.0.0.1:255.255.255.0::eth0:off:8.8.8.8::''"
    unfolding c_def ipc_def by code_simp
  moreover have "VMIPConfig c = Some ipc" by (simp add: c_def)
  ultimately show ?thesis by blast
qed

end
