(* ===== verification/KernelArgs.thy ===== *)
theory KernelArgs
  imports GoString
begin

text \<open>
  Kernel boot arguments (\<open>kernelargs.go\<close>): a Go map from keys to pointers to values. Go iterates
  over a map in an unspecified order, so \<open>kernelArgs_String\<close> takes the order of the keys as an
  argument; \<open>key_order\<close> says that an order lists the keys of the map, each once.
\<close>

type_synonym kernelArgs = "string \<rightharpoonup> string option"

definition key_order :: "kernelArgs \<Rightarrow> string list \<Rightarrow> bool" where
  "key_order kargs order \<longleftrightarrow> distinct order \<and> set order = dom kargs"

definition arg_field :: "string \<Rightarrow> string option \<Rightarrow> string" where
  "arg_field key value =
    (case value of None \<Rightarrow> key | Some v \<Rightarrow> key @ ''='' @ v)"

definition kernelArgs_String :: "string list \<Rightarrow> kernelArgs \<Rightarrow> string" where
  "kernelArgs_String order kargs =
     str_join (map (\<lambda>key. arg_field key (case kargs key of Some v \<Rightarrow> v | None \<Rightarrow> None)) order) '' ''"

definition parse_field :: "string \<Rightarrow> string \<times> string option" where
  "parse_field kv =
    (let kvSplit = splitN2 CHR ''='' kv
     in (kvSplit ! 0, if length kvSplit = 2 then Some (kvSplit ! 1) else None))"

definition parseKernelArgs :: "string \<Rightarrow> kernelArgs" where
  "parseKernelArgs rawString =
     foldl (\<lambda>argMap kv. case parse_field kv of (key, value) \<Rightarrow> argMap(key \<mapsto> value))
       Map.empty (fields rawString)"

subsection \<open>Fields and their parse\<close>

text \<open>An argument that survives printing: its text is a word, and its key holds no \<open>=\<close>.\<close>

definition arg_ok :: "string \<Rightarrow> string option \<Rightarrow> bool" where
  "arg_ok key value \<longleftrightarrow> CHR ''='' \<notin> set key \<and> field_word (arg_field key value)"

lemma parse_arg_field: "CHR ''='' \<notin> set key \<Longrightarrow> parse_field (arg_field key value) = (key, value)"
  by (cases "value") (simp_all add: parse_field_def arg_field_def splitN2_single splitN2_split Let_def)

lemma arg_field_parse: "parse_field kv = (key, value) \<Longrightarrow> arg_field key value = kv \<and> CHR ''='' \<notin> set key"
  by (rule splitN2_cases [of "CHR ''=''" kv])
    (auto simp: parse_field_def arg_field_def Let_def split: if_splits)

lemma parse_field_ok: "field_word kv \<Longrightarrow> parse_field kv = (key, value) \<Longrightarrow> arg_ok key value"
  using arg_field_parse [of kv key "value"] by (simp add: arg_ok_def)

text \<open>A map all of whose arguments survive printing.\<close>

definition kargs_ok :: "kernelArgs \<Rightarrow> bool" where
  "kargs_ok m \<longleftrightarrow> (\<forall>key value. m key = Some value \<longrightarrow> arg_ok key value)"

lemma kargs_ok_upd: "kargs_ok m \<Longrightarrow> arg_ok key value \<Longrightarrow> kargs_ok (m(key \<mapsto> value))"
  by (simp add: kargs_ok_def)

lemma foldl_parse_map_of:
  "foldl (\<lambda>m kv. case parse_field kv of (k, v) \<Rightarrow> m(k \<mapsto> v)) m kvs
     = m ++ map_of (rev (map parse_field kvs))"
proof (induction kvs arbitrary: m)
  case Nil
  then show ?case by simp
next
  case (Cons kv kvs)
  then show ?case
    by (cases "parse_field kv") (auto simp: map_add_def fun_eq_iff split: option.splits)
qed

lemma parseKernelArgs_map_of:
  "parseKernelArgs s = map_of (rev (map parse_field (fields s)))"
  by (simp add: parseKernelArgs_def foldl_parse_map_of)

lemma finite_parse: "finite (dom (parseKernelArgs s))"
  by (simp add: parseKernelArgs_map_of finite_dom_map_of)

lemma parse_ok: "kargs_ok (parseKernelArgs s)"
  unfolding kargs_ok_def
proof (intro allI impI)
  fix key v
  assume "parseKernelArgs s key = Some v"
  then have "(key, v) \<in> set (map parse_field (fields s))"
    unfolding parseKernelArgs_map_of by (metis map_of_SomeD set_rev)
  then obtain kv where "kv \<in> set (fields s)" "parse_field kv = (key, v)" by auto
  then show "arg_ok key v" using fields_words parse_field_ok by blast
qed

lemma parse_String:
  assumes ok: "kargs_ok m" and ord: "key_order m order"
  shows "parseKernelArgs (kernelArgs_String order m) = m"
proof -
  define val where "val key = (case m key of Some v \<Rightarrow> v | None \<Rightarrow> None)" for key
  have m: "m key = Some (val key)" if "key \<in> set order" for key
    using that ord by (auto simp: key_order_def val_def)
  then have okf: "arg_ok key (val key)" if "key \<in> set order" for key
    using that ok by (auto simp: kargs_ok_def)
  have words: "\<forall>w\<in>set (map (\<lambda>key. arg_field key (val key)) order). field_word w"
    using okf by (auto simp: arg_ok_def)
  have "fields (kernelArgs_String order m) = map (\<lambda>key. arg_field key (val key)) order"
    unfolding kernelArgs_String_def val_def [symmetric] by (rule fields_join [OF words])
  moreover have "map parse_field (map (\<lambda>key. arg_field key (val key)) order)
      = map (\<lambda>key. (key, val key)) order"
    using okf by (auto simp: arg_ok_def parse_arg_field)
  ultimately have p: "parseKernelArgs (kernelArgs_String order m)
      = map_of (map (\<lambda>key. (key, val key)) (rev order))"
    by (simp only: parseKernelArgs_map_of rev_map)
  show ?thesis
  proof
    fix key
    show "parseKernelArgs (kernelArgs_String order m) key = m key"
    proof (cases "key \<in> set order")
      case True
      then show ?thesis by (simp add: p m map_of_map_restrict)
    next
      case False
      then have "m key = None" using ord by (auto simp: key_order_def)
      with False show ?thesis by (simp add: p map_of_map_restrict)
    qed
  qed
qed

lemma String_empty: "kernelArgs_String [] m = ''''"
  by (simp add: kernelArgs_String_def)

subsection \<open>Properties\<close>

text \<open>C17: Kernel arguments survive printing and parsing: whatever order Go's map iteration takes,
  parsing the printed text gives the same map back, if every key and value is free of white space
  and no key contains \<open>=\<close>.\<close>

theorem kernelArgs_roundtrip:
  assumes "kargs_ok m" and "key_order m order"
  shows "parseKernelArgs (kernelArgs_String order m) = m"
  using assms by (rule parse_String)

theorem kernelArgs_roundtrip_witness:
  "parseKernelArgs (kernelArgs_String [''quiet'', ''console''] [''console'' \<mapsto> Some ''ttyS0'', ''quiet'' \<mapsto> None])
     = [''console'' \<mapsto> Some ''ttyS0'', ''quiet'' \<mapsto> None]"
proof (rule kernelArgs_roundtrip)
  have "arg_ok ''console'' (Some ''ttyS0'')" "arg_ok ''quiet'' None" by code_simp+
  then show "kargs_ok [''console'' \<mapsto> Some ''ttyS0'', ''quiet'' \<mapsto> None]" by (simp add: kargs_ok_def)
  show "key_order [''console'' \<mapsto> Some ''ttyS0'', ''quiet'' \<mapsto> None] [''quiet'', ''console'']"
    by (auto simp: key_order_def)
qed

text \<open>Parsing the user's text is the canonical form: printing what was parsed from any text and
  parsing it again changes nothing. A key given twice keeps its last value only.\<close>

lemma kernelArgs_reparse:
  assumes "key_order (parseKernelArgs s) order"
  shows "parseKernelArgs (kernelArgs_String order (parseKernelArgs s)) = parseKernelArgs s
    \<and> parseKernelArgs s = map_of (rev (map parse_field (fields s)))"
  using parse_String [OF parse_ok assms] by (simp add: parseKernelArgs_map_of)

lemma kernelArgs_reparse_witness:
  "parseKernelArgs (kernelArgs_String [''a''] (parseKernelArgs ''a=1 a=2'')) = parseKernelArgs ''a=1 a=2''
     \<and> parseKernelArgs ''a=1 a=2'' = [''a'' \<mapsto> Some ''2'']"
proof -
  have "map parse_field (fields ''a=1 a=2'') = [(''a'', Some ''1''), (''a'', Some ''2'')]"
    by code_simp
  then have p: "parseKernelArgs ''a=1 a=2'' = [''a'' \<mapsto> Some ''2'']"
    by (simp add: parseKernelArgs_map_of)
  then have "key_order (parseKernelArgs ''a=1 a=2'') [''a'']" by (auto simp: key_order_def)
  from kernelArgs_reparse [OF this, THEN conjunct1] p show ?thesis by blast
qed

end
