(* ===== verification/Network.thy ===== *)
theory Network
  imports Vmconf KernelArgs
begin

text \<open>
  Network interfaces of a machine (\<open>network.go\<close>): the configuration records and their validation,
  the CNI invocation with the network namespace it needs, and the clean-up functions that both
  leave behind. A clean-up closure is the value of \<open>cleanup\<close> that holds what it captures;
  \<open>Machine\<close> interprets it. Names of containers and paths that the code keeps in private fields
  are fields of the records.
\<close>

datatype cleanup =
    RemoveSocket
  | RemoveFifo string
  | RemoveNetNSParent string
  | RemoveNetNSPath string
  | UnmountNetNS string
  | DelNetwork string cni_plugin network_config_list runtime_conf

record IPConfiguration =
  IPAddr :: IPNet
  Gateway :: ip
  Nameservers :: "string list"
  ip_IfName :: string

record StaticNetworkConfiguration =
  MacAddress :: string
  HostDevName :: string
  StaticIP :: "IPConfiguration option"

record CNIConfig =
  NetworkName :: string
  NetworkConfig :: "network_config_list option"
  IfName :: string
  VMIfName :: string
  Args :: "(string \<times> string) list"
  BinPath :: "string list"
  ConfDir :: string
  CacheDir :: string
  containerID :: string
  netNSPath :: string
  Force :: bool

record NetworkInterface =
  StaticConfiguration :: "StaticNetworkConfiguration option"
  CNIConfiguration :: "CNIConfig option"
  AllowMMDS :: bool
  InRateLimiter :: "RateLimiter option"
  OutRateLimiter :: "RateLimiter option"

subsection \<open>Validation\<close>

fun ip_loop :: "ip list \<Rightarrow> go_error option" where
  "ip_loop [] = None"
| "ip_loop (p # ps) =
    (if To4 p = None then Some (Errorf ''invalid ip, only ipv4 addresses are supported: %+v'' [] None)
     else ip_loop ps)"

definition IPConfiguration_validate :: "IPConfiguration \<Rightarrow> go_error option" where
  "IPConfiguration_validate ipConf =
    (case ip_loop [net_IP (IPAddr ipConf), Gateway ipConf] of
       Some err \<Rightarrow> Some err
     | None \<Rightarrow>
        if length (Nameservers ipConf) > 2 then
          Some (Errorf ''cannot specify more than 2 nameservers: %+v'' (Nameservers ipConf) None)
        else None)"

definition StaticNetworkConfiguration_validate ::
  "StaticNetworkConfiguration \<Rightarrow> go_error option" where
  "StaticNetworkConfiguration_validate staticConf =
    (if HostDevName staticConf = '''' then
       Some (Errorf ''HostDevName must be provided if StaticNetworkConfiguration is provided: %+v'' [] None)
     else case StaticIP staticConf of
       Some ipConf \<Rightarrow> IPConfiguration_validate ipConf
     | None \<Rightarrow> None)"

definition CNIConfiguration_validate :: "CNIConfig \<Rightarrow> go_error option" where
  "CNIConfiguration_validate cniConf =
    (if NetworkName cniConf = '''' \<and> NetworkConfig cniConf = None then
       Some (Errorf ''must specify either NetworkName or NetworkConfig in CNIConfiguration: %+v'' [] None)
     else if NetworkName cniConf \<noteq> '''' \<and> NetworkConfig cniConf \<noteq> None then
       Some (Errorf ''must not specify both NetworkName and NetworkConfig in CNIConfiguration: %+v'' [] None)
     else None)"

definition iface_validate :: "nat \<Rightarrow> kernelArgs \<Rightarrow> NetworkInterface \<Rightarrow> go_error option" where
  "iface_validate n kargs iface =
    (let hasCNI = CNIConfiguration iface \<noteq> None;
         hasStaticInterface = StaticConfiguration iface \<noteq> None;
         hasStaticIP =
           (case StaticConfiguration iface of Some sc \<Rightarrow> StaticIP sc \<noteq> None | None \<Rightarrow> False)
     in
     if \<not> hasCNI \<and> \<not> hasStaticInterface then
       Some (Errorf ''must specify at least one of CNIConfiguration or StaticConfiguration for network interfaces: %+v'' [] None)
     else if hasCNI \<and> hasStaticInterface then
       Some (Errorf ''cannot provide both CNIConfiguration and StaticConfiguration for a network interface: %+v'' [] None)
     else if (hasCNI \<or> hasStaticIP) \<and> n > 1 then
       Some (Errorf ''cannot specify CNIConfiguration or IPConfiguration when multiple network interfaces are provided: %+v'' [] None)
     else if (hasCNI \<or> hasStaticIP) \<and> kargs ''ip'' \<noteq> None then
       Some (Errorf ''CNIConfiguration or IPConfiguration cannot be specified when \"ip=\" provided in kernel boot args, value found: %v'' [] None)
     else
       (case (case CNIConfiguration iface of Some c \<Rightarrow> CNIConfiguration_validate c | None \<Rightarrow> None) of
          Some err \<Rightarrow> Some err
        | None \<Rightarrow>
           (case StaticConfiguration iface of
              Some sc \<Rightarrow> StaticNetworkConfiguration_validate sc
            | None \<Rightarrow> None)))"

fun validate_loop :: "nat \<Rightarrow> kernelArgs \<Rightarrow> NetworkInterface list \<Rightarrow> go_error option" where
  "validate_loop n kargs [] = None"
| "validate_loop n kargs (iface # ifaces) =
    (case iface_validate n kargs iface of
       Some err \<Rightarrow> Some err
     | None \<Rightarrow> validate_loop n kargs ifaces)"

definition NetworkInterfaces_validate :: "NetworkInterface list \<Rightarrow> kernelArgs \<Rightarrow> go_error option" where
  "NetworkInterfaces_validate ifaces kargs = validate_loop (length ifaces) kargs ifaces"

subsection \<open>CNI invocation\<close>

definition defaultCNIBinDir :: string where "defaultCNIBinDir = ''/opt/cni/bin''"
definition defaultCNIConfDir :: string where "defaultCNIConfDir = ''/etc/cni/conf.d''"
definition defaultCNICacheDir :: string where "defaultCNICacheDir = ''/var/lib/cni''"

definition setDefaults :: "CNIConfig \<Rightarrow> CNIConfig" where
  "setDefaults c0 =
    (let c1 = (if length (BinPath c0) = 0 then c0\<lparr>BinPath := [defaultCNIBinDir]\<rparr> else c0);
         c2 = (if ConfDir c1 = '''' then c1\<lparr>ConfDir := defaultCNIConfDir\<rparr> else c1)
     in if CacheDir c2 = '''' then c2\<lparr>CacheDir := path_join [defaultCNICacheDir, containerID c2]\<rparr>
        else c2)"

definition asCNIRuntimeConf :: "CNIConfig \<Rightarrow> runtime_conf" where
  "asCNIRuntimeConf c = \<lparr>rt_ContainerID = containerID c, rt_NetNS = netNSPath c,
     rt_IfName = IfName c, rt_Args = Args c\<rparr>"

definition delNetwork ::
  "env \<Rightarrow> string \<Rightarrow> cni_plugin \<Rightarrow> network_config_list \<Rightarrow> runtime_conf \<Rightarrow> trace
     \<Rightarrow> go_error option \<times> trace" where
  "delNetwork e networkName cniPlugin networkConf runtimeConf tr =
    (case syscall e (EvCniDel cniPlugin networkConf runtimeConf) tr of
       (Some err, tr1) \<Rightarrow>
         (Some (Wrapf ''failed to delete CNI network list %q: %w'' [networkName] err), tr1)
     | (None, tr1) \<Rightarrow> (None, tr1))"

definition addNetwork ::
  "env \<Rightarrow> cni_plugin \<Rightarrow> network_config_list \<Rightarrow> runtime_conf \<Rightarrow> trace
     \<Rightarrow> (go_error + cni_result) \<times> trace" where
  "addNetwork e cniPlugin networkConf runtimeConf tr =
     (cni_add e tr cniPlugin networkConf runtimeConf, tr @ [EvCniAdd cniPlugin networkConf runtimeConf])"

definition loadNetwork :: "env \<Rightarrow> CNIConfig \<Rightarrow> trace \<Rightarrow> (go_error + network_config_list) \<times> trace" where
  "loadNetwork e c tr =
    (case NetworkConfig c of
       Some nc \<Rightarrow> (Inr nc, tr)
     | None \<Rightarrow>
        ((case cni_load e tr (ConfDir c) (NetworkName c) of
            Inl err \<Rightarrow>
              Inl (Wrapf ''failed to load CNI configuration from dir %q for network %q: %w''
                [ConfDir c, NetworkName c] err)
          | Inr nc \<Rightarrow> Inr nc),
         tr @ [EvCniLoad (ConfDir c) (NetworkName c)]))"

definition invokeCNI ::
  "env \<Rightarrow> CNIConfig \<Rightarrow> trace \<Rightarrow> (go_error + cni_result) \<times> cleanup list \<times> trace" where
  "invokeCNI e c tr =
    (let cniPlugin = \<lparr>cp_BinPath = BinPath c, cp_CacheDir = CacheDir c\<rparr> in
     case loadNetwork e c tr of
       (Inl err, tr1) \<Rightarrow> (Inl err, [], tr1)
     | (Inr networkConf, tr1) \<Rightarrow>
        (let runtimeConf = asCNIRuntimeConf c in
         case delNetwork e (NetworkName c) cniPlugin networkConf runtimeConf tr1 of
           (derr, tr2) \<Rightarrow>
            (case (if Force c then None else derr) of
               Some err \<Rightarrow>
                 (Inl (Wrapf ''failed to delete pre-existing CNI network %+v: %w'' [] err), [], tr2)
             | None \<Rightarrow>
                (let cleanupFuncs = [DelNetwork (NetworkName c) cniPlugin networkConf runtimeConf] in
                 case addNetwork e cniPlugin networkConf runtimeConf tr2 of
                   (Inl err, tr3) \<Rightarrow>
                     (Inl (Wrapf ''failed to create CNI network: %w'' [] err), cleanupFuncs, tr3)
                 | (Inr cniResult, tr3) \<Rightarrow> (Inr cniResult, cleanupFuncs, tr3)))))"

subsection \<open>The network namespace\<close>

definition makeNetNS ::
  "env \<Rightarrow> string \<Rightarrow> cleanup list \<Rightarrow> trace \<Rightarrow> go_error option \<times> cleanup list \<times> trace" where
  "makeNetNS e path cleanupFuncs tr =
    (case syscall e (EvOpenExcl path) tr of
       (Some err, tr1) \<Rightarrow>
         (Some (Wrapf ''failed to open new netns path at %q: %w'' [path] err), cleanupFuncs, tr1)
     | (None, tr1) \<Rightarrow>
        (let cleanupFuncs = cleanupFuncs @ [RemoveNetNSPath path] in
         case syscall e EvUnshareNet tr1 of
           (Some err, tr2) \<Rightarrow>
             (Some (Wrapf ''failed to unshare netns: %w'' [] err), cleanupFuncs, tr2)
         | (None, tr2) \<Rightarrow>
            (case syscall e (EvMountNS path) tr2 of
               (Some err, tr3) \<Rightarrow>
                 (Some (Wrapf ''failed to mount netns at path %q: %w'' [path] err), cleanupFuncs, tr3)
             | (None, tr3) \<Rightarrow> (None, cleanupFuncs @ [UnmountNetNS path], tr3))))"

definition initializeNetNS ::
  "env \<Rightarrow> CNIConfig \<Rightarrow> trace \<Rightarrow> go_error option \<times> cleanup list \<times> trace" where
  "initializeNetNS e c tr =
    (let path = netNSPath c; tr1 = tr @ [EvNsCheck path] in
     case ns_check e tr path of
       NsIsNS \<Rightarrow> (None, [], tr1)
     | NsPathNotNS err \<Rightarrow>
         (Some (Wrapf ''path %q does not appear to be a mounted netns: %w'' [path] err), [], tr1)
     | NsOther err \<Rightarrow>
         (Some (Wrapf ''failure checking if %q is a mounted netns: %w'' [path] err), [], tr1)
     | NsPathNotExist err0 \<Rightarrow>
        (let parentDir = path_dir path in
         case syscall e (EvStat parentDir) tr1 of
           (serr, tr2) \<Rightarrow>
            (if IsNotExist serr then
               (case syscall e (EvMkdirAll parentDir) tr2 of
                  (Some err, tr3) \<Rightarrow>
                    (Some (Wrapf ''failed to create netns parent dir at %q: %w'' [parentDir] err), [], tr3)
                | (None, tr3) \<Rightarrow> makeNetNS e path [RemoveNetNSParent parentDir] tr3)
             else case serr of
               Some err \<Rightarrow>
                 (Some (Wrapf ''failed to check if netns parent dir exists at %q: %w'' [parentDir] err), [], tr2)
             | None \<Rightarrow> makeNetNS e path [] tr2)))"

subsection \<open>Setting up the network\<close>

definition cniInterface :: "NetworkInterface list \<Rightarrow> nat option" where
  "cniInterface ifaces = index_of (\<lambda>iface. CNIConfiguration iface \<noteq> None) ifaces"

definition staticIPInterface :: "NetworkInterface list \<Rightarrow> nat option" where
  "staticIPInterface ifaces =
     index_of (\<lambda>iface. case StaticConfiguration iface of None \<Rightarrow> False | Some sc \<Rightarrow> StaticIP sc \<noteq> None) ifaces"

definition static_from_conf :: "CNIConfig \<Rightarrow> StaticNetworkConf \<Rightarrow> StaticNetworkConfiguration" where
  "static_from_conf c vmNetConf =
     \<lparr>MacAddress = VMMacAddr vmNetConf, HostDevName = TapName vmNetConf,
      StaticIP =
        (case VMIPConfig vmNetConf of
           None \<Rightarrow> None
         | Some ipc \<Rightarrow>
            Some \<lparr>IPAddr = ipc_Address ipc, Gateway = ipc_Gateway ipc,
              Nameservers =
                (if length (VMNameservers vmNetConf) > 2 then take 2 (VMNameservers vmNetConf)
                 else VMNameservers vmNetConf),
              ip_IfName = VMIfName c\<rparr>)\<rparr>"

text \<open>
  \<open>setupNetwork\<close> writes the interface it finds through a pointer into the slice of the machine's
  configuration, so the result has the updated list.
\<close>

definition setupNetwork ::
  "env \<Rightarrow> NetworkInterface list \<Rightarrow> string \<Rightarrow> string \<Rightarrow> trace
     \<Rightarrow> (go_panic + go_error option \<times> cleanup list) \<times> NetworkInterface list \<times> trace" where
  "setupNetwork e ifaces vmID nsPath tr =
    (case cniInterface ifaces of
       None \<Rightarrow> (Inr (None, []), ifaces, tr)
     | Some i \<Rightarrow>
        (let iface = ifaces ! i;
             c = setDefaults ((the (CNIConfiguration iface))\<lparr>containerID := vmID, netNSPath := nsPath\<rparr>);
             iface1 = iface\<lparr>CNIConfiguration := Some c\<rparr>;
             ifaces1 = ifaces[i := iface1]
         in
         case initializeNetNS e c tr of
           (Some err, cl1, tr1) \<Rightarrow>
             (Inr (Some (Wrapf ''failed to initialize netns: %w'' [] err), cl1), ifaces1, tr1)
         | (None, cl1, tr1) \<Rightarrow>
        (case invokeCNI e c tr1 of
           (Inl err, cl2, tr2) \<Rightarrow>
             (Inr (Some (Wrapf ''failure when invoking CNI: %w'' [] err), cl1 @ cl2), ifaces1, tr2)
         | (Inr cniResult, cl2, tr2) \<Rightarrow>
        (if StaticConfiguration iface1 \<noteq> None then (Inr (None, cl1 @ cl2), ifaces1, tr2)
         else case StaticNetworkConfFrom e cniResult (containerID c) tr2 of
           (Inl p, tr3) \<Rightarrow> (Inl p, ifaces1, tr3)
         | (Inr (Inl err), tr3) \<Rightarrow>
             (Inr (Some (Wrapf ''failed to parse VM network configuration from CNI output, ensure CNI is configured with a plugin that supports automatic VM network configuration such as tc-redirect-tap: %w'' [] err),
               cl1 @ cl2), ifaces1, tr3)
         | (Inr (Inr vmNetConf), tr3) \<Rightarrow>
             (Inr (None, cl1 @ cl2),
              ifaces1[i := iface1\<lparr>StaticConfiguration := Some (static_from_conf c vmNetConf)\<rparr>], tr3)))))"

definition ipBootParam :: "IPConfiguration \<Rightarrow> go_panic + string" where
  "ipBootParam conf = IPBootParam
     \<lparr>TapName = '''', snc_NetNSPath = '''', snc_VMIfName = ip_IfName conf, VMMacAddr = '''', VMMTU = 0,
      VMIPConfig = Some \<lparr>ipc_Interface = None, ipc_Address = IPAddr conf, ipc_Gateway = Gateway conf\<rparr>,
      VMRoutes = [], VMNameservers = Nameservers conf, VMDomain = '''', VMSearchDomains = [],
      VMResolverOptions = []\<rparr>"

text \<open>Running a clean-up function; the socket path is read when it runs.\<close>

definition remove_ignoring_absent :: "env \<Rightarrow> string \<Rightarrow> trace \<Rightarrow> go_error option \<times> trace" where
  "remove_ignoring_absent e path tr =
    (case syscall e (EvRemove path) tr of
       (err, tr1) \<Rightarrow> (if \<not> IsNotExist err then err else None, tr1))"

definition run_cleanup :: "env \<Rightarrow> string \<Rightarrow> cleanup \<Rightarrow> trace \<Rightarrow> go_error option \<times> trace" where
  "run_cleanup e socketPath cl tr =
    (case cl of
       RemoveSocket \<Rightarrow> remove_ignoring_absent e socketPath tr
     | RemoveFifo path \<Rightarrow> remove_ignoring_absent e path tr
     | RemoveNetNSParent dir \<Rightarrow>
        (case syscall e (EvRemove dir) tr of
           (Some err, tr1) \<Rightarrow> (Some (Wrapf ''failed to remove netns parent dir %q: %w'' [dir] err), tr1)
         | (None, tr1) \<Rightarrow> (None, tr1))
     | RemoveNetNSPath path \<Rightarrow>
        (case syscall e (EvRemove path) tr of
           (Some err, tr1) \<Rightarrow> (Some (Wrapf ''failed to remove netns path %q: %w'' [path] err), tr1)
         | (None, tr1) \<Rightarrow> (None, tr1))
     | UnmountNetNS path \<Rightarrow>
        (case syscall e (EvUnmount path) tr of
           (Some err, tr1) \<Rightarrow> (Some (Wrapf ''failed to unmount netns at %q: %w'' [path] err), tr1)
         | (None, tr1) \<Rightarrow> (None, tr1))
     | DelNetwork networkName cniPlugin networkConf runtimeConf \<Rightarrow>
         delNetwork e networkName cniPlugin networkConf runtimeConf tr)"

subsection \<open>What a run leaves to clean up\<close>

text \<open>The event of a clean-up function, and the event whose effect it undoes.\<close>

definition cleanup_event :: "string \<Rightarrow> cleanup \<Rightarrow> event" where
  "cleanup_event socketPath cl =
    (case cl of
       RemoveSocket \<Rightarrow> EvRemove socketPath
     | RemoveFifo path \<Rightarrow> EvRemove path
     | RemoveNetNSParent dir \<Rightarrow> EvRemove dir
     | RemoveNetNSPath path \<Rightarrow> EvRemove path
     | UnmountNetNS path \<Rightarrow> EvUnmount path
     | DelNetwork n p c r \<Rightarrow> EvCniDel p c r)"

lemma snd_run_cleanup [simp]:
  "snd (run_cleanup e socketPath cl tr) = tr @ [cleanup_event socketPath cl]"
  by (cases cl)
    (auto simp: run_cleanup_def cleanup_event_def remove_ignoring_absent_def delNetwork_def
      syscall_def split: option.splits)

lemma IPConfiguration_validate_None_iff:
  "IPConfiguration_validate c = None \<longleftrightarrow>
     To4 (net_IP (IPAddr c)) \<noteq> None \<and> To4 (Gateway c) \<noteq> None \<and> length (Nameservers c) \<le> 2"
  by (auto simp: IPConfiguration_validate_def)

lemma StaticNetworkConfiguration_validate_None_iff:
  "StaticNetworkConfiguration_validate c = None \<longleftrightarrow>
     HostDevName c \<noteq> '''' \<and>
     (case StaticIP c of None \<Rightarrow> True | Some ipc \<Rightarrow> IPConfiguration_validate ipc = None)"
  by (auto simp: StaticNetworkConfiguration_validate_def split: option.splits)

lemma CNIConfiguration_validate_None_iff:
  "CNIConfiguration_validate c = None \<longleftrightarrow> (NetworkName c = '''' \<longleftrightarrow> NetworkConfig c \<noteq> None)"
  by (auto simp: CNIConfiguration_validate_def)

text \<open>Whether an interface asks for an address that the boot parameter must carry.\<close>

definition needs_ip :: "NetworkInterface \<Rightarrow> bool" where
  "needs_ip iface \<longleftrightarrow> CNIConfiguration iface \<noteq> None \<or>
     (case StaticConfiguration iface of Some sc \<Rightarrow> StaticIP sc \<noteq> None | None \<Rightarrow> False)"

lemma iface_validate_None_iff:
  "iface_validate n kargs iface = None \<longleftrightarrow>
     (CNIConfiguration iface = None \<longleftrightarrow> StaticConfiguration iface \<noteq> None)
   \<and> (needs_ip iface \<longrightarrow> n \<le> 1 \<and> kargs ''ip'' = None)
   \<and> (case CNIConfiguration iface of None \<Rightarrow> True | Some c \<Rightarrow> CNIConfiguration_validate c = None)
   \<and> (case StaticConfiguration iface of None \<Rightarrow> True
      | Some sc \<Rightarrow> StaticNetworkConfiguration_validate sc = None)"
  by (auto simp: iface_validate_def Let_def needs_ip_def split: option.splits)

lemma validate_loop_None_iff:
  "validate_loop n kargs ifaces = None \<longleftrightarrow> (\<forall>iface\<in>set ifaces. iface_validate n kargs iface = None)"
  by (induction ifaces) (auto split: option.splits)

lemma NetworkInterfaces_validate_None_iff:
  "NetworkInterfaces_validate ifaces kargs = None \<longleftrightarrow>
     (\<forall>iface\<in>set ifaces. iface_validate (length ifaces) kargs iface = None)"
  by (simp add: NetworkInterfaces_validate_def validate_loop_None_iff)

lemmas cni_defs = invokeCNI_def loadNetwork_def delNetwork_def addNetwork_def syscall_def Let_def
lemmas netns_defs = initializeNetNS_def makeNetNS_def syscall_def Let_def

text \<open>The clean-up events that the successful acquisitions of a stretch of history call for. A
  CNI \<open>ADD\<close> calls for a \<open>DEL\<close> even when it fails.\<close>

definition undo1 :: "env \<Rightarrow> trace \<Rightarrow> event \<Rightarrow> event list" where
  "undo1 e tr ev =
    (case ev of
       EvMkdirAll d \<Rightarrow> if sys e tr ev = None then [EvRemove d] else []
     | EvOpenExcl p \<Rightarrow> if sys e tr ev = None then [EvRemove p] else []
     | EvMountNS p \<Rightarrow> if sys e tr ev = None then [EvUnmount p] else []
     | EvCniAdd p c r \<Rightarrow> [EvCniDel p c r]
     | _ \<Rightarrow> [])"

fun undos :: "env \<Rightarrow> trace \<Rightarrow> event list \<Rightarrow> event list" where
  "undos e tr [] = []"
| "undos e tr (ev # evs) = undo1 e tr ev @ undos e (tr @ [ev]) evs"

lemma undos_append: "undos e tr (xs @ ys) = undos e tr xs @ undos e (tr @ xs) ys"
  by (induction xs arbitrary: tr) auto

lemma makeNetNS_undo:
  assumes "makeNetNS e path cl tr = (err, cls, tr')"
  shows "\<exists>new. tr' = tr @ new \<and> map (cleanup_event s) cls = map (cleanup_event s) cl @ undos e tr new"
proof -
  have "(\<exists>new\<in>{[EvOpenExcl path], [EvOpenExcl path, EvUnshareNet],
        [EvOpenExcl path, EvUnshareNet, EvMountNS path]}.
      tr' = tr @ new \<and> map (cleanup_event s) cls = map (cleanup_event s) cl @ undos e tr new)"
    using assms by (auto simp: netns_defs undo1_def cleanup_event_def split: option.splits)
  then show ?thesis by blast
qed

lemma initializeNetNS_undo:
  assumes "initializeNetNS e c tr = (err, cls, tr')"
  shows "\<exists>new. tr' = tr @ new \<and> map (cleanup_event s) cls = undos e tr new"
proof (cases "ns_check e tr (netNSPath c)")
  case (NsPathNotExist err0)
  define parent where "parent = path_dir (netNSPath c)"
  let ?tr2 = "tr @ [EvNsCheck (netNSPath c), EvStat parent]"
  let ?serr = "sys e (tr @ [EvNsCheck (netNSPath c)]) (EvStat parent)"
  consider (make) "?serr = None" "makeNetNS e (netNSPath c) [] ?tr2 = (err, cls, tr')"
    | (mk) "IsNotExist ?serr" "sys e ?tr2 (EvMkdirAll parent) = None"
        "makeNetNS e (netNSPath c) [RemoveNetNSParent parent] (?tr2 @ [EvMkdirAll parent]) = (err, cls, tr')"
    | (mkf) "sys e ?tr2 (EvMkdirAll parent) \<noteq> None" "cls = []" "tr' = ?tr2 @ [EvMkdirAll parent]"
    | (stat) "cls = []" "tr' = ?tr2"
    using assms NsPathNotExist
    by (auto simp: initializeNetNS_def syscall_def Let_def parent_def IsNotExist_def
        split: option.splits if_splits)
  then show ?thesis
  proof cases
    case make
    then obtain new where "tr' = ?tr2 @ new" "map (cleanup_event s) cls = undos e ?tr2 new"
      using makeNetNS_undo [OF make(2)] by auto
    then show ?thesis
      by (intro exI [of _ "[EvNsCheck (netNSPath c), EvStat parent] @ new"])
        (simp add: undo1_def)
  next
    case mk
    then obtain new where "tr' = (?tr2 @ [EvMkdirAll parent]) @ new"
      "map (cleanup_event s) cls = EvRemove parent # undos e (?tr2 @ [EvMkdirAll parent]) new"
      using makeNetNS_undo [OF mk(3), of s] by (auto simp: cleanup_event_def)
    with mk(2) show ?thesis
      by (intro exI [of _ "[EvNsCheck (netNSPath c), EvStat parent, EvMkdirAll parent] @ new"])
        (simp add: undo1_def)
  qed (auto simp: undo1_def)
qed (use assms in \<open>auto simp: initializeNetNS_def Let_def undo1_def\<close>)

lemma invokeCNI_undo:
  assumes "invokeCNI e c tr = (r, cls, tr')"
  shows "\<exists>new. tr' = tr @ new \<and> map (cleanup_event s) cls = undos e tr new"
proof -
  define pre where
    "pre = (case NetworkConfig c of None \<Rightarrow> [EvCniLoad (ConfDir c) (NetworkName c)] | Some _ \<Rightarrow> [])"
  let ?p = "\<lparr>cp_BinPath = BinPath c, cp_CacheDir = CacheDir c\<rparr>"
  let ?rt = "asCNIRuntimeConf c"
  let ?undone = "\<lambda>suf. tr' = tr @ pre @ suf \<and> (\<forall>t. map (cleanup_event s) cls = undos e t suf)"
  consider "tr' = tr @ pre" "cls = []"
    | nc where "tr' = tr @ pre @ [EvCniDel ?p nc ?rt]" "cls = []"
    | nc where "tr' = tr @ pre @ [EvCniDel ?p nc ?rt, EvCniAdd ?p nc ?rt]"
        "cls = [DelNetwork (NetworkName c) ?p nc ?rt]"
    using assms by (auto simp: cni_defs pre_def split: option.splits sum.splits if_splits)
  then obtain suf where "?undone suf"
  proof cases
    case 1
    then show ?thesis by (intro that [of "[]"]) simp
  next
    case (2 nc)
    then show ?thesis by (intro that [of "[EvCniDel ?p nc ?rt]"]) (simp add: undo1_def)
  next
    case (3 nc)
    then show ?thesis
      by (intro that [of "[EvCniDel ?p nc ?rt, EvCniAdd ?p nc ?rt]"])
        (simp add: undo1_def cleanup_event_def)
  qed
  moreover have "undos e t pre = []" for t by (simp add: pre_def undo1_def split: option.split)
  ultimately show ?thesis by (intro exI [of _ "pre @ suf"]) (simp add: undos_append)
qed

lemma StaticNetworkConfFrom_events:
  assumes "StaticNetworkConfFrom e result vmID tr = (r, tr')"
  shows "\<exists>new. tr' = tr @ new \<and> undos e tr new = []"
proof -
  have "\<exists>p n. tr' = tr \<or> tr' = tr @ [EvGetNS p] \<or> tr' = tr @ [EvGetNS p, EvNetNSDo p]
      \<or> tr' = tr @ [EvGetNS p, EvNetNSDo p, EvLinkByName n]"
    using assms by (auto simp: StaticNetworkConfFrom_def mtuOf_def GetLink_def syscall_def
        split: option.splits sum.splits if_splits)
  then show ?thesis by (auto simp: undo1_def)
qed

text \<open>C2: Whatever \<open>setupNetwork\<close> returns, the clean-up functions it hands over undo exactly what
  was acquired on the way, in the order of acquisition: each directory made, each namespace file
  created, each mount, and each CNI network whose \<open>ADD\<close> was tried, even if it failed.\<close>

theorem setupNetwork_cleanup_complete:
  assumes "setupNetwork e ifaces vmID nsPath tr = (Inr (err, cls), ifaces', tr')"
  shows "\<exists>new. tr' = tr @ new \<and> map (cleanup_event sock) cls = undos e tr new"
proof (cases "cniInterface ifaces")
  case None
  with assms show ?thesis by (auto simp: setupNetwork_def)
next
  case (Some i)
  define c where "c = setDefaults ((the (CNIConfiguration (ifaces ! i)))
    \<lparr>containerID := vmID, netNSPath := nsPath\<rparr>)"
  obtain err1 cl1 tr1 where ns: "initializeNetNS e c tr = (err1, cl1, tr1)"
    by (cases "initializeNetNS e c tr") auto
  from initializeNetNS_undo [OF ns] obtain new1
    where n1: "tr1 = tr @ new1" "map (cleanup_event sock) cl1 = undos e tr new1" by blast
  show ?thesis
  proof (cases err1)
    case (Some x)
    with assms ns \<open>cniInterface ifaces = Some i\<close> n1 show ?thesis
      by (auto simp: setupNetwork_def Let_def c_def)
  next
    case None
    obtain r cl2 tr2 where cni: "invokeCNI e c tr1 = (r, cl2, tr2)"
      by (cases "invokeCNI e c tr1") auto
    from invokeCNI_undo [OF cni] obtain new2
      where n2: "tr2 = tr1 @ new2" "map (cleanup_event sock) cl2 = undos e tr1 new2" by blast
    have both: "tr2 = tr @ new1 @ new2"
      "map (cleanup_event sock) (cl1 @ cl2) = undos e tr (new1 @ new2)"
      using n1 n2 by (simp_all add: undos_append)
    show ?thesis
    proof (cases r)
      case (Inl x)
      with assms ns cni None both \<open>cniInterface ifaces = Some i\<close> show ?thesis
        by (auto simp: setupNetwork_def Let_def c_def)
    next
      case (Inr res)
      obtain q tr3 where sn: "StaticNetworkConfFrom e res (containerID c) tr2 = (q, tr3)"
        by fastforce
      from StaticNetworkConfFrom_events [OF sn] obtain new3
        where n3: "tr3 = tr2 @ new3" "undos e tr2 new3 = []" by blast
      have "cls = cl1 @ cl2 \<and> (tr' = tr2 \<or> tr' = tr3)"
        using assms ns cni None Inr sn \<open>cniInterface ifaces = Some i\<close>
        by (auto simp: setupNetwork_def Let_def c_def split: if_splits sum.splits)
      then show ?thesis
        using both n3 by (auto simp: undos_append intro: exI [of _ "new1 @ new2 @ new3"])
    qed
  qed
qed

theorem setupNetwork_cleanup_complete_witness:
  "\<exists>cls ifaces' tr'.
     setupNetwork calm_env
       [\<lparr>StaticConfiguration = None,
         CNIConfiguration = Some \<lparr>NetworkName = ''fc'', NetworkConfig = None, IfName = ''eth0'',
           VMIfName = '''', Args = [], BinPath = [], ConfDir = '''', CacheDir = '''',
           containerID = '''', netNSPath = '''', Force = False\<rparr>,
         AllowMMDS = False, InRateLimiter = None, OutRateLimiter = None\<rparr>]
       ''vm1'' ''/var/run/netns/vm1'' [] = (Inr (None, cls), ifaces', tr')
   \<and> length cls = 3
   \<and> (\<exists>new. tr' = [] @ new \<and> map (cleanup_event ''/s'') cls = undos calm_env [] new)"
proof -
  let ?run = "setupNetwork calm_env
       [\<lparr>StaticConfiguration = None,
         CNIConfiguration = Some \<lparr>NetworkName = ''fc'', NetworkConfig = None, IfName = ''eth0'',
           VMIfName = '''', Args = [], BinPath = [], ConfDir = '''', CacheDir = '''',
           containerID = '''', netNSPath = '''', Force = False\<rparr>,
         AllowMMDS = False, InRateLimiter = None, OutRateLimiter = None\<rparr>]
       ''vm1'' ''/var/run/netns/vm1'' []"
  have ok: "(case fst ?run of Inr (None, cls) \<Rightarrow> length cls = 3 | _ \<Rightarrow> False)"
    by code_simp
  then obtain cls ifaces' tr' where "?run = (Inr (None, cls), ifaces', tr')" "length cls = 3"
    by (cases ?run) (auto split: sum.splits option.splits)
  with setupNetwork_cleanup_complete [OF this(1), of "''/s''"] show ?thesis by blast
qed

text \<open>What validation accepts, interface by interface.\<close>

definition iface_ok :: "NetworkInterface \<Rightarrow> bool" where
  "iface_ok iface \<longleftrightarrow>
     (case (CNIConfiguration iface, StaticConfiguration iface) of
        (Some c, None) \<Rightarrow> NetworkName c = '''' \<longleftrightarrow> NetworkConfig c \<noteq> None
      | (None, Some sc) \<Rightarrow> HostDevName sc \<noteq> '''' \<and>
          (case StaticIP sc of
             None \<Rightarrow> True
           | Some ipc \<Rightarrow> To4 (net_IP (IPAddr ipc)) \<noteq> None \<and> To4 (Gateway ipc) \<noteq> None
               \<and> length (Nameservers ipc) \<le> 2)
      | _ \<Rightarrow> False)"

lemma iface_validate_iff:
  "iface_validate n kargs iface = None \<longleftrightarrow>
     iface_ok iface \<and> (needs_ip iface \<longrightarrow> n \<le> 1 \<and> kargs ''ip'' = None)"
  by (auto simp: iface_validate_None_iff iface_ok_def StaticNetworkConfiguration_validate_None_iff
      CNIConfiguration_validate_None_iff IPConfiguration_validate_None_iff split: option.splits)

lemma validate_spec:
  "NetworkInterfaces_validate ifaces kargs = None \<longleftrightarrow>
     list_all iface_ok ifaces \<and>
     (filter needs_ip ifaces = [] \<or> (length ifaces = 1 \<and> kargs ''ip'' = None))"
proof -
  have "NetworkInterfaces_validate ifaces kargs = None \<longleftrightarrow>
      (\<forall>iface\<in>set ifaces. iface_ok iface \<and>
         (needs_ip iface \<longrightarrow> length ifaces \<le> 1 \<and> kargs ''ip'' = None))"
    by (simp add: NetworkInterfaces_validate_None_iff iface_validate_iff)
  also have "\<dots> \<longleftrightarrow> list_all iface_ok ifaces \<and>
     (filter needs_ip ifaces = [] \<or> (length ifaces = 1 \<and> kargs ''ip'' = None))"
    by (cases ifaces rule: list_cases3) (auto simp: list_all_iff filter_empty_conv)
  finally show ?thesis .
qed

text \<open>C13: Network validation accepts a list of interfaces exactly when each has either a CNI or a
  static configuration that is itself valid, and, if one needs an address set through the kernel
  arguments, it is the only interface and those arguments have no \<open>ip\<close> yet.\<close>

theorem NetworkInterfaces_validate_iff:
  "NetworkInterfaces_validate ifaces kargs = None \<longleftrightarrow>
     list_all iface_ok ifaces \<and>
     (filter needs_ip ifaces = [] \<or> (length ifaces = 1 \<and> kargs ''ip'' = None))"
  by (rule validate_spec)

text \<open>C36: After a network validation that passed and a network setup that returned no error, every
  interface has a static configuration: the nil check of \<open>createNetworkInterface\<close> never fires.\<close>

theorem setupNetwork_configures_all:
  assumes "NetworkInterfaces_validate ifaces kargs = None"
    and "setupNetwork e ifaces vmID nsPath tr = (Inr (None, cls), ifaces', tr')"
  shows "length ifaces' = length ifaces
    \<and> list_all (\<lambda>iface. StaticConfiguration iface \<noteq> None) ifaces'"
proof -
  have ok: "iface_ok iface" if "iface \<in> set ifaces" for iface
    using assms(1) that by (simp add: validate_spec list_all_iff)
  then have sc: "StaticConfiguration iface \<noteq> None"
    if "iface \<in> set ifaces" "CNIConfiguration iface = None" for iface
    using that by (fastforce simp: iface_ok_def split: option.splits)
  show ?thesis
  proof (cases "cniInterface ifaces")
    case None
    then have "\<forall>iface\<in>set ifaces. CNIConfiguration iface = None"
      by (auto simp: cniInterface_def index_of_None_iff)
    with assms(2) None sc show ?thesis by (auto simp: setupNetwork_def list_all_iff)
  next
    case (Some i)
    then have i: "i < length ifaces" "CNIConfiguration (ifaces ! i) \<noteq> None"
      using index_of_SomeD [of _ ifaces i] by (auto simp: cniInterface_def)
    then have "needs_ip (ifaces ! i)" by (simp add: needs_ip_def)
    with i(1) have "filter needs_ip ifaces \<noteq> []" by (auto simp: filter_empty_conv)
    with assms(1) have "length ifaces = 1" by (simp add: validate_spec)
    then obtain x where x: "ifaces = [x]" by (cases ifaces rule: list_cases3) auto
    have "StaticConfiguration x = None"
      using ok [of x] i x by (auto simp: iface_ok_def split: option.splits)
    with assms(2) Some x i show ?thesis
      by (auto simp: setupNetwork_def Let_def split: prod.splits option.splits sum.splits)
  qed
qed

theorem setupNetwork_configures_all_witness:
  "\<exists>ifaces cls ifaces' tr'.
     NetworkInterfaces_validate ifaces Map.empty = None
   \<and> setupNetwork calm_env ifaces ''vm1'' ''/var/run/netns/vm1'' [] = (Inr (None, cls), ifaces', tr')
   \<and> length ifaces' = 1 \<and> list_all (\<lambda>iface. StaticConfiguration iface \<noteq> None) ifaces'"
proof -
  define ifaces where "ifaces =
       [\<lparr>StaticConfiguration = None,
         CNIConfiguration = Some \<lparr>NetworkName = ''fc'', NetworkConfig = None, IfName = ''eth0'',
           VMIfName = '''', Args = [], BinPath = [], ConfDir = '''', CacheDir = '''',
           containerID = '''', netNSPath = '''', Force = False\<rparr>,
         AllowMMDS = False, InRateLimiter = None, OutRateLimiter = None\<rparr>]"
  let ?run = "setupNetwork calm_env ifaces ''vm1'' ''/var/run/netns/vm1'' []"
  have "(case fst ?run of Inr (None, cls) \<Rightarrow> True | _ \<Rightarrow> False)"
    unfolding ifaces_def by code_simp
  then obtain cls ifaces' tr' where run: "?run = (Inr (None, cls), ifaces', tr')"
    by (cases ?run) (auto split: sum.splits option.splits)
  moreover have v: "NetworkInterfaces_validate ifaces Map.empty = None"
    by (simp add: ifaces_def NetworkInterfaces_validate_def iface_validate_def Let_def
        CNIConfiguration_validate_def)
  moreover have "length ifaces = 1" by (simp add: ifaces_def)
  ultimately show ?thesis using setupNetwork_configures_all [OF v run] by auto
qed

subsection \<open>Events of the network set-up\<close>

definition no_api :: "event \<Rightarrow> bool" where
  "no_api ev \<longleftrightarrow> (case ev of EvApi op \<Rightarrow> False | _ \<Rightarrow> True)"

text \<open>A history that has grown by system calls only.\<close>

definition grows :: "trace \<Rightarrow> trace \<Rightarrow> bool" where
  "grows tr tr' \<longleftrightarrow> (\<exists>new. tr' = tr @ new \<and> list_all no_api new)"

lemma grows_refl [simp]: "grows tr tr"
  by (simp add: grows_def)

lemma grows_snoc: "grows tr tr' \<Longrightarrow> no_api ev \<Longrightarrow> grows tr (tr' @ [ev])"
  by (auto simp: grows_def)

lemma grows_trans: "grows tr1 tr2 \<Longrightarrow> grows tr2 tr3 \<Longrightarrow> grows tr1 tr3"
  by (auto simp: grows_def)

lemma grows_append [simp]: "grows tr (tr @ new) \<longleftrightarrow> list_all no_api new"
  by (auto simp: grows_def)

lemma makeNetNS_grows: "makeNetNS e path cl tr = (err, cls, tr') \<Longrightarrow> grows tr tr'"
  by (auto simp: netns_defs no_api_def split: option.splits)

lemma grows_prefix: "grows (tr @ xs) tr' \<Longrightarrow> grows tr tr' \<or> \<not> list_all no_api xs"
  by (auto simp: grows_def)

lemma initializeNetNS_grows: "initializeNetNS e c tr = (err, cls, tr') \<Longrightarrow> grows tr tr'"
  by (auto simp: initializeNetNS_def syscall_def Let_def no_api_def
      split: ns_status.splits option.splits if_splits dest!: makeNetNS_grows grows_prefix)

lemma invokeCNI_grows: "invokeCNI e c tr = (r, cls, tr') \<Longrightarrow> grows tr tr'"
  by (auto simp: cni_defs no_api_def split: option.splits sum.splits if_splits)

lemma StaticNetworkConfFrom_grows: "StaticNetworkConfFrom e res vmID tr = (r, tr') \<Longrightarrow> grows tr tr'"
  by (auto simp: StaticNetworkConfFrom_def mtuOf_def GetLink_def syscall_def no_api_def
      split: option.splits sum.splits if_splits)

lemma setupNetwork_grows:
  assumes "setupNetwork e ifaces vmID nsPath tr = (r, ifaces', tr')"
  shows "grows tr tr'"
  using assms
  by (auto simp: setupNetwork_def Let_def
      split: option.splits prod.splits sum.splits if_splits
      dest!: initializeNetNS_grows invokeCNI_grows StaticNetworkConfFrom_grows
      intro: grows_trans)

end
