(* ===== verification/CommandBuilder.thy ===== *)
theory CommandBuilder
  imports World
begin

text \<open>
  The builders of the two command lines (\<open>command_builder.go\<close>, and the builder of \<open>jailer.go\<close>):
  the Firecracker process itself, and the jailer that starts it in a chroot. A builder is a value;
  every \<open>With\<close> method returns a changed copy. A nil argument slice and an empty one are the same
  list. \<open>int\<close> is 64 bits wide.
\<close>

subsection \<open>The Firecracker command\<close>

record VMCommandBuilder =
  vb_bin :: string
  vb_args :: "string list"
  vb_socketPath :: string
  vb_stdin :: "stream option"
  vb_stdout :: "stream option"
  vb_stderr :: "stream option"

definition defaultFcBin :: string where "defaultFcBin = ''firecracker''"

definition vb_zero :: VMCommandBuilder where
  "vb_zero = \<lparr>vb_bin = '''', vb_args = [], vb_socketPath = '''', vb_stdin = None, vb_stdout = None,
     vb_stderr = None\<rparr>"

definition vb_WithArgs :: "VMCommandBuilder \<Rightarrow> string list \<Rightarrow> VMCommandBuilder" where
  "vb_WithArgs b args = b\<lparr>vb_args := args\<rparr>"

definition vb_AddArgs :: "VMCommandBuilder \<Rightarrow> string list \<Rightarrow> VMCommandBuilder" where
  "vb_AddArgs b args = b\<lparr>vb_args := vb_args b @ args\<rparr>"

definition vb_Bin :: "VMCommandBuilder \<Rightarrow> string" where
  "vb_Bin b = (if length (vb_bin b) = 0 then defaultFcBin else vb_bin b)"

definition vb_WithBin :: "VMCommandBuilder \<Rightarrow> string \<Rightarrow> VMCommandBuilder" where
  "vb_WithBin b bin = b\<lparr>vb_bin := bin\<rparr>"

definition vb_SocketPath :: "VMCommandBuilder \<Rightarrow> string list" where
  "vb_SocketPath b = (if length (vb_socketPath b) = 0 then [] else [''--api-sock'', vb_socketPath b])"

definition vb_WithSocketPath :: "VMCommandBuilder \<Rightarrow> string \<Rightarrow> VMCommandBuilder" where
  "vb_WithSocketPath b path = b\<lparr>vb_socketPath := path\<rparr>"

definition vb_WithStdout :: "VMCommandBuilder \<Rightarrow> stream \<Rightarrow> VMCommandBuilder" where
  "vb_WithStdout b s = b\<lparr>vb_stdout := Some s\<rparr>"

definition vb_WithStderr :: "VMCommandBuilder \<Rightarrow> stream \<Rightarrow> VMCommandBuilder" where
  "vb_WithStderr b s = b\<lparr>vb_stderr := Some s\<rparr>"

definition vb_WithStdin :: "VMCommandBuilder \<Rightarrow> stream \<Rightarrow> VMCommandBuilder" where
  "vb_WithStdin b s = b\<lparr>vb_stdin := Some s\<rparr>"

definition vb_Args :: "VMCommandBuilder \<Rightarrow> string list" where
  "vb_Args b = vb_args b"

definition vb_Stdout :: "VMCommandBuilder \<Rightarrow> stream option" where
  "vb_Stdout b = vb_stdout b"

definition vb_Stderr :: "VMCommandBuilder \<Rightarrow> stream option" where
  "vb_Stderr b = vb_stderr b"

definition vb_Stdin :: "VMCommandBuilder \<Rightarrow> stream option" where
  "vb_Stdin b = vb_stdin b"

definition vb_Build :: "VMCommandBuilder \<Rightarrow> command" where
  "vb_Build b =
     \<lparr>cmd_bin = vb_Bin b, cmd_args = vb_SocketPath b @ vb_args b,
      cmd_stdin = vb_stdin b, cmd_stdout = vb_stdout b, cmd_stderr = vb_stderr b\<rparr>"

definition defaultFirecrackerVMMCommandBuilder :: VMCommandBuilder where
  "defaultFirecrackerVMMCommandBuilder =
     vb_WithStderr (vb_WithStdout (vb_WithStdin (vb_WithBin vb_zero defaultFcBin) OsStdin) OsStdout) OsStderr"

lemmas vb_defs = vb_zero_def vb_WithArgs_def vb_AddArgs_def vb_Bin_def vb_WithBin_def
  vb_SocketPath_def vb_WithSocketPath_def vb_WithStdout_def vb_WithStderr_def vb_WithStdin_def
  vb_Build_def defaultFirecrackerVMMCommandBuilder_def

subsection \<open>The jailer command\<close>

record JailerCommandBuilder =
  jb_bin :: string
  jb_id :: string
  jb_uid :: int64
  jb_gid :: int64
  jb_execFile :: string
  jb_node :: int64
  jb_chrootBaseDir :: string
  jb_netNS :: string
  jb_daemonize :: bool
  jb_firecrackerArgs :: "string list"
  jb_cgroupVersion :: string
  jb_cgroupArgs :: "string list"
  jb_parentCgroup :: string
  jb_stdin :: "stream option"
  jb_stdout :: "stream option"
  jb_stderr :: "stream option"

definition defaultJailerBin :: string where "defaultJailerBin = ''jailer''"

definition jb_zero :: JailerCommandBuilder where
  "jb_zero = \<lparr>jb_bin = '''', jb_id = '''', jb_uid = 0, jb_gid = 0, jb_execFile = '''', jb_node = 0,
     jb_chrootBaseDir = '''', jb_netNS = '''', jb_daemonize = False, jb_firecrackerArgs = [],
     jb_cgroupVersion = '''', jb_cgroupArgs = [], jb_parentCgroup = '''',
     jb_stdin = None, jb_stdout = None, jb_stderr = None\<rparr>"

definition jb_WithBin :: "string \<Rightarrow> JailerCommandBuilder \<Rightarrow> JailerCommandBuilder" where
  "jb_WithBin bin b = b\<lparr>jb_bin := bin\<rparr>"

definition jb_WithID :: "string \<Rightarrow> JailerCommandBuilder \<Rightarrow> JailerCommandBuilder" where
  "jb_WithID i b = b\<lparr>jb_id := i\<rparr>"

definition jb_WithUID :: "int64 \<Rightarrow> JailerCommandBuilder \<Rightarrow> JailerCommandBuilder" where
  "jb_WithUID uid b = b\<lparr>jb_uid := uid\<rparr>"

definition jb_WithGID :: "int64 \<Rightarrow> JailerCommandBuilder \<Rightarrow> JailerCommandBuilder" where
  "jb_WithGID gid b = b\<lparr>jb_gid := gid\<rparr>"

definition jb_WithExecFile :: "string \<Rightarrow> JailerCommandBuilder \<Rightarrow> JailerCommandBuilder" where
  "jb_WithExecFile path b = b\<lparr>jb_execFile := path\<rparr>"

definition jb_WithNumaNode :: "int64 \<Rightarrow> JailerCommandBuilder \<Rightarrow> JailerCommandBuilder" where
  "jb_WithNumaNode node b = b\<lparr>jb_node := node\<rparr>"

definition jb_WithCgroupArgs :: "string list \<Rightarrow> JailerCommandBuilder \<Rightarrow> JailerCommandBuilder" where
  "jb_WithCgroupArgs cgroupArgs b = b\<lparr>jb_cgroupArgs := cgroupArgs\<rparr>"

definition jb_WithParentCgroup :: "string \<Rightarrow> JailerCommandBuilder \<Rightarrow> JailerCommandBuilder" where
  "jb_WithParentCgroup parentCgroup b = b\<lparr>jb_parentCgroup := parentCgroup\<rparr>"

definition jb_WithChrootBaseDir :: "string \<Rightarrow> JailerCommandBuilder \<Rightarrow> JailerCommandBuilder" where
  "jb_WithChrootBaseDir path b = b\<lparr>jb_chrootBaseDir := path\<rparr>"

definition jb_WithNetNS :: "string \<Rightarrow> JailerCommandBuilder \<Rightarrow> JailerCommandBuilder" where
  "jb_WithNetNS path b = b\<lparr>jb_netNS := path\<rparr>"

definition jb_WithDaemonize :: "bool \<Rightarrow> JailerCommandBuilder \<Rightarrow> JailerCommandBuilder" where
  "jb_WithDaemonize daemonize b = b\<lparr>jb_daemonize := daemonize\<rparr>"

definition jb_WithStdout :: "stream \<Rightarrow> JailerCommandBuilder \<Rightarrow> JailerCommandBuilder" where
  "jb_WithStdout s b = b\<lparr>jb_stdout := Some s\<rparr>"

definition jb_WithStderr :: "stream \<Rightarrow> JailerCommandBuilder \<Rightarrow> JailerCommandBuilder" where
  "jb_WithStderr s b = b\<lparr>jb_stderr := Some s\<rparr>"

definition jb_WithStdin :: "stream \<Rightarrow> JailerCommandBuilder \<Rightarrow> JailerCommandBuilder" where
  "jb_WithStdin s b = b\<lparr>jb_stdin := Some s\<rparr>"

definition jb_WithFirecrackerArgs :: "string list \<Rightarrow> JailerCommandBuilder \<Rightarrow> JailerCommandBuilder" where
  "jb_WithFirecrackerArgs args b = b\<lparr>jb_firecrackerArgs := args\<rparr>"

definition jb_WithCgroupVersion :: "string \<Rightarrow> JailerCommandBuilder \<Rightarrow> JailerCommandBuilder" where
  "jb_WithCgroupVersion v b = b\<lparr>jb_cgroupVersion := v\<rparr>"

definition NewJailerCommandBuilder :: JailerCommandBuilder where
  "NewJailerCommandBuilder = jb_WithBin defaultJailerBin jb_zero"

definition getNumaCpuset :: "env \<Rightarrow> int64 \<Rightarrow> string" where
  "getNumaCpuset e node =
    (case numa_cpulist e node of Some cpus \<Rightarrow> trim_suffix cpus [CHR 0x0A] | None \<Rightarrow> '''')"

definition int_text :: "int64 \<Rightarrow> string" where
  "int_text i = itoa (sint i)"

definition jb_Args :: "env \<Rightarrow> JailerCommandBuilder \<Rightarrow> string list" where
  "jb_Args e b =
    (let args = [''--id'', jb_id b];
         args = args @ [''--uid'', int_text (jb_uid b)];
         args = args @ [''--gid'', int_text (jb_gid b)];
         args = args @ [''--exec-file'', jb_execFile b];
         cpulist = getNumaCpuset e (jb_node b);
         args = (if length cpulist > 0
                 then (args @ [''--cgroup'', ''cpuset.mems='' @ int_text (jb_node b)])
                    @ [''--cgroup'', ''cpuset.cpus='' @ cpulist]
                 else args);
         args = foldl (\<lambda>args cgroupArg. args @ [''--cgroup'', cgroupArg]) args (jb_cgroupArgs b);
         args = (if length (jb_cgroupVersion b) > 0
                 then args @ [''--cgroup-version'', jb_cgroupVersion b] else args);
         args = (if length (jb_parentCgroup b) > 0
                 then args @ [''--parent-cgroup'', jb_parentCgroup b] else args);
         args = (if length (jb_chrootBaseDir b) > 0
                 then args @ [''--chroot-base-dir'', jb_chrootBaseDir b] else args);
         args = (if length (jb_netNS b) > 0 then args @ [''--netns'', jb_netNS b] else args);
         args = (if jb_daemonize b then args @ [''--daemonize''] else args);
         args = (if length (jb_firecrackerArgs b) > 0
                 then (args @ [''--'']) @ jb_firecrackerArgs b else args)
     in args)"

definition jb_Bin :: "JailerCommandBuilder \<Rightarrow> string" where
  "jb_Bin b = jb_bin b"

definition jb_Stdout :: "JailerCommandBuilder \<Rightarrow> stream option" where
  "jb_Stdout b = jb_stdout b"

definition jb_Stderr :: "JailerCommandBuilder \<Rightarrow> stream option" where
  "jb_Stderr b = jb_stderr b"

definition jb_Stdin :: "JailerCommandBuilder \<Rightarrow> stream option" where
  "jb_Stdin b = jb_stdin b"

definition jb_Build :: "env \<Rightarrow> JailerCommandBuilder \<Rightarrow> command" where
  "jb_Build e b =
     \<lparr>cmd_bin = jb_Bin b, cmd_args = jb_Args e b,
      cmd_stdin = jb_stdin b, cmd_stdout = jb_stdout b, cmd_stderr = jb_stderr b\<rparr>"

lemmas jb_defs = jb_zero_def jb_WithBin_def jb_WithID_def jb_WithUID_def jb_WithGID_def
  jb_WithExecFile_def jb_WithNumaNode_def jb_WithCgroupArgs_def jb_WithParentCgroup_def
  jb_WithChrootBaseDir_def jb_WithNetNS_def jb_WithDaemonize_def jb_WithStdout_def
  jb_WithStderr_def jb_WithStdin_def jb_WithFirecrackerArgs_def jb_WithCgroupVersion_def
  NewJailerCommandBuilder_def jb_Bin_def jb_Build_def

subsection \<open>Reading a command line back\<close>

text \<open>
  The grammar of the jailer's command line: options with one value each, the switch
  \<open>--daemonize\<close>, and after \<open>--\<close> the arguments for Firecracker.
\<close>

fun read_args :: "string list \<Rightarrow> (string \<times> string) list \<times> bool \<times> string list" where
  "read_args [] = ([], False, [])"
| "read_args (a # as) =
    (if a = ''--'' then ([], False, as)
     else if a = ''--daemonize'' then
       (case read_args as of (os, d, fc) \<Rightarrow> (os, True, fc))
     else case as of
       [] \<Rightarrow> ([], False, [])
     | v # as' \<Rightarrow> (case read_args as' of (os, d, fc) \<Rightarrow> ((a, v) # os, d, fc)))"

fun flat :: "(string \<times> string) list \<Rightarrow> string list" where
  "flat [] = []"
| "flat ((o', v) # os) = o' # v # flat os"

lemma flat_append: "flat (xs @ ys) = flat xs @ flat ys"
  by (induction xs rule: flat.induct) auto

lemma flat_cgroup: "foldl (\<lambda>args a. args @ [''--cgroup'', a]) acc as
    = acc @ flat (map (Pair ''--cgroup'') as)"
  by (induction "as" arbitrary: acc) auto

lemma read_flat:
  "list_all (\<lambda>(o', v). o' \<noteq> ''--'' \<and> o' \<noteq> ''--daemonize'') os \<Longrightarrow>
     read_args (flat os @ rest) = (case read_args rest of (os', d, fc) \<Rightarrow> (os @ os', d, fc))"
  by (induction os rule: flat.induct) (auto split: prod.splits)

definition optional :: "string \<Rightarrow> string \<Rightarrow> (string \<times> string) list" where
  "optional o' v = (if v = '''' then [] else [(o', v)])"

definition jailer_options :: "env \<Rightarrow> JailerCommandBuilder \<Rightarrow> (string \<times> string) list" where
  "jailer_options e b =
     [(''--id'', jb_id b), (''--uid'', int_text (jb_uid b)), (''--gid'', int_text (jb_gid b)),
      (''--exec-file'', jb_execFile b)]
   @ (if getNumaCpuset e (jb_node b) = '''' then []
      else [(''--cgroup'', ''cpuset.mems='' @ int_text (jb_node b)),
            (''--cgroup'', ''cpuset.cpus='' @ getNumaCpuset e (jb_node b))])
   @ map (Pair ''--cgroup'') (jb_cgroupArgs b)
   @ optional ''--cgroup-version'' (jb_cgroupVersion b)
   @ optional ''--parent-cgroup'' (jb_parentCgroup b)
   @ optional ''--chroot-base-dir'' (jb_chrootBaseDir b)
   @ optional ''--netns'' (jb_netNS b)"

lemma jb_Args_flat:
  "jb_Args e b = flat (jailer_options e b)
     @ (if jb_daemonize b then [''--daemonize''] else [])
     @ (if jb_firecrackerArgs b = [] then [] else ''--'' # jb_firecrackerArgs b)"
  by (simp add: jb_Args_def jailer_options_def Let_def flat_cgroup flat_append optional_def)

lemma jb_Args_read: "read_args (jb_Args e b) = (jailer_options e b, jb_daemonize b, jb_firecrackerArgs b)"
proof -
  have "list_all (\<lambda>(o', v). o' \<noteq> ''--'' \<and> o' \<noteq> ''--daemonize'') (jailer_options e b)"
    by (simp add: jailer_options_def optional_def list_all_iff)
  from read_flat [OF this] show ?thesis by (simp add: jb_Args_flat)
qed

text \<open>C37: The jailer's command line can be read back: its options are those of the builder, in
  order and with their values, whatever characters the values hold; \<open>--daemonize\<close> is there exactly
  when asked for; and everything after \<open>--\<close> is the arguments for Firecracker.\<close>

theorem read_jb_Args:
  "read_args (cmd_args (jb_Build e b)) = (jailer_options e b, jb_daemonize b, jb_firecrackerArgs b)"
  by (simp add: jb_Build_def jb_Args_read)

end
