(* ===== verification/MachineState.thy ===== *)
theory MachineState
  imports ApiClient Network CommandBuilder
begin

text \<open>
  The configuration and the state of a machine (\<open>machine.go\<close>): \<open>Config\<close>, \<open>JailerConfig\<close> of
  \<open>jailer.go\<close>, the \<open>Machine\<close> struct, and the validation and clean-up methods, which the other
  operations build on. The channels of the struct only ever carry their closing, so a channel is
  the flag that it is closed; a \<open>sync.Once\<close> is the flag that it has run. \<open>world\<close> is the history
  of events, which is not a field of the struct. A handler function is a value of
  \<open>handler_fn\<close>; \<open>MachineStart\<close> interprets it.
\<close>

datatype handler_fn =
    ValidateCfgFn
  | ValidateLoadSnapshotCfgFn
  | ValidateJailerCfgFn
  | ValidateNetworkCfgFn
  | StartVMMFn
  | CreateLogFilesFn
  | BootstrapLoggingFn
  | CreateMachineFn
  | CreateBootSourceFn
  | AttachDrivesFn
  | CreateNetworkInterfacesFn
  | SetupNetworkFn
  | SetupKernelArgsFn
  | AddVsocksFn
  | SetMetadataFn string
  | ConfigMmdsFn
  | CreateBalloonFn int64 bool int64
  | LoadSnapshotFn
  | LinkFilesFn string
  | UserFn nat

record SeccompConfig =
  Enabled :: bool
  Filter :: string

text \<open>A chroot strategy adapts the handlers: the SDK's own one, or one of the user's.\<close>

record NaiveChrootStrategy =
  ncs_Rootfs :: string
  ncs_KernelImagePath :: string

datatype adapter = Naive NaiveChrootStrategy | UserAdapter nat

record JailerConfig =
  GID :: "int64 option"
  UID :: "int64 option"
  ID :: string
  NumaNode :: "int64 option"
  ExecFile :: string
  JailerBinary :: string
  ChrootBaseDir :: string
  Daemonize :: bool
  ChrootStrategy :: "adapter option"
  CgroupVersion :: string
  CgroupArgs :: "string list"
  ParentCgroup :: string
  Stdout :: "stream option"
  Stderr :: "stream option"
  Stdin :: "stream option"

record VsockDevice =
  vd_ID :: string
  vd_Path :: string
  vd_CID :: "32 word"

record RateLimiterSet =
  rls_InRateLimiter :: "RateLimiter option"
  rls_OutRateLimiter :: "RateLimiter option"

record Config =
  SocketPath :: string
  LogPath :: string
  LogFifo :: string
  LogLevel :: string
  MetricsPath :: string
  MetricsFifo :: string
  KernelImagePath :: string
  InitrdPath :: string
  KernelArgs :: string
  Drives :: "Drive list"
  NetworkInterfaces :: "NetworkInterface list"
  FifoLogWriter :: "stream option"
  VsockDevices :: "VsockDevice list"
  MachineCfg :: MachineConfiguration
  DisableValidation :: bool
  JailerCfg :: "JailerConfig option"
  VMID :: string
  NetNS :: string
  ForwardSignals :: "string list option"
  Seccomp :: SeccompConfig
  MmdsAddress :: "ip option"
  MmdsVersion :: string
  Snapshot :: SnapshotConfig

record Machine =
  mHandlers :: "handler_fn handlers"
  Cfg :: Config
  client :: Client
  cmd :: command
  Process :: "int option"
  machineConfig :: MachineConfiguration
  started :: bool
  exitCh :: bool
  shutdownCh :: bool
  fatalErr :: "go_error option"
  cleaned :: bool
  cleanupFuncs :: "cleanup list"
  cleanupCh :: bool
  world :: trace

text \<open>A method returns an outcome and the machine it leaves; \<open>and_then\<close> is
  \<open>if err := f(); err != nil { return err }\<close>.\<close>

type_synonym step = "result \<times> Machine"

definition and_then :: "step \<Rightarrow> (Machine \<Rightarrow> step) \<Rightarrow> step" where
  "and_then r f = (case r of (Returned None, m) \<Rightarrow> f m | (out, m) \<Rightarrow> (out, m))"

lemma and_then_simps [simp]:
  "and_then (Returned None, m) f = f m"
  "and_then (Returned (Some err), m) f = (Returned (Some err), m)"
  "and_then (Panicked p, m) f = (Panicked p, m)"
  "and_then (Blocked, m) f = (Blocked, m)"
  by (simp_all add: and_then_def)

definition ok :: "Machine \<Rightarrow> step" where "ok m = (Returned None, m)"
definition fail :: "go_error \<Rightarrow> Machine \<Rightarrow> step" where "fail err m = (Returned (Some err), m)"

lemmas step_defs = ok_def fail_def

definition do_sys :: "env \<Rightarrow> event \<Rightarrow> Machine \<Rightarrow> go_error option \<times> Machine" where
  "do_sys e ev m = (sys e (world m) ev, m\<lparr>world := world m @ [ev]\<rparr>)"

definition do_api :: "(trace \<Rightarrow> 'p api_result \<times> trace) \<Rightarrow> Machine \<Rightarrow> 'p api_result \<times> Machine" where
  "do_api call m = (case call (world m) of (r, tr) \<Rightarrow> (r, m\<lparr>world := tr\<rparr>))"

definition api_outcome :: "'p api_result \<Rightarrow> result" where
  "api_outcome r =
    (case r of Inl p \<Rightarrow> Panicked p | Inr (Inl err) \<Rightarrow> Returned (Some err) | Inr (Inr x) \<Rightarrow> Returned None)"

definition api_step :: "(trace \<Rightarrow> 'p api_result \<times> trace) \<Rightarrow> Machine \<Rightarrow> step" where
  "api_step call m = (case do_api call m of (r, m1) \<Rightarrow> (api_outcome r, m1))"

subsection \<open>Validation\<close>

definition hasSnapshot :: "Config \<Rightarrow> bool" where
  "hasSnapshot cfg \<longleftrightarrow> GetMemBackendPath (Snapshot cfg) \<noteq> '''' \<or> SnapshotPath (Snapshot cfg) \<noteq> ''''"

definition is_root :: "Drive \<Rightarrow> bool" where
  "is_root drive = BoolValue (IsRootDevice drive)"

text \<open>\<open>os.Stat\<close> of a path that must exist; the error text of the caller wraps the cause with \<open>%v\<close>.\<close>

definition must_stat :: "env \<Rightarrow> string \<Rightarrow> string \<Rightarrow> Machine \<Rightarrow> step" where
  "must_stat e msg path m =
    (case do_sys e (EvStat path) m of
       (Some err, m1) \<Rightarrow> fail (Errorf msg [path] (Some err)) m1
     | (None, m1) \<Rightarrow> ok m1)"

definition socket_free :: "env \<Rightarrow> Machine \<Rightarrow> step" where
  "socket_free e m =
    (case do_sys e (EvStat (SocketPath (Cfg m))) m of
       (None, m1) \<Rightarrow> fail (Errorf ''socket %s already exists'' [SocketPath (Cfg m)] None) m1
     | (Some err, m1) \<Rightarrow> ok m1)"

definition Validate :: "env \<Rightarrow> Machine \<Rightarrow> step" where
  "Validate e m =
    (let cfg = Cfg m in
     if DisableValidation cfg then ok m
     else
       and_then (must_stat e ''failed to stat kernel image path, %q: %v'' (KernelImagePath cfg) m) (\<lambda>m1.
       and_then (if InitrdPath cfg \<noteq> ''''
                 then must_stat e ''failed to stat initrd image path, %q: %v'' (InitrdPath cfg) m1
                 else ok m1) (\<lambda>m2.
       and_then (case find_first is_root (Drives cfg) of
                   Some drive \<Rightarrow>
                     must_stat e ''failed to stat host drive path, %q: %v'' (StringValue (PathOnHost drive)) m2
                 | None \<Rightarrow> ok m2) (\<lambda>m3.
       and_then (socket_free e m3) (\<lambda>m4.
         if VcpuCount (MachineCfg cfg) = None \<or> sint (Int64Value (VcpuCount (MachineCfg cfg))) < 1
         then fail (Errorf ''machine needs a nonzero VcpuCount'' [] None) m4
         else if MemSizeMib (MachineCfg cfg) = None \<or> sint (Int64Value (MemSizeMib (MachineCfg cfg))) < 1
         then fail (Errorf ''machine needs a nonzero amount of memory'' [] None) m4
         else ok m4)))))"

fun stat_drives :: "env \<Rightarrow> Drive list \<Rightarrow> Machine \<Rightarrow> step" where
  "stat_drives e [] m = ok m"
| "stat_drives e (drive # ds) m =
     and_then (must_stat e ''failed to stat drive path, %q: %v'' (StringValue (PathOnHost drive)) m)
       (stat_drives e ds)"

definition plain_stat :: "env \<Rightarrow> string \<Rightarrow> Machine \<Rightarrow> step" where
  "plain_stat e path m =
    (case do_sys e (EvStat path) m of (Some err, m1) \<Rightarrow> fail err m1 | (None, m1) \<Rightarrow> ok m1)"

definition ValidateLoadSnapshot :: "env \<Rightarrow> Machine \<Rightarrow> step" where
  "ValidateLoadSnapshot e m =
    (let cfg = Cfg m in
     if DisableValidation cfg then ok m
     else
       and_then (stat_drives e (Drives cfg) m) (\<lambda>m1.
       and_then (socket_free e m1) (\<lambda>m2.
       and_then (plain_stat e (GetMemBackendPath (Snapshot cfg)) m2) (\<lambda>m3.
       plain_stat e (SnapshotPath (Snapshot cfg)) m3))))"

definition ValidateNetwork :: "Machine \<Rightarrow> step" where
  "ValidateNetwork m =
    (if DisableValidation (Cfg m) then ok m
     else (Returned (NetworkInterfaces_validate (NetworkInterfaces (Cfg m))
             (parseKernelArgs (KernelArgs (Cfg m)))), m))"

definition JailerConfigValidation :: "Machine \<Rightarrow> step" where
  "JailerConfigValidation m =
    (case JailerCfg (Cfg m) of
       None \<Rightarrow> ok m
     | Some j \<Rightarrow>
        (let hasRoot = (InitrdPath (Cfg m) \<noteq> '''' \<or> find_first is_root (Drives (Cfg m)) \<noteq> None) in
         if \<not> hasRoot then fail (Errorf ''A root drive must be present in the drive list'' [] None) m
         else if ChrootStrategy j = None then fail (Errorf ''ChrootStrategy cannot be nil'' [] None) m
         else if length (ExecFile j) = 0 then
           fail (Errorf ''exec file must be specified when using jailer mode'' [] None) m
         else if length (ID j) = 0 then
           fail (Errorf ''id must be specified when using jailer mode'' [] None) m
         else if GID j = None then
           fail (Errorf ''GID must be specified when using jailer mode'' [] None) m
         else if UID j = None then
           fail (Errorf ''UID must be specified when using jailer mode'' [] None) m
         else if NumaNode j = None then
           fail (Errorf ''ID must be specified when using jailer mode'' [] None) m
         else ok m))"

subsection \<open>Clean-up\<close>

fun cleanup_loop ::
  "env \<Rightarrow> string \<Rightarrow> cleanup list \<Rightarrow> go_error list option \<Rightarrow> trace \<Rightarrow> go_error list option \<times> trace" where
  "cleanup_loop e sock [] err tr = (err, tr)"
| "cleanup_loop e sock (cl # cls) err tr =
    (case run_cleanup e sock cl tr of
       (r, tr1) \<Rightarrow> cleanup_loop e sock cls (merr_append e err r) tr1)"

definition doCleanup :: "env \<Rightarrow> Machine \<Rightarrow> go_error option \<times> Machine" where
  "doCleanup e m =
    (if cleaned m then (merr_or_nil e None, m)
     else case cleanup_loop e (SocketPath (Cfg m)) (rev (cleanupFuncs m)) None (world m) of
       (err, tr) \<Rightarrow> (merr_or_nil e err, m\<lparr>world := tr, cleaned := True\<rparr>))"

subsection \<open>Small accessors\<close>

definition PID :: "Machine \<Rightarrow> go_error + int" where
  "PID m =
    (case Process m of
       None \<Rightarrow> Inl (Errorf ''machine is not running'' [] None)
     | Some pid \<Rightarrow>
        if exitCh m then Inl (Errorf ''machine process has exited'' [] None) else Inr pid)"

definition LogFile :: "Machine \<Rightarrow> string" where "LogFile m = LogFifo (Cfg m)"
definition mLogLevel :: "Machine \<Rightarrow> string" where "mLogLevel m = LogLevel (Cfg m)"

definition seccompArgs :: "Config \<Rightarrow> string list" where
  "seccompArgs cfg =
    (if \<not> Enabled (Seccomp cfg) then [''--no-seccomp'']
     else if length (Filter (Seccomp cfg)) > 0 then [''--seccomp-filter'', Filter (Seccomp cfg)]
     else [])"

definition configureBuilder :: "VMCommandBuilder \<Rightarrow> Config \<Rightarrow> VMCommandBuilder" where
  "configureBuilder builder cfg =
     vb_AddArgs (vb_AddArgs (vb_WithSocketPath builder (SocketPath cfg)) [''--id'', VMID cfg])
       (seccompArgs cfg)"

subsection \<open>Lemmas on validation and clean-up\<close>

lemma and_then_None:
  "and_then r f = (Returned None, m') \<longleftrightarrow> (\<exists>m1. r = (Returned None, m1) \<and> f m1 = (Returned None, m'))"
  by (cases r) (auto simp: and_then_def split: outcome.splits option.splits)

text \<open>A file system whose answers to \<open>stat\<close> do not change while validation runs.\<close>

definition stat_stable :: "env \<Rightarrow> bool" where
  "stat_stable e \<longleftrightarrow> (\<forall>tr p. sys e tr (EvStat p) = sys e [] (EvStat p))"

definition stat_ok :: "env \<Rightarrow> string \<Rightarrow> bool" where
  "stat_ok e p \<longleftrightarrow> sys e [] (EvStat p) = None"

definition config_ok :: "env \<Rightarrow> Config \<Rightarrow> bool" where
  "config_ok e cfg \<longleftrightarrow>
     stat_ok e (KernelImagePath cfg)
   \<and> (InitrdPath cfg = '''' \<or> stat_ok e (InitrdPath cfg))
   \<and> (case find_first is_root (Drives cfg) of
        None \<Rightarrow> True | Some d \<Rightarrow> stat_ok e (StringValue (PathOnHost d)))
   \<and> \<not> stat_ok e (SocketPath cfg)
   \<and> (\<exists>v. VcpuCount (MachineCfg cfg) = Some v \<and> 1 \<le> sint v)
   \<and> (\<exists>v. MemSizeMib (MachineCfg cfg) = Some v \<and> 1 \<le> sint v)"

lemma must_stat_None:
  assumes "stat_stable e"
  shows "must_stat e msg p m = (Returned None, m') \<longleftrightarrow>
     stat_ok e p \<and> m' = m\<lparr>world := world m @ [EvStat p]\<rparr>"
proof -
  have "sys e (world m) (EvStat p) = sys e [] (EvStat p)" using assms unfolding stat_stable_def by blast
  then show ?thesis by (auto simp: must_stat_def do_sys_def stat_ok_def step_defs split: option.splits)
qed

lemma socket_free_None:
  assumes "stat_stable e"
  shows "socket_free e m = (Returned None, m') \<longleftrightarrow>
     \<not> stat_ok e (SocketPath (Cfg m)) \<and> m' = m\<lparr>world := world m @ [EvStat (SocketPath (Cfg m))]\<rparr>"
proof -
  let ?p = "SocketPath (Cfg m)"
  have "sys e (world m) (EvStat ?p) = sys e [] (EvStat ?p)" using assms unfolding stat_stable_def by blast
  then show ?thesis by (auto simp: socket_free_def do_sys_def stat_ok_def step_defs split: option.splits)
qed

text \<open>On a file system that stands still, configuration validation succeeds exactly when it is
  disabled, or the kernel, the initrd if given, and the first root drive if there is one exist, the
  socket does not, and the numbers of CPUs and of megabytes are given and positive.\<close>

lemma Validate_iff:
  assumes "stat_stable e"
  shows "fst (Validate e m) = Returned None \<longleftrightarrow> DisableValidation (Cfg m) \<or> config_ok e (Cfg m)"
proof -
  have "(\<exists>m'. Validate e m = (Returned None, m')) \<longleftrightarrow> DisableValidation (Cfg m) \<or> config_ok e (Cfg m)"
    by (auto simp: Validate_def Let_def and_then_None must_stat_None [OF assms]
        socket_free_None [OF assms] config_ok_def step_defs Int64Value_def not_less
        split: option.splits if_splits)
  then show ?thesis by (metis fst_conv prod.collapse)
qed

text \<open>The errors of the clean-up functions, in the order in which they run; a \<open>MultiError\<close> counts
  as the errors it holds.\<close>

fun cleanup_results :: "env \<Rightarrow> string \<Rightarrow> cleanup list \<Rightarrow> trace \<Rightarrow> go_error option list" where
  "cleanup_results e sock [] tr = []"
| "cleanup_results e sock (cl # cls) tr =
     fst (run_cleanup e sock cl tr) # cleanup_results e sock cls (tr @ [cleanup_event sock cl])"

definition flat_errors :: "go_error option list \<Rightarrow> go_error list" where
  "flat_errors rs = concat (map (\<lambda>err. case err of MultiError es \<Rightarrow> es | _ \<Rightarrow> [err]) (present rs))"

lemma flat_errors_simps [simp]:
  "flat_errors [] = []"
  "flat_errors (None # rs) = flat_errors rs"
  "flat_errors (Some err # rs) = (case err of MultiError es \<Rightarrow> es | _ \<Rightarrow> [err]) @ flat_errors rs"
  by (simp_all add: flat_errors_def)

lemma merr_append_doc:
  assumes "multierror_doc e"
  shows "merr_append e m r = Some ((case m of None \<Rightarrow> [] | Some es \<Rightarrow> es) @ flat_errors [r])"
proof (cases r)
  case None
  with assms show ?thesis by (auto simp: multierror_doc_def)
next
  case (Some err)
  show ?thesis
  proof (cases "\<exists>es. err = MultiError es")
    case True
    with assms Some show ?thesis by (auto simp: multierror_doc_def)
  next
    case False
    with assms Some have "merr_append e m r = Some ((case m of None \<Rightarrow> [] | Some es \<Rightarrow> es) @ [err])"
      by (auto simp: multierror_doc_def)
    with False Some show ?thesis by (cases err) auto
  qed
qed

lemma cleanup_loop_trace:
  "snd (cleanup_loop e sock cls err tr) = tr @ map (cleanup_event sock) cls"
proof (induction cls arbitrary: err tr)
  case Nil
  then show ?case by simp
next
  case (Cons cl cls)
  then show ?case by (cases "run_cleanup e sock cl tr") (use snd_run_cleanup [of e sock cl tr] in auto)
qed

lemma cleanup_loop_errors:
  assumes "multierror_doc e" and "cls \<noteq> [] \<or> err \<noteq> None"
  shows "fst (cleanup_loop e sock cls err tr) =
    Some ((case err of None \<Rightarrow> [] | Some es \<Rightarrow> es) @ flat_errors (cleanup_results e sock cls tr))"
  using assms(2)
proof (induction cls arbitrary: err tr)
  case Nil
  then show ?case by auto
next
  case (Cons cl cls)
  obtain r tr1 where r: "run_cleanup e sock cl tr = (r, tr1)" by fastforce
  then have "tr1 = tr @ [cleanup_event sock cl]" using snd_run_cleanup [of e sock cl tr] by simp
  with r Cons.IH [of "merr_append e err r" tr1] show ?case
    by (cases r) (simp_all add: merr_append_doc [OF assms(1)])
qed

text \<open>C15: Clean-up runs every registered function once, the last registered first, and collects all
  their errors; a second clean-up does nothing and returns no error.\<close>

theorem doCleanup_reverse_once:
  assumes "multierror_doc e" and "\<not> cleaned m" and "doCleanup e m = (err, m')"
  shows "m' = m\<lparr>world := world m @ map (cleanup_event (SocketPath (Cfg m))) (rev (cleanupFuncs m)),
             cleaned := True\<rparr>
    \<and> err = (let es = flat_errors (cleanup_results e (SocketPath (Cfg m)) (rev (cleanupFuncs m)) (world m))
              in if es = [] then None else Some (MultiError es))
    \<and> doCleanup e m' = (None, m')"
proof -
  let ?sock = "SocketPath (Cfg m)" and ?cls = "rev (cleanupFuncs m)"
  obtain me tr where l: "cleanup_loop e ?sock ?cls None (world m) = (me, tr)" by fastforce
  have t: "tr = world m @ map (cleanup_event ?sock) ?cls"
    using cleanup_loop_trace [of e ?sock ?cls None "world m"] l by simp
  have nil: "merr_or_nil e None = None"
    and or_nil: "merr_or_nil e (Some es) = (if es = [] then None else Some (MultiError es))" for es
    using assms(1) by (auto simp: multierror_doc_def)
  have me: "merr_or_nil e me = (let es = flat_errors (cleanup_results e ?sock ?cls (world m))
      in if es = [] then None else Some (MultiError es))"
  proof (cases "?cls = []")
    case True
    with l nil show ?thesis by simp
  next
    case False
    then have "me = Some (flat_errors (cleanup_results e ?sock ?cls (world m)))"
      using cleanup_loop_errors [OF assms(1), of ?cls None ?sock "world m"] l by simp
    with or_nil show ?thesis by (simp add: Let_def)
  qed
  show ?thesis using assms(2,3) l t me nil by (auto simp: doCleanup_def)
qed

subsection \<open>A machine for examples\<close>

definition calm_jailer :: JailerConfig where
  "calm_jailer = \<lparr>GID = Some 123, UID = Some 100, ID = ''vm1'', NumaNode = Some 0,
     ExecFile = ''/usr/bin/firecracker'', JailerBinary = '''', ChrootBaseDir = ''/jail'',
     Daemonize = False, ChrootStrategy = Some (Naive \<lparr>ncs_Rootfs = '''', ncs_KernelImagePath = ''/k/vmlinux''\<rparr>),
     CgroupVersion = '''', CgroupArgs = [], ParentCgroup = '''', Stdout = None, Stderr = None, Stdin = None\<rparr>"

definition calm_config :: Config where
  "calm_config = \<lparr>SocketPath = ''/run/fc.sock'', LogPath = '''', LogFifo = '''', LogLevel = '''',
     MetricsPath = '''', MetricsFifo = '''', KernelImagePath = ''/k/vmlinux'', InitrdPath = '''',
     KernelArgs = ''console=ttyS0 quiet'',
     Drives = [\<lparr>CacheType = None, DriveID = Some ''root_drive'', IoEngine = None, IsReadOnly = Some False,
        IsRootDevice = Some True, Partuuid = '''', PathOnHost = Some ''/img/root.ext4'', drv_RateLimiter = None\<rparr>],
     NetworkInterfaces = [], FifoLogWriter = None, VsockDevices = [],
     MachineCfg = \<lparr>CPUTemplate = '''', MemSizeMib = Some 128, Smt = None, TrackDirtyPages = None, VcpuCount = Some 1\<rparr>,
     DisableValidation = False, JailerCfg = None, VMID = ''vm1'', NetNS = '''', ForwardSignals = None,
     Seccomp = \<lparr>Enabled = False, Filter = ''''\<rparr>, MmdsAddress = None, MmdsVersion = '''',
     Snapshot = \<lparr>MemFilePath = '''', MemBackend = None, SnapshotPath = '''', EnableDiffSnapshots = False, ResumeVM = False\<rparr>\<rparr>"

definition calm_machine :: Machine where
  "calm_machine = \<lparr>mHandlers = \<lparr>Validation = [], FcInit = []\<rparr>, Cfg = calm_config,
     client = \<lparr>firecrackerRequestTimeout = 500, firecrackerInitTimeout = 3\<rparr>,
     cmd = vb_Build (configureBuilder defaultFirecrackerVMMCommandBuilder calm_config),
     Process = None, machineConfig = MachineCfg calm_config, started = False, exitCh = False,
     shutdownCh = False, fatalErr = None, cleaned = False, cleanupFuncs = [], cleanupCh = False, world = []\<rparr>"

text \<open>A file system in which exactly the given paths are missing.\<close>

definition missing_env :: "string list \<Rightarrow> env" where
  "missing_env ps = calm_env\<lparr>sys := (\<lambda>tr ev. case ev of
     EvStat p \<Rightarrow> if p \<in> set ps then Some (OsError ENOENT) else None | _ \<Rightarrow> None)\<rparr>"

lemma missing_env_stable: "stat_stable (missing_env ps)"
  by (simp add: stat_stable_def missing_env_def)

lemma Validate_iff_witness:
  "fst (Validate (missing_env [''/run/fc.sock'']) calm_machine) = Returned None
     \<and> config_ok (missing_env [''/run/fc.sock'']) (Cfg calm_machine)"
proof -
  have ok: "config_ok (missing_env [''/run/fc.sock'']) (Cfg calm_machine)"
    by (simp add: config_ok_def stat_ok_def missing_env_def calm_machine_def calm_config_def
        is_root_def StringValue_def BoolValue_def)
  with Validate_iff [OF missing_env_stable, of "[''/run/fc.sock'']" calm_machine] show ?thesis by simp
qed

theorem doCleanup_reverse_once_witness:
  "\<exists>err m'. doCleanup calm_env (calm_machine\<lparr>cleanupFuncs := [RemoveNetNSPath ''/n'', UnmountNetNS ''/n'']\<rparr>)
       = (err, m')
     \<and> world m' = [EvUnmount ''/n'', EvRemove ''/n''] \<and> doCleanup calm_env m' = (None, m')"
proof -
  let ?m = "calm_machine\<lparr>cleanupFuncs := [RemoveNetNSPath ''/n'', UnmountNetNS ''/n'']\<rparr>"
  obtain err m' where d: "doCleanup calm_env ?m = (err, m')" by fastforce
  have "\<not> cleaned ?m" by (simp add: calm_machine_def)
  from doCleanup_reverse_once [OF calm_multierror this d] d show ?thesis
    by (auto simp: cleanup_event_def calm_machine_def)
qed

end
