(* ===== verification/MachineApi.thy ===== *)
theory MachineApi
  imports MachineState
begin

text \<open>
  The methods of \<open>machine.go\<close> that talk to the Firecracker process: what each sends for the
  configuration it is given, and what it makes of the answer. Log output is left out.
\<close>

definition MMDSv1 :: string where "MMDSv1 = ''V1''"
definition MMDSv2 :: string where "MMDSv2 = ''V2''"

subsection \<open>Configuration sent while the machine starts\<close>

definition setupLogging :: "env \<Rightarrow> ctx \<Rightarrow> Machine \<Rightarrow> step" where
  "setupLogging e ctx m =
    (let path = LogPath (Cfg m);
         path = (if length (LogFifo (Cfg m)) > 0 then LogFifo (Cfg m) else path)
     in if length path = 0 then ok m
        else
          let level = go_String (LogLevel (Cfg m));
              level = (if StringValue level = '''' then None else level);
              l = \<lparr>Level = level, lg_LogPath = go_String path, ShowLevel = go_Bool True,
                   ShowLogOrigin = go_Bool False\<rparr>
          in api_step (PutLogger e (client m) ctx l []) m)"

definition setupMetrics :: "env \<Rightarrow> ctx \<Rightarrow> Machine \<Rightarrow> step" where
  "setupMetrics e ctx m =
    (let path = MetricsPath (Cfg m);
         path = (if length (MetricsFifo (Cfg m)) > 0 then MetricsFifo (Cfg m) else path)
     in if length path = 0 then ok m
        else api_step (PutMetrics e (client m) ctx \<lparr>mt_MetricsPath = go_String path\<rparr> []) m)"

definition refreshMachineConfiguration :: "env \<Rightarrow> Machine \<Rightarrow> step" where
  "refreshMachineConfiguration e m =
    (case do_api (GetMachineConfiguration e (client m) []) m of
       (Inl p, m1) \<Rightarrow> (Panicked p, m1)
     | (Inr (Inl err), m1) \<Rightarrow> fail err m1
     | (Inr (Inr payload), m1) \<Rightarrow> ok (m1\<lparr>machineConfig := payload\<rparr>))"

definition createMachine :: "env \<Rightarrow> ctx \<Rightarrow> Machine \<Rightarrow> step" where
  "createMachine e ctx m =
     and_then (api_step (PutMachineConfiguration e (client m) ctx (MachineCfg (Cfg m)) []) m)
       (refreshMachineConfiguration e)"

definition createBootSource ::
  "env \<Rightarrow> ctx \<Rightarrow> string \<Rightarrow> string \<Rightarrow> string \<Rightarrow> Machine \<Rightarrow> step" where
  "createBootSource e ctx imagePath initrdPath kernelArgs m =
     api_step (PutGuestBootSource e (client m) ctx
       \<lparr>BootArgs = kernelArgs, bs_InitrdPath = initrdPath, bs_KernelImagePath = Some imagePath\<rparr> []) m"

definition createNetworkInterface ::
  "env \<Rightarrow> ctx \<Rightarrow> NetworkInterface \<Rightarrow> int \<Rightarrow> Machine \<Rightarrow> step" where
  "createNetworkInterface e ctx iface iid m =
    (let ifaceID = itoa iid in
     case StaticConfiguration iface of
       None \<Rightarrow> fail (Errorf ''invalid nil state for network interface'' [] None) m
     | Some sc \<Rightarrow>
        (let ifaceCfg = \<lparr>GuestMac = MacAddress sc, ani_HostDevName = go_String (HostDevName sc),
               ani_IfaceID = Some ifaceID, RxRateLimiter = None, TxRateLimiter = None\<rparr>;
             ifaceCfg = (if InRateLimiter iface \<noteq> None
                         then ifaceCfg\<lparr>RxRateLimiter := InRateLimiter iface\<rparr> else ifaceCfg);
             ifaceCfg = (if OutRateLimiter iface \<noteq> None
                         then ifaceCfg\<lparr>TxRateLimiter := OutRateLimiter iface\<rparr> else ifaceCfg)
         in api_step (PutGuestNetworkInterfaceByID e (client m) ctx ifaceID ifaceCfg []) m))"

fun createNetworkInterfaces_from ::
  "env \<Rightarrow> ctx \<Rightarrow> nat \<Rightarrow> NetworkInterface list \<Rightarrow> Machine \<Rightarrow> step" where
  "createNetworkInterfaces_from e ctx i [] m = ok m"
| "createNetworkInterfaces_from e ctx i (iface # ifaces) m =
     and_then (createNetworkInterface e ctx iface (int i + 1) m)
       (createNetworkInterfaces_from e ctx (Suc i) ifaces)"

definition createNetworkInterfaces ::
  "env \<Rightarrow> ctx \<Rightarrow> NetworkInterface list \<Rightarrow> Machine \<Rightarrow> step" where
  "createNetworkInterfaces e ctx ifaces m = createNetworkInterfaces_from e ctx 0 ifaces m"

definition attachDrive :: "env \<Rightarrow> ctx \<Rightarrow> Drive \<Rightarrow> Machine \<Rightarrow> step" where
  "attachDrive e ctx dev m =
     api_step (PutGuestDriveByID e (client m) ctx (StringValue (DriveID dev)) dev []) m"

fun attachDrives :: "env \<Rightarrow> ctx \<Rightarrow> Drive list \<Rightarrow> Machine \<Rightarrow> step" where
  "attachDrives e ctx [] m = ok m"
| "attachDrives e ctx (dev # devs) m = and_then (attachDrive e ctx dev m) (attachDrives e ctx devs)"

definition addVsock :: "env \<Rightarrow> ctx \<Rightarrow> VsockDevice \<Rightarrow> Machine \<Rightarrow> step" where
  "addVsock e ctx dev m =
     api_step (PutGuestVsock e (client m) ctx
       \<lparr>GuestCid = go_Int64 (ucast (vd_CID dev)), UdsPath = Some (vd_Path dev), VsockID = vd_ID dev\<rparr> []) m"

fun addVsock_loop :: "env \<Rightarrow> ctx \<Rightarrow> VsockDevice list \<Rightarrow> Machine \<Rightarrow> step" where
  "addVsock_loop e ctx [] m = ok m"
| "addVsock_loop e ctx (dev # devs) m = and_then (addVsock e ctx dev m) (addVsock_loop e ctx devs)"

text \<open>The loop of \<open>addVsocks\<close> runs over the machine's configuration, not over its parameter.\<close>

definition addVsocks :: "env \<Rightarrow> ctx \<Rightarrow> VsockDevice list \<Rightarrow> Machine \<Rightarrow> step" where
  "addVsocks e ctx vsocks m = addVsock_loop e ctx (VsockDevices (Cfg m)) m"

fun mmds_ifaces :: "nat \<Rightarrow> NetworkInterface list \<Rightarrow> string list" where
  "mmds_ifaces i [] = []"
| "mmds_ifaces i (iface # ifaces) =
     (if AllowMMDS iface then itoa (int i + 1) # mmds_ifaces (Suc i) ifaces
      else mmds_ifaces (Suc i) ifaces)"

definition setMmdsConfig ::
  "env \<Rightarrow> ctx \<Rightarrow> ip option \<Rightarrow> NetworkInterface list \<Rightarrow> string \<Rightarrow> Machine \<Rightarrow> step" where
  "setMmdsConfig e ctx address ifaces version m =
    (let mmdsCfg = \<lparr>IPV4Address = None, mc_NetworkInterfaces = [],
           mc_Version = (if version = MMDSv1 \<or> version = MMDSv2 then go_String version
                         else go_String MMDSv1)\<rparr>;
         mmdsCfg = (case address of
                      None \<Rightarrow> mmdsCfg
                    | Some a \<Rightarrow> mmdsCfg\<lparr>IPV4Address := go_String (IP_String a)\<rparr>);
         mmdsCfg = mmdsCfg\<lparr>mc_NetworkInterfaces := mmds_ifaces 0 ifaces\<rparr>
     in if length (mc_NetworkInterfaces mmdsCfg) = 0 then ok m
        else api_step (PutMmdsConfig e (client m) ctx mmdsCfg) m)"

definition loadSnapshot :: "env \<Rightarrow> ctx \<Rightarrow> SnapshotConfig \<Rightarrow> Machine \<Rightarrow> step" where
  "loadSnapshot e ctx snapshot m =
    (let snapshotParams =
       \<lparr>slp_EnableDiffSnapshots = EnableDiffSnapshots snapshot, slp_MemBackend = MemBackend snapshot,
        slp_MemFilePath = MemFilePath snapshot, slp_ResumeVM = ResumeVM snapshot,
        slp_SnapshotPath = Some (SnapshotPath snapshot)\<rparr>
     in case api_step (LoadSnapshot e (client m) ctx snapshotParams []) m of
          (Returned (Some err), m1) \<Rightarrow>
            fail (Errorf ''failed to load a snapshot for VM: %v'' [] (Some err)) m1
        | (out, m1) \<Rightarrow> (out, m1))"

definition action_info :: "string \<Rightarrow> InstanceActionInfo" where
  "action_info action = \<lparr>ActionType = Some action\<rparr>"

definition startInstance :: "env \<Rightarrow> ctx \<Rightarrow> Machine \<Rightarrow> step" where
  "startInstance e ctx m =
    (if hasSnapshot (Cfg m) then ok m
     else api_step (CreateSyncAction e (client m) ctx (action_info ActionInstanceStart) []) m)"

definition sendCtrlAltDel :: "env \<Rightarrow> ctx \<Rightarrow> Machine \<Rightarrow> step" where
  "sendCtrlAltDel e ctx m =
     api_step (CreateSyncAction e (client m) ctx (action_info ActionSendCtrlAltDel) []) m"

subsection \<open>Requests of the user\<close>

definition UpdateGuestNetworkInterfaceRateLimit ::
  "env \<Rightarrow> ctx \<Rightarrow> string \<Rightarrow> RateLimiterSet \<Rightarrow> opts \<Rightarrow> Machine \<Rightarrow> step" where
  "UpdateGuestNetworkInterfaceRateLimit e ctx ifaceID rateLimiters opts m =
    (let iface = \<lparr>pni_IfaceID = Some ifaceID, pni_RxRateLimiter = None, pni_TxRateLimiter = None\<rparr>;
         iface = (if rls_InRateLimiter rateLimiters \<noteq> None
                  then iface\<lparr>pni_RxRateLimiter := rls_InRateLimiter rateLimiters\<rparr> else iface);
         iface = (if rls_OutRateLimiter rateLimiters \<noteq> None
                  then iface\<lparr>pni_TxRateLimiter := rls_InRateLimiter rateLimiters\<rparr> else iface)
     in api_step (PatchGuestNetworkInterfaceByID e (client m) ctx ifaceID iface opts) m)"

text \<open>Metadata is a JSON value; a nil \<open>interface{}\<close> is \<open>None\<close>.\<close>

definition SetMetadata :: "env \<Rightarrow> ctx \<Rightarrow> string option \<Rightarrow> Machine \<Rightarrow> step" where
  "SetMetadata e ctx metadata m = api_step (PutMmds e (client m) ctx metadata []) m"

definition UpdateMetadata :: "env \<Rightarrow> ctx \<Rightarrow> string option \<Rightarrow> Machine \<Rightarrow> step" where
  "UpdateMetadata e ctx metadata m = api_step (PatchMmds e (client m) ctx metadata []) m"

text \<open>The payload goes through \<open>json.Marshal\<close> and \<open>json.Unmarshal\<close> of the standard library into
  the caller's value; \<open>decode\<close> is the two together.\<close>

definition GetMetadata ::
  "env \<Rightarrow> ctx \<Rightarrow> (string \<Rightarrow> go_error + 'v) \<Rightarrow> Machine \<Rightarrow> 'v api_result \<times> Machine" where
  "GetMetadata e ctx decode m =
    (case do_api (GetMmds e (client m) ctx []) m of
       (Inl p, m1) \<Rightarrow> (Inl p, m1)
     | (Inr (Inl err), m1) \<Rightarrow> (Inr (Inl err), m1)
     | (Inr (Inr payload), m1) \<Rightarrow> (Inr (decode payload), m1))"

definition UpdateGuestDrive :: "env \<Rightarrow> ctx \<Rightarrow> string \<Rightarrow> string \<Rightarrow> opts \<Rightarrow> Machine \<Rightarrow> step" where
  "UpdateGuestDrive e ctx driveID pathOnHost opts m =
     api_step (PatchGuestDriveByID e (client m) ctx driveID pathOnHost opts) m"

definition DescribeInstanceInfo :: "env \<Rightarrow> ctx \<Rightarrow> Machine \<Rightarrow> InstanceInfo api_result \<times> Machine" where
  "DescribeInstanceInfo e ctx m = do_api (GetInstanceInfo e (client m) ctx []) m"

definition mGetFirecrackerVersion :: "env \<Rightarrow> ctx \<Rightarrow> Machine \<Rightarrow> string api_result \<times> Machine" where
  "mGetFirecrackerVersion e ctx m =
    (case do_api (GetFirecrackerVersion e (client m) ctx []) m of
       (Inl p, m1) \<Rightarrow> (Inl p, m1)
     | (Inr (Inl err), m1) \<Rightarrow> (Inr (Inl err), m1)
     | (Inr (Inr payload), m1) \<Rightarrow>
         (bind_sum (deref (fv_FirecrackerVersion payload)) (\<lambda>v. Inr (Inr v)), m1))"

definition PauseVM :: "env \<Rightarrow> ctx \<Rightarrow> opts \<Rightarrow> Machine \<Rightarrow> step" where
  "PauseVM e ctx opts m =
     api_step (PatchVM e (client m) ctx \<lparr>vm_State = go_String VMStatePaused\<rparr> opts) m"

definition mResumeVM :: "env \<Rightarrow> ctx \<Rightarrow> opts \<Rightarrow> Machine \<Rightarrow> step" where
  "mResumeVM e ctx opts m =
     api_step (PatchVM e (client m) ctx \<lparr>vm_State = go_String VMStateResumed\<rparr> opts) m"

definition mCreateSnapshot :: "env \<Rightarrow> ctx \<Rightarrow> string \<Rightarrow> string \<Rightarrow> opts \<Rightarrow> Machine \<Rightarrow> step" where
  "mCreateSnapshot e ctx memFilePath snapshotPath opts m =
     api_step (CreateSnapshot e (client m) ctx
       \<lparr>scp_MemFilePath = go_String memFilePath, scp_SnapshotPath = go_String snapshotPath,
        SnapshotType = '''', scp_Version = ''''\<rparr> opts) m"

definition CreateBalloon :: "env \<Rightarrow> ctx \<Rightarrow> int64 \<Rightarrow> bool \<Rightarrow> int64 \<Rightarrow> opts \<Rightarrow> Machine \<Rightarrow> step" where
  "CreateBalloon e ctx amountMib deflateOnOom statsPollingIntervals opts m =
     api_step (PutBalloon e (client m) ctx
       \<lparr>AmountMib = Some amountMib, DeflateOnOom = Some deflateOnOom,
        StatsPollingIntervals = statsPollingIntervals\<rparr> opts) m"

definition GetBalloonConfig :: "env \<Rightarrow> ctx \<Rightarrow> Machine \<Rightarrow> Balloon api_result \<times> Machine" where
  "GetBalloonConfig e ctx m = do_api (DescribeBalloonConfig e (client m) ctx) m"

definition UpdateBalloon :: "env \<Rightarrow> ctx \<Rightarrow> int64 \<Rightarrow> opts \<Rightarrow> Machine \<Rightarrow> step" where
  "UpdateBalloon e ctx amountMib opts m =
     api_step (PatchBalloon e (client m) ctx \<lparr>bu_AmountMib = Some amountMib\<rparr> opts) m"

definition GetBalloonStats :: "env \<Rightarrow> ctx \<Rightarrow> Machine \<Rightarrow> BalloonStats api_result \<times> Machine" where
  "GetBalloonStats e ctx m = do_api (DescribeBalloonStats e (client m) ctx) m"

definition UpdateBalloonStats :: "env \<Rightarrow> ctx \<Rightarrow> int64 \<Rightarrow> opts \<Rightarrow> Machine \<Rightarrow> step" where
  "UpdateBalloonStats e ctx statsPollingIntervals opts m =
     api_step (PatchBalloonStatsInterval e (client m) ctx
       \<lparr>bsu_StatsPollingIntervals = Some statsPollingIntervals\<rparr> opts) m"

end
