(* ===== verification/Jailer.thy ===== *)
theory Jailer
  imports MachineState
begin

text \<open>
  Jailed machines (\<open>jailer.go\<close>): \<open>jail\<close> prepares the command of the jailer and moves the socket
  path into the chroot, a chroot strategy adapts the handlers, and the handler of the SDK's own
  strategy links the files of the machine into the chroot and rewrites the configuration to the
  names they have there. \<open>adapt\<close> stands for the adapters a user brings along.
\<close>

definition ValidateCfgHandlerName :: string where
  "ValidateCfgHandlerName = ''validate.Cfg''"
definition ValidateJailerCfgHandlerName :: string where
  "ValidateJailerCfgHandlerName = ''validate.JailerCfg''"
definition ValidateNetworkCfgHandlerName :: string where
  "ValidateNetworkCfgHandlerName = ''validate.NetworkCfg''"
definition ValidateLoadSnapshotCfgHandlerName :: string where
  "ValidateLoadSnapshotCfgHandlerName = ''validate.LoadSnapshotCfg''"
definition CreateLogFilesHandlerName :: string where
  "CreateLogFilesHandlerName = ''fcinit.CreateLogFilesHandler''"
definition LinkFilesToRootFSHandlerName :: string where
  "LinkFilesToRootFSHandlerName = ''fcinit.LinkFilesToRootFS''"

definition defaultJailerPath :: string where "defaultJailerPath = ''/srv/jailer''"
definition rootfsFolderName :: string where "rootfsFolderName = ''root''"
definition defaultSocketPath :: string where "defaultSocketPath = ''/run/firecracker.socket''"

subsection \<open>The handler that links files\<close>

definition LinkFilesHandler :: "string \<Rightarrow> handler_fn handler" where
  "LinkFilesHandler kernelImageFileName =
     \<lparr>Name = LinkFilesToRootFSHandlerName, Fn = LinkFilesFn kernelImageFileName\<rparr>"

definition link_file :: "env \<Rightarrow> string \<Rightarrow> string \<Rightarrow> Machine \<Rightarrow> step" where
  "link_file e old new m =
    (case do_sys e (EvLink old new) m of (Some err, m1) \<Rightarrow> fail err m1 | (None, m1) \<Rightarrow> ok m1)"

definition set_drive_path :: "nat \<Rightarrow> string \<Rightarrow> Config \<Rightarrow> Config" where
  "set_drive_path i path cfg =
     cfg\<lparr>Drives := (Drives cfg)[i := (Drives cfg ! i)\<lparr>PathOnHost := go_String path\<rparr>]\<rparr>"

text \<open>The loop ranges over the drives as they are when it starts.\<close>

fun link_drives :: "env \<Rightarrow> string \<Rightarrow> nat \<Rightarrow> Drive list \<Rightarrow> Machine \<Rightarrow> step" where
  "link_drives e rootfs i [] m = ok m"
| "link_drives e rootfs i (drive # ds) m =
    (let hostPath = StringValue (PathOnHost drive); driveFileName = path_base hostPath in
     and_then (link_file e hostPath (path_join [rootfs, driveFileName]) m) (\<lambda>m1.
       link_drives e rootfs (Suc i) ds (m1\<lparr>Cfg := set_drive_path i driveFileName (Cfg m1)\<rparr>)))"

definition link_fifo ::
  "env \<Rightarrow> JailerConfig \<Rightarrow> string \<Rightarrow> (Config \<Rightarrow> string) \<Rightarrow> (string \<Rightarrow> Config \<Rightarrow> Config) \<Rightarrow> Machine \<Rightarrow> step" where
  "link_fifo e j rootfs fifoPath setFifoPath m =
    (if fifoPath (Cfg m) = '''' then ok m
     else
       let fileName = path_base (fifoPath (Cfg m)); dest = path_join [rootfs, fileName] in
       and_then (link_file e (fifoPath (Cfg m)) dest m) (\<lambda>m1.
         case (UID j, GID j) of
           (Some uid, Some gid) \<Rightarrow>
             (case do_sys e (EvChown dest uid gid) m1 of
                (Some err, m2) \<Rightarrow> fail err m2
              | (None, m2) \<Rightarrow> ok (m2\<lparr>Cfg := setFifoPath fileName (Cfg m2)\<rparr>))
         | _ \<Rightarrow> (Panicked NilDereference, m1)))"

definition link_rootfs :: "JailerConfig \<Rightarrow> string" where
  "link_rootfs j = path_join [ChrootBaseDir j, path_base (ExecFile j), ID j, rootfsFolderName]"

text \<open>After the links: the new names, then the named pipes.\<close>

definition LinkFiles_rename ::
  "env \<Rightarrow> JailerConfig \<Rightarrow> string \<Rightarrow> string \<Rightarrow> string \<Rightarrow> Machine \<Rightarrow> step" where
  "LinkFiles_rename e j rootfs kernelImageFileName initrdFilename m3 =
    (let m4 = m3\<lparr>Cfg := (Cfg m3)\<lparr>KernelImagePath := kernelImageFileName\<rparr>\<rparr>;
         m5 = (if InitrdPath (Cfg m4) \<noteq> ''''
               then m4\<lparr>Cfg := (Cfg m4)\<lparr>InitrdPath := initrdFilename\<rparr>\<rparr> else m4) in
     and_then (link_fifo e j rootfs LogFifo (\<lambda>p c. c\<lparr>LogFifo := p\<rparr>) m5)
       (link_fifo e j rootfs MetricsFifo (\<lambda>p c. c\<lparr>MetricsFifo := p\<rparr>)))"

definition LinkFiles :: "env \<Rightarrow> string \<Rightarrow> Machine \<Rightarrow> step" where
  "LinkFiles e kernelImageFileName m =
    (case JailerCfg (Cfg m) of
       None \<Rightarrow> fail ErrMissingJailerConfig m
     | Some j \<Rightarrow>
        (let rootfs = link_rootfs j in
         and_then (link_file e (KernelImagePath (Cfg m)) (path_join [rootfs, kernelImageFileName]) m) (\<lambda>m1.
         let initrdFilename = (if InitrdPath (Cfg m1) \<noteq> '''' then path_base (InitrdPath (Cfg m1)) else '''') in
         and_then (if InitrdPath (Cfg m1) \<noteq> ''''
                   then link_file e (InitrdPath (Cfg m1)) (path_join [rootfs, initrdFilename]) m1
                   else ok m1) (\<lambda>m2.
         and_then (link_drives e rootfs 0 (Drives (Cfg m2)) m2)
           (LinkFiles_rename e j rootfs kernelImageFileName initrdFilename)))))"

subsection \<open>Adapting the handlers\<close>

definition NewNaiveChrootStrategy :: "string \<Rightarrow> NaiveChrootStrategy" where
  "NewNaiveChrootStrategy kernelImagePath =
     \<lparr>ncs_Rootfs = '''', ncs_KernelImagePath = kernelImagePath\<rparr>"

definition naive_AdaptHandlers ::
  "NaiveChrootStrategy \<Rightarrow> handler_fn handlers \<Rightarrow> go_error option \<times> handler_fn handlers" where
  "naive_AdaptHandlers s hs =
    (if \<not> Has (FcInit hs) CreateLogFilesHandlerName then (Some ErrRequiredHandlerMissing, hs)
     else (None, hs\<lparr>FcInit := AppendAfter (FcInit hs) CreateLogFilesHandlerName
                   (LinkFilesHandler (path_base (ncs_KernelImagePath s)))\<rparr>))"

type_synonym user_adapter = "nat \<Rightarrow> handler_fn handlers \<Rightarrow> go_error option \<times> handler_fn handlers"

definition AdaptHandlers ::
  "user_adapter \<Rightarrow> adapter \<Rightarrow> handler_fn handlers \<Rightarrow> go_error option \<times> handler_fn handlers" where
  "AdaptHandlers adapt a hs =
    (case a of Naive s \<Rightarrow> naive_AdaptHandlers s hs | UserAdapter n \<Rightarrow> adapt n hs)"

subsection \<open>Preparing a jailed machine\<close>

definition jail_workspace :: "JailerConfig \<Rightarrow> string" where
  "jail_workspace j =
    (if length (ChrootBaseDir j) > 0
     then path_join [ChrootBaseDir j, path_base (ExecFile j), ID j, rootfsFolderName]
     else path_join [defaultJailerPath, path_base (ExecFile j), ID j, rootfsFolderName])"

definition jail_builder ::
  "Config \<Rightarrow> JailerConfig \<Rightarrow> int64 \<Rightarrow> int64 \<Rightarrow> int64 \<Rightarrow> string list \<Rightarrow> JailerCommandBuilder" where
  "jail_builder cfg j uid gid node fcArgs =
    (let stdout = (case Stdout j of None \<Rightarrow> OsStdout | Some s \<Rightarrow> s);
         stderr = (case Stderr j of None \<Rightarrow> OsStderr | Some s \<Rightarrow> s);
         builder =
           jb_WithStderr stderr (jb_WithStdout stdout (jb_WithFirecrackerArgs fcArgs
           (jb_WithParentCgroup (ParentCgroup j) (jb_WithCgroupArgs (CgroupArgs j)
           (jb_WithCgroupVersion (CgroupVersion j) (jb_WithDaemonize (Daemonize j)
           (jb_WithChrootBaseDir (ChrootBaseDir j) (jb_WithExecFile (ExecFile j)
           (jb_WithNumaNode node (jb_WithGID gid (jb_WithUID uid (jb_WithID (ID j)
             NewJailerCommandBuilder))))))))))));
         builder = (if JailerBinary j \<noteq> '''' then jb_WithBin (JailerBinary j) builder else builder);
         builder = (if NetNS cfg \<noteq> '''' then jb_WithNetNS (NetNS cfg) builder else builder)
     in case Stdin j of None \<Rightarrow> builder | Some s \<Rightarrow> jb_WithStdin s builder)"

text \<open>
  \<open>jail\<close> reads through the pointers of the jailer configuration; it runs while the machine is
  made, before any validation handler.
\<close>

definition jail ::
  "env \<Rightarrow> user_adapter \<Rightarrow> Machine \<Rightarrow> Config \<Rightarrow> JailerConfig
     \<Rightarrow> go_panic + (go_error option \<times> Machine \<times> Config)" where
  "jail e adapt m cfg j =
    (let jailerWorkspaceDir = jail_workspace j;
         machineSocketPath = (if SocketPath cfg \<noteq> '''' then SocketPath cfg else defaultSocketPath);
         cfg1 = cfg\<lparr>SocketPath := path_join [jailerWorkspaceDir, machineSocketPath]\<rparr>;
         fcArgs = seccompArgs cfg1 @ [''--api-sock'', machineSocketPath]
     in
     bind_sum (deref (UID j)) (\<lambda>uid.
     bind_sum (deref (GID j)) (\<lambda>gid.
     bind_sum (deref (NumaNode j)) (\<lambda>node.
     let m1 = m\<lparr>cmd := jb_Build e (jail_builder cfg1 j uid gid node fcArgs)\<rparr> in
     bind_sum (deref (ChrootStrategy j)) (\<lambda>strategy.
       case AdaptHandlers adapt strategy (mHandlers m1) of
         (err, hs) \<Rightarrow> Inr (err, m1\<lparr>mHandlers := hs\<rparr>, cfg1))))))"

subsection \<open>What linking does\<close>

definition relocate :: "Drive \<Rightarrow> Drive" where
  "relocate d = d\<lparr>PathOnHost := Some (path_base (StringValue (PathOnHost d)))\<rparr>"

definition drive_link :: "string \<Rightarrow> Drive \<Rightarrow> event" where
  "drive_link rootfs d =
     EvLink (StringValue (PathOnHost d)) (path_join [rootfs, path_base (StringValue (PathOnHost d))])"

definition fifo_events :: "JailerConfig \<Rightarrow> string \<Rightarrow> string \<Rightarrow> event list" where
  "fifo_events j rootfs p =
    (if p = '''' then []
     else [EvLink p (path_join [rootfs, path_base p]),
           EvChown (path_join [rootfs, path_base p]) (the (UID j)) (the (GID j))])"

definition base_or_empty :: "string \<Rightarrow> string" where
  "base_or_empty p = (if p = '''' then '''' else path_base p)"

definition link_events :: "JailerConfig \<Rightarrow> string \<Rightarrow> Config \<Rightarrow> event list" where
  "link_events j k cfg =
     [EvLink (KernelImagePath cfg) (path_join [link_rootfs j, k])]
   @ (if InitrdPath cfg = '''' then []
      else [EvLink (InitrdPath cfg) (path_join [link_rootfs j, path_base (InitrdPath cfg)])])
   @ map (drive_link (link_rootfs j)) (Drives cfg)
   @ fifo_events j (link_rootfs j) (LogFifo cfg)
   @ fifo_events j (link_rootfs j) (MetricsFifo cfg)"

definition linked_config :: "string \<Rightarrow> Config \<Rightarrow> Config" where
  "linked_config k cfg = cfg\<lparr>KernelImagePath := k, InitrdPath := base_or_empty (InitrdPath cfg),
     Drives := map relocate (Drives cfg), LogFifo := base_or_empty (LogFifo cfg),
     MetricsFifo := base_or_empty (MetricsFifo cfg)\<rparr>"

lemma link_file_None:
  "link_file e old new m = (Returned None, m') \<longleftrightarrow>
     sys e (world m) (EvLink old new) = None \<and> m' = m\<lparr>world := world m @ [EvLink old new]\<rparr>"
  by (auto simp: link_file_def do_sys_def step_defs split: option.splits)

lemma link_drives_None:
  assumes "link_drives e rootfs i ds m = (Returned None, m')" and "drop i (Drives (Cfg m)) = ds"
  shows "m' = m\<lparr>Cfg := (Cfg m)\<lparr>Drives := take i (Drives (Cfg m)) @ map relocate ds\<rparr>,
               world := world m @ map (drive_link rootfs) ds\<rparr>"
  using assms
proof (induction ds arbitrary: i m)
  case Nil
  then show ?case by (simp add: step_defs)
next
  case (Cons d ds)
  then have i: "i < length (Drives (Cfg m))" and d: "Drives (Cfg m) ! i = d"
    and rest: "drop (Suc i) (Drives (Cfg m)) = ds"
    by (metis drop_all list.distinct(1) not_le, metis nth_via_drop,
        metis drop_Suc list.sel(3) tl_drop)
  define m1 where "m1 = m\<lparr>world := world m @ [drive_link rootfs d],
     Cfg := set_drive_path i (path_base (StringValue (PathOnHost d))) (Cfg m)\<rparr>"
  have "link_drives e rootfs (Suc i) ds m1 = (Returned None, m')"
    using Cons.prems(1)
    by (auto simp: Let_def and_then_None link_file_None m1_def drive_link_def)
  moreover have "drop (Suc i) (Drives (Cfg m1)) = ds"
    using rest by (simp add: m1_def set_drive_path_def)
  ultimately have "m' = m1\<lparr>Cfg := (Cfg m1)\<lparr>Drives := take (Suc i) (Drives (Cfg m1)) @ map relocate ds\<rparr>,
       world := world m1 @ map (drive_link rootfs) ds\<rparr>"
    by (rule Cons.IH)
  moreover have "take (Suc i) (Drives (Cfg m1)) = take i (Drives (Cfg m)) @ [relocate d]"
    using i d by (simp add: m1_def set_drive_path_def take_Suc_conv_app_nth relocate_def go_String_def)
  ultimately show ?case by (simp add: m1_def set_drive_path_def)
qed

lemma link_fifo_None:
  assumes "link_fifo e j rootfs get put m = (Returned None, m')"
    and "\<And>c. put (get c) c = c"
  shows "m' = m\<lparr>Cfg := put (base_or_empty (get (Cfg m))) (Cfg m),
               world := world m @ fifo_events j rootfs (get (Cfg m))\<rparr>"
proof (cases "get (Cfg m) = ''''")
  case True
  moreover have "put [] (Cfg m) = Cfg m" using assms(2) [of "Cfg m"] True by simp
  ultimately show ?thesis using assms(1)
    by (simp add: link_fifo_def step_defs base_or_empty_def fifo_events_def)
next
  case False
  with assms(1) show ?thesis
    by (auto simp: link_fifo_def Let_def and_then_None link_file_None base_or_empty_def
        fifo_events_def do_sys_def step_defs split: option.splits)
qed

text \<open>C22: When the link handler of a jailed machine succeeds, it has linked the kernel, the initrd
  if there is one, each drive and each named pipe into the root of the chroot under its base name,
  handed the pipes to the jail's user, and rewritten the configuration to those names; nothing
  else of the machine has changed.\<close>

theorem LinkFiles_success:
  assumes "LinkFiles e k m = (Returned None, m')" and "JailerCfg (Cfg m) = Some j"
  shows "m' = m\<lparr>Cfg := linked_config k (Cfg m), world := world m @ link_events j k (Cfg m)\<rparr>"
proof -
  let ?rootfs = "link_rootfs j"
  let ?kernel = "[EvLink (KernelImagePath (Cfg m)) (path_join [?rootfs, k])]"
  let ?initrd = "if InitrdPath (Cfg m) = '''' then []
      else [EvLink (InitrdPath (Cfg m)) (path_join [?rootfs, path_base (InitrdPath (Cfg m))])]"
  let ?drives = "map (drive_link ?rootfs) (Drives (Cfg m))"
  define m2 where "m2 = m\<lparr>world := world m @ ?kernel @ ?initrd\<rparr>"
  let ?initrdName = "if InitrdPath (Cfg m) \<noteq> '''' then path_base (InitrdPath (Cfg m)) else ''''"
  obtain m3 where
    d: "link_drives e ?rootfs 0 (Drives (Cfg m2)) m2 = (Returned None, m3)"
    and r: "LinkFiles_rename e j ?rootfs k ?initrdName m3 = (Returned None, m')"
    using assms
    by (cases "InitrdPath (Cfg m) = ''''")
      (auto simp: LinkFiles_def Let_def and_then_None link_file_None ok_def m2_def simp del: path_join.simps)
  have m3: "m3 = m2\<lparr>Cfg := (Cfg m2)\<lparr>Drives := map relocate (Drives (Cfg m))\<rparr>,
      world := world m2 @ ?drives\<rparr>"
    using link_drives_None [OF d] by (simp add: m2_def)
  define m5 where "m5 = m3\<lparr>Cfg := (Cfg m3)\<lparr>KernelImagePath := k,
      InitrdPath := base_or_empty (InitrdPath (Cfg m))\<rparr>\<rparr>"
  have i: "InitrdPath (Cfg m3) = InitrdPath (Cfg m)" by (simp add: m3 m2_def)
  have same: "(Cfg m3)\<lparr>KernelImagePath := k, InitrdPath := ''''\<rparr> = (Cfg m3)\<lparr>KernelImagePath := k\<rparr>"
    if "InitrdPath (Cfg m) = ''''"
    using i that by (cases "Cfg m3") simp
  obtain m6 where
    l: "link_fifo e j ?rootfs LogFifo (\<lambda>p c. c\<lparr>LogFifo := p\<rparr>) m5 = (Returned None, m6)"
    and x: "link_fifo e j ?rootfs MetricsFifo (\<lambda>p c. c\<lparr>MetricsFifo := p\<rparr>) m6 = (Returned None, m')"
    using r i same
    by (cases "InitrdPath (Cfg m) = ''''")
      (auto simp: LinkFiles_rename_def Let_def and_then_None m5_def base_or_empty_def)
  note m6 = link_fifo_None [OF l, simplified]
  note m' = link_fifo_None [OF x, simplified]
  show ?thesis
    unfolding m' m6 m5_def m3 m2_def
    by (simp add: linked_config_def link_events_def base_or_empty_def)
qed

theorem LinkFiles_success_witness:
  "\<exists>m'. LinkFiles calm_env ''vmlinux'' (calm_machine\<lparr>Cfg := calm_config\<lparr>JailerCfg := Some calm_jailer,
         LogFifo := ''/tmp/log.fifo''\<rparr>\<rparr>) = (Returned None, m')
     \<and> KernelImagePath (Cfg m') = ''vmlinux'' \<and> LogFifo (Cfg m') = ''log.fifo''
     \<and> map PathOnHost (Drives (Cfg m')) = [Some ''root.ext4'']
     \<and> length (world m') = 4"
proof -
  let ?cfg = "calm_config\<lparr>JailerCfg := Some calm_jailer, LogFifo := ''/tmp/log.fifo''\<rparr>"
  let ?m = "calm_machine\<lparr>Cfg := ?cfg\<rparr>"
  have "fst (LinkFiles calm_env ''vmlinux'' ?m) = Returned None"
    by (simp add: LinkFiles_def LinkFiles_rename_def link_fifo_def link_file_def do_sys_def step_defs
        Let_def calm_machine_def calm_config_def calm_jailer_def calm_env_def set_drive_path_def
        split: option.split)
  then obtain m' where r: "LinkFiles calm_env ''vmlinux'' ?m = (Returned None, m')"
    by (metis prod.collapse)
  have j: "JailerCfg (Cfg ?m) = Some calm_jailer" by simp
  have b: "path_base ''/tmp/log.fifo'' = ''log.fifo''" "path_base ''/img/root.ext4'' = ''root.ext4''"
    by code_simp+
  have "m' = ?m\<lparr>Cfg := linked_config ''vmlinux'' ?cfg, world := world ?m @ link_events calm_jailer ''vmlinux'' ?cfg\<rparr>"
    using LinkFiles_success [OF r j] by simp
  with r b show ?thesis
    by (simp add: linked_config_def link_events_def base_or_empty_def relocate_def fifo_events_def
        calm_machine_def calm_config_def StringValue_def)
qed

text \<open>With a chroot base directory given, the handler links into the directory that the socket
  of the machine was moved to.\<close>

lemma link_rootfs_workspace:
  assumes "ChrootBaseDir j \<noteq> ''''"
  shows "link_rootfs j = jail_workspace j"
  using assms by (simp add: link_rootfs_def jail_workspace_def)

lemma link_rootfs_workspace_witness:
  "link_rootfs calm_jailer = ''/jail/firecracker/vm1/root''
     \<and> jail_workspace calm_jailer = ''/jail/firecracker/vm1/root''"
proof -
  have "ChrootBaseDir calm_jailer \<noteq> ''''" by (simp add: calm_jailer_def)
  moreover have "jail_workspace calm_jailer = ''/jail/firecracker/vm1/root''" by code_simp
  ultimately show ?thesis using link_rootfs_workspace [of calm_jailer] by simp
qed

text \<open>Without one they differ: the socket is under the documented default \<open>/srv/jailer\<close>, while
  the files are linked to a path relative to the working directory of the process.\<close>

lemma link_rootfs_default_differs:
  "jail_workspace (calm_jailer\<lparr>ChrootBaseDir := ''''\<rparr>) = ''/srv/jailer/firecracker/vm1/root''
   \<and> link_rootfs (calm_jailer\<lparr>ChrootBaseDir := ''''\<rparr>) = ''firecracker/vm1/root''"
  by code_simp

lemma jail_Inl_iff:
  "jail e adapt m cfg j = Inl p \<longleftrightarrow>
     p = NilDereference \<and>
     (UID j = None \<or> GID j = None \<or> NumaNode j = None \<or> ChrootStrategy j = None)"
  by (cases "UID j"; cases "GID j"; cases "NumaNode j"; cases "ChrootStrategy j")
    (auto simp: jail_def Let_def split: prod.splits)

text \<open>\<open>jail\<close>, which runs before any validation handler can report it, panics exactly when the
  user id, group id, NUMA node or chroot strategy of the jailer configuration is nil.\<close>

lemma jail_panics_iff:
  "jail e adapt m cfg j = Inl p \<longleftrightarrow>
     p = NilDereference \<and>
     (UID j = None \<or> GID j = None \<or> NumaNode j = None \<or> ChrootStrategy j = None)"
  by (rule jail_Inl_iff)

lemma jail_builder_simps:
  assumes "jail_builder cfg j uid gid node fcArgs = b"
  shows "jb_id b = ID j" "jb_uid b = uid" "jb_gid b = gid" "jb_node b = node"
    "jb_execFile b = ExecFile j" "jb_chrootBaseDir b = ChrootBaseDir j" "jb_netNS b = NetNS cfg"
    "jb_daemonize b = Daemonize j" "jb_firecrackerArgs b = fcArgs"
    "jb_bin b = (if JailerBinary j = '''' then ''jailer'' else JailerBinary j)"
    "jb_cgroupVersion b = CgroupVersion j" "jb_cgroupArgs b = CgroupArgs j"
    "jb_parentCgroup b = ParentCgroup j"
  unfolding assms [symmetric] jail_builder_def
  by (simp_all add: Let_def jb_defs defaultJailerBin_def split: option.split)

lemma cgroup_lookup: "o' \<noteq> ''--cgroup'' \<Longrightarrow> map_of (map (Pair ''--cgroup'') as) o' = None"
  by (induction "as") auto

text \<open>C7: A jailed machine talks to the socket that its Firecracker opens: the path the jailer passes
  on after \<open>--\<close> is a path inside the chroot, the machine's own socket path is that path below the
  chroot's root on the host, and the chroot base, the id and the network namespace on the jailer's
  command line are those of the configuration.\<close>

theorem jail_socket_consistent:
  assumes "jail e adapt m cfg j = Inr (err, m', cfg')"
  shows "\<exists>sock opts.
     sock = (if SocketPath cfg = '''' then ''/run/firecracker.socket'' else SocketPath cfg)
   \<and> cfg' = cfg\<lparr>SocketPath := path_join [jail_workspace j, sock]\<rparr>
   \<and> read_args (cmd_args (cmd m')) = (opts, Daemonize j, seccompArgs cfg @ [''--api-sock'', sock])
   \<and> map_of opts ''--id'' = Some (ID j)
   \<and> map_of opts ''--exec-file'' = Some (ExecFile j)
   \<and> map_of opts ''--chroot-base-dir'' = (if ChrootBaseDir j = '''' then None else Some (ChrootBaseDir j))
   \<and> map_of opts ''--netns'' = (if NetNS cfg = '''' then None else Some (NetNS cfg))
   \<and> cmd_bin (cmd m') = (if JailerBinary j = '''' then ''jailer'' else JailerBinary j)"
proof -
  define sock where "sock = (if SocketPath cfg = '''' then ''/run/firecracker.socket'' else SocketPath cfg)"
  define cfg1 where "cfg1 = cfg\<lparr>SocketPath := path_join [jail_workspace j, sock]\<rparr>"
  define fc where "fc = seccompArgs cfg1 @ [''--api-sock'', sock]"
  obtain uid gid node st where p: "UID j = Some uid" "GID j = Some gid" "NumaNode j = Some node"
      "ChrootStrategy j = Some st"
    using assms jail_Inl_iff [of e adapt m cfg j NilDereference] by auto
  define b where "b = jail_builder cfg1 j uid gid node fc"
  note b = jail_builder_simps [OF b_def [symmetric]]
  have s: "(if SocketPath cfg \<noteq> '''' then SocketPath cfg else defaultSocketPath) = sock"
    by (simp add: sock_def defaultSocketPath_def)
  have r: "cmd m' = jb_Build e b \<and> cfg' = cfg1"
    using assms p unfolding jail_def Let_def s cfg1_def [symmetric] fc_def [symmetric] b_def
    by (auto split: prod.splits)
  have fc': "fc = seccompArgs cfg @ [''--api-sock'', sock]"
    by (simp add: fc_def cfg1_def seccompArgs_def)
  have "map_of (jailer_options e b) ''--id'' = Some (ID j)"
    "map_of (jailer_options e b) ''--exec-file'' = Some (ExecFile j)"
    "map_of (jailer_options e b) ''--chroot-base-dir''
       = (if ChrootBaseDir j = '''' then None else Some (ChrootBaseDir j))"
    "map_of (jailer_options e b) ''--netns'' = (if NetNS cfg = '''' then None else Some (NetNS cfg))"
    by (simp_all add: cgroup_lookup jailer_options_def b optional_def map_add_def cfg1_def)
  with r fc' b show ?thesis
    by (intro exI [of _ sock] exI [of _ "jailer_options e b"])
      (simp add: sock_def cfg1_def jb_Args_read jb_Build_def jb_Bin_def)
qed

theorem jail_socket_consistent_witness:
  "\<exists>m' cfg' opts.
     jail calm_env (\<lambda>n hs. (None, hs))
       (calm_machine\<lparr>mHandlers := \<lparr>Validation = [],
          FcInit = [\<lparr>Name = CreateLogFilesHandlerName, Fn = CreateLogFilesFn\<rparr>]\<rparr>\<rparr>)
       calm_config calm_jailer = Inr (None, m', cfg')
   \<and> SocketPath cfg' = ''/jail/firecracker/vm1/root/run/fc.sock''
   \<and> read_args (cmd_args (cmd m')) = (opts, False, [''--no-seccomp'', ''--api-sock'', ''/run/fc.sock''])"
proof -
  let ?m = "calm_machine\<lparr>mHandlers := \<lparr>Validation = [],
          FcInit = [\<lparr>Name = CreateLogFilesHandlerName, Fn = CreateLogFilesFn\<rparr>]\<rparr>\<rparr>"
  obtain m' cfg' where r: "jail calm_env (\<lambda>n hs. (None, hs)) ?m calm_config calm_jailer = Inr (None, m', cfg')"
    by (simp add: jail_def calm_jailer_def Let_def AdaptHandlers_def naive_AdaptHandlers_def)
  have p: "path_join [jail_workspace calm_jailer, ''/run/fc.sock''] = ''/jail/firecracker/vm1/root/run/fc.sock''"
    by code_simp
  obtain opts where c: "cfg' = calm_config\<lparr>SocketPath := path_join [jail_workspace calm_jailer, SocketPath calm_config]\<rparr>"
    and a: "read_args (cmd_args (cmd m')) = (opts, Daemonize calm_jailer,
      seccompArgs calm_config @ [''--api-sock'', SocketPath calm_config])"
    using jail_socket_consistent [OF r] by (auto simp: calm_config_def)
  have s: "SocketPath calm_config = ''/run/fc.sock''" "seccompArgs calm_config = [''--no-seccomp'']"
    "Daemonize calm_jailer = False"
    by (simp_all add: calm_config_def seccompArgs_def calm_jailer_def)
  have "SocketPath cfg' = ''/jail/firecracker/vm1/root/run/fc.sock''"
    unfolding c s p by simp
  with r a s show ?thesis by auto
qed

end
