(* ===== verification/MachineStart.thy ===== *)
theory MachineStart
  imports MachineApi Jailer GoSlices
begin

text \<open>
  A machine from its making to its end (\<open>machine.go\<close>, \<open>handlers.go\<close>, \<open>opts.go\<close>): the handlers of
  the SDK and the lists they are in by default, \<open>NewMachine\<close> with its options, \<open>Start\<close>,
  \<open>Shutdown\<close>, \<open>StopVMM\<close> and \<open>Wait\<close>.

  This theory runs one call at a time. What the goroutine that waits for the process does is part
  of it only where \<open>startVMM\<close> itself waits: \<open>wait_events\<close> lists what the loop of \<open>waitForSocket\<close>
  sees, and the exit of the process (\<open>WExit\<close>) there includes the clean-up that the goroutine does
  before it reports. A process that stays up until \<open>Start\<close> has returned is the other case.
  \<open>Lifecycle\<close> has all interleavings. \<open>Blocked\<close> is a call that waits for an event that this run
  does not have.
\<close>

subsection \<open>Handlers of the SDK\<close>

definition ConfigValidationHandler :: "handler_fn handler" where
  "ConfigValidationHandler = \<lparr>Name = ValidateCfgHandlerName, Fn = ValidateCfgFn\<rparr>"
definition LoadSnapshotConfigValidationHandler :: "handler_fn handler" where
  "LoadSnapshotConfigValidationHandler =
     \<lparr>Name = ValidateLoadSnapshotCfgHandlerName, Fn = ValidateLoadSnapshotCfgFn\<rparr>"
definition JailerConfigValidationHandler :: "handler_fn handler" where
  "JailerConfigValidationHandler = \<lparr>Name = ValidateJailerCfgHandlerName, Fn = ValidateJailerCfgFn\<rparr>"
definition NetworkConfigValidationHandler :: "handler_fn handler" where
  "NetworkConfigValidationHandler = \<lparr>Name = ValidateNetworkCfgHandlerName, Fn = ValidateNetworkCfgFn\<rparr>"
definition StartVMMHandler :: "handler_fn handler" where
  "StartVMMHandler = \<lparr>Name = ''fcinit.StartVMM'', Fn = StartVMMFn\<rparr>"
definition CreateLogFilesHandler :: "handler_fn handler" where
  "CreateLogFilesHandler = \<lparr>Name = CreateLogFilesHandlerName, Fn = CreateLogFilesFn\<rparr>"
definition BootstrapLoggingHandler :: "handler_fn handler" where
  "BootstrapLoggingHandler = \<lparr>Name = ''fcinit.BootstrapLogging'', Fn = BootstrapLoggingFn\<rparr>"
definition CreateMachineHandler :: "handler_fn handler" where
  "CreateMachineHandler = \<lparr>Name = ''fcinit.CreateMachine'', Fn = CreateMachineFn\<rparr>"
definition CreateBootSourceHandler :: "handler_fn handler" where
  "CreateBootSourceHandler = \<lparr>Name = ''fcinit.CreateBootSource'', Fn = CreateBootSourceFn\<rparr>"
definition AttachDrivesHandler :: "handler_fn handler" where
  "AttachDrivesHandler = \<lparr>Name = ''fcinit.AttachDrives'', Fn = AttachDrivesFn\<rparr>"
definition CreateNetworkInterfacesHandler :: "handler_fn handler" where
  "CreateNetworkInterfacesHandler =
     \<lparr>Name = ''fcinit.CreateNetworkInterfaces'', Fn = CreateNetworkInterfacesFn\<rparr>"
definition SetupNetworkHandler :: "handler_fn handler" where
  "SetupNetworkHandler = \<lparr>Name = ''fcinit.SetupNetwork'', Fn = SetupNetworkFn\<rparr>"
definition SetupKernelArgsHandler :: "handler_fn handler" where
  "SetupKernelArgsHandler = \<lparr>Name = ''fcinit.SetupKernelArgs'', Fn = SetupKernelArgsFn\<rparr>"
definition AddVsocksHandler :: "handler_fn handler" where
  "AddVsocksHandler = \<lparr>Name = ''fcinit.AddVsocks'', Fn = AddVsocksFn\<rparr>"
definition NewSetMetadataHandler :: "string \<Rightarrow> handler_fn handler" where
  "NewSetMetadataHandler metadata = \<lparr>Name = ''fcinit.SetMetadata'', Fn = SetMetadataFn metadata\<rparr>"
definition ConfigMmdsHandler :: "handler_fn handler" where
  "ConfigMmdsHandler = \<lparr>Name = ''fcinit.ConfigMmds'', Fn = ConfigMmdsFn\<rparr>"
definition NewCreateBalloonHandler :: "int64 \<Rightarrow> bool \<Rightarrow> int64 \<Rightarrow> handler_fn handler" where
  "NewCreateBalloonHandler amountMib deflateOnOom statsPollingIntervals =
     \<lparr>Name = ''fcinit.CreateBalloon'',
      Fn = CreateBalloonFn amountMib deflateOnOom statsPollingIntervals\<rparr>"
definition LoadSnapshotHandler :: "handler_fn handler" where
  "LoadSnapshotHandler = \<lparr>Name = ''fcinit.LoadSnapshot'', Fn = LoadSnapshotFn\<rparr>"

lemmas sdk_handlers = ConfigValidationHandler_def LoadSnapshotConfigValidationHandler_def
  JailerConfigValidationHandler_def NetworkConfigValidationHandler_def StartVMMHandler_def
  CreateLogFilesHandler_def BootstrapLoggingHandler_def CreateMachineHandler_def
  CreateBootSourceHandler_def AttachDrivesHandler_def CreateNetworkInterfacesHandler_def
  SetupNetworkHandler_def SetupKernelArgsHandler_def AddVsocksHandler_def
  NewSetMetadataHandler_def ConfigMmdsHandler_def NewCreateBalloonHandler_def LoadSnapshotHandler_def

lemmas handler_names = ValidateCfgHandlerName_def ValidateJailerCfgHandlerName_def
  ValidateNetworkCfgHandlerName_def ValidateLoadSnapshotCfgHandlerName_def
  CreateLogFilesHandlerName_def LinkFilesToRootFSHandlerName_def

definition defaultFcInitHandlerList :: "handler_fn handler list" where
  "defaultFcInitHandlerList = Append []
     [SetupNetworkHandler, SetupKernelArgsHandler, StartVMMHandler, CreateLogFilesHandler,
      BootstrapLoggingHandler, CreateMachineHandler, CreateBootSourceHandler, AttachDrivesHandler,
      CreateNetworkInterfacesHandler, AddVsocksHandler, ConfigMmdsHandler]"

definition loadSnapshotRemoveHandlerList :: "handler_fn handler list" where
  "loadSnapshotRemoveHandlerList =
     [SetupKernelArgsHandler, CreateMachineHandler, CreateBootSourceHandler, AttachDrivesHandler,
      CreateNetworkInterfacesHandler, ConfigMmdsHandler]"

definition defaultValidationHandlerList :: "handler_fn handler list" where
  "defaultValidationHandlerList = Append [] [NetworkConfigValidationHandler]"

definition defaultHandlers :: "handler_fn handlers" where
  "defaultHandlers = \<lparr>Validation = defaultValidationHandlerList, FcInit = defaultFcInitHandlerList\<rparr>"

subsection \<open>Options\<close>

definition WithClient :: "Client \<Rightarrow> Machine \<Rightarrow> Machine" where
  "WithClient c m = m\<lparr>client := c\<rparr>"

text \<open>The command handed over has not been started.\<close>

definition WithProcessRunner :: "command \<Rightarrow> Machine \<Rightarrow> Machine" where
  "WithProcessRunner c m = m\<lparr>cmd := c, Process := None\<rparr>"

definition modifyHandlersForLoadSnapshot :: "handler_fn handler list \<Rightarrow> handler_fn handler list" where
  "modifyHandlersForLoadSnapshot l0 =
    (let l = foldl (\<lambda>l h. Remove l (Name h)) l0 loadSnapshotRemoveHandlerList
     in Append l [LoadSnapshotHandler])"

definition WithSnapshot ::
  "string \<Rightarrow> string \<Rightarrow> (SnapshotConfig \<Rightarrow> SnapshotConfig) list \<Rightarrow> Machine \<Rightarrow> Machine" where
  "WithSnapshot memFilePath snapshotPath opts m =
    (let s0 = (Snapshot (Cfg m))\<lparr>MemFilePath := memFilePath, SnapshotPath := snapshotPath\<rparr>;
         s1 = apply_opts opts s0;
         m1 = m\<lparr>Cfg := (Cfg m)\<lparr>Snapshot := s1\<rparr>\<rparr>;
         hs = mHandlers m1;
         hs1 = hs\<lparr>Validation :=
           Append (Remove (Validation hs) ValidateCfgHandlerName) [LoadSnapshotConfigValidationHandler]\<rparr>
     in m1\<lparr>mHandlers := hs1\<lparr>FcInit := modifyHandlersForLoadSnapshot (FcInit hs1)\<rparr>\<rparr>)"

definition WithMemoryBackend :: "string \<Rightarrow> string \<Rightarrow> SnapshotConfig \<Rightarrow> SnapshotConfig" where
  "WithMemoryBackend backendType backendPath cfg =
     cfg\<lparr>MemBackend := Some \<lparr>BackendPath = go_String backendPath, BackendType = go_String backendType\<rparr>\<rparr>"

subsection \<open>Making a machine\<close>

definition defaultNetNSDir :: string where "defaultNetNSDir = ''/var/run/netns''"

definition defaultNetNSPath :: "Machine \<Rightarrow> string" where
  "defaultNetNSPath m = path_join [defaultNetNSDir, VMID (Cfg m)]"

definition defaultSignals :: "string list" where
  "defaultSignals = [''SIGINT'', ''SIGQUIT'', ''SIGTERM'', ''SIGHUP'', ''SIGABRT'']"

text \<open>The machine as the literal in \<open>NewMachine\<close> makes it, with the history so far; the fields
  that are still zero are set further down.\<close>

definition fresh_machine :: "trace \<Rightarrow> Config \<Rightarrow> Machine" where
  "fresh_machine tr cfg =
     \<lparr>mHandlers = defaultHandlers, Cfg = cfg,
      client = \<lparr>firecrackerRequestTimeout = 0, firecrackerInitTimeout = 0\<rparr>,
      cmd = \<lparr>cmd_bin = '''', cmd_args = [], cmd_stdin = None, cmd_stdout = None, cmd_stderr = None\<rparr>,
      Process = None, machineConfig = MachineCfg cfg, started = False, exitCh = False,
      shutdownCh = False, fatalErr = None, cleaned = False, cleanupFuncs = [], cleanupCh = False,
      world = tr\<rparr>"

definition assign_VMID :: "env \<Rightarrow> Config \<Rightarrow> trace \<Rightarrow> (go_error + Config) \<times> trace" where
  "assign_VMID e cfg tr =
    (if VMID cfg = '''' then
       ((case new_uuid e tr of
           Inl err \<Rightarrow> Inl (Wrapf ''failed to create random ID for VMID: %w'' [] err)
         | Inr i \<Rightarrow> Inr (cfg\<lparr>VMID := i\<rparr>)),
        tr @ [EvUUID])
     else (Inr cfg, tr))"

definition add_validation :: "handler_fn handler \<Rightarrow> Machine \<Rightarrow> Machine" where
  "add_validation h m =
     m\<lparr>mHandlers := (mHandlers m)\<lparr>Validation := Append (Validation (mHandlers m)) [h]\<rparr>\<rparr>"

text \<open>The second half of \<open>NewMachine\<close>, after the command of the process is set.\<close>

definition finish_machine :: "env \<Rightarrow> (Machine \<Rightarrow> Machine) list \<Rightarrow> Machine \<Rightarrow> Config \<Rightarrow> Machine" where
  "finish_machine e opts m cfg =
    (let m1 = m\<lparr>client := NewClient e []\<rparr>;
         cfg1 = (if ForwardSignals cfg = None then cfg\<lparr>ForwardSignals := Some defaultSignals\<rparr> else cfg);
         m2 = m1\<lparr>machineConfig := MachineCfg cfg1, Cfg := cfg1\<rparr>;
         m3 = (if NetNS cfg1 = '''' \<and> cniInterface (NetworkInterfaces cfg1) \<noteq> None
               then m2\<lparr>Cfg := (Cfg m2)\<lparr>NetNS := defaultNetNSPath m2\<rparr>\<rparr> else m2)
     in apply_opts opts m3)"

definition NewMachine ::
  "env \<Rightarrow> user_adapter \<Rightarrow> (Machine \<Rightarrow> Machine) list \<Rightarrow> Config \<Rightarrow> trace
     \<Rightarrow> go_panic + (go_error + Machine)" where
  "NewMachine e adapt opts cfg tr =
    (case assign_VMID e cfg tr of
       (Inl err, tr1) \<Rightarrow> Inr (Inl err)
     | (Inr cfg1, tr1) \<Rightarrow>
        (let m = fresh_machine tr1 cfg1 in
         case JailerCfg cfg1 of
           Some j \<Rightarrow>
            (let m1 = add_validation JailerConfigValidationHandler m in
             case jail e adapt m1 cfg1 j of
               Inl p \<Rightarrow> Inl p
             | Inr (Some err, m2, cfg2) \<Rightarrow> Inr (Inl err)
             | Inr (None, m2, cfg2) \<Rightarrow> Inr (Inr (finish_machine e opts m2 cfg2)))
         | None \<Rightarrow>
            (let m1 = add_validation ConfigValidationHandler m;
                 m2 = m1\<lparr>cmd := vb_Build (configureBuilder defaultFirecrackerVMMCommandBuilder cfg1)\<rparr>
             in Inr (Inr (finish_machine e opts m2 cfg1)))))"

subsection \<open>Network and kernel arguments\<close>

definition m_setupNetwork :: "env \<Rightarrow> Machine \<Rightarrow> step" where
  "m_setupNetwork e m =
    (case setupNetwork e (NetworkInterfaces (Cfg m)) (VMID (Cfg m)) (NetNS (Cfg m)) (world m) of
       (r, ifaces, tr) \<Rightarrow>
        (let m1 = m\<lparr>Cfg := (Cfg m)\<lparr>NetworkInterfaces := ifaces\<rparr>, world := tr\<rparr> in
         case r of
           Inl p \<Rightarrow> (Panicked p, m1)
         | Inr (err, cls) \<Rightarrow> (Returned err, m1\<lparr>cleanupFuncs := cleanupFuncs m1 @ cls\<rparr>)))"

definition static_ip :: "NetworkInterface list \<Rightarrow> nat \<Rightarrow> IPConfiguration" where
  "static_ip ifaces i = the (StaticIP (the (StaticConfiguration (ifaces ! i))))"

definition setupKernelArgs :: "env \<Rightarrow> Machine \<Rightarrow> step" where
  "setupKernelArgs e m =
    (let kernelArgs = parseKernelArgs (KernelArgs (Cfg m)) in
     case (case staticIPInterface (NetworkInterfaces (Cfg m)) of
             None \<Rightarrow> Inr kernelArgs
           | Some i \<Rightarrow>
               bind_sum (ipBootParam (static_ip (NetworkInterfaces (Cfg m)) i))
                 (\<lambda>p. Inr (kernelArgs(''ip'' \<mapsto> Some p)))) of
       Inl p \<Rightarrow> (Panicked p, m)
     | Inr kernelArgs' \<Rightarrow>
         ok (m\<lparr>Cfg := (Cfg m)\<lparr>KernelArgs := kernelArgs_String (map_order e kernelArgs') kernelArgs'\<rparr>\<rparr>))"

subsection \<open>Log files\<close>

definition createFifo :: "env \<Rightarrow> string \<Rightarrow> Machine \<Rightarrow> step" where
  "createFifo e path m =
    (case do_sys e (EvMkfifo path) m of
       (Some err, m1) \<Rightarrow> fail (Errorf ''Failed to create log fifo: %v'' [] (Some err)) m1
     | (None, m1) \<Rightarrow> ok m1)"

definition createFifoOrFile :: "env \<Rightarrow> string \<Rightarrow> string \<Rightarrow> Machine \<Rightarrow> step" where
  "createFifoOrFile e fifo path m =
    (if length fifo > 0 then
       and_then (createFifo e fifo m) (\<lambda>m1. ok (m1\<lparr>cleanupFuncs := cleanupFuncs m1 @ [RemoveFifo fifo]\<rparr>))
     else if length path > 0 then
       (case do_sys e (EvOpenAppend path) m of (Some err, m1) \<Rightarrow> fail err m1 | (None, m1) \<Rightarrow> ok m1)
     else ok m)"

text \<open>The goroutines that \<open>captureFifoToFile\<close> starts are in \<open>Background\<close>; its error is only logged.\<close>

definition captureFifoToFile :: "env \<Rightarrow> string \<Rightarrow> Machine \<Rightarrow> step" where
  "captureFifoToFile e fifoPath m =
    (case do_sys e (EvOpenFifo fifoPath) m of
       (Some err, m1) \<Rightarrow> fail (Errorf ''Failed to open fifo path at %q: %v'' [fifoPath] (Some err)) m1
     | (None, m1) \<Rightarrow> ok m1)"

definition CreateLogFiles :: "env \<Rightarrow> Machine \<Rightarrow> step" where
  "CreateLogFiles e m =
     and_then (createFifoOrFile e (MetricsFifo (Cfg m)) (MetricsPath (Cfg m)) m) (\<lambda>m1.
     and_then (createFifoOrFile e (LogFifo (Cfg m1)) (LogPath (Cfg m1)) m1) (\<lambda>m2.
       if FifoLogWriter (Cfg m2) \<noteq> None
       then ok (snd (captureFifoToFile e (LogFifo (Cfg m2)) m2))
       else ok m2))"

subsection \<open>Starting the process\<close>

datatype wait_result =
    SocketReady
  | VMMExited "go_error option"
  | SocketTimeout
  | WaitPanicked go_panic
  | WaitBlocked

definition daemonized :: "Machine \<Rightarrow> bool" where
  "daemonized m \<longleftrightarrow> (case JailerCfg (Cfg m) of None \<Rightarrow> False | Some j \<Rightarrow> Daemonize j)"

text \<open>
  The goroutine that waits for the process, once it has the exit status: clean-up, then the value
  it sends on \<open>errCh\<close>, then \<open>cleanupCh\<close> is closed.
\<close>

definition vmm_exit :: "env \<Rightarrow> go_error option \<Rightarrow> Machine \<Rightarrow> go_error option \<times> Machine" where
  "vmm_exit e waitErr m =
    (case doCleanup e m of
       (cleanupErr, m1) \<Rightarrow>
         (merr_or_nil e (merr_append e (merr_append e None waitErr) cleanupErr), m1\<lparr>cleanupCh := True\<rparr>))"

text \<open>A daemonized jailer that exits cleanly is no exit of the VMM: the goroutine then waits for
  \<open>shutdownCh\<close> and sends nothing.\<close>

fun waitForSocket :: "env \<Rightarrow> wait_event list \<Rightarrow> Machine \<Rightarrow> wait_result \<times> Machine" where
  "waitForSocket e [] m = (WaitBlocked, m)"
| "waitForSocket e (WTimeout # ws) m = (SocketTimeout, m)"
| "waitForSocket e (WExit waitErr # ws) m =
    (if daemonized m \<and> waitErr = None \<and> \<not> shutdownCh m then waitForSocket e ws m
     else case vmm_exit e waitErr m of (err, m1) \<Rightarrow> (VMMExited err, m1))"
| "waitForSocket e (WTick # ws) m =
    (case do_sys e (EvStat (SocketPath (Cfg m))) m of
       (Some err, m1) \<Rightarrow> waitForSocket e ws m1
     | (None, m1) \<Rightarrow>
        (case do_api (GetMachineConfiguration e (client m1) []) m1 of
           (Inl p, m2) \<Rightarrow> (WaitPanicked p, m2)
         | (Inr (Inl err), m2) \<Rightarrow> waitForSocket e ws m2
         | (Inr (Inr payload), m2) \<Rightarrow> (SocketReady, m2)))"

definition close_exitCh :: "go_error option \<Rightarrow> result \<Rightarrow> Machine \<Rightarrow> step" where
  "close_exitCh err out m =
    (let m1 = m\<lparr>fatalErr := err\<rparr> in
     if exitCh m1 then (Panicked CloseOfClosedChannel, m1) else (out, m1\<lparr>exitCh := True\<rparr>))"

definition start_event :: "Machine \<Rightarrow> event" where
  "start_event m =
     EvStartCmd (if NetNS (Cfg m) \<noteq> '''' \<and> JailerCfg (Cfg m) = None then Some (NetNS (Cfg m)) else None)
       (cmd m)"

definition no_socket :: "Machine \<Rightarrow> go_error \<Rightarrow> go_error" where
  "no_socket m err =
     Wrapf ''Firecracker did not create API socket %s: %w'' [SocketPath (Cfg m)] err"

definition startVMM :: "env \<Rightarrow> Machine \<Rightarrow> step" where
  "startVMM e m =
    (case do_sys e (start_event m) m of
       (Some err, m1) \<Rightarrow> close_exitCh (Some err) (Returned (Some err)) m1
     | (None, m1) \<Rightarrow>
        (let m2 = m1\<lparr>Process := Some (start_pid e (world m)),
                     cleanupFuncs := cleanupFuncs m1 @ [RemoveSocket]\<rparr> in
         case waitForSocket e (wait_events e (world m2)) m2 of
           (SocketTimeout, m3) \<Rightarrow>
             close_exitCh (Some (no_socket m3 CtxErr)) (Returned (Some (no_socket m3 CtxErr))) m3
         | (VMMExited (Some err), m3) \<Rightarrow>
             close_exitCh (Some (no_socket m3 err)) (Returned (Some (no_socket m3 err))) m3
         | (VMMExited None, m3) \<Rightarrow> close_exitCh None (Returned None) m3
         | (SocketReady, m3) \<Rightarrow> (Returned None, m3)
         | (WaitPanicked p, m3) \<Rightarrow> (Panicked p, m3)
         | (WaitBlocked, m3) \<Rightarrow> (Blocked, m3)))"

subsection \<open>Running the handlers\<close>

type_synonym user_handler = "nat \<Rightarrow> Machine \<Rightarrow> step"

definition run_handler :: "env \<Rightarrow> user_handler \<Rightarrow> ctx \<Rightarrow> handler_fn \<Rightarrow> Machine \<Rightarrow> step" where
  "run_handler e user ctx fn m =
    (case fn of
       ValidateCfgFn \<Rightarrow> Validate e m
     | ValidateLoadSnapshotCfgFn \<Rightarrow> ValidateLoadSnapshot e m
     | ValidateJailerCfgFn \<Rightarrow> JailerConfigValidation m
     | ValidateNetworkCfgFn \<Rightarrow> ValidateNetwork m
     | StartVMMFn \<Rightarrow> startVMM e m
     | CreateLogFilesFn \<Rightarrow> CreateLogFiles e m
     | BootstrapLoggingFn \<Rightarrow> and_then (setupLogging e ctx m) (setupMetrics e ctx)
     | CreateMachineFn \<Rightarrow> createMachine e ctx m
     | CreateBootSourceFn \<Rightarrow>
         createBootSource e ctx (KernelImagePath (Cfg m)) (InitrdPath (Cfg m)) (KernelArgs (Cfg m)) m
     | AttachDrivesFn \<Rightarrow> attachDrives e ctx (Drives (Cfg m)) m
     | CreateNetworkInterfacesFn \<Rightarrow> createNetworkInterfaces e ctx (NetworkInterfaces (Cfg m)) m
     | SetupNetworkFn \<Rightarrow> m_setupNetwork e m
     | SetupKernelArgsFn \<Rightarrow> setupKernelArgs e m
     | AddVsocksFn \<Rightarrow> addVsocks e ctx (VsockDevices (Cfg m)) m
     | SetMetadataFn metadata \<Rightarrow> SetMetadata e ctx (Some metadata) m
     | ConfigMmdsFn \<Rightarrow>
         setMmdsConfig e ctx (MmdsAddress (Cfg m)) (NetworkInterfaces (Cfg m)) (MmdsVersion (Cfg m)) m
     | CreateBalloonFn amountMib deflateOnOom interval \<Rightarrow> CreateBalloon e ctx amountMib deflateOnOom interval [] m
     | LoadSnapshotFn \<Rightarrow> loadSnapshot e ctx (Snapshot (Cfg m)) m
     | LinkFilesFn kernelImageFileName \<Rightarrow> LinkFiles e kernelImageFileName m
     | UserFn n \<Rightarrow> user n m)"

definition run_all :: "env \<Rightarrow> user_handler \<Rightarrow> ctx \<Rightarrow> Machine \<Rightarrow> step" where
  "run_all e user ctx m =
     Handlers_Run (run_handler e user ctx) (mHandlers m) (DisableValidation (Cfg m)) m"

definition Start :: "env \<Rightarrow> user_handler \<Rightarrow> ctx \<Rightarrow> Machine \<Rightarrow> step" where
  "Start e user ctx m =
    (if started m then fail ErrAlreadyStarted m
     else
       case and_then (run_all e user ctx (m\<lparr>started := True\<rparr>)) (startInstance e ctx) of
         (Returned (Some err), m1) \<Rightarrow> (Returned (Some err), snd (doCleanup e m1))
       | (out, m1) \<Rightarrow> (out, m1))"

subsection \<open>Stopping\<close>

definition stopVMM :: "env \<Rightarrow> Machine \<Rightarrow> step" where
  "stopVMM e m =
    (case Process m of
       None \<Rightarrow> ok m
     | Some pid \<Rightarrow>
        (case do_sys e EvSignal m of
           (serr, m1) \<Rightarrow>
            (case (case serr of Some err \<Rightarrow> if process_done e err then None else Some err | None \<Rightarrow> None) of
               Some err \<Rightarrow> fail err m1
             | None \<Rightarrow> if cleanupCh m1 then ok m1 else (Blocked, m1))))"

definition StopVMM :: "env \<Rightarrow> Machine \<Rightarrow> step" where
  "StopVMM e m = stopVMM e m"

definition Shutdown :: "env \<Rightarrow> ctx \<Rightarrow> Machine \<Rightarrow> step" where
  "Shutdown e ctx m =
    (if shutdownCh m then (Panicked CloseOfClosedChannel, m)
     else
       let m1 = m\<lparr>shutdownCh := True\<rparr> in
       if goarch e \<noteq> ''arm64'' then sendCtrlAltDel e ctx m1 else StopVMM e m1)"

text \<open>\<open>Wait\<close> selects among the channels that are ready; the list holds what it may return, and an
  empty list means that it waits.\<close>

definition Wait :: "bool \<Rightarrow> Machine \<Rightarrow> result list" where
  "Wait ctx_done m =
     (if ctx_done then [Returned (Some CtxErr)] else [])
   @ (if exitCh m then [Returned (fatalErr m)] else [])"

end
