(* ===== verification/MachineSafety.thy ===== *)
theory MachineSafety
  imports MachineStart
begin

text \<open>
  What every handler of the SDK keeps. The locale \<open>step_invariant\<close> is the contract of a state
  predicate that the steps of a machine preserve: it survives the system calls and the requests of
  the handlers and does not look at the fields that they write. Each operation is shown once to keep any such predicate;
  the interpretations are the facts on starting a machine.
\<close>

definition start_action :: "event \<Rightarrow> bool" where
  "start_action ev \<longleftrightarrow>
     (case ev of
        EvApi op \<Rightarrow> Body (Params op) = Some (BAction (action_info ActionInstanceStart))
      | _ \<Rightarrow> False)"

lemma no_api_events [simp, intro]:
  "no_api (EvStat p)" "no_api (EvLink p q)" "no_api (EvChown p u g)" "no_api (EvMkfifo p)"
  "no_api (EvOpenAppend p)" "no_api (EvOpenFifo p)" "no_api (EvStartCmd n c)" "no_api EvSignal"
  "no_api (EvRemove p)" "no_api (EvUnmount p)" "no_api (EvCniDel cp nc rt)"
  by (simp_all add: no_api_def)

lemma no_api_no_start: "no_api ev \<Longrightarrow> \<not> start_action ev"
  by (auto simp: no_api_def start_action_def split: event.splits)

text \<open>
  The bodies of the requests that the handlers send, in terms of the configuration: what a handler
  makes up is always there, and everything else is taken from the configuration as it is.
\<close>

definition sdk_body :: "Config \<Rightarrow> api_body option \<Rightarrow> bool" where
  "sdk_body c body \<longleftrightarrow>
    (case body of
       None \<Rightarrow> True
     | Some (BLogger l) \<Rightarrow> lg_LogPath l \<noteq> None \<and>
         (Level l = None \<or> (Level l = Some (LogLevel c) \<and> LogLevel c \<noteq> ''''))
     | Some (BMetrics mt) \<Rightarrow> mt_MetricsPath mt \<noteq> None
     | Some (BMachineConfiguration mc) \<Rightarrow> mc = MachineCfg c
     | Some (BBootSource b) \<Rightarrow> bs_KernelImagePath b \<noteq> None
     | Some (BNetworkInterface a) \<Rightarrow> ani_HostDevName a \<noteq> None \<and> ani_IfaceID a \<noteq> None \<and>
         list_ex (\<lambda>i. RxRateLimiter a = InRateLimiter i \<and> TxRateLimiter a = OutRateLimiter i) (NetworkInterfaces c)
     | Some (BDrive d) \<Rightarrow> d \<in> set (Drives c)
     | Some (BVsock v) \<Rightarrow> UdsPath v \<noteq> None \<and>
         GuestCid v \<in> set (map (\<lambda>dev. Some (ucast (vd_CID dev))) (VsockDevices c))
     | Some (BSnapshotLoad l) \<Rightarrow> slp_SnapshotPath l \<noteq> None \<and> slp_MemBackend l = MemBackend (Snapshot c)
     | Some (BJson j) \<Rightarrow> True
     | Some (BMmdsConfig mm) \<Rightarrow> mc_NetworkInterfaces mm \<noteq> [] \<and>
         (mc_Version mm = Some ''V1'' \<or> mc_Version mm = Some ''V2'')
     | Some (BBalloon b) \<Rightarrow> AmountMib b \<noteq> None \<and> DeflateOnOom b \<noteq> None
     | _ \<Rightarrow> False)"

definition sdk_request :: "Config \<Rightarrow> client_operation \<Rightarrow> bool" where
  "sdk_request c op \<longleftrightarrow> sdk_body c (Body (Params op)) \<and> addressed op"

lemma sdk_no_start: "sdk_request c op \<Longrightarrow> \<not> start_action (EvApi op)"
  by (auto simp: sdk_request_def sdk_body_def start_action_def)

text \<open>The handlers change of a configuration only what these requests do not take from it.\<close>

definition same_drive :: "Drive \<Rightarrow> Drive \<Rightarrow> bool" where
  "same_drive d d' \<longleftrightarrow> d' = d\<lparr>PathOnHost := PathOnHost d'\<rparr> \<and> (PathOnHost d = None \<or> PathOnHost d' \<noteq> None)"

definition same_data :: "Config \<Rightarrow> Config \<Rightarrow> bool" where
  "same_data c c' \<longleftrightarrow> MachineCfg c' = MachineCfg c \<and> VsockDevices c' = VsockDevices c
     \<and> LogLevel c' = LogLevel c \<and> Snapshot c' = Snapshot c
     \<and> map (\<lambda>i. (InRateLimiter i, OutRateLimiter i)) (NetworkInterfaces c')
         = map (\<lambda>i. (InRateLimiter i, OutRateLimiter i)) (NetworkInterfaces c)
     \<and> list_all2 same_drive (Drives c) (Drives c')"

lemma same_drive_refl [simp]: "same_drive d d"
  by (cases "PathOnHost d") (simp_all add: same_drive_def)

lemma same_data_refl [simp]: "same_data c c"
  by (simp add: same_data_def list.rel_refl)

lemma same_data_paths [simp]:
  "same_data c (c\<lparr>KernelImagePath := p\<rparr>)" "same_data c (c\<lparr>InitrdPath := p\<rparr>)"
  "same_data c (c\<lparr>KernelImagePath := p, InitrdPath := q\<rparr>)"
  "same_data c (c\<lparr>LogFifo := p\<rparr>)" "same_data c (c\<lparr>MetricsFifo := p\<rparr>)" "same_data c (c\<lparr>KernelArgs := p\<rparr>)"
  by (simp_all add: same_data_def list.rel_refl)

lemma same_data_drive [simp]: "same_data c (set_drive_path i p c)"
proof -
  have "same_drive d (d\<lparr>PathOnHost := go_String p\<rparr>)" for d
    by (simp add: same_drive_def go_unfold)
  then have "same_drive (Drives c ! k) ((Drives c)[i := (Drives c ! i)\<lparr>PathOnHost := go_String p\<rparr>] ! k)" for k
    by (cases "i < length (Drives c)"; cases "k = i") (simp_all add: list_update_beyond)
  then have "list_all2 same_drive (Drives c) ((Drives c)[i := (Drives c ! i)\<lparr>PathOnHost := go_String p\<rparr>])"
    by (simp add: list_all2_conv_all_nth)
  then show ?thesis by (simp add: same_data_def set_drive_path_def)
qed

lemma setupNetwork_limits:
  assumes "setupNetwork e ifaces vmID nsPath tr = (r, ifaces', tr')"
  shows "map (\<lambda>i. (InRateLimiter i, OutRateLimiter i)) ifaces'
       = map (\<lambda>i. (InRateLimiter i, OutRateLimiter i)) ifaces"
proof -
  have u: "map f (xs[i := y]) = map f xs" if "f y = f (xs ! i)" for f :: "NetworkInterface \<Rightarrow> 'b" and xs i y
    using that by (metis list_update_beyond list_update_id map_update not_le)
  show ?thesis
    using assms
    by (auto simp: setupNetwork_def Let_def u
        split: option.splits prod.splits sum.splits if_splits)
qed

locale step_invariant =
  fixes P :: "Machine \<Rightarrow> bool"
  assumes P_event: "P m \<Longrightarrow> no_api ev \<Longrightarrow> P (m\<lparr>world := world m @ [ev]\<rparr>)"
    and P_request: "P m \<Longrightarrow> sdk_request (Cfg m) op \<Longrightarrow> P (m\<lparr>world := world m @ [EvApi op]\<rparr>)"
    and P_Cfg: "P m \<Longrightarrow> same_data (Cfg m) c \<Longrightarrow> P (m\<lparr>Cfg := c\<rparr>)"
    and P_machineConfig: "P m \<Longrightarrow> P (m\<lparr>machineConfig := mc\<rparr>)"
    and P_cleanupFuncs: "P m \<Longrightarrow> P (m\<lparr>cleanupFuncs := cls\<rparr>)"
    and P_Process: "P m \<Longrightarrow> P (m\<lparr>Process := pr\<rparr>)"
    and P_fatalErr: "P m \<Longrightarrow> P (m\<lparr>fatalErr := fe\<rparr>)"
    and P_exitCh: "P m \<Longrightarrow> P (m\<lparr>exitCh := b\<rparr>)"
    and P_cleaned: "P m \<Longrightarrow> P (m\<lparr>cleaned := b\<rparr>)"
    and P_cleanupCh: "P m \<Longrightarrow> P (m\<lparr>cleanupCh := b\<rparr>)"
begin

lemmas P_fields = P_machineConfig P_cleanupFuncs P_Process P_fatalErr P_exitCh P_cleaned
  P_cleanupCh

lemma P_events:
  assumes "P m" and "list_all no_api new"
  shows "P (m\<lparr>world := world m @ new\<rparr>)"
  using assms
proof (induction new arbitrary: m)
  case Nil
  then show ?case by simp
next
  case (Cons ev new)
  then show ?case using Cons.IH [of "m\<lparr>world := world m @ [ev]\<rparr>"] P_event [of m ev] by simp
qed

lemma P_grows: "P m \<Longrightarrow> grows (world m) tr \<Longrightarrow> P (m\<lparr>world := tr\<rparr>)"
  using P_events by (auto simp: grows_def)

lemma P_and_then:
  "P (snd r) \<Longrightarrow> (\<And>m. P m \<Longrightarrow> P (snd (f m))) \<Longrightarrow> P (snd (and_then r f))"
  by (cases r) (auto simp: and_then_def split: outcome.split option.split)

lemma P_and_then':
  "P (snd r) \<Longrightarrow> (P (snd r) \<Longrightarrow> P (snd (f (snd r)))) \<Longrightarrow> P (snd (and_then r f))"
  by (cases r) (auto simp: and_then_def split: outcome.split option.split)

lemma P_ok: "P m \<Longrightarrow> P (snd (ok m))" and P_fail: "P m \<Longrightarrow> P (snd (fail err m))"
  by (simp_all add: step_defs)

lemma P_do_sys: "do_sys e ev m = (r, m1) \<Longrightarrow> P m \<Longrightarrow> no_api ev \<Longrightarrow> P m1"
  using P_event by (auto simp: do_sys_def)

lemma P_do_sys_d: "do_sys e ev m = (r, m1) \<Longrightarrow> P m1 \<or> \<not> P m \<or> \<not> no_api ev"
  using P_do_sys by blast

lemma P_api_step:
  assumes "P m" and "\<exists>op. snd (call (world m)) = world m @ [EvApi op] \<and> sdk_request (Cfg m) op"
  shows "P (snd (api_step call m))"
  using assms P_request by (auto simp: api_step_def do_api_def split: prod.splits)

lemma P_must_stat: "P m \<Longrightarrow> P (snd (must_stat e msg p m))"
  by (auto simp: must_stat_def step_defs split: prod.split option.split elim: P_do_sys)

lemma P_plain_stat: "P m \<Longrightarrow> P (snd (plain_stat e p m))"
  by (auto simp: plain_stat_def step_defs split: prod.split option.split elim: P_do_sys)

lemma P_socket_free: "P m \<Longrightarrow> P (snd (socket_free e m))"
  by (auto simp: socket_free_def step_defs split: prod.split option.split elim: P_do_sys)

lemma P_link_file: "P m \<Longrightarrow> P (snd (link_file e old new m))"
  by (auto simp: link_file_def step_defs split: prod.split option.split elim: P_do_sys)

lemma P_stat_drives: "P m \<Longrightarrow> P (snd (stat_drives e ds m))"
  by (induction e ds m rule: stat_drives.induct) (auto intro: P_and_then P_must_stat P_ok)

lemma P_Validate: "P m \<Longrightarrow> P (snd (Validate e m))"
  by (auto simp: Validate_def Let_def step_defs split: option.split
      intro!: P_and_then intro: P_must_stat P_socket_free)

lemma P_ValidateLoadSnapshot: "P m \<Longrightarrow> P (snd (ValidateLoadSnapshot e m))"
  by (auto simp: ValidateLoadSnapshot_def Let_def step_defs
      intro!: P_and_then intro: P_stat_drives P_plain_stat P_socket_free)

lemma P_pure: "P m \<Longrightarrow> P (snd (ValidateNetwork m))" "P m \<Longrightarrow> P (snd (JailerConfigValidation m))"
  by (auto simp: ValidateNetwork_def JailerConfigValidation_def Let_def step_defs split: option.split)

lemma P_link_drives: "P m \<Longrightarrow> P (snd (link_drives e rootfs i ds m))"
  by (induction ds arbitrary: i m)
    (auto simp: Let_def simp del: path_join.simps intro!: P_and_then intro: P_link_file P_ok P_Cfg [OF _ same_data_drive])

lemma P_link_fifo: "(\<And>p c. same_data c (put p c)) \<Longrightarrow> P m \<Longrightarrow> P (snd (link_fifo e j rootfs get put m))"
  by (auto simp: link_fifo_def Let_def step_defs split: option.split prod.split
      simp del: path_join.simps
      intro!: P_and_then P_Cfg intro: P_link_file dest!: P_do_sys_d)

lemma P_LinkFiles: "P m \<Longrightarrow> P (snd (LinkFiles e k m))"
  by (auto simp: LinkFiles_def LinkFiles_rename_def Let_def step_defs split: option.split
      simp del: path_join.simps intro!: P_and_then P_link_file P_link_drives P_link_fifo P_Cfg)

lemmas api_ops = client_defs ops_defs params_defs sdk_request_def sdk_body_def addressed_def client_writes

lemma P_logging:
  "P m \<Longrightarrow> P (snd (setupLogging e ctx m))" "P m \<Longrightarrow> P (snd (setupMetrics e ctx m))"
  by (auto simp: setupLogging_def setupMetrics_def Let_def api_ops go_unfold intro!: P_ok P_api_step)

lemma P_refresh: "P m \<Longrightarrow> P (snd (refreshMachineConfiguration e m))"
proof -
  assume "P m"
  moreover have "snd (do_api (GetMachineConfiguration e (client m) []) m)
      = m\<lparr>world := snd (GetMachineConfiguration e (client m) [] (world m))\<rparr>"
    by (simp add: do_api_def split: prod.split)
  moreover have "\<exists>op. snd (GetMachineConfiguration e (client m) [] (world m)) = world m @ [EvApi op]
      \<and> sdk_request (Cfg m) op"
    by (simp add: api_ops)
  ultimately have "P (snd (do_api (GetMachineConfiguration e (client m) []) m))"
    using P_request by auto
  then show ?thesis
    by (auto simp: refreshMachineConfiguration_def step_defs split: prod.split sum.split intro: P_machineConfig)
qed

lemma P_create:
  "P m \<Longrightarrow> P (snd (createMachine e ctx m))"
  "P m \<Longrightarrow> P (snd (createBootSource e ctx ip rd ka m))"
  "P m \<Longrightarrow> iface \<in> set (NetworkInterfaces (Cfg m)) \<Longrightarrow> P (snd (createNetworkInterface e ctx iface i m))"
  "P m \<Longrightarrow> d \<in> set (Drives (Cfg m)) \<Longrightarrow> P (snd (attachDrive e ctx d m))"
  "P m \<Longrightarrow> v \<in> set (VsockDevices (Cfg m)) \<Longrightarrow> P (snd (addVsock e ctx v m))"
  "P m \<Longrightarrow> P (snd (setMmdsConfig e ctx a ifaces ver m))"
  "P m \<Longrightarrow> P (snd (SetMetadata e ctx md m))"
  "P m \<Longrightarrow> P (snd (CreateBalloon e ctx am df si [] m))"
  by (auto simp: createMachine_def createBootSource_def createNetworkInterface_def attachDrive_def
      addVsock_def setMmdsConfig_def SetMetadata_def CreateBalloon_def Let_def api_ops MMDSv1_def MMDSv2_def
      list_ex_iff go_unfold split: option.split intro!: P_and_then P_api_step P_refresh P_ok P_fail
      bexI [of _ iface])

lemma request_Cfg:
  "Cfg (snd (createNetworkInterface e ctx iface i m)) = Cfg m"
  "Cfg (snd (attachDrive e ctx d m)) = Cfg m"
  "Cfg (snd (addVsock e ctx v m)) = Cfg m"
  by (auto simp: createNetworkInterface_def attachDrive_def addVsock_def api_step_def do_api_def Let_def
      fail_def split: option.split prod.split)

lemma P_ifaces: "P m \<Longrightarrow> set ifaces \<subseteq> set (NetworkInterfaces (Cfg m)) \<Longrightarrow>
    P (snd (createNetworkInterfaces_from e ctx i ifaces m))"
  by (induction ifaces arbitrary: i m) (auto intro!: P_and_then' P_create P_ok simp: request_Cfg)

lemma P_drives: "P m \<Longrightarrow> set ds \<subseteq> set (Drives (Cfg m)) \<Longrightarrow> P (snd (attachDrives e ctx ds m))"
  by (induction ds arbitrary: m) (auto intro!: P_and_then' P_create P_ok simp: request_Cfg)

lemma P_vsocks: "P m \<Longrightarrow> set vs \<subseteq> set (VsockDevices (Cfg m)) \<Longrightarrow> P (snd (addVsock_loop e ctx vs m))"
  by (induction vs arbitrary: m) (auto intro!: P_and_then' P_create P_ok simp: request_Cfg)

lemma P_loadSnapshot: "P m \<Longrightarrow> P (snd (loadSnapshot e ctx (Snapshot (Cfg m)) m))"
proof -
  assume "P m"
  then have "P (snd (api_step (LoadSnapshot e (client m) ctx
     \<lparr>slp_EnableDiffSnapshots = EnableDiffSnapshots (Snapshot (Cfg m)), slp_MemBackend = MemBackend (Snapshot (Cfg m)),
      slp_MemFilePath = MemFilePath (Snapshot (Cfg m)), slp_ResumeVM = ResumeVM (Snapshot (Cfg m)),
      slp_SnapshotPath = Some (SnapshotPath (Snapshot (Cfg m)))\<rparr> []) m))"
    by (auto simp: api_ops intro!: P_api_step)
  then show ?thesis
    by (auto simp: loadSnapshot_def Let_def step_defs split: prod.split outcome.split option.split)
qed

lemma P_Cfg_world: "P m \<Longrightarrow> grows (world m) tr \<Longrightarrow> same_data (Cfg m) c \<Longrightarrow> P (m\<lparr>Cfg := c, world := tr\<rparr>)"
  using P_grows [of "m\<lparr>Cfg := c\<rparr>" tr] P_Cfg [of m c] by simp

lemma P_setup:
  "P m \<Longrightarrow> P (snd (m_setupNetwork e m))" "P m \<Longrightarrow> P (snd (setupKernelArgs e m))"
  by (auto simp: m_setupNetwork_def setupKernelArgs_def Let_def step_defs
      split: prod.split sum.split option.split)
    (auto dest: setupNetwork_grows setupNetwork_limits simp: same_data_def list.rel_refl
      intro!: P_cleanupFuncs P_Cfg_world P_Cfg)

lemma P_CreateLogFiles: "P m \<Longrightarrow> P (snd (CreateLogFiles e m))"
proof -
  have 1: "P (snd (createFifoOrFile e fifo path m))" if "P m" for fifo path m
    using that
    by (auto simp: createFifoOrFile_def createFifo_def step_defs split: prod.split option.split
        intro!: P_and_then P_cleanupFuncs dest!: P_do_sys_d)
  have 2: "P (snd (captureFifoToFile e path m))" if "P m" for path m
    using that
    by (auto simp: captureFifoToFile_def step_defs split: prod.split option.split dest!: P_do_sys_d)
  show "P m \<Longrightarrow> P (snd (CreateLogFiles e m))"
    using 1 2 by (auto simp: CreateLogFiles_def step_defs intro!: P_and_then)
qed

lemma P_doCleanup: "P m \<Longrightarrow> P (snd (doCleanup e m))"
proof -
  assume P: "P m"
  have "grows (world m) (snd (cleanup_loop e sock cls err (world m)))" for sock cls err
    by (simp add: cleanup_loop_trace list_all_iff cleanup_event_def split: cleanup.split)
  then show ?thesis
    using P by (auto simp: doCleanup_def split: prod.split intro!: P_cleaned P_grows)
      (metis snd_conv)
qed

lemma P_vmm_exit: "vmm_exit e w m = (r, m1) \<Longrightarrow> P m1 \<or> \<not> P m"
  using P_doCleanup [of m e] P_cleanupCh by (auto simp: vmm_exit_def split: prod.splits)

lemma P_probe: "do_api (GetMachineConfiguration e (client m) []) m = (r, m1) \<Longrightarrow> P m1 \<or> \<not> P m"
  using P_request by (auto simp: do_api_def api_ops op_submit_def split: prod.splits)

lemma P_waitForSocket: "P m \<Longrightarrow> P (snd (waitForSocket e ws m))"
proof (induction ws arbitrary: m)
  case Nil
  then show ?case by simp
next
  case (Cons w ws)
  then show ?case
    by (cases w)
      (auto split: prod.split option.split sum.split dest!: P_do_sys_d P_vmm_exit P_probe)
qed

lemma P_close_exitCh: "P m \<Longrightarrow> P (snd (close_exitCh err out m))"
  by (auto simp: close_exitCh_def Let_def intro!: P_exitCh P_fatalErr)

lemma P_startVMM: "P m \<Longrightarrow> P (snd (startVMM e m))"
proof -
  assume P: "P m"
  obtain r m1 where s: "do_sys e (start_event m) m = (r, m1)" by fastforce
  with P have m1: "P m1" using P_do_sys_d [OF s] by (auto simp: start_event_def)
  define m2 where "m2 = m1\<lparr>Process := Some (start_pid e (world m)),
                     cleanupFuncs := cleanupFuncs m1 @ [RemoveSocket]\<rparr>"
  have "P m2" using m1 by (simp add: m2_def P_Process P_cleanupFuncs)
  then have "P (snd (waitForSocket e (wait_events e (world m2)) m2))" by (rule P_waitForSocket)
  then show ?thesis
    using m1 s
    by (auto simp: startVMM_def m2_def [symmetric] Let_def
        split: option.split prod.split wait_result.split intro!: P_close_exitCh)
qed

lemma P_run_handler:
  assumes "P m" and "\<And>n m. P m \<Longrightarrow> P (snd (user n m))"
  shows "P (snd (run_handler e user ctx fn m))"
  using assms
  by (cases fn)
    (auto simp: run_handler_def createNetworkInterfaces_def addVsocks_def
      intro!: P_and_then P_logging P_create P_ifaces P_drives P_vsocks P_loadSnapshot P_setup P_CreateLogFiles
        P_startVMM P_LinkFiles P_Validate P_ValidateLoadSnapshot P_pure)

lemma P_run_all:
  assumes "P m" and "\<And>n m. P m \<Longrightarrow> P (snd (user n m))"
  shows "P (snd (run_all e user ctx m))"
  unfolding run_all_def Handlers_Run_def
  by (rule HandlerList_Run_inv) (use assms P_run_handler in auto)

end

text \<open>Whether the machine was started is not the business of any handler.\<close>

interpretation started_kept: step_invariant "\<lambda>m. started m = b" for b
  by unfold_locales auto

text \<open>No handler of the SDK starts the instance.\<close>

interpretation not_booted: step_invariant "\<lambda>m. list_all (\<lambda>ev. \<not> start_action ev) (world m)"
  by unfold_locales (auto simp: no_api_no_start sdk_no_start)

end
