(* ===== verification/MachineProps.thy ===== *)
theory MachineProps
  imports MachineSafety
begin

text \<open>
  The properties of making, starting and stopping a machine. They rest on the invariants of
  \<open>MachineSafety\<close>, the container facts of \<open>Handlers\<close>, and the round trip of \<open>KernelArgs\<close>.
\<close>

subsection \<open>An environment in which a machine boots\<close>

definition is_start_cmd :: "event \<Rightarrow> bool" where
  "is_start_cmd ev \<longleftrightarrow> (case ev of EvStartCmd n c \<Rightarrow> True | _ \<Rightarrow> False)"

text \<open>The socket appears when the process has been started; all else is calm.\<close>

definition boot_env :: env where
  "boot_env = calm_env\<lparr>sys := (\<lambda>tr ev. case ev of
     EvStat p \<Rightarrow> if p = ''/run/fc.sock'' \<and> \<not> list_ex is_start_cmd tr then Some (OsError ENOENT) else None
   | _ \<Rightarrow> None)\<rparr>"

definition no_user :: user_handler where
  "no_user n m = (Returned None, m)"

definition no_adapter :: user_adapter where
  "no_adapter n hs = (None, hs)"

definition demo_machine :: Machine where
  "demo_machine =
    (case NewMachine boot_env no_adapter [] calm_config [] of
       Inr (Inr m) \<Rightarrow> m | _ \<Rightarrow> calm_machine)"

lemma demo_machine_fresh:
  "\<not> started demo_machine" "\<not> cleaned demo_machine" "world demo_machine = []"
  by code_simp+

subsection \<open>Handlers of snapshots\<close>

text \<open>C20: Loading a snapshot takes the handlers that would configure a fresh VM out of the list,
  wherever and however often they are in it, keeps all others in order, and ends with loading the
  snapshot; validation of the boot configuration is replaced by validation of the snapshot.\<close>

theorem WithSnapshot_handlers:
  "map Name (FcInit (mHandlers (WithSnapshot mem snap opts m))) =
     filter (\<lambda>n. n \<notin> {''fcinit.SetupKernelArgs'', ''fcinit.CreateMachine'', ''fcinit.CreateBootSource'',
       ''fcinit.AttachDrives'', ''fcinit.CreateNetworkInterfaces'', ''fcinit.ConfigMmds''})
       (map Name (FcInit (mHandlers m))) @ [''fcinit.LoadSnapshot'']
   \<and> map Name (Validation (mHandlers (WithSnapshot mem snap opts m))) =
     filter (\<lambda>n. n \<noteq> ''validate.Cfg'') (map Name (Validation (mHandlers m))) @ [''validate.LoadSnapshotCfg'']
   \<and> Snapshot (Cfg (WithSnapshot mem snap opts m)) =
     apply_opts opts ((Snapshot (Cfg m))\<lparr>MemFilePath := mem, SnapshotPath := snap\<rparr>)"
proof -
  have f: "foldl (\<lambda>l h. Remove l (Name h)) l hs = foldl Remove l (map Name hs)" for l :: "handler_fn handler list" and hs
    by (simp add: foldl_map)
  have n: "set (map Name loadSnapshotRemoveHandlerList) =
      {''fcinit.SetupKernelArgs'', ''fcinit.CreateMachine'', ''fcinit.CreateBootSource'',
       ''fcinit.AttachDrives'', ''fcinit.CreateNetworkInterfaces'', ''fcinit.ConfigMmds''}"
    by (simp add: loadSnapshotRemoveHandlerList_def sdk_handlers)
  have a: "map Name (modifyHandlersForLoadSnapshot l) =
      filter (\<lambda>n. n \<notin> {''fcinit.SetupKernelArgs'', ''fcinit.CreateMachine'', ''fcinit.CreateBootSource'',
       ''fcinit.AttachDrives'', ''fcinit.CreateNetworkInterfaces'', ''fcinit.ConfigMmds''}) (map Name l)
      @ [''fcinit.LoadSnapshot'']" for l
    using hl.names_replace [of l "map Name loadSnapshotRemoveHandlerList" LoadSnapshotHandler]
    by (simp only: modifyHandlersForLoadSnapshot_def f n Let_def) (simp add: sdk_handlers)
  have v: "map Name (Append (Remove l ValidateCfgHandlerName) [LoadSnapshotConfigValidationHandler]) =
      filter (\<lambda>n. n \<noteq> ''validate.Cfg'') (map Name l) @ [''validate.LoadSnapshotCfg'']" for l
    using hl.names_replace [of l "[ValidateCfgHandlerName]" LoadSnapshotConfigValidationHandler]
    by (simp add: sdk_handlers handler_names)
  show ?thesis by (simp add: WithSnapshot_def Let_def a v)
qed

subsection \<open>Making a machine\<close>

text \<open>A machine without a jailer gets the default initialisation handlers and, for validation, the
  network and the configuration handlers; its command line passes the socket path, the VM's id and
  the seccomp options on; it has an id, random if none was given, and, if an interface is set up
  by CNI, a network namespace named after that id.\<close>

lemma NewMachine_unjailed:
  assumes "JailerCfg cfg = None" and "NewMachine e adapt [] cfg tr = Inr (Inr m)"
  shows "FcInit (mHandlers m) = defaultFcInitHandlerList
    \<and> map Name (Validation (mHandlers m)) = [''validate.NetworkCfg'', ''validate.Cfg'']
    \<and> (if VMID cfg = '''' then new_uuid e tr = Inr (VMID (Cfg m)) else VMID (Cfg m) = VMID cfg)
    \<and> NetNS (Cfg m) = (if NetNS cfg = '''' \<and> list_ex (\<lambda>i. CNIConfiguration i \<noteq> None) (NetworkInterfaces cfg)
         then path_join [''/var/run/netns'', VMID (Cfg m)] else NetNS cfg)
    \<and> cmd_bin (cmd m) = ''firecracker''
    \<and> cmd_args (cmd m) = (if SocketPath cfg = '''' then [] else [''--api-sock'', SocketPath cfg])
         @ [''--id'', VMID (Cfg m)] @ seccompArgs cfg
    \<and> \<not> started m \<and> \<not> exitCh m \<and> cleanupFuncs m = []"
proof -
  obtain cfg1 tr1 where a: "assign_VMID e cfg tr = (Inr cfg1, tr1)"
    using assms(2) by (cases "assign_VMID e cfg tr") (auto simp: NewMachine_def split: sum.splits)
  then have c1: "cfg1 = cfg\<lparr>VMID := VMID cfg1\<rparr>"
    "if VMID cfg = '''' then new_uuid e tr = Inr (VMID cfg1) else VMID cfg1 = VMID cfg"
    by (auto simp: assign_VMID_def split: if_splits sum.splits)
  have j: "JailerCfg cfg1 = None" and sec: "seccompArgs cfg1 = seccompArgs cfg"
    by (subst c1(1), simp add: assms(1) seccompArgs_def)+
  have fields: "SocketPath cfg1 = SocketPath cfg" "NetNS cfg1 = NetNS cfg"
    "NetworkInterfaces cfg1 = NetworkInterfaces cfg"
    by (subst c1(1), simp)+
  have cni: "cniInterface ifaces \<noteq> None \<longleftrightarrow> list_ex (\<lambda>i. CNIConfiguration i \<noteq> None) ifaces" for ifaces
    by (auto simp: cniInterface_def index_of_None_iff list_ex_iff)
  have m: "m = finish_machine e [] ((add_validation ConfigValidationHandler (fresh_machine tr1 cfg1))\<lparr>
      cmd := vb_Build (configureBuilder defaultFirecrackerVMMCommandBuilder cfg1)\<rparr>) cfg1"
    using assms(2) a j by (simp add: NewMachine_def Let_def)
  show ?thesis
    unfolding m using c1(2) cni sec fields
    by (auto simp: finish_machine_def Let_def add_validation_def fresh_machine_def defaultHandlers_def
        defaultValidationHandlerList_def Append_def sdk_handlers handler_names defaultNetNSPath_def
        defaultNetNSDir_def configureBuilder_def vb_defs defaultFcBin_def
        split: if_splits simp del: path_join.simps)
qed

lemma NewMachine_unjailed_witness:
  "\<exists>m. NewMachine boot_env no_adapter [] (calm_config\<lparr>VMID := ''''\<rparr>) [] = Inr (Inr m)
     \<and> VMID (Cfg m) = ''vm1'' \<and> NetNS (Cfg m) = ''''
     \<and> cmd_args (cmd m) = [''--api-sock'', ''/run/fc.sock'', ''--id'', ''vm1'', ''--no-seccomp'']"
proof -
  let ?cfg = "calm_config\<lparr>VMID := ''''\<rparr>"
  have j: "JailerCfg ?cfg = None" by (simp add: calm_config_def)
  obtain m where m: "NewMachine boot_env no_adapter [] ?cfg [] = Inr (Inr m)"
    by (auto simp: NewMachine_def assign_VMID_def calm_config_def boot_env_def calm_env_def Let_def)
  have u: "new_uuid boot_env [] = Inr ''vm1''" by (simp add: boot_env_def calm_env_def)
  from NewMachine_unjailed [OF j m] u m show ?thesis
    by (auto simp: calm_config_def seccompArgs_def)
qed

subsection \<open>Starting\<close>

text \<open>What a user's handler cannot do: the flag behind \<open>startOnce\<close> is private to the package.\<close>

definition user_keeps_started :: "user_handler \<Rightarrow> bool" where
  "user_keeps_started user \<longleftrightarrow> (\<forall>n m. started (snd (user n m)) = started m)"

text \<open>What a user's handler should not do: send the boot action itself.\<close>

definition user_never_boots :: "user_handler \<Rightarrow> bool" where
  "user_never_boots user \<longleftrightarrow>
     (\<forall>n m. list_all (\<lambda>ev. \<not> start_action ev) (world m) \<longrightarrow>
        list_all (\<lambda>ev. \<not> start_action ev) (world (snd (user n m))))"

lemma no_user_ok: "user_keeps_started no_user" "user_never_boots no_user"
  by (simp_all add: user_keeps_started_def user_never_boots_def no_user_def)

lemma run_all_started:
  "user_keeps_started user \<Longrightarrow> started (snd (run_all e user ctx m)) = started m"
  by (rule started_kept.P_run_all) (simp_all add: user_keeps_started_def)

lemma run_all_boots:
  "user_never_boots user \<Longrightarrow> list_all (\<lambda>ev. \<not> start_action ev) (world m) \<Longrightarrow>
     list_all (\<lambda>ev. \<not> start_action ev) (world (snd (run_all e user ctx m)))"
  by (rule not_booted.P_run_all) (simp_all add: user_never_boots_def)

lemma startInstance_started: "started (snd (startInstance e ctx m)) = started m"
  by (simp add: startInstance_def step_defs api_step_def do_api_def split: prod.split)

lemma doCleanup_snd:
  "snd (doCleanup e m) = (if cleaned m then m else m\<lparr>cleaned := True,
     world := world m @ map (cleanup_event (SocketPath (Cfg m))) (rev (cleanupFuncs m))\<rparr>)"
  using cleanup_loop_trace [of e "SocketPath (Cfg m)" "rev (cleanupFuncs m)" None "world m"]
  by (auto simp: doCleanup_def split: prod.split)

lemma and_then_kept:
  "g (snd r) = b \<Longrightarrow> (\<And>m. g m = b \<Longrightarrow> g (snd (f m)) = b) \<Longrightarrow> g (snd (and_then r f)) = b"
  by (cases r) (auto simp: and_then_def split: outcome.split option.split)

text \<open>C1: A machine starts at most once: whatever the first \<open>Start\<close> returned, a further one returns
  \<open>ErrAlreadyStarted\<close> and touches nothing.\<close>

theorem Start_only_once:
  assumes "user_keeps_started user" and "Start e user ctx m = (out, m')"
  shows "started m' \<and> Start e' user' ctx' m' = (Returned (Some ErrAlreadyStarted), m')"
proof -
  have "started (snd (and_then (run_all e user ctx (m\<lparr>started := True\<rparr>)) (startInstance e ctx)))"
    using and_then_kept [of started "run_all e user ctx (m\<lparr>started := True\<rparr>)" True "startInstance e ctx"]
      run_all_started [OF assms(1), of e ctx "m\<lparr>started := True\<rparr>"] startInstance_started by simp
  then have "started m'"
    using assms(2)
    by (auto simp: Start_def step_defs doCleanup_snd split: if_splits prod.splits outcome.splits option.splits)
  then show ?thesis by (simp add: Start_def step_defs)
qed

theorem Start_only_once_witness:
  "\<exists>out m'. Start boot_env no_user CtxBackground demo_machine = (out, m')
     \<and> Start boot_env no_user CtxBackground m' = (Returned (Some ErrAlreadyStarted), m')"
proof -
  obtain out m' where s: "Start boot_env no_user CtxBackground demo_machine = (out, m')" by fastforce
  from Start_only_once [OF no_user_ok(1) s] s show ?thesis by blast
qed

text \<open>C4: The instance is booted only after every handler has returned without an error: if the boot
  action is among the events of a \<open>Start\<close>, the handlers all succeeded, sent no boot action
  themselves, and the machine is not one to be loaded from a snapshot.\<close>

theorem Start_boots_last:
  assumes "user_never_boots user" and "\<not> started m" and "Start e user ctx m = (out, m')"
    and "list_all (\<lambda>ev. \<not> start_action ev) (world m)" and "list_ex start_action (world m')"
  shows "\<exists>m1. run_all e user ctx (m\<lparr>started := True\<rparr>) = (Returned None, m1)
    \<and> list_all (\<lambda>ev. \<not> start_action ev) (world m1) \<and> \<not> hasSnapshot (Cfg m1)"
proof -
  obtain r m1 where h: "run_all e user ctx (m\<lparr>started := True\<rparr>) = (r, m1)" by fastforce
  have quiet: "list_all (\<lambda>ev. \<not> start_action ev) (world m1)"
    using run_all_boots [OF assms(1), of "m\<lparr>started := True\<rparr>" e ctx] assms(4) h by simp
  have clean: "list_all (\<lambda>ev. \<not> start_action ev) (world (snd (doCleanup e m)))"
    if "list_all (\<lambda>ev. \<not> start_action ev) (world m)" for m
    using that by (rule not_booted.P_doCleanup)
  have "r = Returned None \<and> \<not> hasSnapshot (Cfg m1)"
  proof (rule ccontr)
    assume *: "\<not> (r = Returned None \<and> \<not> hasSnapshot (Cfg m1))"
    then have "list_all (\<lambda>ev. \<not> start_action ev)
        (world (snd (and_then (run_all e user ctx (m\<lparr>started := True\<rparr>)) (startInstance e ctx))))"
      using quiet by (auto simp: h and_then_def startInstance_def step_defs
          split: outcome.split option.split)
    then have "list_all (\<lambda>ev. \<not> start_action ev) (world m')"
      using assms(2,3) clean
      by (auto simp: Start_def step_defs split: prod.splits outcome.splits option.splits)
    with assms(5) show False by (auto simp: list_all_iff list_ex_iff)
  qed
  with h quiet show ?thesis by blast
qed

theorem Start_boots_last_witness:
  "\<exists>m1. run_all boot_env no_user CtxBackground (demo_machine\<lparr>started := True\<rparr>) = (Returned None, m1)
    \<and> list_all (\<lambda>ev. \<not> start_action ev) (world m1) \<and> \<not> hasSnapshot (Cfg m1)"
proof -
  obtain out m' where s: "Start boot_env no_user CtxBackground demo_machine = (out, m')" by fastforce
  have "list_ex start_action (world (snd (Start boot_env no_user CtxBackground demo_machine)))"
    by code_simp
  with s have "list_ex start_action (world m')" by simp
  with Start_boots_last [OF no_user_ok(2) demo_machine_fresh(1) s] show ?thesis
    by (simp add: demo_machine_fresh)
qed



subsection \<open>The process and its socket\<close>

lemma vmm_exit_keeps:
  "vmm_exit e w m = (r, m1) \<Longrightarrow> exitCh m1 = exitCh m \<and> fatalErr m1 = fatalErr m \<and> Process m1 = Process m
     \<and> cleanupCh m1"
  using doCleanup_snd [of e m] by (cases "doCleanup e m") (auto simp: vmm_exit_def split: if_splits)

lemma waitForSocket_keeps:
  "waitForSocket e ws m = (r, m1) \<Longrightarrow>
     exitCh m1 = exitCh m \<and> fatalErr m1 = fatalErr m \<and> Process m1 = Process m
     \<and> SocketPath (Cfg m1) = SocketPath (Cfg m) \<and> client m1 = client m
     \<and> ((\<exists>x. r = VMMExited x) \<longrightarrow> cleanupCh m1)"
proof (induction ws arbitrary: m)
  case Nil
  then show ?case by auto
next
  case (Cons w ws)
  show ?case
  proof (cases w)
    case WTimeout
    with Cons.prems show ?thesis by auto
  next
    case (WExit x)
    have "Cfg (snd (vmm_exit e x m)) = Cfg m \<and> client (snd (vmm_exit e x m)) = client m"
      using doCleanup_snd [of e m] by (cases "doCleanup e m") (auto simp: vmm_exit_def split: if_splits)
    with WExit Cons show ?thesis
      by (cases "vmm_exit e x m") (auto dest: vmm_exit_keeps split: if_splits)
  next
    case WTick
    show ?thesis
    proof (cases "sys e (world m) (EvStat (SocketPath (Cfg m)))")
      case (Some err)
      with WTick Cons.prems Cons.IH [of "m\<lparr>world := world m @ [EvStat (SocketPath (Cfg m))]\<rparr>"]
      show ?thesis by (simp add: do_sys_def)
    next
      case None
      define m2 where "m2 = m\<lparr>world := world m @ [EvStat (SocketPath (Cfg m))]\<rparr>"
      obtain q tr where q: "GetMachineConfiguration e (client m) [] (world m2) = (q, tr)" by fastforce
      with None WTick Cons.prems Cons.IH [of "m2\<lparr>world := tr\<rparr>"] show ?thesis
        by (auto simp: do_sys_def do_api_def m2_def split: sum.splits)
    qed
  qed
qed

lemma startVMM_cases:
  assumes "startVMM e m = (out, m')"
  obtains (start) err where "sys e (world m) (start_event m) = Some err"
      "(out, m') = close_exitCh (Some err) (Returned (Some err)) (m\<lparr>world := world m @ [start_event m]\<rparr>)"
    | (wait) m2 r m3 where "sys e (world m) (start_event m) = None"
      "m2 = m\<lparr>world := world m @ [start_event m], Process := Some (start_pid e (world m)),
              cleanupFuncs := cleanupFuncs m @ [RemoveSocket]\<rparr>"
      "waitForSocket e (wait_events e (world m2)) m2 = (r, m3)"
      "(out, m') = (case r of
         SocketTimeout \<Rightarrow> close_exitCh (Some (no_socket m3 CtxErr)) (Returned (Some (no_socket m3 CtxErr))) m3
       | VMMExited (Some err) \<Rightarrow> close_exitCh (Some (no_socket m3 err)) (Returned (Some (no_socket m3 err))) m3
       | VMMExited None \<Rightarrow> close_exitCh None (Returned None) m3
       | SocketReady \<Rightarrow> (Returned None, m3)
       | WaitPanicked p \<Rightarrow> (Panicked p, m3)
       | WaitBlocked \<Rightarrow> (Blocked, m3))"
proof (cases "sys e (world m) (start_event m)")
  case (Some err)
  with assms show ?thesis by (intro start [of err]) (simp_all add: startVMM_def do_sys_def)
next
  case None
  define m2 where "m2 = m\<lparr>world := world m @ [start_event m], Process := Some (start_pid e (world m)),
              cleanupFuncs := cleanupFuncs m @ [RemoveSocket]\<rparr>"
  obtain r m3 where w: "waitForSocket e (wait_events e (world m2)) m2 = (r, m3)" by fastforce
  have "startVMM e m = (case r of
         SocketTimeout \<Rightarrow> close_exitCh (Some (no_socket m3 CtxErr)) (Returned (Some (no_socket m3 CtxErr))) m3
       | VMMExited (Some err) \<Rightarrow> close_exitCh (Some (no_socket m3 err)) (Returned (Some (no_socket m3 err))) m3
       | VMMExited None \<Rightarrow> close_exitCh None (Returned None) m3
       | SocketReady \<Rightarrow> (Returned None, m3)
       | WaitPanicked p \<Rightarrow> (Panicked p, m3)
       | WaitBlocked \<Rightarrow> (Blocked, m3))"
    using w None by (simp add: startVMM_def do_sys_def m2_def Let_def split: wait_result.split option.split)
  with assms show ?thesis by (intro wait [OF None m2_def w]) simp
qed

text \<open>When \<open>startVMM\<close> returns an error, that error is the machine's fatal error and the exit
  channel is closed, so every \<open>Wait\<close> that is not cancelled returns the same error.\<close>

lemma startVMM_failure_reported:
  assumes "startVMM e m = (Returned (Some err), m')" and "\<not> exitCh m"
  shows "exitCh m' \<and> fatalErr m' = Some err \<and> Wait False m' = [Returned (Some err)]"
proof (cases rule: startVMM_cases [OF assms(1)])
  case (1 x)
  then show ?thesis by (auto simp: close_exitCh_def Wait_def Let_def split: if_splits)
next
  case (2 m2 r m3)
  have "\<not> exitCh m3" using waitForSocket_keeps [OF 2(3)] assms(2) by (simp add: 2(2))
  with 2(4) show ?thesis
    by (auto simp: close_exitCh_def Wait_def Let_def split: wait_result.splits option.splits)
qed

lemma startVMM_failure_reported_witness:
  "\<exists>m'. startVMM (boot_env\<lparr>wait_events := (\<lambda>tr. [WTimeout])\<rparr>) demo_machine
       = (Returned (Some (no_socket demo_machine CtxErr)), m')
     \<and> Wait False m' = [Returned (Some (no_socket demo_machine CtxErr))] \<and> \<not> cleanupCh m'"
proof -
  let ?e = "boot_env\<lparr>wait_events := (\<lambda>tr. [WTimeout])\<rparr>"
  have r: "fst (startVMM ?e demo_machine) = Returned (Some (no_socket demo_machine CtxErr))"
    and c: "\<not> cleanupCh (snd (startVMM ?e demo_machine))" and x: "\<not> exitCh demo_machine"
    by code_simp+
  then obtain m' where s: "startVMM ?e demo_machine = (Returned (Some (no_socket demo_machine CtxErr)), m')"
    by (metis prod.collapse)
  from startVMM_failure_reported [OF s x] s c show ?thesis by auto
qed

lemma waitForSocket_ready:
  assumes "waitForSocket e ws m = (SocketReady, m')"
  shows "\<exists>tr op r. world m' = tr @ [EvStat (SocketPath (Cfg m)), EvApi op]
    \<and> sys e tr (EvStat (SocketPath (Cfg m))) = None \<and> PathPattern op = ''/machine-config''
    \<and> api_machine e (tr @ [EvStat (SocketPath (Cfg m))]) op = Inr r \<and> Code r = 200"
  using assms
proof (induction ws arbitrary: m)
  case Nil
  then show ?case by simp
next
  case (Cons w ws)
  show ?case
  proof (cases w)
    case WTimeout
    with Cons.prems show ?thesis by simp
  next
    case (WExit x)
    with Cons show ?thesis by (cases "vmm_exit e x m") (auto split: if_splits)
  next
    case WTick
    let ?st = "EvStat (SocketPath (Cfg m))"
    show ?thesis
    proof (cases "sys e (world m) ?st")
      case (Some err)
      with WTick Cons.prems Cons.IH [of "m\<lparr>world := world m @ [?st]\<rparr>"] show ?thesis
        by (simp add: do_sys_def)
    next
      case None
      define m2 where "m2 = m\<lparr>world := world m @ [?st]\<rparr>"
      define op where "op = \<lparr>OpID = ''getMachineConfiguration'', Method = ''GET'',
        PathPattern = ''/machine-config'',
        Params = SetTimeout (request_timeout (client m)) (NewParams e)\<rparr>"
      have call: "GetMachineConfiguration e (client m) [] =
          op_submit (api_machine e) (ReadResponse ''GetMachineConfiguration'' 200 zero_MachineConfiguration True None) op"
        and path: "PathPattern op = ''/machine-config''"
        by (simp_all add: client_defs ops_defs reader_eqs fun_eq_iff op_def)
      obtain q where q: "GetMachineConfiguration e (client m) [] (world m2) = (q, world m2 @ [EvApi op])"
        by (metis call prod.collapse snd_op_submit)
      show ?thesis
      proof (cases q)
        case (Inl p)
        with None WTick Cons.prems q show ?thesis by (simp add: do_sys_def do_api_def m2_def)
      next
        case (Inr x)
        show ?thesis
        proof (cases x)
          case (Inl err)
          with Inr None WTick Cons.prems q Cons.IH [of "m2\<lparr>world := world m2 @ [EvApi op]\<rparr>"]
          show ?thesis by (simp add: do_sys_def do_api_def m2_def)
        next
          case (Inr p)
          with \<open>q = Inr x\<close> None WTick Cons.prems q
          have w: "world m' = world m2 @ [EvApi op]" by (auto simp: do_sys_def do_api_def m2_def)
          from q Inr \<open>q = Inr x\<close> obtain r where "api_machine e (world m2) op = Inr r" "Code r = 200"
            by (auto simp: call op_submit_def ReadResponse_OK_iff split: sum.splits read_result.splits)
          with w None path show ?thesis by (auto simp: m2_def)
        qed
      qed
    qed
  qed
qed

text \<open>When \<open>startVMM\<close> returns no error, either the socket exists and Firecracker has answered a
  request on it, as the last things that happened, or the process has exited with status 0: then
  the machine is cleaned up and \<open>Wait\<close> returns at once without an error.\<close>

lemma startVMM_nil_cases:
  assumes "startVMM e m = (Returned None, m')" and "\<not> exitCh m"
  shows "(\<not> exitCh m' \<and> (\<exists>tr op r. world m' = tr @ [EvStat (SocketPath (Cfg m)), EvApi op]
        \<and> sys e tr (EvStat (SocketPath (Cfg m))) = None \<and> PathPattern op = ''/machine-config''
        \<and> api_machine e (tr @ [EvStat (SocketPath (Cfg m))]) op = Inr r \<and> Code r = 200))
    \<or> (exitCh m' \<and> cleanupCh m' \<and> Wait False m' = [Returned None])"
proof (cases rule: startVMM_cases [OF assms(1)])
  case (1 x)
  then show ?thesis by (auto simp: close_exitCh_def Let_def split: if_splits)
next
  case (2 m2 r m3)
  note keeps = waitForSocket_keeps [OF 2(3)]
  have e3: "\<not> exitCh m3" using keeps assms(2) by (simp add: 2(2))
  show ?thesis
  proof (cases r)
    case SocketReady
    with 2 e3 waitForSocket_ready [of e _ m2 m3] show ?thesis by auto
  next
    case (VMMExited x)
    with 2(4) e3 keeps show ?thesis
      by (auto simp: close_exitCh_def Wait_def Let_def split: option.splits)
  qed (use 2(4) e3 in \<open>auto simp: close_exitCh_def Let_def\<close>)
qed

lemma startVMM_nil_cases_witness:
  "\<exists>m'. startVMM (boot_env\<lparr>wait_events := (\<lambda>tr. [WExit None])\<rparr>) demo_machine = (Returned None, m')
     \<and> exitCh m' \<and> Wait False m' = [Returned None]"
proof -
  let ?e = "boot_env\<lparr>wait_events := (\<lambda>tr. [WExit None])\<rparr>"
  have r: "fst (startVMM ?e demo_machine) = Returned None" and x: "\<not> exitCh demo_machine"
    and d: "exitCh (snd (startVMM ?e demo_machine))"
    by code_simp+
  then obtain m' where s: "startVMM ?e demo_machine = (Returned None, m')" by (metis prod.collapse)
  from startVMM_nil_cases [OF s x] s d show ?thesis by auto
qed

end
