(* ===== verification/RequestProps.thy ===== *)
theory RequestProps
  imports MachineStart
begin

text \<open>
  What the methods of a machine send to Firecracker: the requests of the handlers that configure
  the VM, in their order and with their bodies, and the kernel arguments with the boot-time network
  configuration.
\<close>

lemma api_step_unit:
  assumes "api_step call m = (out, m')" and "\<And>tr. snd (call tr) = tr @ [EvApi op]"
  shows "m' = m\<lparr>world := world m @ [EvApi op]\<rparr>"
  using assms(1) assms(2) [of "world m"] by (auto simp: api_step_def do_api_def split: prod.splits)

lemma api_step_None:
  "api_step call m = (Returned None, m') \<longleftrightarrow>
     (\<exists>x. fst (call (world m)) = Inr (Inr x)) \<and> m' = m\<lparr>world := snd (call (world m))\<rparr>"
  by (auto simp: api_step_def do_api_def api_outcome_def split: prod.splits sum.splits)

lemmas api_call_defs = client_defs ops_defs params_defs

subsection \<open>Kernel arguments\<close>

text \<open>C35: With a static IP configuration, the kernel arguments sent on are the user's with \<open>ip\<close> set to
  the boot parameter of that configuration, in whatever order Go's map iteration prints them;
  parsing them again gives exactly this map.\<close>

theorem setupKernelArgs_sets_ip:
  assumes "staticIPInterface (NetworkInterfaces (Cfg m)) = Some i"
    and "ipBootParam (static_ip (NetworkInterfaces (Cfg m)) i) = Inr p"
    and "arg_ok ''ip'' (Some p)"
    and "key_order ((parseKernelArgs (KernelArgs (Cfg m)))(''ip'' \<mapsto> Some p))
           (map_order e ((parseKernelArgs (KernelArgs (Cfg m)))(''ip'' \<mapsto> Some p)))"
  shows "\<exists>args. setupKernelArgs e m = (Returned None, m\<lparr>Cfg := (Cfg m)\<lparr>KernelArgs := args\<rparr>\<rparr>)
    \<and> parseKernelArgs args = (parseKernelArgs (KernelArgs (Cfg m)))(''ip'' \<mapsto> Some p)"
proof -
  let ?k = "(parseKernelArgs (KernelArgs (Cfg m)))(''ip'' \<mapsto> Some p)"
  have "kargs_ok ?k" using assms(3) by (intro kargs_ok_upd parse_ok)
  with assms(4) have "parseKernelArgs (kernelArgs_String (map_order e ?k) ?k) = ?k"
    by (intro parse_String)
  with assms(1,2) show ?thesis
    by (intro exI [of _ "kernelArgs_String (map_order e ?k) ?k"])
      (simp add: setupKernelArgs_def step_defs Let_def)
qed

definition static_iface :: NetworkInterface where
  "static_iface = \<lparr>StaticConfiguration = Some \<lparr>MacAddress = ''02:00:00:00:00:01'', HostDevName = ''tap0'',
       StaticIP = Some \<lparr>IPAddr = \<lparr>net_IP = [10, 0, 0, 2], net_Mask = [255, 255, 255, 0]\<rparr>,
         Gateway = [10, 0, 0, 1], Nameservers = [''8.8.8.8''], ip_IfName = ''eth0''\<rparr>\<rparr>,
     CNIConfiguration = None, AllowMMDS = True, InRateLimiter = None, OutRateLimiter = None\<rparr>"

theorem setupKernelArgs_sets_ip_witness:
  "\<exists>args. setupKernelArgs (calm_env\<lparr>map_order := (\<lambda>k. [''ip'', ''quiet'', ''console''])\<rparr>)
       (calm_machine\<lparr>Cfg := calm_config\<lparr>NetworkInterfaces := [static_iface]\<rparr>\<rparr>)
     = (Returned None, calm_machine\<lparr>Cfg := calm_config\<lparr>NetworkInterfaces := [static_iface], KernelArgs := args\<rparr>\<rparr>)
   \<and> parseKernelArgs args ''ip'' = Some (Some ''10.0.0.2::10.0.0.1:255.255.255.0::eth0:off:8.8.8.8::'')"
proof -
  let ?e = "calm_env\<lparr>map_order := (\<lambda>k. [''ip'', ''quiet'', ''console''])\<rparr>"
  let ?m = "calm_machine\<lparr>Cfg := calm_config\<lparr>NetworkInterfaces := [static_iface]\<rparr>\<rparr>"
  let ?p = "''10.0.0.2::10.0.0.1:255.255.255.0::eth0:off:8.8.8.8::''"
  have 1: "staticIPInterface (NetworkInterfaces (Cfg ?m)) = Some 0"
    and 2: "ipBootParam (static_ip (NetworkInterfaces (Cfg ?m)) 0) = Inr ?p"
    and 3: "arg_ok ''ip'' (Some ?p)"
    by code_simp+
  have f: "map parse_field (GoString.fields ''console=ttyS0 quiet'') = [(''console'', Some ''ttyS0''), (''quiet'', None)]"
    by code_simp
  have "KernelArgs (Cfg ?m) = ''console=ttyS0 quiet''" by (simp add: calm_config_def)
  then have k: "parseKernelArgs (KernelArgs (Cfg ?m)) = [''console'' \<mapsto> Some ''ttyS0'', ''quiet'' \<mapsto> None]"
    using f by (simp add: parseKernelArgs_map_of fun_upd_twist)
  have 4: "key_order ((parseKernelArgs (KernelArgs (Cfg ?m)))(''ip'' \<mapsto> Some ?p))
      (map_order ?e ((parseKernelArgs (KernelArgs (Cfg ?m)))(''ip'' \<mapsto> Some ?p)))"
    unfolding k by (auto simp: key_order_def)
  from setupKernelArgs_sets_ip [OF 1 2 3 4] show ?thesis by auto
qed

subsection \<open>Requests of the start handlers\<close>

definition iface_request :: "nat \<times> NetworkInterface \<Rightarrow> client_operation \<Rightarrow> bool" where
  "iface_request ni op \<longleftrightarrow>
     (case ni of (n, iface) \<Rightarrow>
       PathPattern op = ''/network-interfaces/{iface_id}''
     \<and> PathParams (Params op) = [(''iface_id'', itoa (int n))]
     \<and> (\<exists>sc. StaticConfiguration iface = Some sc
         \<and> Body (Params op) = Some (BNetworkInterface
             \<lparr>GuestMac = MacAddress sc, ani_HostDevName = Some (HostDevName sc),
              ani_IfaceID = Some (itoa (int n)), RxRateLimiter = InRateLimiter iface,
              TxRateLimiter = OutRateLimiter iface\<rparr>)))"

lemma createNetworkInterface_request:
  assumes "createNetworkInterface e ctx iface (int n) m = (Returned None, m')"
  shows "\<exists>op. iface_request (n, iface) op \<and> m' = m\<lparr>world := world m @ [EvApi op]\<rparr>"
proof (cases "StaticConfiguration iface")
  case None
  with assms show ?thesis by (simp add: createNetworkInterface_def step_defs)
next
  case (Some sc)
  define body where "body = \<lparr>GuestMac = MacAddress sc, ani_HostDevName = Some (HostDevName sc),
      ani_IfaceID = Some (itoa (int n)), RxRateLimiter = InRateLimiter iface,
      TxRateLimiter = OutRateLimiter iface\<rparr>"
  let ?call = "PutGuestNetworkInterfaceByID e (client m) ctx (itoa (int n)) body []"
  have "createNetworkInterface e ctx iface (int n) m = api_step ?call m"
    using Some by (simp add: createNetworkInterface_def Let_def body_def go_String_def)
  with assms have "m' = m\<lparr>world := snd (?call (world m))\<rparr>" by (simp add: api_step_None)
  moreover obtain op where "snd (?call (world m)) = world m @ [EvApi op]" "iface_request (n, iface) op"
    using Some by (simp add: api_call_defs iface_request_def body_def)
  ultimately show ?thesis by auto
qed

lemma createNetworkInterfaces_from_requests:
  "createNetworkInterfaces_from e ctx i ifaces m = (Returned None, m') \<Longrightarrow>
     \<exists>ops. list_all2 iface_request (enumerate (Suc i) ifaces) ops
       \<and> m' = m\<lparr>world := world m @ map EvApi ops\<rparr>"
proof (induction ifaces arbitrary: i m)
  case Nil
  then show ?case by (auto simp: step_defs)
next
  case (Cons iface ifaces)
  have i: "int i + 1 = int (Suc i)" by simp
  have "and_then (createNetworkInterface e ctx iface (int (Suc i)) m)
      (createNetworkInterfaces_from e ctx (Suc i) ifaces) = (Returned None, m')"
    using Cons.prems unfolding i [symmetric] by simp
  then obtain m1 where 1: "createNetworkInterface e ctx iface (int (Suc i)) m = (Returned None, m1)"
    and 2: "createNetworkInterfaces_from e ctx (Suc i) ifaces m1 = (Returned None, m')"
    unfolding and_then_None by blast
  from createNetworkInterface_request [OF 1] obtain op where
    op: "iface_request (Suc i, iface) op" "m1 = m\<lparr>world := world m @ [EvApi op]\<rparr>" by blast
  from Cons.IH [OF 2] obtain ops where
    "list_all2 iface_request (enumerate (Suc (Suc i)) ifaces) ops"
    "m' = m1\<lparr>world := world m1 @ map EvApi ops\<rparr>" by blast
  with op show ?case by (intro exI [of _ "op # ops"]) simp
qed

text \<open>C25: When the network interfaces of a machine have been created, Firecracker has been sent one
  request per interface, in the order of the configuration, with the ids 1, 2, 3 and so on, and
  each with the MAC address, the device and the two rate limiters of its interface.\<close>

theorem createNetworkInterfaces_requests:
  assumes "createNetworkInterfaces e ctx ifaces m = (Returned None, m')"
  shows "\<exists>ops. list_all2 iface_request (enumerate 1 ifaces) ops
    \<and> m' = m\<lparr>world := world m @ map EvApi ops\<rparr>"
  using createNetworkInterfaces_from_requests [of e ctx 0 ifaces m m'] assms
  by (simp add: createNetworkInterfaces_def)

theorem createNetworkInterfaces_requests_witness:
  "\<exists>m' ops. createNetworkInterfaces calm_env CtxBackground [static_iface, static_iface] calm_machine
       = (Returned None, m')
     \<and> length ops = 2 \<and> world m' = map EvApi ops
     \<and> list_all2 iface_request [(1, static_iface), (2, static_iface)] ops"
proof -
  have "fst (createNetworkInterfaces calm_env CtxBackground [static_iface, static_iface] calm_machine)
      = Returned None" by code_simp
  then obtain m' where r: "createNetworkInterfaces calm_env CtxBackground [static_iface, static_iface]
      calm_machine = (Returned None, m')" by (metis prod.collapse)
  from createNetworkInterfaces_requests [OF r] obtain ops where
    o: "list_all2 iface_request [(1, static_iface), (2, static_iface)] ops"
    and w: "m' = calm_machine\<lparr>world := world calm_machine @ map EvApi ops\<rparr>"
    by (auto simp: numeral_eq_Suc)
  have "length ops = 2" using list_all2_lengthD [OF o] by simp
  with r o w show ?thesis by (auto simp: calm_machine_def)
qed

lemma mmds_ifaces_filter:
  "mmds_ifaces i ifaces =
     map (\<lambda>(n, iface). itoa (int n)) (filter (\<lambda>(n, iface). AllowMMDS iface) (enumerate (Suc i) ifaces))"
  by (induction ifaces arbitrary: i) (auto simp: add.commute)

text \<open>The metadata service is configured for exactly the interfaces that allow it, under the ids
  that \<open>createNetworkInterfaces\<close> gave them, with version 2 only if that was asked for; if no
  interface allows it, nothing is sent.\<close>

lemma setMmdsConfig_request:
  "(if filter AllowMMDS ifaces = [] then setMmdsConfig e ctx address ifaces version m = (Returned None, m)
    else \<exists>op. world (snd (setMmdsConfig e ctx address ifaces version m)) = world m @ [EvApi op]
      \<and> PathPattern op = ''/mmds/config''
      \<and> Body (Params op) = Some (BMmdsConfig
          \<lparr>IPV4Address = map_option IP_String address,
           mc_NetworkInterfaces =
             map (\<lambda>(n, iface). itoa (int n)) (filter (\<lambda>(n, iface). AllowMMDS iface) (enumerate 1 ifaces)),
           mc_Version = Some (if version = ''V2'' then ''V2'' else ''V1'')\<rparr>))"
proof -
  have e: "mmds_ifaces i ifaces = [] \<longleftrightarrow> filter AllowMMDS ifaces = []" for i
    by (induction ifaces arbitrary: i) auto
  show ?thesis
    by (cases address)
      (auto simp: setMmdsConfig_def Let_def step_defs e mmds_ifaces_filter [of 0, symmetric, simplified]
        MMDSv1_def MMDSv2_def go_String_def api_step_def do_api_def api_call_defs op_submit_def
        split: prod.splits)
qed

definition drive_request :: "Drive \<Rightarrow> client_operation \<Rightarrow> bool" where
  "drive_request d op \<longleftrightarrow>
     PathPattern op = ''/drives/{drive_id}'' \<and> Body (Params op) = Some (BDrive d)
   \<and> PathParams (Params op) = [(''drive_id'', StringValue (DriveID d))]"

lemma attachDrive_request:
  "\<exists>op. drive_request d op \<and> snd (attachDrive e ctx d m) = m\<lparr>world := world m @ [EvApi op]\<rparr>"
proof -
  let ?call = "PutGuestDriveByID e (client m) ctx (StringValue (DriveID d)) d []"
  have "\<exists>op. (\<forall>tr. snd (?call tr) = tr @ [EvApi op]) \<and> drive_request d op"
    by (simp add: drive_request_def api_call_defs)
  then obtain op where "drive_request d op" "\<And>tr. snd (?call tr) = tr @ [EvApi op]" by blast
  then show ?thesis
    by (intro exI [of _ op]) (simp add: attachDrive_def api_step_def do_api_def split_beta)
qed

text \<open>Attaching drives sends one request per drive in their order, each with the whole drive and
  under its id, up to the first that is refused; it succeeds only when all have been sent.\<close>

lemma attachDrives_requests:
  "\<exists>n ops. list_all2 drive_request (take n ds) ops
     \<and> snd (attachDrives e ctx ds m) = m\<lparr>world := world m @ map EvApi ops\<rparr>
     \<and> (if fst (attachDrives e ctx ds m) = Returned None then n = length ds else 0 < n \<and> n \<le> length ds)"
proof (induction ds arbitrary: m)
  case Nil
  then show ?case by (auto simp: step_defs)
next
  case (Cons d ds)
  obtain op where op: "drive_request d op" "snd (attachDrive e ctx d m) = m\<lparr>world := world m @ [EvApi op]\<rparr>"
    using attachDrive_request by blast
  show ?case
  proof (cases "fst (attachDrive e ctx d m) = Returned None")
    case True
    define m1 where "m1 = m\<lparr>world := world m @ [EvApi op]\<rparr>"
    have a: "attachDrives e ctx (d # ds) m = attachDrives e ctx ds m1"
      using True op(2) by (cases "attachDrive e ctx d m") (simp add: m1_def)
    obtain n ops where "list_all2 drive_request (take n ds) ops"
      "snd (attachDrives e ctx ds m1) = m1\<lparr>world := world m1 @ map EvApi ops\<rparr>"
      "if fst (attachDrives e ctx ds m1) = Returned None then n = length ds else 0 < n \<and> n \<le> length ds"
      using Cons.IH [of m1] by blast
    with a op(1) show ?thesis
      by (intro exI [of _ "Suc n"] exI [of _ "op # ops"]) (simp add: m1_def split: if_splits)
  next
    case False
    then have "attachDrives e ctx (d # ds) m = attachDrive e ctx d m"
      by (cases "attachDrive e ctx d m") (auto simp: and_then_def split: outcome.split option.split)
    with False op show ?thesis by (intro exI [of _ "Suc 0"] exI [of _ "[op]"]) simp
  qed
qed

subsection \<open>Requests of the user\<close>

text \<open>Updating the rate limits of an interface sends the inbound limiter in both places: the
  outbound limiter that the caller gives decides only whether there is one.\<close>

lemma UpdateRateLimit_sends_inbound:
  "\<exists>op. world (snd (UpdateGuestNetworkInterfaceRateLimit e ctx i limits [] m)) = world m @ [EvApi op]
     \<and> PathParams (Params op) = [(''iface_id'', i)]
     \<and> Body (Params op) = Some (BPartialNetworkInterface
         \<lparr>pni_IfaceID = Some i, pni_RxRateLimiter = rls_InRateLimiter limits,
          pni_TxRateLimiter =
            (if rls_OutRateLimiter limits = None then None else rls_InRateLimiter limits)\<rparr>)"
proof -
  define body where "body = \<lparr>pni_IfaceID = Some i, pni_RxRateLimiter = rls_InRateLimiter limits,
      pni_TxRateLimiter = (if rls_OutRateLimiter limits = None then None else rls_InRateLimiter limits)\<rparr>"
  let ?call = "PatchGuestNetworkInterfaceByID e (client m) ctx i body []"
  have "UpdateGuestNetworkInterfaceRateLimit e ctx i limits [] m = api_step ?call m"
    by (simp add: UpdateGuestNetworkInterfaceRateLimit_def Let_def body_def)
  moreover obtain op where "snd (?call (world m)) = world m @ [EvApi op]"
    "PathParams (Params op) = [(''iface_id'', i)]" "Body (Params op) = Some (BPartialNetworkInterface body)"
    by (simp add: api_call_defs)
  ultimately show ?thesis
    by (intro exI [of _ op]) (auto simp: api_step_def do_api_def body_def split: prod.split)
qed

text \<open>A jailed configuration passes validation exactly when it has a root file system (an initrd or
  a root drive) and its chroot strategy, executable, id, user, group and NUMA node are all given.\<close>

lemma JailerConfigValidation_iff:
  "fst (JailerConfigValidation m) = Returned None \<longleftrightarrow>
     (case JailerCfg (Cfg m) of
        None \<Rightarrow> True
      | Some j \<Rightarrow> (if InitrdPath (Cfg m) = '''' then list_ex is_root (Drives (Cfg m)) else True)
          \<and> ChrootStrategy j \<noteq> None \<and> ExecFile j \<noteq> '''' \<and> ID j \<noteq> ''''
          \<and> GID j \<noteq> None \<and> UID j \<noteq> None \<and> NumaNode j \<noteq> None)"
proof -
  have "find_first is_root ds \<noteq> None \<longleftrightarrow> list_ex is_root ds" for ds
    by (simp add: find_first_None_iff list_ex_iff)
  then show ?thesis
    by (auto simp: JailerConfigValidation_def Let_def step_defs split: option.split)
qed

text \<open>A second \<open>Shutdown\<close> panics: it closes a channel that the first one has closed.\<close>

lemma Shutdown_twice_panics:
  assumes "Shutdown e ctx m = (out, m')"
  shows "shutdownCh m' \<and> Shutdown e' ctx' m' = (Panicked CloseOfClosedChannel, m')"
proof -
  have s: "shutdownCh (snd (sendCtrlAltDel e ctx m)) = shutdownCh m" for m
    by (simp add: sendCtrlAltDel_def api_step_def do_api_def split: prod.split)
  have t: "shutdownCh (snd (StopVMM e m)) = shutdownCh m" for m
    by (auto simp: StopVMM_def stopVMM_def do_sys_def step_defs split: option.split)
  let ?m1 = "m\<lparr>shutdownCh := True\<rparr>"
  have "m' = m \<and> shutdownCh m \<or> m' = snd (sendCtrlAltDel e ctx ?m1) \<or> m' = snd (StopVMM e ?m1)"
    using assms unfolding Shutdown_def Let_def by (metis prod.inject prod.collapse)
  then have "shutdownCh m'" using s [of ?m1] t [of ?m1] by auto
  then show ?thesis by (simp add: Shutdown_def)
qed

lemma Shutdown_twice_panics_witness:
  "\<exists>out m'. Shutdown calm_env CtxBackground calm_machine = (out, m')
     \<and> Shutdown calm_env CtxBackground m' = (Panicked CloseOfClosedChannel, m')"
proof -
  obtain out m' where s: "Shutdown calm_env CtxBackground calm_machine = (out, m')" by fastforce
  from Shutdown_twice_panics [OF s] s show ?thesis by blast
qed

end
