(* ===== verification/Validation.thy ===== *)
theory Validation
  imports World
begin

text \<open>
  The \<open>Validate\<close> methods that are generated for the types of \<open>client/models\<close>. The client does not call
  them before it sends a body; they state what the API takes, and the theory of requests proves that
  what the SDK sends passes them. The checks of the go-openapi packages (\<open>validate\<close>, \<open>swag\<close>,
  \<open>errors\<close>) are a parameter \<open>validation_lib\<close>; \<open>validate_doc\<close> is their documented behaviour. Each
  method of the code is a definition with the same name, prefixed with its type; next to it stands a
  predicate that says what the type demands, and a lemma that the method decides it. A method may
  panic when it reads a nil pointer, so its result is a sum.
\<close>

subsection \<open>The library\<close>

text \<open>
  What a check sees of the value it is given as an interface: a pointer, a string, or a slice of some
  length. Slices that are empty but not nil do not occur in the SDK; an empty list stands for nil.
\<close>

datatype go_data = NilPointer | Pointer | StringData string | SliceData nat

datatype verror = ValidationError nat | CompositeValidationError "verror list"

record validation_lib =
  Required :: "string \<Rightarrow> string \<Rightarrow> go_data \<Rightarrow> verror option"
  Enum :: "string \<Rightarrow> string \<Rightarrow> string \<Rightarrow> string list \<Rightarrow> verror option"
  MinimumInt :: "string \<Rightarrow> string \<Rightarrow> int64 \<Rightarrow> int \<Rightarrow> bool \<Rightarrow> verror option"
  MaximumInt :: "string \<Rightarrow> string \<Rightarrow> int64 \<Rightarrow> int \<Rightarrow> bool \<Rightarrow> verror option"
  IsZero :: "go_data \<Rightarrow> bool"
  ValidateName :: "verror \<Rightarrow> string \<Rightarrow> verror"

definition zero_data :: "go_data \<Rightarrow> bool" where
  "zero_data d = (case d of NilPointer \<Rightarrow> True | Pointer \<Rightarrow> False | StringData s \<Rightarrow> s = '''' | SliceData n \<Rightarrow> n = 0)"

definition validate_doc :: "validation_lib \<Rightarrow> bool" where
  "validate_doc v \<longleftrightarrow>
     (\<forall>p l d. Required v p l d = None \<longleftrightarrow> \<not> zero_data d)
   \<and> (\<forall>p l s xs. Enum v p l s xs = None \<longleftrightarrow> s \<in> set xs)
   \<and> (\<forall>p l i k. MinimumInt v p l i k False = None \<longleftrightarrow> k \<le> sint i)
   \<and> (\<forall>p l i k. MaximumInt v p l i k False = None \<longleftrightarrow> sint i \<le> k)
   \<and> (\<forall>d. IsZero v d = zero_data d)"

text \<open>A library for the examples.\<close>

definition calm_lib :: validation_lib where
  "calm_lib =
     \<lparr>Required = (\<lambda>p l d. if zero_data d then Some (ValidationError 1) else None),
      Enum = (\<lambda>p l s xs. if s \<in> set xs then None else Some (ValidationError 2)),
      MinimumInt = (\<lambda>p l i k ex. if k \<le> sint i then None else Some (ValidationError 3)),
      MaximumInt = (\<lambda>p l i k ex. if sint i \<le> k then None else Some (ValidationError 4)),
      IsZero = zero_data,
      ValidateName = (\<lambda>err n. err)\<rparr>"

lemma calm_lib_doc: "validate_doc calm_lib"
  by (simp add: validate_doc_def calm_lib_def)

subsection \<open>The pattern of the generated code\<close>

type_synonym vresult = "go_panic + verror option"

definition ptr :: "'a option \<Rightarrow> go_data" where
  "ptr p = (case p of None \<Rightarrow> NilPointer | Some x \<Rightarrow> Pointer)"

definition first_error :: "vresult \<Rightarrow> vresult \<Rightarrow> vresult" where
  "first_error r r' = bind_sum r (\<lambda>err. case err of Some x \<Rightarrow> Inr (Some x) | None \<Rightarrow> r')"

text \<open>\<open>Validate\<close> collects the errors of all its fields.\<close>

fun collect :: "vresult list \<Rightarrow> go_panic + verror list" where
  "collect [] = Inr []"
| "collect (r # rs) =
     bind_sum r (\<lambda>err. bind_sum (collect rs) (\<lambda>res.
       Inr (case err of None \<Rightarrow> res | Some x \<Rightarrow> x # res)))"

definition validate_all :: "vresult list \<Rightarrow> vresult" where
  "validate_all rs = bind_sum (collect rs) (\<lambda>res.
     Inr (if length res > 0 then Some (CompositeValidationError res) else None))"

text \<open>The error of a member gets the member's name if it is a plain validation error.\<close>

definition rename :: "validation_lib \<Rightarrow> string \<Rightarrow> verror \<Rightarrow> verror" where
  "rename v name err =
     (case err of ValidationError n \<Rightarrow> ValidateName v err name | CompositeValidationError es \<Rightarrow> err)"

definition validate_sub :: "validation_lib \<Rightarrow> string \<Rightarrow> ('a \<Rightarrow> vresult) \<Rightarrow> 'a option \<Rightarrow> vresult" where
  "validate_sub v name validate p =
    (if IsZero v (ptr p) then Inr None
     else case p of
            None \<Rightarrow> Inr None
          | Some x \<Rightarrow> bind_sum (validate x) (\<lambda>err. Inr (map_option (rename v name) err)))"

fun validate_items ::
  "validation_lib \<Rightarrow> string \<Rightarrow> ('a \<Rightarrow> vresult) \<Rightarrow> nat \<Rightarrow> 'a option list \<Rightarrow> vresult" where
  "validate_items v name validate i [] = Inr None"
| "validate_items v name validate i (p # ps) =
     first_error (validate_sub v (name @ ''.'' @ itoa (int i)) validate p)
       (validate_items v name validate (Suc i) ps)"

subsection \<open>What a check decides\<close>

definition decides :: "vresult \<Rightarrow> bool \<Rightarrow> bool" where
  "decides r b \<longleftrightarrow> (\<exists>err. r = Inr err \<and> (err = None \<longleftrightarrow> b))"

definition decides_list :: "vresult list \<Rightarrow> bool \<Rightarrow> bool" where
  "decides_list rs b \<longleftrightarrow> (\<exists>es. collect rs = Inr es \<and> (es = [] \<longleftrightarrow> b))"

definition has :: "'a option \<Rightarrow> ('a \<Rightarrow> bool) \<Rightarrow> bool" where
  "has p P = (case p of None \<Rightarrow> False | Some x \<Rightarrow> P x)"

named_theorems decides_intros \<open>checks and what they decide\<close>

lemma decides_list_intros [decides_intros]:
  "decides r b \<Longrightarrow> decides_list [r] b"
  "decides r b \<Longrightarrow> decides_list (r' # rs) c \<Longrightarrow> decides_list (r # r' # rs) (b \<and> c)"
  by (auto simp: decides_def decides_list_def split: option.splits)

lemma decides_all: "decides_list rs b \<Longrightarrow> decides (validate_all rs) b"
  by (auto simp: decides_def decides_list_def validate_all_def)

lemma decides_Required [decides_intros]:
  "validate_doc v \<Longrightarrow> decides (Inr (Required v p l (ptr x))) (x \<noteq> None)"
  "validate_doc v \<Longrightarrow> decides (Inr (Required v p l (SliceData (length xs)))) (xs \<noteq> [])"
  by (auto simp: decides_def validate_doc_def zero_data_def ptr_def split: option.splits)

lemma decides_values [decides_intros]:
  "validate_doc v \<Longrightarrow> decides (Inr (Enum v p l s xs)) (s \<in> set xs)"
  "validate_doc v \<Longrightarrow> decides (Inr (MinimumInt v p l i k False)) (k \<le> sint i)"
  "validate_doc v \<Longrightarrow> decides (Inr (MaximumInt v p l i k False)) (sint i \<le> k)"
  by (simp_all add: decides_def validate_doc_def)

lemma decides_first_error [decides_intros]:
  "decides r b \<Longrightarrow> decides r' c \<Longrightarrow> decides (first_error r r') (b \<and> c)"
  by (auto simp: decides_def first_error_def split: option.splits)

lemma decides_optional [decides_intros]:
  "validate_doc v \<Longrightarrow> (\<And>x. decides (f x) (P x)) \<Longrightarrow>
     decides (if IsZero v (ptr p) then Inr None else bind_sum (deref p) f) (pred_option P p)"
  by (cases p) (auto simp: decides_def validate_doc_def zero_data_def ptr_def)

lemma Required_ptr:
  "validate_doc v \<Longrightarrow>
     (case p of None \<Rightarrow> \<exists>err. Required v path l (ptr p) = Some err | Some x \<Rightarrow> Required v path l (ptr p) = None)"
  by (simp add: validate_doc_def zero_data_def ptr_def split: option.split flip: not_None_eq)

lemma decides_needed [decides_intros]:
  "validate_doc v \<Longrightarrow> (\<And>x. decides (f x) (P x)) \<Longrightarrow>
     decides (first_error (Inr (Required v path l (ptr p))) (bind_sum (deref p) f)) (has p P)"
  using Required_ptr [where v = v and p = p and path = path and l = l]
  by (cases p) (auto simp: decides_def has_def first_error_def)

lemma decides_string [decides_intros]:
  "validate_doc v \<Longrightarrow> decides r b \<Longrightarrow>
     decides (if IsZero v (StringData s) then Inr None else r) (s = '''' \<or> b)"
  by (auto simp: decides_def validate_doc_def zero_data_def)

lemma decides_renamed [decides_intros]:
  "decides r b \<Longrightarrow> decides (bind_sum r (\<lambda>err. Inr (map_option f err))) b"
  by (auto simp: decides_def)

lemma decides_sub [decides_intros]:
  "validate_doc v \<Longrightarrow> (\<And>x. decides (f x) (P x)) \<Longrightarrow> decides (validate_sub v name f p) (pred_option P p)"
  by (cases p) (auto simp: validate_sub_def decides_def validate_doc_def zero_data_def ptr_def,
      metis bind_sum_simps(2) map_option_is_None)

lemma decides_items:
  assumes "validate_doc v" and "\<And>x. decides (f x) (P x)"
  shows "decides (validate_items v name f i ps) (list_all (pred_option P) ps)"
proof (induction ps arbitrary: i)
  case Nil
  then show ?case by (simp add: decides_def)
next
  case (Cons p ps)
  then show ?case by (auto intro!: decides_first_error decides_sub assms)
qed

lemma decides_slice [decides_intros]:
  assumes "validate_doc v" and "\<And>x. decides (f x) (P x)"
  shows "decides (if IsZero v (SliceData (length ps)) then Inr None else validate_items v name f 0 ps)
    (list_all (pred_option P) ps)"
  using assms decides_items [OF assms, of name]
  by (cases "ps = []") (auto simp: validate_doc_def zero_data_def decides_def)

subsection \<open>Enumerations\<close>

definition driveTypeCacheTypePropEnum :: "string list" where
  "driveTypeCacheTypePropEnum = [''Unsafe'', ''Writeback'']"

definition driveTypeIoEnginePropEnum :: "string list" where
  "driveTypeIoEnginePropEnum = [''Sync'', ''Async'']"

definition loggerTypeLevelPropEnum :: "string list" where
  "loggerTypeLevelPropEnum = [''Error'', ''Warning'', ''Info'', ''Debug'']"

definition mmdsConfigTypeVersionPropEnum :: "string list" where
  "mmdsConfigTypeVersionPropEnum = [''V1'', ''V2'']"

definition vmTypeStatePropEnum :: "string list" where
  "vmTypeStatePropEnum = [''Paused'', ''Resumed'']"

definition instanceActionInfoTypeActionTypePropEnum :: "string list" where
  "instanceActionInfoTypeActionTypePropEnum = [''FlushMetrics'', ''InstanceStart'', ''SendCtrlAltDel'']"

definition memoryBackendTypeBackendTypePropEnum :: "string list" where
  "memoryBackendTypeBackendTypePropEnum = [''File'', ''Uffd'']"

definition snapshotCreateParamsTypeSnapshotTypePropEnum :: "string list" where
  "snapshotCreateParamsTypeSnapshotTypePropEnum = [''Full'', ''Diff'']"

definition instanceInfoTypeStatePropEnum :: "string list" where
  "instanceInfoTypeStatePropEnum = [''Not started'', ''Running'', ''Paused'']"

definition cpuTemplateEnum :: "string list" where
  "cpuTemplateEnum = [''C3'', ''T2'', ''T2S'', ''T2CL'', ''T2A'', ''V1N1'', ''None'']"

lemmas enum_defs = driveTypeCacheTypePropEnum_def driveTypeIoEnginePropEnum_def loggerTypeLevelPropEnum_def mmdsConfigTypeVersionPropEnum_def vmTypeStatePropEnum_def instanceActionInfoTypeActionTypePropEnum_def memoryBackendTypeBackendTypePropEnum_def snapshotCreateParamsTypeSnapshotTypePropEnum_def instanceInfoTypeStatePropEnum_def cpuTemplateEnum_def

subsection \<open>The methods of the types\<close>

definition CPUTemplate_Validate :: "validation_lib \<Rightarrow> string \<Rightarrow> vresult" where
  "CPUTemplate_Validate v m = Inr (Enum v '''' ''body'' m cpuTemplateEnum)"

lemma CPUTemplate_decides [decides_intros]:
  "validate_doc v \<Longrightarrow> decides (CPUTemplate_Validate v s) (s \<in> set cpuTemplateEnum)"
  unfolding CPUTemplate_Validate_def by (rule decides_values)

definition CPUConfig_Validate :: "validation_lib \<Rightarrow> string \<Rightarrow> vresult" where
  "CPUConfig_Validate v m = validate_all []"

definition Error_Validate :: "validation_lib \<Rightarrow> ApiError \<Rightarrow> vresult" where
  "Error_Validate v m = validate_all []"

definition TokenBucket_validateOneTimeBurst :: "validation_lib \<Rightarrow> TokenBucket \<Rightarrow> vresult" where
  "TokenBucket_validateOneTimeBurst v m =
    (if IsZero v (ptr (OneTimeBurst m)) then Inr None
     else bind_sum (deref (OneTimeBurst m)) (\<lambda>i. Inr (MinimumInt v ''one_time_burst'' ''body'' i 0 False)))"

definition TokenBucket_validateRefillTime :: "validation_lib \<Rightarrow> TokenBucket \<Rightarrow> vresult" where
  "TokenBucket_validateRefillTime v m =
    (first_error (Inr (Required v ''refill_time'' ''body'' (ptr (RefillTime m))))
     (bind_sum (deref (RefillTime m)) (\<lambda>i. Inr (MinimumInt v ''refill_time'' ''body'' i 0 False))))"

definition TokenBucket_validateSize :: "validation_lib \<Rightarrow> TokenBucket \<Rightarrow> vresult" where
  "TokenBucket_validateSize v m =
    (first_error (Inr (Required v ''size'' ''body'' (ptr (Size m))))
     (bind_sum (deref (Size m)) (\<lambda>i. Inr (MinimumInt v ''size'' ''body'' i 0 False))))"

definition TokenBucket_Validate :: "validation_lib \<Rightarrow> TokenBucket \<Rightarrow> vresult" where
  "TokenBucket_Validate v m =
     validate_all
      [TokenBucket_validateOneTimeBurst v m,
       TokenBucket_validateRefillTime v m,
       TokenBucket_validateSize v m]"

definition TokenBucket_valid :: "TokenBucket \<Rightarrow> bool" where
  "TokenBucket_valid m \<longleftrightarrow>
     pred_option (\<lambda>i. 0 \<le> sint i) (OneTimeBurst m) \<and>
     has (RefillTime m) (\<lambda>i. 0 \<le> sint i) \<and>
     has (Size m) (\<lambda>i. 0 \<le> sint i)"

lemma TokenBucket_decides [decides_intros]:
  "validate_doc v \<Longrightarrow> decides (TokenBucket_Validate v m) (TokenBucket_valid m)"
  unfolding TokenBucket_Validate_def TokenBucket_valid_def
  by (rule decides_all)
    (intro decides_intros; simp only: TokenBucket_validateOneTimeBurst_def TokenBucket_validateRefillTime_def TokenBucket_validateSize_def; intro decides_intros; assumption?)

definition RateLimiter_validateBandwidth :: "validation_lib \<Rightarrow> RateLimiter \<Rightarrow> vresult" where
  "RateLimiter_validateBandwidth v m =
    (validate_sub v ''bandwidth'' (TokenBucket_Validate v) (Bandwidth m))"

definition RateLimiter_validateOps :: "validation_lib \<Rightarrow> RateLimiter \<Rightarrow> vresult" where
  "RateLimiter_validateOps v m =
    (validate_sub v ''ops'' (TokenBucket_Validate v) (Ops m))"

definition RateLimiter_Validate :: "validation_lib \<Rightarrow> RateLimiter \<Rightarrow> vresult" where
  "RateLimiter_Validate v m =
     validate_all
      [RateLimiter_validateBandwidth v m,
       RateLimiter_validateOps v m]"

definition RateLimiter_valid :: "RateLimiter \<Rightarrow> bool" where
  "RateLimiter_valid m \<longleftrightarrow>
     pred_option TokenBucket_valid (Bandwidth m) \<and>
     pred_option TokenBucket_valid (Ops m)"

lemma RateLimiter_decides [decides_intros]:
  "validate_doc v \<Longrightarrow> decides (RateLimiter_Validate v m) (RateLimiter_valid m)"
  unfolding RateLimiter_Validate_def RateLimiter_valid_def
  by (rule decides_all)
    (intro decides_intros; simp only: RateLimiter_validateBandwidth_def RateLimiter_validateOps_def; intro decides_intros; assumption?)

definition Drive_validateCacheType :: "validation_lib \<Rightarrow> Drive \<Rightarrow> vresult" where
  "Drive_validateCacheType v m =
    (if IsZero v (ptr (CacheType m)) then Inr None
     else bind_sum (deref (CacheType m)) (\<lambda>s. Inr (Enum v ''cache_type'' ''body'' s driveTypeCacheTypePropEnum)))"

definition Drive_validateDriveID :: "validation_lib \<Rightarrow> Drive \<Rightarrow> vresult" where
  "Drive_validateDriveID v m =
    (Inr (Required v ''drive_id'' ''body'' (ptr (DriveID m))))"

definition Drive_validateIoEngine :: "validation_lib \<Rightarrow> Drive \<Rightarrow> vresult" where
  "Drive_validateIoEngine v m =
    (if IsZero v (ptr (IoEngine m)) then Inr None
     else bind_sum (deref (IoEngine m)) (\<lambda>s. Inr (Enum v ''io_engine'' ''body'' s driveTypeIoEnginePropEnum)))"

definition Drive_validateIsReadOnly :: "validation_lib \<Rightarrow> Drive \<Rightarrow> vresult" where
  "Drive_validateIsReadOnly v m =
    (Inr (Required v ''is_read_only'' ''body'' (ptr (IsReadOnly m))))"

definition Drive_validateIsRootDevice :: "validation_lib \<Rightarrow> Drive \<Rightarrow> vresult" where
  "Drive_validateIsRootDevice v m =
    (Inr (Required v ''is_root_device'' ''body'' (ptr (IsRootDevice m))))"

definition Drive_validatePathOnHost :: "validation_lib \<Rightarrow> Drive \<Rightarrow> vresult" where
  "Drive_validatePathOnHost v m =
    (Inr (Required v ''path_on_host'' ''body'' (ptr (PathOnHost m))))"

definition Drive_validateRateLimiter :: "validation_lib \<Rightarrow> Drive \<Rightarrow> vresult" where
  "Drive_validateRateLimiter v m =
    (validate_sub v ''rate_limiter'' (RateLimiter_Validate v) (drv_RateLimiter m))"

definition Drive_Validate :: "validation_lib \<Rightarrow> Drive \<Rightarrow> vresult" where
  "Drive_Validate v m =
     validate_all
      [Drive_validateCacheType v m,
       Drive_validateDriveID v m,
       Drive_validateIoEngine v m,
       Drive_validateIsReadOnly v m,
       Drive_validateIsRootDevice v m,
       Drive_validatePathOnHost v m,
       Drive_validateRateLimiter v m]"

definition Drive_valid :: "Drive \<Rightarrow> bool" where
  "Drive_valid m \<longleftrightarrow>
     pred_option (\<lambda>s. s \<in> set driveTypeCacheTypePropEnum) (CacheType m) \<and>
     DriveID m \<noteq> None \<and>
     pred_option (\<lambda>s. s \<in> set driveTypeIoEnginePropEnum) (IoEngine m) \<and>
     IsReadOnly m \<noteq> None \<and>
     IsRootDevice m \<noteq> None \<and>
     PathOnHost m \<noteq> None \<and>
     pred_option RateLimiter_valid (drv_RateLimiter m)"

lemma Drive_decides [decides_intros]:
  "validate_doc v \<Longrightarrow> decides (Drive_Validate v m) (Drive_valid m)"
  unfolding Drive_Validate_def Drive_valid_def
  by (rule decides_all)
    (intro decides_intros; simp only: Drive_validateCacheType_def Drive_validateDriveID_def Drive_validateIoEngine_def Drive_validateIsReadOnly_def Drive_validateIsRootDevice_def Drive_validatePathOnHost_def Drive_validateRateLimiter_def; intro decides_intros; assumption?)

definition PartialDrive_validateDriveID :: "validation_lib \<Rightarrow> PartialDrive \<Rightarrow> vresult" where
  "PartialDrive_validateDriveID v m =
    (Inr (Required v ''drive_id'' ''body'' (ptr (pd_DriveID m))))"

definition PartialDrive_validateRateLimiter :: "validation_lib \<Rightarrow> PartialDrive \<Rightarrow> vresult" where
  "PartialDrive_validateRateLimiter v m =
    (validate_sub v ''rate_limiter'' (RateLimiter_Validate v) (pd_RateLimiter m))"

definition PartialDrive_Validate :: "validation_lib \<Rightarrow> PartialDrive \<Rightarrow> vresult" where
  "PartialDrive_Validate v m =
     validate_all
      [PartialDrive_validateDriveID v m,
       PartialDrive_validateRateLimiter v m]"

definition PartialDrive_valid :: "PartialDrive \<Rightarrow> bool" where
  "PartialDrive_valid m \<longleftrightarrow>
     pd_DriveID m \<noteq> None \<and>
     pred_option RateLimiter_valid (pd_RateLimiter m)"

lemma PartialDrive_decides [decides_intros]:
  "validate_doc v \<Longrightarrow> decides (PartialDrive_Validate v m) (PartialDrive_valid m)"
  unfolding PartialDrive_Validate_def PartialDrive_valid_def
  by (rule decides_all)
    (intro decides_intros; simp only: PartialDrive_validateDriveID_def PartialDrive_validateRateLimiter_def; intro decides_intros; assumption?)

definition NetworkInterface_validateHostDevName :: "validation_lib \<Rightarrow> ApiNetworkInterface \<Rightarrow> vresult" where
  "NetworkInterface_validateHostDevName v m =
    (Inr (Required v ''host_dev_name'' ''body'' (ptr (ani_HostDevName m))))"

definition NetworkInterface_validateIfaceID :: "validation_lib \<Rightarrow> ApiNetworkInterface \<Rightarrow> vresult" where
  "NetworkInterface_validateIfaceID v m =
    (Inr (Required v ''iface_id'' ''body'' (ptr (ani_IfaceID m))))"

definition NetworkInterface_validateRxRateLimiter :: "validation_lib \<Rightarrow> ApiNetworkInterface \<Rightarrow> vresult" where
  "NetworkInterface_validateRxRateLimiter v m =
    (validate_sub v ''rx_rate_limiter'' (RateLimiter_Validate v) (RxRateLimiter m))"

definition NetworkInterface_validateTxRateLimiter :: "validation_lib \<Rightarrow> ApiNetworkInterface \<Rightarrow> vresult" where
  "NetworkInterface_validateTxRateLimiter v m =
    (validate_sub v ''tx_rate_limiter'' (RateLimiter_Validate v) (TxRateLimiter m))"

definition NetworkInterface_Validate :: "validation_lib \<Rightarrow> ApiNetworkInterface \<Rightarrow> vresult" where
  "NetworkInterface_Validate v m =
     validate_all
      [NetworkInterface_validateHostDevName v m,
       NetworkInterface_validateIfaceID v m,
       NetworkInterface_validateRxRateLimiter v m,
       NetworkInterface_validateTxRateLimiter v m]"

definition NetworkInterface_valid :: "ApiNetworkInterface \<Rightarrow> bool" where
  "NetworkInterface_valid m \<longleftrightarrow>
     ani_HostDevName m \<noteq> None \<and>
     ani_IfaceID m \<noteq> None \<and>
     pred_option RateLimiter_valid (RxRateLimiter m) \<and>
     pred_option RateLimiter_valid (TxRateLimiter m)"

lemma NetworkInterface_decides [decides_intros]:
  "validate_doc v \<Longrightarrow> decides (NetworkInterface_Validate v m) (NetworkInterface_valid m)"
  unfolding NetworkInterface_Validate_def NetworkInterface_valid_def
  by (rule decides_all)
    (intro decides_intros; simp only: NetworkInterface_validateHostDevName_def NetworkInterface_validateIfaceID_def NetworkInterface_validateRxRateLimiter_def NetworkInterface_validateTxRateLimiter_def; intro decides_intros; assumption?)

definition PartialNetworkInterface_validateIfaceID :: "validation_lib \<Rightarrow> PartialNetworkInterface \<Rightarrow> vresult" where
  "PartialNetworkInterface_validateIfaceID v m =
    (Inr (Required v ''iface_id'' ''body'' (ptr (pni_IfaceID m))))"

definition PartialNetworkInterface_validateRxRateLimiter :: "validation_lib \<Rightarrow> PartialNetworkInterface \<Rightarrow> vresult" where
  "PartialNetworkInterface_validateRxRateLimiter v m =
    (validate_sub v ''rx_rate_limiter'' (RateLimiter_Validate v) (pni_RxRateLimiter m))"

definition PartialNetworkInterface_validateTxRateLimiter :: "validation_lib \<Rightarrow> PartialNetworkInterface \<Rightarrow> vresult" where
  "PartialNetworkInterface_validateTxRateLimiter v m =
    (validate_sub v ''tx_rate_limiter'' (RateLimiter_Validate v) (pni_TxRateLimiter m))"

definition PartialNetworkInterface_Validate :: "validation_lib \<Rightarrow> PartialNetworkInterface \<Rightarrow> vresult" where
  "PartialNetworkInterface_Validate v m =
     validate_all
      [PartialNetworkInterface_validateIfaceID v m,
       PartialNetworkInterface_validateRxRateLimiter v m,
       PartialNetworkInterface_validateTxRateLimiter v m]"

definition PartialNetworkInterface_valid :: "PartialNetworkInterface \<Rightarrow> bool" where
  "PartialNetworkInterface_valid m \<longleftrightarrow>
     pni_IfaceID m \<noteq> None \<and>
     pred_option RateLimiter_valid (pni_RxRateLimiter m) \<and>
     pred_option RateLimiter_valid (pni_TxRateLimiter m)"

lemma PartialNetworkInterface_decides [decides_intros]:
  "validate_doc v \<Longrightarrow> decides (PartialNetworkInterface_Validate v m) (PartialNetworkInterface_valid m)"
  unfolding PartialNetworkInterface_Validate_def PartialNetworkInterface_valid_def
  by (rule decides_all)
    (intro decides_intros; simp only: PartialNetworkInterface_validateIfaceID_def PartialNetworkInterface_validateRxRateLimiter_def PartialNetworkInterface_validateTxRateLimiter_def; intro decides_intros; assumption?)

definition MachineConfiguration_validateCPUTemplate :: "validation_lib \<Rightarrow> MachineConfiguration \<Rightarrow> vresult" where
  "MachineConfiguration_validateCPUTemplate v m =
    (if IsZero v (StringData (CPUTemplate m)) then Inr None
     else bind_sum (CPUTemplate_Validate v (CPUTemplate m)) (\<lambda>err. Inr (map_option (rename v ''cpu_template'') err)))"

definition MachineConfiguration_validateMemSizeMib :: "validation_lib \<Rightarrow> MachineConfiguration \<Rightarrow> vresult" where
  "MachineConfiguration_validateMemSizeMib v m =
    (Inr (Required v ''mem_size_mib'' ''body'' (ptr (MemSizeMib m))))"

definition MachineConfiguration_validateVcpuCount :: "validation_lib \<Rightarrow> MachineConfiguration \<Rightarrow> vresult" where
  "MachineConfiguration_validateVcpuCount v m =
    (first_error (Inr (Required v ''vcpu_count'' ''body'' (ptr (VcpuCount m))))
     (bind_sum (deref (VcpuCount m)) (\<lambda>i.
        first_error (Inr (MinimumInt v ''vcpu_count'' ''body'' i 1 False)) (Inr (MaximumInt v ''vcpu_count'' ''body'' i 32 False)))))"

definition MachineConfiguration_Validate :: "validation_lib \<Rightarrow> MachineConfiguration \<Rightarrow> vresult" where
  "MachineConfiguration_Validate v m =
     validate_all
      [MachineConfiguration_validateCPUTemplate v m,
       MachineConfiguration_validateMemSizeMib v m,
       MachineConfiguration_validateVcpuCount v m]"

definition MachineConfiguration_valid :: "MachineConfiguration \<Rightarrow> bool" where
  "MachineConfiguration_valid m \<longleftrightarrow>
     (CPUTemplate m = '''' \<or> CPUTemplate m \<in> set cpuTemplateEnum) \<and>
     MemSizeMib m \<noteq> None \<and>
     has (VcpuCount m) (\<lambda>i. 1 \<le> sint i \<and> sint i \<le> 32)"

lemma MachineConfiguration_decides [decides_intros]:
  "validate_doc v \<Longrightarrow> decides (MachineConfiguration_Validate v m) (MachineConfiguration_valid m)"
  unfolding MachineConfiguration_Validate_def MachineConfiguration_valid_def
  by (rule decides_all)
    (intro decides_intros; simp only: MachineConfiguration_validateCPUTemplate_def MachineConfiguration_validateMemSizeMib_def MachineConfiguration_validateVcpuCount_def; intro decides_intros; assumption?)

definition BootSource_validateKernelImagePath :: "validation_lib \<Rightarrow> BootSource \<Rightarrow> vresult" where
  "BootSource_validateKernelImagePath v m =
    (Inr (Required v ''kernel_image_path'' ''body'' (ptr (bs_KernelImagePath m))))"

definition BootSource_Validate :: "validation_lib \<Rightarrow> BootSource \<Rightarrow> vresult" where
  "BootSource_Validate v m =
     validate_all
      [BootSource_validateKernelImagePath v m]"

definition BootSource_valid :: "BootSource \<Rightarrow> bool" where
  "BootSource_valid m \<longleftrightarrow>
     bs_KernelImagePath m \<noteq> None"

lemma BootSource_decides [decides_intros]:
  "validate_doc v \<Longrightarrow> decides (BootSource_Validate v m) (BootSource_valid m)"
  unfolding BootSource_Validate_def BootSource_valid_def
  by (rule decides_all)
    (intro decides_intros; simp only: BootSource_validateKernelImagePath_def; intro decides_intros; assumption?)

definition Logger_validateLevel :: "validation_lib \<Rightarrow> Logger \<Rightarrow> vresult" where
  "Logger_validateLevel v m =
    (if IsZero v (ptr (Level m)) then Inr None
     else bind_sum (deref (Level m)) (\<lambda>s. Inr (Enum v ''level'' ''body'' s loggerTypeLevelPropEnum)))"

definition Logger_validateLogPath :: "validation_lib \<Rightarrow> Logger \<Rightarrow> vresult" where
  "Logger_validateLogPath v m =
    (Inr (Required v ''log_path'' ''body'' (ptr (lg_LogPath m))))"

definition Logger_Validate :: "validation_lib \<Rightarrow> Logger \<Rightarrow> vresult" where
  "Logger_Validate v m =
     validate_all
      [Logger_validateLevel v m,
       Logger_validateLogPath v m]"

definition Logger_valid :: "Logger \<Rightarrow> bool" where
  "Logger_valid m \<longleftrightarrow>
     pred_option (\<lambda>s. s \<in> set loggerTypeLevelPropEnum) (Level m) \<and>
     lg_LogPath m \<noteq> None"

lemma Logger_decides [decides_intros]:
  "validate_doc v \<Longrightarrow> decides (Logger_Validate v m) (Logger_valid m)"
  unfolding Logger_Validate_def Logger_valid_def
  by (rule decides_all)
    (intro decides_intros; simp only: Logger_validateLevel_def Logger_validateLogPath_def; intro decides_intros; assumption?)

definition Metrics_validateMetricsPath :: "validation_lib \<Rightarrow> Metrics \<Rightarrow> vresult" where
  "Metrics_validateMetricsPath v m =
    (Inr (Required v ''metrics_path'' ''body'' (ptr (mt_MetricsPath m))))"

definition Metrics_Validate :: "validation_lib \<Rightarrow> Metrics \<Rightarrow> vresult" where
  "Metrics_Validate v m =
     validate_all
      [Metrics_validateMetricsPath v m]"

definition Metrics_valid :: "Metrics \<Rightarrow> bool" where
  "Metrics_valid m \<longleftrightarrow>
     mt_MetricsPath m \<noteq> None"

lemma Metrics_decides [decides_intros]:
  "validate_doc v \<Longrightarrow> decides (Metrics_Validate v m) (Metrics_valid m)"
  unfolding Metrics_Validate_def Metrics_valid_def
  by (rule decides_all)
    (intro decides_intros; simp only: Metrics_validateMetricsPath_def; intro decides_intros; assumption?)

definition MmdsConfig_validateNetworkInterfaces :: "validation_lib \<Rightarrow> MmdsConfig \<Rightarrow> vresult" where
  "MmdsConfig_validateNetworkInterfaces v m =
    (Inr (Required v ''network_interfaces'' ''body'' (SliceData (length (mc_NetworkInterfaces m)))))"

definition MmdsConfig_validateVersion :: "validation_lib \<Rightarrow> MmdsConfig \<Rightarrow> vresult" where
  "MmdsConfig_validateVersion v m =
    (if IsZero v (ptr (mc_Version m)) then Inr None
     else bind_sum (deref (mc_Version m)) (\<lambda>s. Inr (Enum v ''version'' ''body'' s mmdsConfigTypeVersionPropEnum)))"

definition MmdsConfig_Validate :: "validation_lib \<Rightarrow> MmdsConfig \<Rightarrow> vresult" where
  "MmdsConfig_Validate v m =
     validate_all
      [MmdsConfig_validateNetworkInterfaces v m,
       MmdsConfig_validateVersion v m]"

definition MmdsConfig_valid :: "MmdsConfig \<Rightarrow> bool" where
  "MmdsConfig_valid m \<longleftrightarrow>
     mc_NetworkInterfaces m \<noteq> [] \<and>
     pred_option (\<lambda>s. s \<in> set mmdsConfigTypeVersionPropEnum) (mc_Version m)"

lemma MmdsConfig_decides [decides_intros]:
  "validate_doc v \<Longrightarrow> decides (MmdsConfig_Validate v m) (MmdsConfig_valid m)"
  unfolding MmdsConfig_Validate_def MmdsConfig_valid_def
  by (rule decides_all)
    (intro decides_intros; simp only: MmdsConfig_validateNetworkInterfaces_def MmdsConfig_validateVersion_def; intro decides_intros; assumption?)

definition Vsock_validateGuestCid :: "validation_lib \<Rightarrow> Vsock \<Rightarrow> vresult" where
  "Vsock_validateGuestCid v m =
    (first_error (Inr (Required v ''guest_cid'' ''body'' (ptr (GuestCid m))))
     (bind_sum (deref (GuestCid m)) (\<lambda>i. Inr (MinimumInt v ''guest_cid'' ''body'' i 3 False))))"

definition Vsock_validateUdsPath :: "validation_lib \<Rightarrow> Vsock \<Rightarrow> vresult" where
  "Vsock_validateUdsPath v m =
    (Inr (Required v ''uds_path'' ''body'' (ptr (UdsPath m))))"

definition Vsock_Validate :: "validation_lib \<Rightarrow> Vsock \<Rightarrow> vresult" where
  "Vsock_Validate v m =
     validate_all
      [Vsock_validateGuestCid v m,
       Vsock_validateUdsPath v m]"

definition Vsock_valid :: "Vsock \<Rightarrow> bool" where
  "Vsock_valid m \<longleftrightarrow>
     has (GuestCid m) (\<lambda>i. 3 \<le> sint i) \<and>
     UdsPath m \<noteq> None"

lemma Vsock_decides [decides_intros]:
  "validate_doc v \<Longrightarrow> decides (Vsock_Validate v m) (Vsock_valid m)"
  unfolding Vsock_Validate_def Vsock_valid_def
  by (rule decides_all)
    (intro decides_intros; simp only: Vsock_validateGuestCid_def Vsock_validateUdsPath_def; intro decides_intros; assumption?)

definition VM_validateState :: "validation_lib \<Rightarrow> VM \<Rightarrow> vresult" where
  "VM_validateState v m =
    (first_error (Inr (Required v ''state'' ''body'' (ptr (vm_State m))))
     (bind_sum (deref (vm_State m)) (\<lambda>s. Inr (Enum v ''state'' ''body'' s vmTypeStatePropEnum))))"

definition VM_Validate :: "validation_lib \<Rightarrow> VM \<Rightarrow> vresult" where
  "VM_Validate v m =
     validate_all
      [VM_validateState v m]"

definition VM_valid :: "VM \<Rightarrow> bool" where
  "VM_valid m \<longleftrightarrow>
     has (vm_State m) (\<lambda>s. s \<in> set vmTypeStatePropEnum)"

lemma VM_decides [decides_intros]:
  "validate_doc v \<Longrightarrow> decides (VM_Validate v m) (VM_valid m)"
  unfolding VM_Validate_def VM_valid_def
  by (rule decides_all)
    (intro decides_intros; simp only: VM_validateState_def; intro decides_intros; assumption?)

definition InstanceActionInfo_validateActionType :: "validation_lib \<Rightarrow> InstanceActionInfo \<Rightarrow> vresult" where
  "InstanceActionInfo_validateActionType v m =
    (first_error (Inr (Required v ''action_type'' ''body'' (ptr (ActionType m))))
     (bind_sum (deref (ActionType m)) (\<lambda>s. Inr (Enum v ''action_type'' ''body'' s instanceActionInfoTypeActionTypePropEnum))))"

definition InstanceActionInfo_Validate :: "validation_lib \<Rightarrow> InstanceActionInfo \<Rightarrow> vresult" where
  "InstanceActionInfo_Validate v m =
     validate_all
      [InstanceActionInfo_validateActionType v m]"

definition InstanceActionInfo_valid :: "InstanceActionInfo \<Rightarrow> bool" where
  "InstanceActionInfo_valid m \<longleftrightarrow>
     has (ActionType m) (\<lambda>s. s \<in> set instanceActionInfoTypeActionTypePropEnum)"

lemma InstanceActionInfo_decides [decides_intros]:
  "validate_doc v \<Longrightarrow> decides (InstanceActionInfo_Validate v m) (InstanceActionInfo_valid m)"
  unfolding InstanceActionInfo_Validate_def InstanceActionInfo_valid_def
  by (rule decides_all)
    (intro decides_intros; simp only: InstanceActionInfo_validateActionType_def; intro decides_intros; assumption?)

definition MemoryBackend_validateBackendPath :: "validation_lib \<Rightarrow> MemoryBackend \<Rightarrow> vresult" where
  "MemoryBackend_validateBackendPath v m =
    (Inr (Required v ''backend_path'' ''body'' (ptr (BackendPath m))))"

definition MemoryBackend_validateBackendType :: "validation_lib \<Rightarrow> MemoryBackend \<Rightarrow> vresult" where
  "MemoryBackend_validateBackendType v m =
    (first_error (Inr (Required v ''backend_type'' ''body'' (ptr (BackendType m))))
     (bind_sum (deref (BackendType m)) (\<lambda>s. Inr (Enum v ''backend_type'' ''body'' s memoryBackendTypeBackendTypePropEnum))))"

definition MemoryBackend_Validate :: "validation_lib \<Rightarrow> MemoryBackend \<Rightarrow> vresult" where
  "MemoryBackend_Validate v m =
     validate_all
      [MemoryBackend_validateBackendPath v m,
       MemoryBackend_validateBackendType v m]"

definition MemoryBackend_valid :: "MemoryBackend \<Rightarrow> bool" where
  "MemoryBackend_valid m \<longleftrightarrow>
     BackendPath m \<noteq> None \<and>
     has (BackendType m) (\<lambda>s. s \<in> set memoryBackendTypeBackendTypePropEnum)"

lemma MemoryBackend_decides [decides_intros]:
  "validate_doc v \<Longrightarrow> decides (MemoryBackend_Validate v m) (MemoryBackend_valid m)"
  unfolding MemoryBackend_Validate_def MemoryBackend_valid_def
  by (rule decides_all)
    (intro decides_intros; simp only: MemoryBackend_validateBackendPath_def MemoryBackend_validateBackendType_def; intro decides_intros; assumption?)

definition SnapshotCreateParams_validateMemFilePath :: "validation_lib \<Rightarrow> SnapshotCreateParams \<Rightarrow> vresult" where
  "SnapshotCreateParams_validateMemFilePath v m =
    (Inr (Required v ''mem_file_path'' ''body'' (ptr (scp_MemFilePath m))))"

definition SnapshotCreateParams_validateSnapshotPath :: "validation_lib \<Rightarrow> SnapshotCreateParams \<Rightarrow> vresult" where
  "SnapshotCreateParams_validateSnapshotPath v m =
    (Inr (Required v ''snapshot_path'' ''body'' (ptr (scp_SnapshotPath m))))"

definition SnapshotCreateParams_validateSnapshotType :: "validation_lib \<Rightarrow> SnapshotCreateParams \<Rightarrow> vresult" where
  "SnapshotCreateParams_validateSnapshotType v m =
    (if IsZero v (StringData (SnapshotType m)) then Inr None
     else Inr (Enum v ''snapshot_type'' ''body'' (SnapshotType m) snapshotCreateParamsTypeSnapshotTypePropEnum))"

definition SnapshotCreateParams_Validate :: "validation_lib \<Rightarrow> SnapshotCreateParams \<Rightarrow> vresult" where
  "SnapshotCreateParams_Validate v m =
     validate_all
      [SnapshotCreateParams_validateMemFilePath v m,
       SnapshotCreateParams_validateSnapshotPath v m,
       SnapshotCreateParams_validateSnapshotType v m]"

definition SnapshotCreateParams_valid :: "SnapshotCreateParams \<Rightarrow> bool" where
  "SnapshotCreateParams_valid m \<longleftrightarrow>
     scp_MemFilePath m \<noteq> None \<and>
     scp_SnapshotPath m \<noteq> None \<and>
     (SnapshotType m = '''' \<or> SnapshotType m \<in> set snapshotCreateParamsTypeSnapshotTypePropEnum)"

lemma SnapshotCreateParams_decides [decides_intros]:
  "validate_doc v \<Longrightarrow> decides (SnapshotCreateParams_Validate v m) (SnapshotCreateParams_valid m)"
  unfolding SnapshotCreateParams_Validate_def SnapshotCreateParams_valid_def
  by (rule decides_all)
    (intro decides_intros; simp only: SnapshotCreateParams_validateMemFilePath_def SnapshotCreateParams_validateSnapshotPath_def SnapshotCreateParams_validateSnapshotType_def; intro decides_intros; assumption?)

definition SnapshotLoadParams_validateMemBackend :: "validation_lib \<Rightarrow> SnapshotLoadParams \<Rightarrow> vresult" where
  "SnapshotLoadParams_validateMemBackend v m =
    (validate_sub v ''mem_backend'' (MemoryBackend_Validate v) (slp_MemBackend m))"

definition SnapshotLoadParams_validateSnapshotPath :: "validation_lib \<Rightarrow> SnapshotLoadParams \<Rightarrow> vresult" where
  "SnapshotLoadParams_validateSnapshotPath v m =
    (Inr (Required v ''snapshot_path'' ''body'' (ptr (slp_SnapshotPath m))))"

definition SnapshotLoadParams_Validate :: "validation_lib \<Rightarrow> SnapshotLoadParams \<Rightarrow> vresult" where
  "SnapshotLoadParams_Validate v m =
     validate_all
      [SnapshotLoadParams_validateMemBackend v m,
       SnapshotLoadParams_validateSnapshotPath v m]"

definition SnapshotLoadParams_valid :: "SnapshotLoadParams \<Rightarrow> bool" where
  "SnapshotLoadParams_valid m \<longleftrightarrow>
     pred_option MemoryBackend_valid (slp_MemBackend m) \<and>
     slp_SnapshotPath m \<noteq> None"

lemma SnapshotLoadParams_decides [decides_intros]:
  "validate_doc v \<Longrightarrow> decides (SnapshotLoadParams_Validate v m) (SnapshotLoadParams_valid m)"
  unfolding SnapshotLoadParams_Validate_def SnapshotLoadParams_valid_def
  by (rule decides_all)
    (intro decides_intros; simp only: SnapshotLoadParams_validateMemBackend_def SnapshotLoadParams_validateSnapshotPath_def; intro decides_intros; assumption?)

definition Balloon_validateAmountMib :: "validation_lib \<Rightarrow> Balloon \<Rightarrow> vresult" where
  "Balloon_validateAmountMib v m =
    (Inr (Required v ''amount_mib'' ''body'' (ptr (AmountMib m))))"

definition Balloon_validateDeflateOnOom :: "validation_lib \<Rightarrow> Balloon \<Rightarrow> vresult" where
  "Balloon_validateDeflateOnOom v m =
    (Inr (Required v ''deflate_on_oom'' ''body'' (ptr (DeflateOnOom m))))"

definition Balloon_Validate :: "validation_lib \<Rightarrow> Balloon \<Rightarrow> vresult" where
  "Balloon_Validate v m =
     validate_all
      [Balloon_validateAmountMib v m,
       Balloon_validateDeflateOnOom v m]"

definition Balloon_valid :: "Balloon \<Rightarrow> bool" where
  "Balloon_valid m \<longleftrightarrow>
     AmountMib m \<noteq> None \<and>
     DeflateOnOom m \<noteq> None"

lemma Balloon_decides [decides_intros]:
  "validate_doc v \<Longrightarrow> decides (Balloon_Validate v m) (Balloon_valid m)"
  unfolding Balloon_Validate_def Balloon_valid_def
  by (rule decides_all)
    (intro decides_intros; simp only: Balloon_validateAmountMib_def Balloon_validateDeflateOnOom_def; intro decides_intros; assumption?)

definition BalloonUpdate_validateAmountMib :: "validation_lib \<Rightarrow> BalloonUpdate \<Rightarrow> vresult" where
  "BalloonUpdate_validateAmountMib v m =
    (Inr (Required v ''amount_mib'' ''body'' (ptr (bu_AmountMib m))))"

definition BalloonUpdate_Validate :: "validation_lib \<Rightarrow> BalloonUpdate \<Rightarrow> vresult" where
  "BalloonUpdate_Validate v m =
     validate_all
      [BalloonUpdate_validateAmountMib v m]"

definition BalloonUpdate_valid :: "BalloonUpdate \<Rightarrow> bool" where
  "BalloonUpdate_valid m \<longleftrightarrow>
     bu_AmountMib m \<noteq> None"

lemma BalloonUpdate_decides [decides_intros]:
  "validate_doc v \<Longrightarrow> decides (BalloonUpdate_Validate v m) (BalloonUpdate_valid m)"
  unfolding BalloonUpdate_Validate_def BalloonUpdate_valid_def
  by (rule decides_all)
    (intro decides_intros; simp only: BalloonUpdate_validateAmountMib_def; intro decides_intros; assumption?)

definition BalloonStatsUpdate_validateStatsPollingIntervals :: "validation_lib \<Rightarrow> BalloonStatsUpdate \<Rightarrow> vresult" where
  "BalloonStatsUpdate_validateStatsPollingIntervals v m =
    (Inr (Required v ''stats_polling_interval_s'' ''body'' (ptr (bsu_StatsPollingIntervals m))))"

definition BalloonStatsUpdate_Validate :: "validation_lib \<Rightarrow> BalloonStatsUpdate \<Rightarrow> vresult" where
  "BalloonStatsUpdate_Validate v m =
     validate_all
      [BalloonStatsUpdate_validateStatsPollingIntervals v m]"

definition BalloonStatsUpdate_valid :: "BalloonStatsUpdate \<Rightarrow> bool" where
  "BalloonStatsUpdate_valid m \<longleftrightarrow>
     bsu_StatsPollingIntervals m \<noteq> None"

lemma BalloonStatsUpdate_decides [decides_intros]:
  "validate_doc v \<Longrightarrow> decides (BalloonStatsUpdate_Validate v m) (BalloonStatsUpdate_valid m)"
  unfolding BalloonStatsUpdate_Validate_def BalloonStatsUpdate_valid_def
  by (rule decides_all)
    (intro decides_intros; simp only: BalloonStatsUpdate_validateStatsPollingIntervals_def; intro decides_intros; assumption?)

definition BalloonStats_validateActualMib :: "validation_lib \<Rightarrow> BalloonStats \<Rightarrow> vresult" where
  "BalloonStats_validateActualMib v m =
    (Inr (Required v ''actual_mib'' ''body'' (ptr (ActualMib m))))"

definition BalloonStats_validateActualPages :: "validation_lib \<Rightarrow> BalloonStats \<Rightarrow> vresult" where
  "BalloonStats_validateActualPages v m =
    (Inr (Required v ''actual_pages'' ''body'' (ptr (ActualPages m))))"

definition BalloonStats_validateTargetMib :: "validation_lib \<Rightarrow> BalloonStats \<Rightarrow> vresult" where
  "BalloonStats_validateTargetMib v m =
    (Inr (Required v ''target_mib'' ''body'' (ptr (TargetMib m))))"

definition BalloonStats_validateTargetPages :: "validation_lib \<Rightarrow> BalloonStats \<Rightarrow> vresult" where
  "BalloonStats_validateTargetPages v m =
    (Inr (Required v ''target_pages'' ''body'' (ptr (TargetPages m))))"

definition BalloonStats_Validate :: "validation_lib \<Rightarrow> BalloonStats \<Rightarrow> vresult" where
  "BalloonStats_Validate v m =
     validate_all
      [BalloonStats_validateActualMib v m,
       BalloonStats_validateActualPages v m,
       BalloonStats_validateTargetMib v m,
       BalloonStats_validateTargetPages v m]"

definition BalloonStats_valid :: "BalloonStats \<Rightarrow> bool" where
  "BalloonStats_valid m \<longleftrightarrow>
     ActualMib m \<noteq> None \<and>
     ActualPages m \<noteq> None \<and>
     TargetMib m \<noteq> None \<and>
     TargetPages m \<noteq> None"

lemma BalloonStats_decides [decides_intros]:
  "validate_doc v \<Longrightarrow> decides (BalloonStats_Validate v m) (BalloonStats_valid m)"
  unfolding BalloonStats_Validate_def BalloonStats_valid_def
  by (rule decides_all)
    (intro decides_intros; simp only: BalloonStats_validateActualMib_def BalloonStats_validateActualPages_def BalloonStats_validateTargetMib_def BalloonStats_validateTargetPages_def; intro decides_intros; assumption?)

definition InstanceInfo_validateAppName :: "validation_lib \<Rightarrow> InstanceInfo \<Rightarrow> vresult" where
  "InstanceInfo_validateAppName v m =
    (Inr (Required v ''app_name'' ''body'' (ptr (AppName m))))"

definition InstanceInfo_validateID :: "validation_lib \<Rightarrow> InstanceInfo \<Rightarrow> vresult" where
  "InstanceInfo_validateID v m =
    (Inr (Required v ''id'' ''body'' (ptr (ii_ID m))))"

definition InstanceInfo_validateState :: "validation_lib \<Rightarrow> InstanceInfo \<Rightarrow> vresult" where
  "InstanceInfo_validateState v m =
    (first_error (Inr (Required v ''state'' ''body'' (ptr (ii_State m))))
     (bind_sum (deref (ii_State m)) (\<lambda>s. Inr (Enum v ''state'' ''body'' s instanceInfoTypeStatePropEnum))))"

definition InstanceInfo_validateVmmVersion :: "validation_lib \<Rightarrow> InstanceInfo \<Rightarrow> vresult" where
  "InstanceInfo_validateVmmVersion v m =
    (Inr (Required v ''vmm_version'' ''body'' (ptr (VmmVersion m))))"

definition InstanceInfo_Validate :: "validation_lib \<Rightarrow> InstanceInfo \<Rightarrow> vresult" where
  "InstanceInfo_Validate v m =
     validate_all
      [InstanceInfo_validateAppName v m,
       InstanceInfo_validateID v m,
       InstanceInfo_validateState v m,
       InstanceInfo_validateVmmVersion v m]"

definition InstanceInfo_valid :: "InstanceInfo \<Rightarrow> bool" where
  "InstanceInfo_valid m \<longleftrightarrow>
     AppName m \<noteq> None \<and>
     ii_ID m \<noteq> None \<and>
     has (ii_State m) (\<lambda>s. s \<in> set instanceInfoTypeStatePropEnum) \<and>
     VmmVersion m \<noteq> None"

lemma InstanceInfo_decides [decides_intros]:
  "validate_doc v \<Longrightarrow> decides (InstanceInfo_Validate v m) (InstanceInfo_valid m)"
  unfolding InstanceInfo_Validate_def InstanceInfo_valid_def
  by (rule decides_all)
    (intro decides_intros; simp only: InstanceInfo_validateAppName_def InstanceInfo_validateID_def InstanceInfo_validateState_def InstanceInfo_validateVmmVersion_def; intro decides_intros; assumption?)

definition FirecrackerVersion_validateFirecrackerVersion :: "validation_lib \<Rightarrow> FirecrackerVersion \<Rightarrow> vresult" where
  "FirecrackerVersion_validateFirecrackerVersion v m =
    (Inr (Required v ''firecracker_version'' ''body'' (ptr (fv_FirecrackerVersion m))))"

definition FirecrackerVersion_Validate :: "validation_lib \<Rightarrow> FirecrackerVersion \<Rightarrow> vresult" where
  "FirecrackerVersion_Validate v m =
     validate_all
      [FirecrackerVersion_validateFirecrackerVersion v m]"

definition FirecrackerVersion_valid :: "FirecrackerVersion \<Rightarrow> bool" where
  "FirecrackerVersion_valid m \<longleftrightarrow>
     fv_FirecrackerVersion m \<noteq> None"

lemma FirecrackerVersion_decides [decides_intros]:
  "validate_doc v \<Longrightarrow> decides (FirecrackerVersion_Validate v m) (FirecrackerVersion_valid m)"
  unfolding FirecrackerVersion_Validate_def FirecrackerVersion_valid_def
  by (rule decides_all)
    (intro decides_intros; simp only: FirecrackerVersion_validateFirecrackerVersion_def; intro decides_intros; assumption?)

definition EntropyDevice_validateRateLimiter :: "validation_lib \<Rightarrow> EntropyDevice \<Rightarrow> vresult" where
  "EntropyDevice_validateRateLimiter v m =
    (validate_sub v ''rate_limiter'' (RateLimiter_Validate v) (ed_RateLimiter m))"

definition EntropyDevice_Validate :: "validation_lib \<Rightarrow> EntropyDevice \<Rightarrow> vresult" where
  "EntropyDevice_Validate v m =
     validate_all
      [EntropyDevice_validateRateLimiter v m]"

definition EntropyDevice_valid :: "EntropyDevice \<Rightarrow> bool" where
  "EntropyDevice_valid m \<longleftrightarrow>
     pred_option RateLimiter_valid (ed_RateLimiter m)"

lemma EntropyDevice_decides [decides_intros]:
  "validate_doc v \<Longrightarrow> decides (EntropyDevice_Validate v m) (EntropyDevice_valid m)"
  unfolding EntropyDevice_Validate_def EntropyDevice_valid_def
  by (rule decides_all)
    (intro decides_intros; simp only: EntropyDevice_validateRateLimiter_def; intro decides_intros; assumption?)

definition FullVMConfiguration_validateBalloon :: "validation_lib \<Rightarrow> FullVMConfiguration \<Rightarrow> vresult" where
  "FullVMConfiguration_validateBalloon v m =
    (validate_sub v ''balloon'' (Balloon_Validate v) (fvc_Balloon m))"

definition FullVMConfiguration_validateBootSource :: "validation_lib \<Rightarrow> FullVMConfiguration \<Rightarrow> vresult" where
  "FullVMConfiguration_validateBootSource v m =
    (validate_sub v ''boot-source'' (BootSource_Validate v) (fvc_BootSource m))"

definition FullVMConfiguration_validateDrives :: "validation_lib \<Rightarrow> FullVMConfiguration \<Rightarrow> vresult" where
  "FullVMConfiguration_validateDrives v m =
    (if IsZero v (SliceData (length (fvc_Drives m))) then Inr None
     else validate_items v ''drives'' (Drive_Validate v) 0 (fvc_Drives m))"

definition FullVMConfiguration_validateLogger :: "validation_lib \<Rightarrow> FullVMConfiguration \<Rightarrow> vresult" where
  "FullVMConfiguration_validateLogger v m =
    (validate_sub v ''logger'' (Logger_Validate v) (fvc_Logger m))"

definition FullVMConfiguration_validateMachineConfig :: "validation_lib \<Rightarrow> FullVMConfiguration \<Rightarrow> vresult" where
  "FullVMConfiguration_validateMachineConfig v m =
    (validate_sub v ''machine-config'' (MachineConfiguration_Validate v) (fvc_MachineConfig m))"

definition FullVMConfiguration_validateMetrics :: "validation_lib \<Rightarrow> FullVMConfiguration \<Rightarrow> vresult" where
  "FullVMConfiguration_validateMetrics v m =
    (validate_sub v ''metrics'' (Metrics_Validate v) (fvc_Metrics m))"

definition FullVMConfiguration_validateMmdsConfig :: "validation_lib \<Rightarrow> FullVMConfiguration \<Rightarrow> vresult" where
  "FullVMConfiguration_validateMmdsConfig v m =
    (validate_sub v ''mmds-config'' (MmdsConfig_Validate v) (fvc_MmdsConfig m))"

definition FullVMConfiguration_validateNetworkInterfaces :: "validation_lib \<Rightarrow> FullVMConfiguration \<Rightarrow> vresult" where
  "FullVMConfiguration_validateNetworkInterfaces v m =
    (if IsZero v (SliceData (length (fvc_NetworkInterfaces m))) then Inr None
     else validate_items v ''network-interfaces'' (NetworkInterface_Validate v) 0 (fvc_NetworkInterfaces m))"

definition FullVMConfiguration_validateVsock :: "validation_lib \<Rightarrow> FullVMConfiguration \<Rightarrow> vresult" where
  "FullVMConfiguration_validateVsock v m =
    (validate_sub v ''vsock'' (Vsock_Validate v) (fvc_Vsock m))"

definition FullVMConfiguration_Validate :: "validation_lib \<Rightarrow> FullVMConfiguration \<Rightarrow> vresult" where
  "FullVMConfiguration_Validate v m =
     validate_all
      [FullVMConfiguration_validateBalloon v m,
       FullVMConfiguration_validateBootSource v m,
       FullVMConfiguration_validateDrives v m,
       FullVMConfiguration_validateLogger v m,
       FullVMConfiguration_validateMachineConfig v m,
       FullVMConfiguration_validateMetrics v m,
       FullVMConfiguration_validateMmdsConfig v m,
       FullVMConfiguration_validateNetworkInterfaces v m,
       FullVMConfiguration_validateVsock v m]"

definition FullVMConfiguration_valid :: "FullVMConfiguration \<Rightarrow> bool" where
  "FullVMConfiguration_valid m \<longleftrightarrow>
     pred_option Balloon_valid (fvc_Balloon m) \<and>
     pred_option BootSource_valid (fvc_BootSource m) \<and>
     list_all (pred_option Drive_valid) (fvc_Drives m) \<and>
     pred_option Logger_valid (fvc_Logger m) \<and>
     pred_option MachineConfiguration_valid (fvc_MachineConfig m) \<and>
     pred_option Metrics_valid (fvc_Metrics m) \<and>
     pred_option MmdsConfig_valid (fvc_MmdsConfig m) \<and>
     list_all (pred_option NetworkInterface_valid) (fvc_NetworkInterfaces m) \<and>
     pred_option Vsock_valid (fvc_Vsock m)"

lemma FullVMConfiguration_decides [decides_intros]:
  "validate_doc v \<Longrightarrow> decides (FullVMConfiguration_Validate v m) (FullVMConfiguration_valid m)"
  unfolding FullVMConfiguration_Validate_def FullVMConfiguration_valid_def
  by (rule decides_all)
    (intro decides_intros; simp only: FullVMConfiguration_validateBalloon_def FullVMConfiguration_validateBootSource_def FullVMConfiguration_validateDrives_def FullVMConfiguration_validateLogger_def FullVMConfiguration_validateMachineConfig_def FullVMConfiguration_validateMetrics_def FullVMConfiguration_validateMmdsConfig_def FullVMConfiguration_validateNetworkInterfaces_def FullVMConfiguration_validateVsock_def; intro decides_intros; assumption?)

end
