(* ===== verification/RequestTypes.thy ===== *)
theory RequestTypes
  imports MachineProps Validation
begin

text \<open>
  Every request that a machine sends while it starts passes the validation of the API's types, if the
  data that the configuration holds does. The handlers add nothing invalid and send nothing half
  filled: what they make up (ids, paths, versions) is always there, and what they take from the
  configuration is sent as it is.
\<close>

text \<open>The \<open>Validate\<close> method of a request body, and what its type demands.\<close>

definition body_validate :: "validation_lib \<Rightarrow> api_body \<Rightarrow> vresult" where
  "body_validate v b =
    (case b of
       BLogger x \<Rightarrow> Logger_Validate v x
     | BMetrics x \<Rightarrow> Metrics_Validate v x
     | BMachineConfiguration x \<Rightarrow> MachineConfiguration_Validate v x
     | BBootSource x \<Rightarrow> BootSource_Validate v x
     | BNetworkInterface x \<Rightarrow> NetworkInterface_Validate v x
     | BPartialNetworkInterface x \<Rightarrow> PartialNetworkInterface_Validate v x
     | BDrive x \<Rightarrow> Drive_Validate v x
     | BPartialDrive x \<Rightarrow> PartialDrive_Validate v x
     | BVsock x \<Rightarrow> Vsock_Validate v x
     | BVM x \<Rightarrow> VM_Validate v x
     | BSnapshotCreate x \<Rightarrow> SnapshotCreateParams_Validate v x
     | BSnapshotLoad x \<Rightarrow> SnapshotLoadParams_Validate v x
     | BAction x \<Rightarrow> InstanceActionInfo_Validate v x
     | BJson j \<Rightarrow> Inr None
     | BMmdsConfig x \<Rightarrow> MmdsConfig_Validate v x
     | BBalloon x \<Rightarrow> Balloon_Validate v x
     | BBalloonUpdate x \<Rightarrow> BalloonUpdate_Validate v x
     | BBalloonStatsUpdate x \<Rightarrow> BalloonStatsUpdate_Validate v x
     | BCPUConfig x \<Rightarrow> CPUConfig_Validate v x
     | BEntropyDevice x \<Rightarrow> EntropyDevice_Validate v x)"

definition body_valid :: "api_body \<Rightarrow> bool" where
  "body_valid b =
    (case b of
       BLogger x \<Rightarrow> Logger_valid x
     | BMetrics x \<Rightarrow> Metrics_valid x
     | BMachineConfiguration x \<Rightarrow> MachineConfiguration_valid x
     | BBootSource x \<Rightarrow> BootSource_valid x
     | BNetworkInterface x \<Rightarrow> NetworkInterface_valid x
     | BPartialNetworkInterface x \<Rightarrow> PartialNetworkInterface_valid x
     | BDrive x \<Rightarrow> Drive_valid x
     | BPartialDrive x \<Rightarrow> PartialDrive_valid x
     | BVsock x \<Rightarrow> Vsock_valid x
     | BVM x \<Rightarrow> VM_valid x
     | BSnapshotCreate x \<Rightarrow> SnapshotCreateParams_valid x
     | BSnapshotLoad x \<Rightarrow> SnapshotLoadParams_valid x
     | BAction x \<Rightarrow> InstanceActionInfo_valid x
     | BJson j \<Rightarrow> True
     | BMmdsConfig x \<Rightarrow> MmdsConfig_valid x
     | BBalloon x \<Rightarrow> Balloon_valid x
     | BBalloonUpdate x \<Rightarrow> BalloonUpdate_valid x
     | BBalloonStatsUpdate x \<Rightarrow> BalloonStatsUpdate_valid x
     | BCPUConfig x \<Rightarrow> True
     | BEntropyDevice x \<Rightarrow> EntropyDevice_valid x)"

lemma body_decides: "validate_doc v \<Longrightarrow> decides (body_validate v b) (body_valid b)"
  by (cases b) (simp_all add: body_validate_def body_valid_def decides_intros,
    simp_all add: decides_def CPUConfig_Validate_def validate_all_def first_error_def)

lemma body_validate_iff: "validate_doc v \<Longrightarrow> body_validate v b = Inr None \<longleftrightarrow> body_valid b"
  using body_decides [of v b] by (auto simp: decides_def)

definition event_valid :: "event \<Rightarrow> bool" where
  "event_valid ev = (case ev of EvApi op \<Rightarrow> pred_option body_valid (Body (Params op)) | _ \<Rightarrow> True)"

lemma no_api_valid: "no_api ev \<Longrightarrow> event_valid ev"
  by (auto simp: no_api_def event_valid_def split: event.split)

text \<open>The part of a configuration that ends up in request bodies.\<close>

definition cfg_valid :: "Config \<Rightarrow> bool" where
  "cfg_valid c \<longleftrightarrow> MachineConfiguration_valid (MachineCfg c) \<and> list_all Drive_valid (Drives c)
     \<and> list_all (\<lambda>(rx, tx). pred_option RateLimiter_valid rx \<and> pred_option RateLimiter_valid tx)
         (map (\<lambda>i. (InRateLimiter i, OutRateLimiter i)) (NetworkInterfaces c))
     \<and> list_all (\<lambda>dev. 3 \<le> uint (vd_CID dev)) (VsockDevices c)
     \<and> (LogLevel c = '''' \<or> LogLevel c \<in> set loggerTypeLevelPropEnum)
     \<and> pred_option MemoryBackend_valid (MemBackend (Snapshot c))"

lemma same_drive_valid: "same_drive d d' \<Longrightarrow> Drive_valid d \<Longrightarrow> Drive_valid d'"
  unfolding same_drive_def Drive_valid_def by (cases d; cases d') auto

lemma same_data_valid: "same_data c c' \<Longrightarrow> cfg_valid c \<Longrightarrow> cfg_valid c'"
  using same_drive_valid
  by (auto simp: same_data_def cfg_valid_def list_all2_conv_all_nth list_all_length)

lemma cid_64: "sint (ucast (x :: 32 word) :: 64 word) = uint x"
proof -
  have "uint x < 2 ^ 32" using uint_lt2p [of x] by simp
  then have "- (2 ^ 63) \<le> uint x \<and> uint x < 2 ^ 63" by (simp add: order.trans [OF _ uint_ge_0])
  then have "signed_take_bit 63 (uint x) = uint x" by (simp only: signed_take_bit_int_eq_self_iff)
  then show ?thesis by (simp add: sint_uint uint_up_ucast is_up)
qed

lemma sdk_body_valid:
  assumes "sdk_request c op" and "cfg_valid c"
  shows "event_valid (EvApi op)"
proof (cases "Body (Params op)")
  case None
  then show ?thesis by (simp add: event_valid_def)
next
  case (Some b)
  with assms show ?thesis
    by (cases b)
      (auto simp: sdk_request_def sdk_body_def event_valid_def body_valid_def cfg_valid_def cid_64 has_def
        Logger_valid_def Metrics_valid_def BootSource_valid_def NetworkInterface_valid_def
        Vsock_valid_def SnapshotLoadParams_valid_def MmdsConfig_valid_def Balloon_valid_def enum_defs
        list_all_iff list_ex_iff)
qed

interpretation sends_valid: step_invariant "\<lambda>m. list_all event_valid (world m) \<and> cfg_valid (Cfg m)"
  by unfold_locales (auto simp: no_api_valid sdk_body_valid intro: same_data_valid)

text \<open>A user's handler is bound to the same rule.\<close>

definition user_sends_valid :: "user_handler \<Rightarrow> bool" where
  "user_sends_valid user \<longleftrightarrow>
     (\<forall>n m. list_all event_valid (world m) \<and> cfg_valid (Cfg m) \<longrightarrow>
        list_all event_valid (world (snd (user n m))) \<and> cfg_valid (Cfg (snd (user n m))))"

lemma startInstance_valid:
  "list_all event_valid (world m) \<and> cfg_valid (Cfg m) \<Longrightarrow>
     list_all event_valid (world (snd (startInstance e ctx m))) \<and> cfg_valid (Cfg (snd (startInstance e ctx m)))"
  by (auto simp: startInstance_def ok_def api_step_def do_api_def client_defs ops_defs params_defs event_valid_def
      op_submit_def body_valid_def action_info_def ActionInstanceStart_def InstanceActionInfo_valid_def has_def enum_defs
      split: prod.split)

lemma Start_events_valid:
  assumes "user_sends_valid user" and "cfg_valid (Cfg m)" and "list_all event_valid (world m)"
    and "Start e user ctx m = (out, m')"
  shows "list_all event_valid (world m')"
proof -
  let ?P = "\<lambda>m. list_all event_valid (world m) \<and> cfg_valid (Cfg m)"
  have "?P (snd (run_all e user ctx (m\<lparr>started := True\<rparr>)))"
    by (rule sends_valid.P_run_all) (use assms(1-3) in \<open>auto simp: user_sends_valid_def\<close>)
  then have "?P (snd (and_then (run_all e user ctx (m\<lparr>started := True\<rparr>)) (startInstance e ctx)))"
    by (rule sends_valid.P_and_then) (rule startInstance_valid)
  then have "?P (snd (Start e user ctx m))"
    using assms(2,3) sends_valid.P_doCleanup
    by (auto simp: Start_def fail_def split: prod.split outcome.split option.split)
  then show ?thesis by (simp add: assms(4))
qed

text \<open>C9: Every request that is sent while a machine starts has a body that passes the \<open>Validate\<close> method
  of its type, and no such method panics: if the machine configuration, the drives, the rate limiters,
  the vsock ids, the log level and the memory backend of the configuration are valid, so is everything
  that the handlers make of them, whatever Firecracker, CNI and the operating system answer.\<close>

theorem Start_requests_valid:
  assumes "validate_doc v" and "user_sends_valid user" and "cfg_valid (Cfg m)"
    and "list_all event_valid (world m)" and "Start e user ctx m = (out, m')"
  shows "list_all (\<lambda>ev. case ev of
      EvApi op \<Rightarrow> (case Body (Params op) of None \<Rightarrow> True | Some b \<Rightarrow> body_validate v b = Inr None)
    | _ \<Rightarrow> True) (world m')"
  using Start_events_valid [OF assms(2-5)]
  by (rule list.pred_mono_strong)
    (auto simp: event_valid_def body_validate_iff [OF assms(1)] split: event.split option.split)

theorem Start_requests_valid_witness:
  "list_all (\<lambda>ev. case ev of
      EvApi op \<Rightarrow> (case Body (Params op) of None \<Rightarrow> True | Some b \<Rightarrow> body_validate calm_lib b = Inr None)
    | _ \<Rightarrow> True) (world (snd (Start boot_env no_user CtxBackground demo_machine)))"
proof -
  have "user_sends_valid no_user" by (simp add: user_sends_valid_def no_user_def)
  moreover have "cfg_valid (Cfg demo_machine)"
    by (code_simp, simp add: MachineConfiguration_valid_def Drive_valid_def has_def)
  moreover have "world demo_machine = []" by code_simp
  ultimately show ?thesis
    using Start_requests_valid [OF calm_lib_doc _ _ _ surjective_pairing] by simp
qed

subsection \<open>What goes over the wire\<close>

definition event_addressed :: "event \<Rightarrow> bool" where
  "event_addressed ev = (case ev of EvApi op \<Rightarrow> addressed op | _ \<Rightarrow> True)"

interpretation sends_addressed: step_invariant "\<lambda>m. list_all event_addressed (world m)"
  by unfold_locales
    (auto simp: event_addressed_def no_api_def sdk_request_def split: event.split)

definition user_addresses :: "user_handler \<Rightarrow> bool" where
  "user_addresses user \<longleftrightarrow>
     (\<forall>n m. list_all event_addressed (world m) \<longrightarrow> list_all event_addressed (world (snd (user n m))))"

lemma startInstance_addressed:
  "list_all event_addressed (world m) \<Longrightarrow> list_all event_addressed (world (snd (startInstance e ctx m)))"
  by (auto simp: startInstance_def ok_def api_step_def do_api_def client_defs ops_defs params_defs event_addressed_def
      addressed_def client_writes op_submit_def split: prod.split)

text \<open>C23: Every request that is sent while a machine starts goes over the wire as it was meant: the
  parameters of its operation write its timeout, its body and, for each name between braces in its
  path and for nothing else, the value that the SDK gave for it.\<close>

theorem Start_requests_written:
  assumes "user_addresses user" and "list_all event_addressed (world m)" and "Start e user ctx m = (out, m')"
  shows "list_all (\<lambda>ev. case ev of
      EvApi op \<Rightarrow> map fst (PathParams (Params op)) = holes None (PathPattern op) \<and>
        (\<exists>w. WriteToRequest plain_lib op = Some w \<and> w \<lparr>rq_timeout = 0, rq_body = None, rq_path = []\<rparr> =
          (None, \<lparr>rq_timeout = ptimeout (Params op), rq_body = Body (Params op), rq_path = PathParams (Params op)\<rparr>))
    | _ \<Rightarrow> True) (world m')"
proof -
  let ?P = "\<lambda>m. list_all event_addressed (world m)"
  have "?P (snd (run_all e user ctx (m\<lparr>started := True\<rparr>)))"
    by (rule sends_addressed.P_run_all) (use assms(1,2) in \<open>auto simp: user_addresses_def\<close>)
  then have "?P (snd (and_then (run_all e user ctx (m\<lparr>started := True\<rparr>)) (startInstance e ctx)))"
    by (rule sends_addressed.P_and_then) (rule startInstance_addressed)
  then have "?P (snd (Start e user ctx m))"
    using assms(2) sends_addressed.P_doCleanup
    by (auto simp: Start_def fail_def split: prod.split outcome.split option.split)
  then have "list_all event_addressed (world m')" by (simp add: assms(3))
  then show ?thesis
    by (rule list.pred_mono_strong)
      (auto simp: event_addressed_def addressed_def [THEN iffD1] addressed_written split: event.splits)
qed

theorem Start_requests_written_witness:
  "list_all (\<lambda>ev. case ev of
      EvApi op \<Rightarrow> map fst (PathParams (Params op)) = holes None (PathPattern op) \<and>
        (\<exists>w. WriteToRequest plain_lib op = Some w \<and> w \<lparr>rq_timeout = 0, rq_body = None, rq_path = []\<rparr> =
          (None, \<lparr>rq_timeout = ptimeout (Params op), rq_body = Body (Params op), rq_path = PathParams (Params op)\<rparr>))
    | _ \<Rightarrow> True) (world (snd (Start boot_env no_user CtxBackground demo_machine)))"
proof -
  have "user_addresses no_user" by (simp add: user_addresses_def no_user_def)
  moreover have "world demo_machine = []" by code_simp
  ultimately show ?thesis
    using Start_requests_written [OF _ _ surjective_pairing] by simp
qed

end
