(* ===== verification/Lifecycle.thy ===== *)
theory Lifecycle
  imports MachineStart
begin

text \<open>
  The goroutines of a started machine (\<open>startVMM\<close>, \<open>Start\<close>, \<open>Wait\<close>, \<open>Shutdown\<close>, \<open>StopVMM\<close> of
  \<open>machine.go\<close>), in all interleavings. The state has a program counter for the call of \<open>Start\<close>
  that launched the process, one for each goroutine it starts (\<open>waiter\<close> waits for the process,
  \<open>killer\<close> for the context, \<open>reporter\<close> for the exit error), one for each concurrent caller of
  \<open>StopVMM\<close>, the process itself, and the channels. A channel that is only closed has the number of
  times it was closed, since a second \<open>close\<close> would panic; \<open>errCh\<close> is unbuffered, so a value
  passes in one step that moves both sides. \<open>sync.Once\<close> lets the second caller of \<open>doCleanup\<close> wait
  for the first, which makes a clean-up one step; it runs no function the second time.
\<close>

datatype waiter =
    Waiting
  | AwaitShutdown "go_error option"
  | Cleaning "go_error option"
  | Sending "go_error option"
  | ClosingErrCh
  | ClosingCleanupCh
  | WaiterDone

datatype starter =
    InWaitForSocket
  | TimedOut
  | ClosingExit "go_error option"
  | StartVMMUp
  | StartFailed
  | StarterDone

datatype reporter = ReporterNone | Receiving | Got "go_error option" | ClosingExitCh | ReporterDone
datatype killer = KillerNone | Selecting | KillerSignal | KillerStopping | KillerDone
datatype stopper = StopIdle | StopWaiting | StopReturned | StopFailed

record machine_run =
  proc :: "go_error option option"
  waiter :: waiter
  starter :: starter
  reporter :: reporter
  killer :: killer
  stoppers :: "nat \<Rightarrow> stopper"
  errChClosed :: nat
  exitChClosed :: nat
  cleanupChClosed :: nat
  shutdownChClosed :: nat
  ctxCancelled :: bool
  cleanups :: nat
  fatal :: "go_error option"

text \<open>What does not change: the environment, the socket path, and whether the jailer is daemonized.\<close>

record run_config =
  rc_env :: env
  rc_socket :: string
  rc_daemon :: bool

definition launched :: machine_run where
  "launched = \<lparr>proc = None, waiter = Waiting, starter = InWaitForSocket, reporter = ReporterNone,
     killer = KillerNone, stoppers = (\<lambda>_. StopIdle), errChClosed = 0, exitChClosed = 0,
     cleanupChClosed = 0, shutdownChClosed = 0, ctxCancelled = False, cleanups = 0, fatal = None\<rparr>"

definition once :: "nat \<Rightarrow> nat" where
  "once n = (if n = 0 then 1 else n)"

definition exit_report :: "run_config \<Rightarrow> go_error option \<Rightarrow> go_error option \<Rightarrow> go_error option" where
  "exit_report c waitErr cleanupErr =
     merr_or_nil (rc_env c) (merr_append (rc_env c) (merr_append (rc_env c) None waitErr) cleanupErr)"

definition socket_error :: "run_config \<Rightarrow> go_error \<Rightarrow> go_error" where
  "socket_error c err = Wrapf ''Firecracker did not create API socket %s: %w'' [rc_socket c] err"

text \<open>What \<open>startVMM\<close> does with the value it received in \<open>waitForSocket\<close>.\<close>

definition started_with :: "run_config \<Rightarrow> go_error option \<Rightarrow> machine_run \<Rightarrow> machine_run" where
  "started_with c v s =
    (case v of
       Some err \<Rightarrow> s\<lparr>starter := ClosingExit (Some (socket_error c err))\<rparr>
     | None \<Rightarrow> s\<lparr>starter := StartVMMUp, reporter := Receiving, killer := Selecting\<rparr>)"

inductive run_step :: "run_config \<Rightarrow> machine_run \<Rightarrow> machine_run \<Rightarrow> bool" for c where
  process_exits: "proc s = None \<Longrightarrow> run_step c s (s\<lparr>proc := Some w\<rparr>)"
| wait_returns: "waiter s = Waiting \<Longrightarrow> proc s = Some w \<Longrightarrow>
    run_step c s (s\<lparr>waiter := (if rc_daemon c \<and> w = None then AwaitShutdown w else Cleaning w)\<rparr>)"
| shutdown_seen: "waiter s = AwaitShutdown w \<Longrightarrow> 0 < shutdownChClosed s \<Longrightarrow>
    run_step c s (s\<lparr>waiter := Cleaning w\<rparr>)"
| waiter_cleans: "waiter s = Cleaning w \<Longrightarrow>
    run_step c s (s\<lparr>waiter := Sending (exit_report c w cleanupErr), cleanups := once (cleanups s)\<rparr>)"
| send_to_starter: "waiter s = Sending v \<Longrightarrow> starter s = InWaitForSocket \<Longrightarrow>
    run_step c s (started_with c v (s\<lparr>waiter := ClosingErrCh\<rparr>))"
| send_to_reporter: "waiter s = Sending v \<Longrightarrow> reporter s = Receiving \<Longrightarrow>
    run_step c s (s\<lparr>waiter := ClosingErrCh, reporter := Got v\<rparr>)"
| close_errCh: "waiter s = ClosingErrCh \<Longrightarrow>
    run_step c s (s\<lparr>waiter := ClosingCleanupCh, errChClosed := Suc (errChClosed s)\<rparr>)"
| close_cleanupCh: "waiter s = ClosingCleanupCh \<Longrightarrow>
    run_step c s (s\<lparr>waiter := WaiterDone, cleanupChClosed := Suc (cleanupChClosed s)\<rparr>)"
| socket_ready: "starter s = InWaitForSocket \<Longrightarrow>
    run_step c s (s\<lparr>starter := StartVMMUp, reporter := Receiving, killer := Selecting\<rparr>)"
| socket_timeout: "starter s = InWaitForSocket \<Longrightarrow> run_step c s (s\<lparr>starter := TimedOut\<rparr>)"
| timeout_exit: "starter s = TimedOut \<Longrightarrow>
    run_step c s (s\<lparr>starter := StartFailed, fatal := Some (socket_error c CtxErr),
                   exitChClosed := Suc (exitChClosed s)\<rparr>)"
| starter_exit: "starter s = ClosingExit v \<Longrightarrow>
    run_step c s (s\<lparr>starter := StartFailed, fatal := v, exitChClosed := Suc (exitChClosed s)\<rparr>)"
| later_failure: "starter s = StartVMMUp \<Longrightarrow> run_step c s (s\<lparr>starter := StartFailed\<rparr>)"
| start_succeeds: "starter s = StartVMMUp \<Longrightarrow> run_step c s (s\<lparr>starter := StarterDone\<rparr>)"
| starter_cleans: "starter s = StartFailed \<Longrightarrow>
    run_step c s (s\<lparr>starter := StarterDone, cleanups := once (cleanups s)\<rparr>)"
| reporter_closed: "reporter s = Receiving \<Longrightarrow> 0 < errChClosed s \<Longrightarrow>
    run_step c s (s\<lparr>reporter := Got None\<rparr>)"
| reporter_sets: "reporter s = Got v \<Longrightarrow> run_step c s (s\<lparr>reporter := ClosingExitCh, fatal := v\<rparr>)"
| reporter_exit: "reporter s = ClosingExitCh \<Longrightarrow>
    run_step c s (s\<lparr>reporter := ReporterDone, exitChClosed := Suc (exitChClosed s)\<rparr>)"
| cancel: "run_step c s (s\<lparr>ctxCancelled := True\<rparr>)"
| killer_cancelled: "killer s = Selecting \<Longrightarrow> ctxCancelled s \<Longrightarrow> run_step c s (s\<lparr>killer := KillerSignal\<rparr>)"
| killer_exited: "killer s = Selecting \<Longrightarrow> 0 < exitChClosed s \<Longrightarrow> run_step c s (s\<lparr>killer := KillerDone\<rparr>)"
| killer_signals: "killer s = KillerSignal \<Longrightarrow> run_step c s (s\<lparr>killer := KillerStopping\<rparr>)"
| killer_fails: "killer s = KillerSignal \<Longrightarrow> run_step c s (s\<lparr>killer := KillerDone\<rparr>)"
| killer_returns: "killer s = KillerStopping \<Longrightarrow> 0 < cleanupChClosed s \<Longrightarrow>
    run_step c s (s\<lparr>killer := KillerDone\<rparr>)"
| stop_signals: "stoppers s i = StopIdle \<Longrightarrow>
    run_step c s (s\<lparr>stoppers := (stoppers s)(i := StopWaiting)\<rparr>)"
| stop_fails: "stoppers s i = StopIdle \<Longrightarrow>
    run_step c s (s\<lparr>stoppers := (stoppers s)(i := StopFailed)\<rparr>)"
| stop_returns: "stoppers s i = StopWaiting \<Longrightarrow> 0 < cleanupChClosed s \<Longrightarrow>
    run_step c s (s\<lparr>stoppers := (stoppers s)(i := StopReturned)\<rparr>)"
| shutdown: "shutdownChClosed s = 0 \<Longrightarrow> run_step c s (s\<lparr>shutdownChClosed := 1\<rparr>)"

subsection \<open>The invariant of the goroutines\<close>

text \<open>
  Each conjunct ties a counter or a program counter to the one that determines it: the waiter alone
  closes \<open>errCh\<close> and \<open>cleanupCh\<close>, at its last two statements; \<open>exitCh\<close> is closed by the failing
  \<open>startVMM\<close> or by the reporter, which exists only when \<open>startVMM\<close> returned nil.
\<close>

definition waiter_inv :: "machine_run \<Rightarrow> bool" where
  "waiter_inv s \<longleftrightarrow>
     errChClosed s = (if waiter s = ClosingCleanupCh \<or> waiter s = WaiterDone then 1 else 0) \<and>
     cleanupChClosed s = (if waiter s = WaiterDone then 1 else 0) \<and>
     (waiter s \<noteq> Waiting \<longrightarrow> proc s \<noteq> None) \<and> cleanups s \<le> 1 \<and> shutdownChClosed s \<le> 1 \<and>
     (case waiter s of Waiting \<Rightarrow> True | AwaitShutdown _ \<Rightarrow> True | Cleaning _ \<Rightarrow> True | _ \<Rightarrow> cleanups s = 1)"

definition exit_inv :: "machine_run \<Rightarrow> bool" where
  "exit_inv s \<longleftrightarrow>
     exitChClosed s =
       (case starter s of
          InWaitForSocket \<Rightarrow> 0 | TimedOut \<Rightarrow> 0 | ClosingExit _ \<Rightarrow> 0
        | _ \<Rightarrow> (if reporter s = ReporterNone \<or> reporter s = ReporterDone then 1 else 0)) \<and>
     (reporter s = ReporterNone \<longrightarrow> starter s \<noteq> StartVMMUp \<and> killer s = KillerNone) \<and>
     (case starter s of
        InWaitForSocket \<Rightarrow> reporter s = ReporterNone
      | TimedOut \<Rightarrow> reporter s = ReporterNone
      | ClosingExit _ \<Rightarrow> reporter s = ReporterNone
      | _ \<Rightarrow> True)"

text \<open>Whether the waiter has handed over, or can no longer hand over, its value.\<close>

definition sent :: "machine_run \<Rightarrow> bool" where
  "sent s \<longleftrightarrow> waiter s = ClosingErrCh \<or> waiter s = ClosingCleanupCh \<or> waiter s = WaiterDone"

definition handover_inv :: "machine_run \<Rightarrow> bool" where
  "handover_inv s \<longleftrightarrow>
     (starter s = InWaitForSocket \<or> starter s = TimedOut \<longrightarrow> \<not> sent s) \<and>
     (reporter s \<noteq> ReporterNone \<and> reporter s \<noteq> Receiving \<longrightarrow> sent s) \<and>
     (\<forall>i. stoppers s i = StopReturned \<longrightarrow> cleanupChClosed s = 1)"

definition run_inv :: "machine_run \<Rightarrow> bool" where
  "run_inv s \<longleftrightarrow> waiter_inv s \<and> exit_inv s \<and> handover_inv s"

lemmas run_inv_defs = run_inv_def waiter_inv_def exit_inv_def handover_inv_def sent_def

inductive_cases run_stepE: "run_step c s t"

lemma waiter_inv_step: "waiter_inv s \<Longrightarrow> run_step c s t \<Longrightarrow> waiter_inv t"
  by (erule run_stepE)
    (auto simp: waiter_inv_def started_with_def once_def split: option.splits waiter.splits if_splits)

lemma exit_inv_step: "exit_inv s \<Longrightarrow> run_step c s t \<Longrightarrow> exit_inv t"
  by (erule run_stepE)
    (auto simp: exit_inv_def started_with_def split: option.splits starter.splits if_splits)

lemma handover_inv_step:
  "handover_inv s \<Longrightarrow> waiter_inv s \<Longrightarrow> exit_inv s \<Longrightarrow> run_step c s t \<Longrightarrow> handover_inv t"
  by (erule run_stepE)
    (auto simp: handover_inv_def sent_def started_with_def waiter_inv_def exit_inv_def
      split: option.splits if_splits)

lemma run_inv_launched: "run_inv launched"
  unfolding run_inv_defs launched_def by simp

lemma run_inv_step: "run_inv s \<Longrightarrow> run_step c s t \<Longrightarrow> run_inv t"
  unfolding run_inv_def by (blast intro: waiter_inv_step exit_inv_step handover_inv_step)

interpretation run: invariant_system "\<lambda>s. s = launched" "run_step c" run_inv for c
  by unfold_locales (auto simp: run_inv_launched intro: run_inv_step)

text \<open>
  The value on its way to \<open>m.fatalErr\<close> is the report on the process that ended. A nil value may
  have gone to \<open>waitForSocket\<close> instead; the reporter then reads nil from the closed channel.
\<close>

definition is_report :: "run_config \<Rightarrow> machine_run \<Rightarrow> go_error option \<Rightarrow> bool" where
  "is_report c s v \<longleftrightarrow> (\<exists>w cerr. proc s = Some w \<and> v = exit_report c w cerr)"

lemma is_report_intro:
  "exit_report c w cerr = v \<Longrightarrow> proc s = Some w \<Longrightarrow> is_report c s v"
  by (auto simp: is_report_def)

lemma is_report_frame [simp]:
  "is_report c (s\<lparr>waiter := x0\<rparr>) = is_report c s"
  "is_report c (s\<lparr>starter := x1\<rparr>) = is_report c s"
  "is_report c (s\<lparr>reporter := x2\<rparr>) = is_report c s"
  "is_report c (s\<lparr>killer := x3\<rparr>) = is_report c s"
  "is_report c (s\<lparr>stoppers := x4\<rparr>) = is_report c s"
  "is_report c (s\<lparr>errChClosed := x5\<rparr>) = is_report c s"
  "is_report c (s\<lparr>exitChClosed := x6\<rparr>) = is_report c s"
  "is_report c (s\<lparr>cleanupChClosed := x7\<rparr>) = is_report c s"
  "is_report c (s\<lparr>shutdownChClosed := x8\<rparr>) = is_report c s"
  "is_report c (s\<lparr>ctxCancelled := x9\<rparr>) = is_report c s"
  "is_report c (s\<lparr>cleanups := x10\<rparr>) = is_report c s"
  "is_report c (s\<lparr>fatal := x11\<rparr>) = is_report c s"
  by (simp_all add: is_report_def fun_eq_iff)

lemma is_report_exited: "is_report c s v \<Longrightarrow> proc s \<noteq> None"
  by (auto simp: is_report_def)

definition value_inv :: "run_config \<Rightarrow> machine_run \<Rightarrow> bool" where
  "value_inv c s \<longleftrightarrow>
     (case waiter s of
        AwaitShutdown w \<Rightarrow> proc s = Some w \<and> rc_daemon c
      | Cleaning w \<Rightarrow> proc s = Some w
      | Sending v \<Rightarrow> is_report c s v
      | _ \<Rightarrow> True) \<and>
     (reporter s = Receiving \<and> sent s \<longrightarrow> is_report c s None) \<and>
     (\<forall>v. reporter s = Got v \<longrightarrow> is_report c s v) \<and>
     (reporter s = ClosingExitCh \<or> reporter s = ReporterDone \<longrightarrow> is_report c s (fatal s))"

lemma value_inv_step: "value_inv c s \<Longrightarrow> run_inv s \<Longrightarrow> run_step c s t \<Longrightarrow> value_inv c t"
  by (erule run_stepE)
    (auto simp: value_inv_def run_inv_defs started_with_def
      intro: is_report_intro dest: is_report_exited
      split: option.splits waiter.splits if_splits)

interpretation reports: invariant_system "\<lambda>s. s = launched" "run_step c" "\<lambda>s. run_inv s \<and> value_inv c s" for c
proof unfold_locales
  fix s assume "s = launched"
  moreover have "value_inv c launched" by (simp add: value_inv_def launched_def)
  ultimately show "run_inv s \<and> value_inv c s" using run_inv_launched by simp
qed (blast intro: run_inv_step value_inv_step)

subsection \<open>What every schedule keeps\<close>

definition run_reachable :: "run_config \<Rightarrow> machine_run \<Rightarrow> bool" where
  "run_reachable c s \<longleftrightarrow> (run_step c)\<^sup>*\<^sup>* launched s"

lemma reachable_inv: "run_reachable c s \<Longrightarrow> run_inv s"
  unfolding run_reachable_def by (rule run.I_reachable) simp_all

lemma reachable_value: "run_reachable c s \<Longrightarrow> value_inv c s"
  unfolding run_reachable_def by (drule reports.I_reachable [OF refl]) simp

lemma reachable_step: "run_reachable c s \<Longrightarrow> run_step c s t \<Longrightarrow> run_reachable c t"
  by (simp add: run_reachable_def)

text \<open>Runs for the examples: the process is up and then exits with \<open>w\<close>; or the wait times out.\<close>

definition up_run :: machine_run where
  "up_run = launched\<lparr>starter := StartVMMUp, reporter := Receiving, killer := Selecting\<rparr>"

definition ended_run :: "run_config \<Rightarrow> go_error option \<Rightarrow> machine_run" where
  "ended_run c w = up_run\<lparr>proc := Some w, waiter := WaiterDone, cleanups := 1, errChClosed := 1,
     cleanupChClosed := 1, reporter := ReporterDone, fatal := exit_report c w None, exitChClosed := 1\<rparr>"

lemma up_run_reachable: "run_reachable c up_run"
  using run_step.socket_ready [of launched c]
  by (simp add: run_reachable_def up_run_def launched_def)

lemma ended_run_reachable:
  assumes "\<not> rc_daemon c \<or> w \<noteq> None"
  shows "run_reachable c (ended_run c w)"
proof -
  have "run_reachable c (up_run\<lparr>proc := Some w\<rparr>)" (is "run_reachable c ?a")
    by (rule reachable_step [OF up_run_reachable], rule process_exits) (simp add: up_run_def launched_def)
  then have "run_reachable c (?a\<lparr>waiter := Cleaning w\<rparr>)" (is "run_reachable c ?b")
    using assms run_step.wait_returns [of ?a w c]
    by (auto intro: reachable_step simp: up_run_def launched_def split: if_splits)
  then have "run_reachable c (?b\<lparr>waiter := Sending (exit_report c w None), cleanups := 1\<rparr>)"
    (is "run_reachable c ?d")
    using run_step.waiter_cleans [of ?b w c None]
    by (auto intro: reachable_step simp: up_run_def launched_def once_def)
  then have "run_reachable c (?d\<lparr>waiter := ClosingErrCh, reporter := Got (exit_report c w None)\<rparr>)"
    (is "run_reachable c ?f")
    using run_step.send_to_reporter [of ?d "exit_report c w None" c]
    by (auto intro: reachable_step simp: up_run_def launched_def)
  then have "run_reachable c (?f\<lparr>waiter := ClosingCleanupCh, errChClosed := 1\<rparr>)"
    (is "run_reachable c ?g")
    using run_step.close_errCh [of ?f c] by (auto intro: reachable_step simp: up_run_def launched_def)
  then have "run_reachable c (?g\<lparr>waiter := WaiterDone, cleanupChClosed := 1\<rparr>)"
    (is "run_reachable c ?h")
    using run_step.close_cleanupCh [of ?g c] by (auto intro: reachable_step simp: up_run_def launched_def)
  then have "run_reachable c (?h\<lparr>reporter := ClosingExitCh, fatal := exit_report c w None\<rparr>)"
    (is "run_reachable c ?i")
    using run_step.reporter_sets [of ?h _ c] by (auto intro: reachable_step simp: up_run_def launched_def)
  then show ?thesis
    using run_step.reporter_exit [of ?i c]
    by (auto intro: reachable_step simp: up_run_def launched_def ended_run_def)
qed

definition calm_run :: "bool \<Rightarrow> run_config" where
  "calm_run d = \<lparr>rc_env = calm_env, rc_socket = ''/fc.sock'', rc_daemon = d\<rparr>"

lemma calm_run_simps [simp]:
  "rc_env (calm_run d) = calm_env" "rc_socket (calm_run d) = ''/fc.sock''" "rc_daemon (calm_run d) = d"
  by (simp_all add: calm_run_def)

lemma ended_calm: "run_reachable (calm_run False) (ended_run (calm_run False) w)"
  by (rule ended_run_reachable) simp



text \<open>Once \<open>exitCh\<close> is closed nothing assigns \<open>m.fatalErr\<close> any more.\<close>

lemma fatal_frozen: "exit_inv s \<Longrightarrow> 0 < exitChClosed s \<Longrightarrow> run_step c s t \<Longrightarrow>
    exitChClosed t = exitChClosed s \<and> fatal t = fatal s"
  by (erule run_stepE)
    (auto simp: exit_inv_def started_with_def split: option.splits starter.splits if_splits)

interpretation frozen: invariant_system
    "\<lambda>s. run_inv s \<and> exitChClosed s = 1 \<and> fatal s = v" "run_step c"
    "\<lambda>s. run_inv s \<and> exitChClosed s = 1 \<and> fatal s = v" for v c
proof unfold_locales
  fix s t assume "run_inv s \<and> exitChClosed s = 1 \<and> fatal s = v" and "run_step c s t"
  then show "run_inv t \<and> exitChClosed t = 1 \<and> fatal t = v"
    using fatal_frozen [of s c t] run_inv_step [of s c t] by (auto simp: run_inv_def)
qed

text \<open>Once \<open>exitCh\<close> is closed, in any reachable state, it stays closed and \<open>m.fatalErr\<close> is not
  assigned again: every \<open>Wait\<close>, however late it comes and however many there are, returns the same
  error, and none reads the field while another goroutine writes it.\<close>

lemma Wait_error_stable:
  assumes "run_reachable c s" and "0 < exitChClosed s" and "(run_step c)\<^sup>*\<^sup>* s t"
  shows "0 < exitChClosed t \<and> fatal t = fatal s"
proof -
  have "run_inv s" by (rule reachable_inv [OF assms(1)])
  then have "run_inv s \<and> exitChClosed s = 1 \<and> fatal s = fatal s"
    using assms(2) by (auto simp: run_inv_defs split: starter.splits if_splits)
  from frozen.I_steps [OF assms(3) this] show ?thesis by simp
qed

lemma Wait_error_stable_witness:
  "fatal (ended_run (calm_run False) (Some (LibError 3))\<lparr>ctxCancelled := True\<rparr>) = exit_report (calm_run False) (Some (LibError 3)) None"
proof -
  let ?s = "ended_run (calm_run False) (Some (LibError 3))"
  have "fatal (?s\<lparr>ctxCancelled := True\<rparr>) = fatal ?s"
    by (rule conjunct2, rule Wait_error_stable [OF ended_calm _ r_into_rtranclp [of "run_step (calm_run False)"]])
      (simp add: ended_run_def, rule cancel)
  then show ?thesis by (simp add: ended_run_def)
qed

text \<open>A \<open>StopVMM\<close> or a context cancellation that has been told of the end through \<open>cleanupCh\<close>
  returns after the fact: the process has exited, the clean-up functions have run and \<open>errCh\<close> is
  closed. This is so for every number of concurrent callers.\<close>

lemma StopVMM_returns_after_cleanup:
  assumes "run_reachable c s" and "stoppers s i = StopReturned \<or> 0 < cleanupChClosed s"
  shows "(\<exists>w. proc s = Some w) \<and> cleanups s = 1 \<and> errChClosed s = 1"
  using reachable_inv [OF assms(1)] assms(2) by (auto simp: run_inv_defs split: if_splits)

lemma StopVMM_returns_after_cleanup_witness:
  "cleanups (ended_run (calm_run False) None) = 1"
proof -
  let ?s = "ended_run (calm_run False) None"
  have "0 < cleanupChClosed ?s" by (simp add: ended_run_def)
  with StopVMM_returns_after_cleanup [OF ended_calm, of None 0] show ?thesis by blast
qed



subsection \<open>When the wait for the socket gives up\<close>

text \<open>
  Nobody receives from \<open>errCh\<close> any more: \<open>startVMM\<close> has left its select and returns before it
  starts the reporter. The waiter stays at its send for ever.
\<close>

definition abandoned :: "machine_run \<Rightarrow> bool" where
  "abandoned s \<longleftrightarrow>
     (starter s = TimedOut \<or> starter s = StartFailed \<or> starter s = StarterDone) \<and>
     reporter s = ReporterNone \<and> \<not> sent s"

lemma abandoned_step: "abandoned s \<Longrightarrow> run_step c s t \<Longrightarrow> abandoned t"
  by (erule run_stepE)
    (auto simp: abandoned_def sent_def started_with_def split: option.splits if_splits)

interpretation abandoned: invariant_system
    "\<lambda>s. run_inv s \<and> starter s = TimedOut" "run_step c" "\<lambda>s. run_inv s \<and> abandoned s" for c
proof unfold_locales
  fix s assume "run_inv s \<and> starter s = TimedOut"
  then show "run_inv s \<and> abandoned s"
    by (auto simp: abandoned_def run_inv_def exit_inv_def handover_inv_def)
qed (blast intro: run_inv_step abandoned_step)

definition timed_out_run :: machine_run where
  "timed_out_run = launched\<lparr>starter := TimedOut\<rparr>"

lemma timed_out_reachable: "run_reachable c timed_out_run"
  using run_step.socket_timeout [of launched c]
  by (simp add: run_reachable_def timed_out_run_def launched_def)

text \<open>C33: When \<open>waitForSocket\<close> gives up (its timeout, or the context), no later state closes
  \<open>cleanupCh\<close>: the goroutine that waits for the process blocks for ever at its send on \<open>errCh\<close>.
  A \<open>StopVMM\<close> that signals the process then never returns, although the process ends. \<open>startVMM\<close>
  leaves the process running in this case, so \<open>StopVMM\<close> is what a caller has left to end it.\<close>

theorem socket_timeout_blocks_StopVMM:
  assumes "run_reachable c s" and "starter s = TimedOut" and "(run_step c)\<^sup>*\<^sup>* s t"
  shows "cleanupChClosed t = 0 \<and> waiter t \<noteq> WaiterDone \<and> stoppers t i \<noteq> StopReturned"
proof -
  have "run_inv t \<and> abandoned t"
    by (rule abandoned.I_reachable [OF _ assms(3)]) (simp add: assms(2) reachable_inv [OF assms(1)])
  then show ?thesis by (auto simp: abandoned_def run_inv_defs)
qed

theorem socket_timeout_blocks_StopVMM_witness:
  "stoppers (timed_out_run\<lparr>proc := Some None\<rparr>) 0 \<noteq> StopReturned"
  using socket_timeout_blocks_StopVMM [OF timed_out_reachable [of "calm_run False"] _
      r_into_rtranclp [of "run_step (calm_run False)", OF process_exits], of None 0]
  by (simp add: timed_out_run_def launched_def)

subsection \<open>The end of a process is always reported\<close>

primrec waiter_left :: "waiter \<Rightarrow> nat" where
  "waiter_left Waiting = 6"
| "waiter_left (AwaitShutdown w) = 5"
| "waiter_left (Cleaning w) = 4"
| "waiter_left (Sending v) = 3"
| "waiter_left ClosingErrCh = 2"
| "waiter_left ClosingCleanupCh = 1"
| "waiter_left WaiterDone = 0"

primrec reporter_left :: "reporter \<Rightarrow> nat" where
  "reporter_left ReporterNone = 4"
| "reporter_left Receiving = 3"
| "reporter_left (Got v) = 2"
| "reporter_left ClosingExitCh = 1"
| "reporter_left ReporterDone = 0"

definition exit_distance :: "machine_run \<Rightarrow> nat" where
  "exit_distance s = waiter_left (waiter s) + reporter_left (reporter s)"

text \<open>The process has ended and nothing outside has to happen before it is reported.\<close>

definition ending :: "run_config \<Rightarrow> machine_run \<Rightarrow> bool" where
  "ending c s \<longleftrightarrow> run_inv s \<and> value_inv c s \<and> proc s \<noteq> None \<and> reporter s \<noteq> ReporterNone \<and>
     (rc_daemon c \<longrightarrow> 0 < shutdownChClosed s)"

lemma exit_distance_step: "run_step c s t \<Longrightarrow> exit_inv s \<Longrightarrow> exit_distance t \<le> exit_distance s"
  by (erule run_stepE) (auto simp: exit_distance_def started_with_def exit_inv_def split: option.splits)

lemma ending_step: "ending c s \<Longrightarrow> run_step c s t \<Longrightarrow> ending c t"
  unfolding ending_def
  by (intro conjI, blast intro: run_inv_step, blast intro: value_inv_step)
    (erule run_stepE; auto simp: started_with_def split: option.splits)+

lemma reporter_cases: "reporter s \<noteq> ReporterNone \<Longrightarrow> reporter s \<noteq> ReporterDone \<Longrightarrow>
    reporter s = Receiving \<or> (\<exists>v. reporter s = Got v) \<or> reporter s = ClosingExitCh"
  by (cases "reporter s") auto

lemma progressI: "run_step c s t \<Longrightarrow> exit_distance t < exit_distance s \<Longrightarrow>
    \<exists>t. run_step c s t \<and> exit_distance t < exit_distance s"
  by blast

lemma waiter_progress:
  assumes "ending c s" and "waiter s \<noteq> WaiterDone" and "\<forall>v. waiter s = Sending v \<longrightarrow> reporter s = Receiving"
  shows "\<exists>t. run_step c s t \<and> exit_distance t < exit_distance s"
proof (cases "waiter s")
  case Waiting
  from assms(1) obtain w where "proc s = Some w" by (auto simp: ending_def)
  then show ?thesis
    by (rule progressI [OF wait_returns [OF Waiting _, of _ c]]) (simp_all add: exit_distance_def Waiting)
next
  case (AwaitShutdown w)
  with assms(1) have "0 < shutdownChClosed s" by (simp add: ending_def value_inv_def)
  then show ?thesis
    by (rule progressI [OF shutdown_seen [OF AwaitShutdown _, of c]]) (simp_all add: exit_distance_def AwaitShutdown)
next
  case (Cleaning w)
  show ?thesis
    by (rule progressI [OF waiter_cleans [OF Cleaning, of c None]]) (simp add: exit_distance_def Cleaning)
next
  case (Sending v)
  with assms(3) have r: "reporter s = Receiving" by simp
  show ?thesis
    by (rule progressI [OF send_to_reporter [OF Sending r, of c]]) (simp add: exit_distance_def Sending r)
next
  case ClosingErrCh
  show ?thesis
    by (rule progressI [OF close_errCh [OF ClosingErrCh, of c]]) (simp add: exit_distance_def ClosingErrCh)
next
  case ClosingCleanupCh
  show ?thesis
    by (rule progressI [OF close_cleanupCh [OF ClosingCleanupCh, of c]]) (simp add: exit_distance_def ClosingCleanupCh)
next
  case WaiterDone
  with assms(2) show ?thesis by simp
qed

lemma reporter_progress:
  assumes "ending c s" and "waiter s = WaiterDone" and "reporter s \<noteq> ReporterDone"
  shows "\<exists>t. run_step c s t \<and> exit_distance t < exit_distance s"
proof (cases "reporter s")
  case ReporterNone
  with assms(1) show ?thesis by (simp add: ending_def)
next
  case Receiving
  from assms(1,2) have "0 < errChClosed s" by (simp add: ending_def run_inv_defs)
  then show ?thesis
    by (rule progressI [OF reporter_closed [OF Receiving _, of c]]) (simp_all add: exit_distance_def Receiving)
next
  case (Got v)
  show ?thesis
    by (rule progressI [OF reporter_sets [OF Got, of c]]) (simp add: exit_distance_def Got)
next
  case ClosingExitCh
  show ?thesis
    by (rule progressI [OF reporter_exit [OF ClosingExitCh, of c]]) (simp add: exit_distance_def ClosingExitCh)
next
  case ReporterDone
  with assms(3) show ?thesis by simp
qed

lemma ending_progress:
  assumes "ending c s" and "0 < exit_distance s"
  shows "\<exists>t. run_step c s t \<and> exit_distance t < exit_distance s"
proof (cases "waiter s = WaiterDone")
  case True
  with assms(2) have "reporter s \<noteq> ReporterDone" by (auto simp: exit_distance_def)
  with assms(1) True show ?thesis by (rule reporter_progress)
next
  case False
  have "reporter s = Receiving" if "waiter s = Sending v" for v
    using assms(1) that by (auto simp: ending_def run_inv_defs)
  with assms(1) False show ?thesis by (intro waiter_progress) auto
qed

lemma exit_distance_zero: "ending c s \<Longrightarrow>
    exit_distance s = 0 \<longleftrightarrow> cleanupChClosed s = 1 \<and> exitChClosed s = 1"
  by (cases "waiter s"; cases "reporter s"; cases "starter s")
    (auto simp: exit_distance_def ending_def run_inv_defs)

lemma ending_reaches: "ending c s \<Longrightarrow> \<exists>t. (run_step c)\<^sup>*\<^sup>* s t \<and> ending c t \<and> exit_distance t = 0"
proof (induction "exit_distance s" arbitrary: s rule: less_induct)
  case less
  show ?case
  proof (cases "exit_distance s = 0")
    case True
    with less.prems show ?thesis by blast
  next
    case False
    with ending_progress [OF less.prems] obtain u
      where u: "run_step c s u" "exit_distance u < exit_distance s" by auto
    with less.hyps [OF u(2)] ending_step [OF less.prems u(1)] obtain t
      where "(run_step c)\<^sup>*\<^sup>* u t" "ending c t" "exit_distance t = 0" by blast
    with u(1) show ?thesis by (meson converse_rtranclp_into_rtranclp)
  qed
qed



end
