(* ===== verification/StartRefines.thy ===== *)
theory StartRefines
  imports MachineProps Lifecycle
begin

text \<open>
  The two models of starting agree: whatever \<open>startVMM\<close> returns as one sequential operation (theory
  \<open>MachineStart\<close>) is a state that the goroutines reach in some interleaving (theory \<open>Lifecycle\<close>).
\<close>

text \<open>The parameters of a run of the goroutines of a machine.\<close>

definition run_of :: "env \<Rightarrow> Machine \<Rightarrow> run_config" where
  "run_of e m = \<lparr>rc_env = e, rc_socket = SocketPath (Cfg m), rc_daemon = daemonized m\<rparr>"

text \<open>What a machine shows of the state of its goroutines.\<close>

definition shows_run :: "Machine \<Rightarrow> machine_run \<Rightarrow> bool" where
  "shows_run m s \<longleftrightarrow>
     (exitCh m \<longleftrightarrow> exitChClosed s = 1) \<and> (cleanupCh m \<longleftrightarrow> cleanupChClosed s = 1)
   \<and> (cleaned m \<longleftrightarrow> cleanups s = 1) \<and> (shutdownCh m \<longleftrightarrow> shutdownChClosed s = 1) \<and> fatalErr m = fatal s"

definition not_started :: "Machine \<Rightarrow> bool" where
  "not_started m \<longleftrightarrow> \<not> exitCh m \<and> \<not> cleanupCh m \<and> \<not> cleaned m \<and> \<not> shutdownCh m \<and> fatalErr m = None"

subsection \<open>What the wait for the socket leaves\<close>

definition same_machine :: "Machine \<Rightarrow> Machine \<Rightarrow> bool" where
  "same_machine m m' \<longleftrightarrow> m' = m\<lparr>world := world m'\<rparr>"

lemma same_machine_world [simp]: "same_machine m (m\<lparr>world := tr\<rparr>)"
  by (simp add: same_machine_def)

lemma same_machine_trans: "same_machine m m1 \<Longrightarrow> same_machine m1 m2 \<Longrightarrow> same_machine m m2"
  unfolding same_machine_def by (metis Machine.update_convs(14) Machine.surjective)

lemma waitForSocket_result:
  "waitForSocket e ws m = (r, m') \<Longrightarrow>
     same_machine m m' \<and> (\<forall>v. r \<noteq> VMMExited v)
   \<or> (\<exists>m1 w v. same_machine m m1 \<and> r = VMMExited v \<and> vmm_exit e w m1 = (v, m')
        \<and> \<not> (daemonized m1 \<and> w = None \<and> \<not> shutdownCh m1))"
proof (induction ws arbitrary: m)
  case Nil
  then show ?case by (auto simp: same_machine_def)
next
  case (Cons w ws)
  show ?case
  proof (cases w)
    case WTimeout
    with Cons.prems show ?thesis by (auto simp: same_machine_def)
  next
    case (WExit waitErr)
    show ?thesis
    proof (cases "daemonized m \<and> waitErr = None \<and> \<not> shutdownCh m")
      case True
      with WExit Cons.prems Cons.IH [of m] show ?thesis by simp
    next
      case False
      with WExit Cons.prems obtain v where "vmm_exit e waitErr m = (v, m')" "r = VMMExited v"
        by (auto split: prod.splits if_splits)
      moreover have "same_machine m m" by (simp add: same_machine_def)
      ultimately show ?thesis using False by blast
    qed
  next
    case WTick
    let ?ev = "EvStat (SocketPath (Cfg m))"
    obtain q m2 where q: "do_api (GetMachineConfiguration e (client m) []) (m\<lparr>world := world m @ [?ev]\<rparr>) = (q, m2)"
      by fastforce
    then have m2: "m2 = m\<lparr>world := world m2\<rparr>" by (auto simp: do_api_def split: prod.splits)
    have again: ?thesis if "waitForSocket e ws (m\<lparr>world := tr\<rparr>) = (r, m')" for tr
      using Cons.IH [OF that] same_machine_trans [OF same_machine_world] by blast
    show ?thesis
    proof (cases "sys e (world m) ?ev")
      case (Some err)
      with WTick Cons.prems have "waitForSocket e ws (m\<lparr>world := world m @ [?ev]\<rparr>) = (r, m')"
        by (simp add: do_sys_def)
      then show ?thesis by (rule again)
    next
      case None
      with WTick Cons.prems q have w: "(case q of Inl p \<Rightarrow> (WaitPanicked p, m2)
          | Inr (Inl err) \<Rightarrow> waitForSocket e ws m2 | Inr (Inr payload) \<Rightarrow> (SocketReady, m2)) = (r, m')"
        by (simp add: do_sys_def)
      show ?thesis
      proof (cases "\<exists>err. q = Inr (Inl err)")
        case True
        with w have "waitForSocket e ws m2 = (r, m')" by auto
        then have "waitForSocket e ws (m\<lparr>world := world m2\<rparr>) = (r, m')" using m2 by simp
        then show ?thesis by (rule again)
      next
        case False
        with w m2 show ?thesis by (auto simp: same_machine_def split: sum.splits)
      qed
    qed
  qed
qed

subsection \<open>The runs of the goroutines\<close>

text \<open>The wait times out; or the process exits while \<open>waitForSocket\<close> still waits.\<close>

lemma timed_out_run_reachable:
  "run_reachable c (launched\<lparr>starter := StartFailed, fatal := Some (socket_error c CtxErr), exitChClosed := 1\<rparr>)"
proof -
  have "run_reachable c (launched\<lparr>starter := TimedOut\<rparr>)"
    using run_step.socket_timeout [of launched c] by (simp add: run_reachable_def launched_def)
  then show ?thesis
    using run_step.timeout_exit [of "launched\<lparr>starter := TimedOut\<rparr>" c]
    by (auto intro: reachable_step simp: launched_def)
qed

definition exited_run :: "run_config \<Rightarrow> go_error option \<Rightarrow> go_error option \<Rightarrow> machine_run" where
  "exited_run c w v =
     (started_with c v (launched\<lparr>proc := Some w, cleanups := 1\<rparr>))
       \<lparr>waiter := WaiterDone, errChClosed := 1, cleanupChClosed := 1\<rparr>"

lemma exited_run_reachable:
  assumes "\<not> (rc_daemon c \<and> w = None)" and "v = exit_report c w cerr"
  shows "run_reachable c (exited_run c w v)"
proof -
  have "run_reachable c (launched\<lparr>proc := Some w\<rparr>)" (is "run_reachable c ?a")
    using run_step.process_exits [of launched c w] by (simp add: run_reachable_def launched_def)
  then have "run_reachable c (?a\<lparr>waiter := Cleaning w\<rparr>)" (is "run_reachable c ?b")
    using assms(1) run_step.wait_returns [of ?a w c] by (auto intro: reachable_step simp: launched_def)
  then have "run_reachable c (?b\<lparr>waiter := Sending v, cleanups := 1\<rparr>)" (is "run_reachable c ?d")
    using run_step.waiter_cleans [of ?b w c cerr] assms(2)
    by (auto intro: reachable_step simp: launched_def once_def)
  then have "run_reachable c (started_with c v (?d\<lparr>waiter := ClosingErrCh\<rparr>))" (is "run_reachable c ?f")
    using run_step.send_to_starter [of ?d v c] by (auto intro: reachable_step simp: launched_def)
  then have "run_reachable c (?f\<lparr>waiter := ClosingCleanupCh, errChClosed := 1\<rparr>)" (is "run_reachable c ?g")
    using run_step.close_errCh [of ?f c]
    by (auto intro: reachable_step simp: launched_def started_with_def split: option.splits)
  then have "run_reachable c (?g\<lparr>waiter := WaiterDone, cleanupChClosed := 1\<rparr>)"
    using run_step.close_cleanupCh [of ?g c]
    by (auto intro: reachable_step simp: launched_def started_with_def split: option.splits)
  then show ?thesis by (simp add: exited_run_def launched_def started_with_def split: option.splits)
qed

lemma exited_error_reachable:
  assumes "run_reachable c (exited_run c w (Some err))"
  shows "run_reachable c ((exited_run c w (Some err))\<lparr>starter := StartFailed,
    fatal := Some (socket_error c err), exitChClosed := 1\<rparr>)"
  using run_step.starter_exit [of "exited_run c w (Some err)" "Some (socket_error c err)" c]
    reachable_step [OF assms]
  by (simp add: exited_run_def started_with_def launched_def)

lemma exited_nil_reachable:
  assumes "run_reachable c (exited_run c w None)"
  shows "run_reachable c ((exited_run c w None)\<lparr>reporter := ReporterDone, fatal := None, exitChClosed := 1\<rparr>)"
proof -
  let ?a = "exited_run c w None"
  have "run_reachable c (?a\<lparr>reporter := Got None\<rparr>)" (is "run_reachable c ?b")
    using run_step.reporter_closed [of ?a c] reachable_step [OF assms]
    by (simp add: exited_run_def started_with_def)
  then have "run_reachable c (?b\<lparr>reporter := ClosingExitCh, fatal := None\<rparr>)" (is "run_reachable c ?d")
    using run_step.reporter_sets [of ?b None c] by (auto intro: reachable_step)
  then show ?thesis
    using run_step.reporter_exit [of ?d c]
    by (auto intro: reachable_step simp: exited_run_def started_with_def launched_def)
qed

lemma same_machine_fields:
  assumes "same_machine m m'"
  shows "exitCh m' = exitCh m" "cleanupCh m' = cleanupCh m" "cleaned m' = cleaned m" "shutdownCh m' = shutdownCh m"
    "fatalErr m' = fatalErr m" "Cfg m' = Cfg m"
  using assms unfolding same_machine_def by (metis Machine.select_convs Machine.update_convs(14) Machine.surjective)+

lemma vmm_exit_result:
  assumes "vmm_exit e w m = (v, m')"
  shows "\<exists>cerr. v = merr_or_nil e (merr_append e (merr_append e None w) cerr)" "cleaned m'" "cleanupCh m'"
    "exitCh m' = exitCh m" "shutdownCh m' = shutdownCh m" "fatalErr m' = fatalErr m" "Cfg m' = Cfg m"
  using assms doCleanup_snd [of e m] by (auto simp: vmm_exit_def split: prod.splits if_splits)

lemma refinesI:
  "run_reachable c s \<Longrightarrow> shows_run m s \<and> starter s = pc \<and> (r = None \<or> fatal s = r) \<Longrightarrow>
     \<exists>s. run_reachable c s \<and> shows_run m s \<and> starter s = pc \<and> (r = None \<or> fatal s = r)"
  by blast

text \<open>C11: Starting refines the goroutines: if the process could be launched and \<open>startVMM\<close> returns, then
  the machine that it leaves (which channels are closed, whether the clean-up has run, the fatal
  error) is a state that the goroutines of the started machine reach in some interleaving, with the
  caller of \<open>startVMM\<close> past its return: up if it returned nil, failed with the same error if not.\<close>

theorem startVMM_refines_goroutines:
  assumes "startVMM e m = (Returned r, m')" and "not_started m" and "sys e (world m) (start_event m) = None"
  shows "\<exists>s. run_reachable (run_of e m) s \<and> shows_run m' s
    \<and> starter s = (if r = None then StartVMMUp else StartFailed) \<and> (r = None \<or> fatal s = r)"
proof (cases rule: startVMM_cases [OF assms(1)])
  case (1 err)
  with assms(3) show ?thesis by simp
next
  case (2 m2 w m3)
  let ?c = "run_of e m"
  have m2: "not_started m2" "Cfg m2 = Cfg m" using assms(2) by (simp_all add: 2(2) not_started_def)
  have err: "no_socket m3 err = socket_error ?c err" if "Cfg m3 = Cfg m" for err
    using that by (simp add: no_socket_def socket_error_def run_of_def)
  from waitForSocket_result [OF 2(3)] show ?thesis
  proof (elim disjE conjE exE)
    assume s: "same_machine m2 m3" and w: "\<forall>v. w \<noteq> VMMExited v"
    note fs = same_machine_fields [OF s]
    show ?thesis
    proof (cases "w = SocketReady")
      case True
      with 2(4) have "r = None" "m' = m3" by simp_all
      with m2 fs show ?thesis
        by (intro exI [of _ up_run] conjI up_run_reachable)
          (simp_all add: shows_run_def not_started_def up_run_def launched_def)
    next
      case False
      with 2(4) w have "w = SocketTimeout" by (cases w) (auto simp: close_exitCh_def Let_def split: if_splits)
      with 2(4) m2 fs err have "r = Some (socket_error ?c CtxErr)"
        "m' = m3\<lparr>fatalErr := Some (socket_error ?c CtxErr), exitCh := True\<rparr>"
        by (auto simp: close_exitCh_def Let_def not_started_def)
      note eqs = this
      show ?thesis
        by (rule refinesI [OF timed_out_run_reachable]) (use m2 fs eqs in \<open>simp add: shows_run_def not_started_def launched_def\<close>)
    qed
  next
    fix m1 x v
    assume s: "same_machine m2 m1" and w: "w = VMMExited v" and x: "vmm_exit e x m1 = (v, m3)"
      and d: "\<not> (daemonized m1 \<and> x = None \<and> \<not> shutdownCh m1)"
    note fs = same_machine_fields [OF s] and vs = vmm_exit_result [OF x]
    from vs(1) obtain cerr where v: "v = exit_report ?c x cerr" by (auto simp: exit_report_def run_of_def)
    have "\<not> (rc_daemon ?c \<and> x = None)"
      using d fs m2 by (auto simp: run_of_def daemonized_def not_started_def)
    from exited_run_reachable [OF this v] have re: "run_reachable ?c (exited_run ?c x v)" .
    note shows_simps = shows_run_def exited_run_def started_with_def launched_def not_started_def
    show ?thesis
    proof (cases v)
      case None
      with 2(4) w m2 fs vs have "r = None" "m' = m3\<lparr>fatalErr := None, exitCh := True\<rparr>"
        by (auto simp: close_exitCh_def Let_def not_started_def)
      note eqs = this
      show ?thesis
        by (rule refinesI [OF exited_nil_reachable [OF re [unfolded None]]]) (use m2 fs vs eqs in \<open>simp add: shows_simps\<close>)
    next
      case (Some er)
      with 2(4) w m2 fs vs err have "r = Some (socket_error ?c er)"
        "m' = m3\<lparr>fatalErr := Some (socket_error ?c er), exitCh := True\<rparr>"
        by (auto simp: close_exitCh_def Let_def not_started_def)
      note eqs = this
      show ?thesis
        by (rule refinesI [OF exited_error_reachable [OF re [unfolded Some]]]) (use m2 fs vs eqs in \<open>simp add: shows_simps\<close>)
    qed
  qed
qed

theorem startVMM_refines_goroutines_witness:
  "\<exists>s m'. startVMM (boot_env\<lparr>wait_events := (\<lambda>tr. [WTimeout])\<rparr>) demo_machine
       = (Returned (Some (no_socket demo_machine CtxErr)), m')
     \<and> run_reachable (run_of (boot_env\<lparr>wait_events := (\<lambda>tr. [WTimeout])\<rparr>) demo_machine) s \<and> shows_run m' s
     \<and> starter s = StartFailed"
proof -
  let ?e = "boot_env\<lparr>wait_events := (\<lambda>tr. [WTimeout])\<rparr>"
  have "fst (startVMM ?e demo_machine) = Returned (Some (no_socket demo_machine CtxErr))" by code_simp
  then obtain m' where s: "startVMM ?e demo_machine = (Returned (Some (no_socket demo_machine CtxErr)), m')"
    by (metis prod.collapse)
  have "not_started demo_machine" "sys ?e (world demo_machine) (start_event demo_machine) = None" by code_simp+
  from startVMM_refines_goroutines [OF s this] s show ?thesis by auto
qed

end
