(* ===== verification/Background.thy ===== *)
theory Background
  imports Prelude "HOL-Library.Sublist"
begin

text \<open>
  The goroutines that run beside a machine and touch only its FIFO and its signals: the copying of the
  log FIFO to a writer (\<open>captureFifoToFile\<close> of \<open>machine.go\<close>) and the forwarding of signals to the
  process (\<open>setupSignals\<close>). Each is a step relation over the state of its goroutines; what the kernel
  delivers is part of the initial state, and any interleaving is a run.
\<close>

subsection \<open>Copying a FIFO\<close>

text \<open>What the reads of the pipe will give, one after the other, while it is open.\<close>

datatype fifo_read = Data string | ReadFails nat | EndOfFile

datatype watcher_pc = WaitExit | WatcherDone
datatype copier_pc = Copying | SendingErr nat | ClosingDone | ClosingPipe | Unlinking | CopierDone

record fifo_run =
  exit_closed :: bool
  watcher :: watcher_pc
  copier :: copier_pc
  pipe_open :: bool
  pipe_closes :: nat
  source :: "fifo_read list"
  copied :: string
  done_buffer :: "nat list"
  done_closes :: nat
  unlinks :: nat

definition captureFifoToFileWithChannel :: "fifo_read list \<Rightarrow> fifo_run" where
  "captureFifoToFileWithChannel src =
     \<lparr>exit_closed = False, watcher = WaitExit, copier = Copying, pipe_open = True, pipe_closes = 0,
      source = src, copied = [], done_buffer = [], done_closes = 0, unlinks = 0\<rparr>"

text \<open>
  The steps, for a channel \<open>done\<close> with room for \<open>cap\<close> values from which nobody receives. \<open>io.Copy\<close>
  reads and writes; a write may fail after a part of the data. A read of a closed pipe returns, with
  an error or as the end of the file.
\<close>

inductive fifo_step :: "nat \<Rightarrow> fifo_run \<Rightarrow> fifo_run \<Rightarrow> bool" for cap where
  exits: "\<not> exit_closed s \<Longrightarrow> fifo_step cap s (s\<lparr>exit_closed := True\<rparr>)"
| watcher_closes: "watcher s = WaitExit \<Longrightarrow> exit_closed s \<Longrightarrow>
    fifo_step cap s (s\<lparr>watcher := WatcherDone, pipe_open := False, pipe_closes := Suc (pipe_closes s)\<rparr>)"
| copies: "copier s = Copying \<Longrightarrow> pipe_open s \<Longrightarrow> source s = Data d # src \<Longrightarrow>
    fifo_step cap s (s\<lparr>source := src, copied := copied s @ d\<rparr>)"
| write_fails: "copier s = Copying \<Longrightarrow> pipe_open s \<Longrightarrow> source s = Data d # src \<Longrightarrow>
    fifo_step cap s (s\<lparr>source := src, copied := copied s @ take k d, copier := SendingErr n\<rparr>)"
| read_fails: "copier s = Copying \<Longrightarrow> pipe_open s \<Longrightarrow> source s = ReadFails n # src \<Longrightarrow>
    fifo_step cap s (s\<lparr>source := src, copier := SendingErr n\<rparr>)"
| read_ends: "copier s = Copying \<Longrightarrow> pipe_open s \<Longrightarrow> source s = EndOfFile # src \<Longrightarrow>
    fifo_step cap s (s\<lparr>source := src, copier := ClosingDone\<rparr>)"
| read_closed: "copier s = Copying \<Longrightarrow> \<not> pipe_open s \<Longrightarrow>
    fifo_step cap s (s\<lparr>copier := SendingErr n\<rparr>)"
| read_closed_end: "copier s = Copying \<Longrightarrow> \<not> pipe_open s \<Longrightarrow>
    fifo_step cap s (s\<lparr>copier := ClosingDone\<rparr>)"
| sends: "copier s = SendingErr n \<Longrightarrow> length (done_buffer s) < cap \<Longrightarrow>
    fifo_step cap s (s\<lparr>copier := ClosingDone, done_buffer := done_buffer s @ [n]\<rparr>)"
| closes_done: "copier s = ClosingDone \<Longrightarrow>
    fifo_step cap s (s\<lparr>copier := ClosingPipe, done_closes := Suc (done_closes s)\<rparr>)"
| closes_pipe: "copier s = ClosingPipe \<Longrightarrow>
    fifo_step cap s (s\<lparr>copier := Unlinking, pipe_open := False, pipe_closes := Suc (pipe_closes s)\<rparr>)"
| removes: "copier s = Unlinking \<Longrightarrow>
    fifo_step cap s (s\<lparr>copier := CopierDone, unlinks := Suc (unlinks s)\<rparr>)"

inductive_cases fifo_stepE: "fifo_step cap s t"

text \<open>\<open>captureFifoToFile\<close> makes the channel with room for one error.\<close>

definition captureFifoToFile_cap :: nat where
  "captureFifoToFile_cap = 1"

text \<open>The text that the reads deliver up to the end or the first failing read.\<close>

fun delivered :: "fifo_read list \<Rightarrow> string" where
  "delivered (Data d # src) = d @ delivered src"
| "delivered src = []"

text \<open>
  While the copier copies, what it has copied and what the source still delivers is what the source
  delivers; afterwards it has copied a prefix. The other fields follow from the program counters.
\<close>

definition fifo_inv :: "nat \<Rightarrow> fifo_read list \<Rightarrow> fifo_run \<Rightarrow> bool" where
  "fifo_inv cap src s \<longleftrightarrow>
     prefix (copied s) (delivered src)
   \<and> (copier s = Copying \<longrightarrow> copied s @ delivered (source s) = delivered src)
   \<and> (watcher s = WatcherDone \<longrightarrow> exit_closed s \<and> \<not> pipe_open s)
   \<and> (case copier s of Copying \<Rightarrow> done_buffer s = [] | SendingErr n \<Rightarrow> done_buffer s = []
        | _ \<Rightarrow> length (done_buffer s) \<le> 1)
   \<and> done_closes s = (if copier s \<in> {ClosingPipe, Unlinking, CopierDone} then 1 else 0)
   \<and> unlinks s = (if copier s = CopierDone then 1 else 0)
   \<and> (copier s \<in> {Unlinking, CopierDone} \<longrightarrow> \<not> pipe_open s)"

fun copier_togo :: "copier_pc \<Rightarrow> nat" where
  "copier_togo Copying = 5"
| "copier_togo (SendingErr n) = 4"
| "copier_togo ClosingDone = 3"
| "copier_togo ClosingPipe = 2"
| "copier_togo Unlinking = 1"
| "copier_togo CopierDone = 0"

definition fifo_togo :: "fifo_run \<Rightarrow> nat" where
  "fifo_togo s = (if exit_closed s then 0 else 1) + (if watcher s = WaitExit then 1 else 0)
     + copier_togo (copier s) + length (source s)"

lemma copied_prefix:
  "xs @ ys = zs \<Longrightarrow> prefix xs zs" "xs @ d @ ys = zs \<Longrightarrow> prefix (xs @ d) zs"
  "xs @ d @ ys = zs \<Longrightarrow> prefix (xs @ take k d) zs"
  by (auto simp: prefix_order.trans [OF take_is_prefix])

lemma fifo_inv_step: "fifo_inv cap src s \<Longrightarrow> fifo_step cap s t \<Longrightarrow> fifo_inv cap src t"
  by (erule fifo_stepE) (auto simp: fifo_inv_def copied_prefix split: copier_pc.splits)

interpretation fifo: ending_system "\<lambda>s. s = captureFifoToFileWithChannel src" "fifo_step cap" "fifo_inv cap src" fifo_togo
  for cap src
proof unfold_locales
  show "s = captureFifoToFileWithChannel src \<Longrightarrow> fifo_inv cap src s" for s
    by (simp add: captureFifoToFileWithChannel_def fifo_inv_def)
  show "fifo_step cap s t \<Longrightarrow> fifo_togo t < fifo_togo s" for s t
    by (erule fifo_stepE) (auto simp: fifo_togo_def)
qed (rule fifo_inv_step)

text \<open>C19: The copying of a FIFO always comes to an end once the machine exits, with one value of room in
  the channel, as \<open>captureFifoToFile\<close> makes it: every run is finite, and where no step is left the copier
  is done, the pipe is closed, the channel was closed once and the FIFO removed once. At every point
  the writer has got a prefix of what the pipe delivered.\<close>

theorem fifo_copy_ends:
  assumes "(fifo_step captureFifoToFile_cap ^^ n) (captureFifoToFileWithChannel src) s"
  shows "n \<le> length src + 7 \<and> prefix (copied s) (delivered src) \<and>
    ((\<exists>t. fifo_step captureFifoToFile_cap s t) \<or>
     (copier s = CopierDone \<and> watcher s = WatcherDone \<and> \<not> pipe_open s \<and> done_closes s = 1 \<and> unlinks s = 1))"
proof -
  let ?start = "captureFifoToFileWithChannel src"
  have inv: "fifo_inv captureFifoToFile_cap src s"
    using relpowp_imp_rtranclp [OF assms] by (rule fifo.I_reachable [OF refl])
  have "fifo_inv captureFifoToFile_cap src ?start" by (rule fifo.I_init) simp
  from fifo.run_bound [OF assms this] have "n \<le> length src + 7"
    by (simp add: fifo_togo_def captureFifoToFileWithChannel_def)
  moreover have "\<exists>t. fifo_step captureFifoToFile_cap s t"
    if "\<not> (copier s = CopierDone \<and> watcher s = WatcherDone \<and> exit_closed s)"
  proof (cases "copier s")
    case Copying
    then show ?thesis
      by (cases "exit_closed s"; cases "watcher s"; cases "pipe_open s")
        (use inv in \<open>auto simp: fifo_inv_def intro: fifo_step.intros\<close>)
  next
    case (SendingErr m)
    with inv show ?thesis
      by (auto simp: fifo_inv_def captureFifoToFile_cap_def intro: fifo_step.sends)
  next
    case CopierDone
    with that show ?thesis by (cases "watcher s"; cases "exit_closed s") (auto intro: fifo_step.intros)
  qed (auto intro: fifo_step.intros)
  ultimately show ?thesis using inv by (auto simp: fifo_inv_def)
qed

theorem fifo_copy_ends_witness:
  "prefix ''x'' (delivered [Data ''x'', EndOfFile]) \<and>
   (\<exists>t. fifo_step captureFifoToFile_cap ((captureFifoToFileWithChannel [Data ''x'', EndOfFile])
      \<lparr>source := [EndOfFile], copied := ''x''\<rparr>) t)"
proof -
  let ?start = "captureFifoToFileWithChannel [Data ''x'', EndOfFile]"
  let ?s = "?start\<lparr>source := [EndOfFile], copied := ''x''\<rparr>"
  have "fifo_step captureFifoToFile_cap ?start (?start\<lparr>source := [EndOfFile], copied := copied ?start @ ''x''\<rparr>)"
    by (rule fifo_step.copies) (simp_all add: captureFifoToFileWithChannel_def)
  then have "(fifo_step captureFifoToFile_cap ^^ 1) ?start ?s"
    by (simp only: relpowp_1) (simp add: captureFifoToFileWithChannel_def)
  from fifo_copy_ends [OF this] show ?thesis by (auto simp: captureFifoToFileWithChannel_def)
qed

text \<open>Without room in the channel a failed read stops the copier before it closes the pipe.\<close>

lemma fifo_without_room:
  assumes "copier s = SendingErr n" and "(fifo_step 0)\<^sup>*\<^sup>* s t"
  shows "copier t = SendingErr n"
  using assms(2) by (induction rule: rtranclp_induct) (use assms(1) in \<open>auto elim!: fifo_stepE\<close>)

subsection \<open>Forwarding signals\<close>

text \<open>
  \<open>signal.Notify\<close> delivers the signals that were asked for and does not block: a signal that finds the
  channel full is dropped. After \<open>signal.Stop\<close> nothing is delivered any more.
\<close>

datatype forwarder_pc = Forwarding | StoppingNotify | ClosingSigchan | ForwarderDone

record sig_run =
  sig_exit :: bool
  forwarder :: forwarder_pc
  arriving :: "nat list"
  sigchan :: "nat list"
  forwarded :: "nat list"
  dropped :: "nat list"
  notified :: bool
  sigchan_closes :: nat

text \<open>With no signals to forward \<open>setupSignals\<close> does nothing; \<open>Notify\<close> without signals would ask for all.\<close>

definition setupSignals :: "nat list \<Rightarrow> nat list \<Rightarrow> sig_run option" where
  "setupSignals signals arrive =
     (if length signals = 0 then None
      else Some \<lparr>sig_exit = False, forwarder = Forwarding, arriving = arrive, sigchan = [], forwarded = [],
        dropped = [], notified = True, sigchan_closes = 0\<rparr>)"

inductive sig_step :: "nat list \<Rightarrow> sig_run \<Rightarrow> sig_run \<Rightarrow> bool" for signals where
  ignored: "arriving s = x # xs \<Longrightarrow> \<not> (notified s \<and> x \<in> set signals) \<Longrightarrow>
    sig_step signals s (s\<lparr>arriving := xs\<rparr>)"
| delivered: "arriving s = x # xs \<Longrightarrow> notified s \<Longrightarrow> x \<in> set signals \<Longrightarrow> length (sigchan s) < length signals \<Longrightarrow>
    sig_step signals s (s\<lparr>arriving := xs, sigchan := sigchan s @ [x]\<rparr>)"
| full: "arriving s = x # xs \<Longrightarrow> notified s \<Longrightarrow> x \<in> set signals \<Longrightarrow> length signals \<le> length (sigchan s) \<Longrightarrow>
    sig_step signals s (s\<lparr>arriving := xs, dropped := dropped s @ [x]\<rparr>)"
| machine_exits: "\<not> sig_exit s \<Longrightarrow> sig_step signals s (s\<lparr>sig_exit := True\<rparr>)"
| forwards: "forwarder s = Forwarding \<Longrightarrow> sigchan s = x # xs \<Longrightarrow>
    sig_step signals s (s\<lparr>sigchan := xs, forwarded := forwarded s @ [x]\<rparr>)"
| leaves: "forwarder s = Forwarding \<Longrightarrow> sig_exit s \<Longrightarrow> sig_step signals s (s\<lparr>forwarder := StoppingNotify\<rparr>)"
| stops: "forwarder s = StoppingNotify \<Longrightarrow>
    sig_step signals s (s\<lparr>forwarder := ClosingSigchan, notified := False\<rparr>)"
| closes: "forwarder s = ClosingSigchan \<Longrightarrow>
    sig_step signals s (s\<lparr>forwarder := ForwarderDone, sigchan_closes := Suc (sigchan_closes s)\<rparr>)"

inductive_cases sig_stepE: "sig_step signals s t"

text \<open>
  What was passed on so far is what was asked for and has arrived, in its order, without what was
  dropped.
\<close>

definition sig_inv :: "nat list \<Rightarrow> nat list \<Rightarrow> sig_run \<Rightarrow> bool" where
  "sig_inv signals arrive s \<longleftrightarrow>
     (notified s \<longrightarrow> (\<exists>past. arrive = past @ arriving s
        \<and> subseq (forwarded s @ sigchan s) (filter (\<lambda>x. x \<in> set signals) past)
        \<and> (dropped s = [] \<longrightarrow> forwarded s @ sigchan s = filter (\<lambda>x. x \<in> set signals) past)))
   \<and> subseq (forwarded s @ sigchan s) (filter (\<lambda>x. x \<in> set signals) arrive)
   \<and> length (sigchan s) \<le> length signals
   \<and> (notified s \<longleftrightarrow> forwarder s = Forwarding \<or> forwarder s = StoppingNotify)
   \<and> sigchan_closes s = (if forwarder s = ForwarderDone then 1 else 0)"

fun forwarder_togo :: "forwarder_pc \<Rightarrow> nat" where
  "forwarder_togo Forwarding = 3"
| "forwarder_togo StoppingNotify = 2"
| "forwarder_togo ClosingSigchan = 1"
| "forwarder_togo ForwarderDone = 0"

definition sig_togo :: "sig_run \<Rightarrow> nat" where
  "sig_togo s = (if sig_exit s then 0 else 1) + forwarder_togo (forwarder s)
     + 2 * length (arriving s) + length (sigchan s)"

lemma sig_inv_arrives:
  assumes "sig_inv signals arrive s" and "notified s" and "arriving s = x # xs"
  obtains past where "arrive = past @ x # xs"
    "subseq (forwarded s @ sigchan s) (filter (\<lambda>x. x \<in> set signals) past)"
    "dropped s = [] \<longrightarrow> forwarded s @ sigchan s = filter (\<lambda>x. x \<in> set signals) past"
  using assms by (auto simp: sig_inv_def)

lemma sig_inv_step:
  assumes "sig_inv signals arrive s" and "sig_step signals s t"
  shows "sig_inv signals arrive t"
  using assms(2)
proof cases
  case (ignored x xs)
  show ?thesis
  proof (cases "notified s")
    case True
    with assms(1) ignored obtain past where "arrive = (past @ [x]) @ xs"
      "subseq (forwarded s @ sigchan s) (filter (\<lambda>x. x \<in> set signals) (past @ [x]))"
      "dropped s = [] \<longrightarrow> forwarded s @ sigchan s = filter (\<lambda>x. x \<in> set signals) (past @ [x])"
      by (auto elim: sig_inv_arrives)
    with assms(1) ignored show ?thesis unfolding sig_inv_def by (auto simp del: filter_append)
  qed (use assms(1) ignored in \<open>auto simp: sig_inv_def\<close>)
next
  case (delivered x xs)
  with assms(1) obtain past where p: "arrive = past @ x # xs"
      "subseq (forwarded s @ sigchan s) (filter (\<lambda>x. x \<in> set signals) past)"
      "dropped s = [] \<longrightarrow> forwarded s @ sigchan s = filter (\<lambda>x. x \<in> set signals) past"
    by (auto elim: sig_inv_arrives)
  then have "subseq (forwarded s @ sigchan s @ [x]) (filter (\<lambda>x. x \<in> set signals) (past @ [x]))"
    using delivered(4) list_emb_append_mono [of "(=)" "forwarded s @ sigchan s" _ "[x]" "[x]"] by simp
  moreover have "filter (\<lambda>x. x \<in> set signals) arrive =
      filter (\<lambda>x. x \<in> set signals) (past @ [x]) @ filter (\<lambda>x. x \<in> set signals) xs"
    by (simp add: p(1))
  ultimately have "subseq (forwarded s @ sigchan s @ [x]) (filter (\<lambda>x. x \<in> set signals) arrive)"
    "\<exists>past. arrive = past @ xs \<and> subseq (forwarded s @ sigchan s @ [x]) (filter (\<lambda>x. x \<in> set signals) past)
       \<and> (dropped s = [] \<longrightarrow> forwarded s @ sigchan s @ [x] = filter (\<lambda>x. x \<in> set signals) past)"
    using p delivered(4) by (simp_all only: list_emb_prefix)
      (intro exI [of _ "past @ [x]"], simp)
  then show ?thesis using assms(1) delivered by (simp add: sig_inv_def)
next
  case (full x xs)
  with assms(1) obtain past where p: "arrive = past @ x # xs"
      "subseq (forwarded s @ sigchan s) (filter (\<lambda>x. x \<in> set signals) past)"
    by (auto elim: sig_inv_arrives)
  then have "arrive = (past @ [x]) @ xs
      \<and> subseq (forwarded s @ sigchan s) (filter (\<lambda>x. x \<in> set signals) (past @ [x]))"
    by (auto intro: list_emb_prefix)
  then have "\<exists>past. arrive = past @ xs \<and> subseq (forwarded s @ sigchan s) (filter (\<lambda>x. x \<in> set signals) past)"
    by blast
  with assms(1) full show ?thesis by (simp add: sig_inv_def)
qed (use assms(1) in \<open>auto simp: sig_inv_def\<close>)

lemma sig_inv_start: "setupSignals signals arrive = Some s \<Longrightarrow> sig_inv signals arrive s"
  by (auto simp: setupSignals_def sig_inv_def split: if_splits)

interpretation signals: ending_system "\<lambda>s. setupSignals signals arrive = Some s" "sig_step signals"
  "sig_inv signals arrive" sig_togo for signals arrive
proof unfold_locales
  show "sig_step signals s t \<Longrightarrow> sig_togo t < sig_togo s" for s t
    by (erule sig_stepE) (auto simp: sig_togo_def)
qed (fact sig_inv_start sig_inv_step)+

lemma sig_stuck:
  assumes "\<forall>t. \<not> sig_step signals s t"
  shows "forwarder s = ForwarderDone"
proof (cases "forwarder s")
  case Forwarding
  with assms sig_step.machine_exits sig_step.leaves show ?thesis by blast
qed (use assms sig_step.stops sig_step.closes in blast)+

text \<open>C24: Signals are passed to the process in the order in which they arrived, and only those that the
  configuration names; as long as the machine runs and the channel was never full, none is missing
  but those that wait in the channel. The forwarder always comes to an end, the channel is closed at
  most once, and never while the signals of the runtime still go to it.\<close>

theorem signals_in_order:
  assumes "setupSignals signals arrive = Some s0" and "(sig_step signals)\<^sup>*\<^sup>* s0 s"
  shows "subseq (forwarded s @ sigchan s) (filter (\<lambda>x. x \<in> set signals) arrive)
    \<and> (notified s \<and> dropped s = [] \<and> arriving s = [] \<longrightarrow>
         forwarded s @ sigchan s = filter (\<lambda>x. x \<in> set signals) arrive)
    \<and> sigchan_closes s \<le> 1 \<and> (0 < sigchan_closes s \<longrightarrow> \<not> notified s)
    \<and> (\<exists>t. (sig_step signals)\<^sup>*\<^sup>* s t \<and> (\<forall>u. \<not> sig_step signals t u) \<and> sigchan_closes t = 1)"
proof -
  from assms have inv: "sig_inv signals arrive s" using signals.I_reachable by blast
  then obtain t where "(sig_step signals)\<^sup>*\<^sup>* s t" "sig_inv signals arrive t" "\<forall>u. \<not> sig_step signals t u"
    using signals.runs_end by blast
  with inv sig_stuck [of signals t] show ?thesis by (auto simp: sig_inv_def)
qed

theorem signals_in_order_witness:
  "\<exists>s0. setupSignals [15] [15, 2] = Some s0 \<and> subseq (forwarded s0 @ sigchan s0) [15]
     \<and> (\<exists>t. (sig_step [15])\<^sup>*\<^sup>* s0 t \<and> sigchan_closes t = 1)"
proof -
  obtain s0 where "setupSignals [15] [15, 2] = Some s0" by (simp add: setupSignals_def)
  moreover from signals_in_order [OF this rtranclp.rtrancl_refl]
  have "subseq (forwarded s0 @ sigchan s0) [15]" "\<exists>t. (sig_step [15])\<^sup>*\<^sup>* s0 t \<and> sigchan_closes t = 1"
    by auto
  ultimately show ?thesis by blast
qed

end
