(* ===== verification/VsockConn.thy ===== *)
theory VsockConn
  imports GoString
begin

text \<open>
  One attempt of the host-side vsock dialer (\<open>vsock/dial.go\<close>): \<open>tryConnect\<close> opens the unix socket of
  the VM, writes \<open>CONNECT <port>\<close> and reads the acknowledgement, a line that starts with \<open>OK\<close>. The
  other side is a parameter, a \<open>peer\<close>: the error of the dial, what the write did, the chunks that
  arrive on the connection and the error that a read reports when no more arrive. The buffered
  reader of the standard library is written out, with its buffer of 32 bytes, since the bytes that it
  read ahead are not given back to the connection.
\<close>

subsection \<open>Options\<close>

record config =
  DialTimeout :: int64
  RetryTimeout :: int64
  RetryInterval :: int64
  ConnectMsgTimeout :: int64
  AckMsgTimeout :: int64

definition defaultConfig :: config where
  "defaultConfig =
     \<lparr>DialTimeout = 100 * 1000000,
      RetryTimeout = 20 * 1000000000,
      RetryInterval = 100 * 1000000,
      ConnectMsgTimeout = 100 * 1000000,
      AckMsgTimeout = 1 * 1000000000\<rparr>"

definition WithDialTimeout :: "int64 \<Rightarrow> config \<Rightarrow> config" where
  "WithDialTimeout d c = c\<lparr>DialTimeout := d\<rparr>"

definition WithRetryTimeout :: "int64 \<Rightarrow> config \<Rightarrow> config" where
  "WithRetryTimeout d c = c\<lparr>RetryTimeout := d\<rparr>"

definition WithRetryInterval :: "int64 \<Rightarrow> config \<Rightarrow> config" where
  "WithRetryInterval d c = c\<lparr>RetryInterval := d\<rparr>"

definition WithConnectionMsgTimeout :: "int64 \<Rightarrow> config \<Rightarrow> config" where
  "WithConnectionMsgTimeout d c = c\<lparr>ConnectMsgTimeout := d\<rparr>"

definition WithAckMsgTimeout :: "int64 \<Rightarrow> config \<Rightarrow> config" where
  "WithAckMsgTimeout d c = c\<lparr>AckMsgTimeout := d\<rparr>"

subsection \<open>Errors\<close>

text \<open>
  An error from outside the package is \<open>Opaque\<close>, with the answer of \<open>Temporary\<close> if its chain has a
  \<open>net.Error\<close>. A wrapped error keeps its cause; \<open>connectMsgError\<close> and \<open>ackError\<close> have no \<open>Unwrap\<close>
  and answer themselves.
\<close>

datatype vsock_error =
    Opaque nat "bool option"
  | DialFailed string int64 vsock_error
  | WriteFailed string int64 vsock_error
  | IncompleteWrite nat nat
  | AckReadFailed int64 vsock_error
  | UnexpectedAck string
  | connectMsgError vsock_error
  | ackError vsock_error
  | NonTemporary string vsock_error

primrec as_net_error :: "vsock_error \<Rightarrow> bool option" where
  "as_net_error (Opaque n temporary) = temporary"
| "as_net_error (DialFailed path d err) = as_net_error err"
| "as_net_error (WriteFailed msg d err) = as_net_error err"
| "as_net_error (IncompleteWrite expected written) = None"
| "as_net_error (AckReadFailed d err) = as_net_error err"
| "as_net_error (UnexpectedAck line) = None"
| "as_net_error (connectMsgError cause) = Some False"
| "as_net_error (ackError cause) = Some True"
| "as_net_error (NonTemporary what err) = as_net_error err"

definition isTemporaryNetErr :: "vsock_error option \<Rightarrow> bool" where
  "isTemporaryNetErr err = (case err of None \<Rightarrow> False | Some e \<Rightarrow> as_net_error e = Some True)"

subsection \<open>Buffered reading\<close>

text \<open>
  A read takes at most \<open>n\<close> bytes of the chunk that has arrived; the rest of the chunk stays for the
  next read. When nothing more arrives, it reports an error (end of file, or the deadline).
\<close>

fun conn_read :: "nat \<Rightarrow> string list \<Rightarrow> (string \<times> string list) option" where
  "conn_read n [] = None"
| "conn_read n (c # cs) = Some (take n c, if length c \<le> n then cs else drop n c # cs)"

definition bufio_size :: nat where
  "bufio_size = 32"

text \<open>
  \<open>ReadString\<close>: the fragments so far, the buffer, and what is unread on the connection. The result is
  the text up to the delimiter, or up to the error, then what the buffer still holds and what is
  still unread.
\<close>

definition unread_bytes :: "string list \<Rightarrow> nat" where
  "unread_bytes cs = sum_list (map (\<lambda>c. Suc (length c)) cs)"

lemma conn_read_less:
  "conn_read n cs = Some (d, cs') \<Longrightarrow> 0 < n \<Longrightarrow> unread_bytes cs' < unread_bytes cs"
  by (cases cs) (auto simp: unread_bytes_def split: if_splits)

function read_string ::
  "char \<Rightarrow> string \<Rightarrow> string \<Rightarrow> string list \<Rightarrow> (string \<times> bool) \<times> string \<times> string list" where
  "read_string delim acc buf cs =
    (if delim \<in> set buf then
       ((acc @ takeWhile (\<lambda>x. x \<noteq> delim) buf @ [delim], True),
        drop 1 (dropWhile (\<lambda>x. x \<noteq> delim) buf), cs)
     else if bufio_size \<le> length buf then read_string delim (acc @ buf) [] cs
     else case conn_read (bufio_size - length buf) cs of
            None \<Rightarrow> ((acc @ buf, False), [], [])
          | Some (d, cs') \<Rightarrow> read_string delim acc (buf @ d) cs')"
  by pat_completeness auto
termination
  by (relation "measures [\<lambda>(delim, acc, buf, cs). unread_bytes cs, \<lambda>(delim, acc, buf, cs). length buf]")
    (auto simp: conn_read_less bufio_size_def)

declare read_string.simps [simp del]

text \<open>The four ways that a round can go, as equations, and the induction over them.\<close>

lemma read_string_here:
  assumes "delim \<notin> set l"
  shows "read_string delim acc (l @ delim # r) cs = ((acc @ l @ [delim], True), r, cs)"
proof -
  have "takeWhile (\<lambda>x. x \<noteq> delim) (l @ delim # r) = l" "dropWhile (\<lambda>x. x \<noteq> delim) (l @ delim # r) = delim # r"
    using assms by (auto simp: takeWhile_append dropWhile_append takeWhile_eq_all_conv)
  then show ?thesis by (subst read_string.simps) simp
qed

lemma read_string_full:
  "delim \<notin> set buf \<Longrightarrow> bufio_size \<le> length buf \<Longrightarrow>
     read_string delim acc buf cs = read_string delim (acc @ buf) [] cs"
  by (subst read_string.simps) simp

lemma read_string_end:
  "delim \<notin> set buf \<Longrightarrow> length buf < bufio_size \<Longrightarrow> read_string delim acc buf [] = ((acc @ buf, False), [], [])"
  by (subst read_string.simps) simp

lemma read_string_more:
  "delim \<notin> set buf \<Longrightarrow> length buf < bufio_size \<Longrightarrow> conn_read (bufio_size - length buf) cs = Some (d, cs') \<Longrightarrow>
     read_string delim acc buf cs = read_string delim acc (buf @ d) cs'"
  by (subst read_string.simps) simp

lemma conn_read_Some:
  "conn_read n cs = Some (d, cs') \<Longrightarrow> d @ concat cs' = concat cs \<and> length d \<le> n"
  by (cases cs) (auto split: if_splits)

lemma conn_read_None [simp]: "conn_read n cs = None \<longleftrightarrow> cs = []"
  by (cases cs) simp_all

lemma read_rounds [case_names here full eof more]:
  assumes here: "\<And>acc l r cs. delim \<notin> set l \<Longrightarrow> P acc (l @ delim # r) cs"
    and full: "\<And>acc buf cs. delim \<notin> set buf \<Longrightarrow> bufio_size \<le> length buf \<Longrightarrow> P (acc @ buf) [] cs \<Longrightarrow> P acc buf cs"
    and eof: "\<And>acc buf. delim \<notin> set buf \<Longrightarrow> length buf < bufio_size \<Longrightarrow> P acc buf []"
    and more: "\<And>acc buf cs d cs'. delim \<notin> set buf \<Longrightarrow> length buf < bufio_size \<Longrightarrow>
      conn_read (bufio_size - length buf) cs = Some (d, cs') \<Longrightarrow> P acc (buf @ d) cs' \<Longrightarrow> P acc buf cs"
  shows "P acc buf cs"
proof -
  have "delim' = delim \<longrightarrow> P acc buf cs" for delim'
  proof (induction delim' acc buf cs rule: read_string.induct)
    case (1 delim' acc buf cs)
    show ?case
    proof (rule impI)
      assume d: "delim' = delim"
      consider (a) "delim \<in> set buf" | (b) "delim \<notin> set buf" "bufio_size \<le> length buf"
        | (c) "delim \<notin> set buf" "length buf < bufio_size" "cs = []"
        | (e) r where "delim \<notin> set buf" "length buf < bufio_size"
            "conn_read (bufio_size - length buf) cs = Some r"
        using conn_read_None [of "bufio_size - length buf" cs] by fastforce
      then show "P acc buf cs"
      proof cases
        case a
        then obtain l r where "buf = l @ delim # r" "delim \<notin> set l" by (meson split_list_first)
        then show ?thesis by (simp add: here)
      next
        case b
        from b d have "P (acc @ buf) [] cs" using 1(1) by blast
        with b show ?thesis by (rule full)
      next
        case c
        then show ?thesis by (simp add: eof)
      next
        case e
        obtain x cs' where r: "r = (x, cs')" by (cases r)
        from e r d have "P acc (buf @ x) cs'" using 1(2) [of r x cs'] by (metis leD)
        with e(1,2) e(3) [unfolded r] show ?thesis by (rule more)
      qed
    qed
  qed
  then show ?thesis by simp
qed

text \<open>What has arrived is split into the text that is returned, the buffer and the unread rest.\<close>

lemma read_string_found:
  assumes "read_string delim acc buf cs = ((line, True), buf', cs')"
    and "length buf \<le> bufio_size"
  shows "\<exists>l. line = acc @ l @ [delim] \<and> buf @ concat cs = l @ [delim] @ buf' @ concat cs'
    \<and> delim \<notin> set l \<and> length buf' < bufio_size"
  using assms
proof (induction acc buf cs rule: read_rounds [of delim])
  case (here acc l r cs)
  then show ?case by (auto simp: read_string_here)
next
  case (full acc buf cs)
  then obtain l where
    "line = (acc @ buf) @ l @ [delim]" "[] @ concat cs = l @ [delim] @ buf' @ concat cs'"
    "delim \<notin> set l" "length buf' < bufio_size"
    by (auto simp: read_string_full)
  with full(1) show ?case by (intro exI [of _ "buf @ l"]) simp
next
  case (eof acc buf)
  then show ?case by (simp add: read_string_end)
next
  case (more acc buf cs d cs1)
  from conn_read_Some [OF more(3)] have s: "concat cs = d @ concat cs1" "length d \<le> bufio_size - length buf"
    by simp_all
  with more(1-3,5) have "read_string delim acc (buf @ d) cs1 = ((line, True), buf', cs')"
    "length (buf @ d) \<le> bufio_size" by (simp_all add: read_string_more)
  from more.IH [OF this] s show ?case by simp
qed

lemma read_string_lines:
  "snd (fst (read_string delim acc buf cs)) \<longleftrightarrow> delim \<in> set buf \<or> delim \<in> set (concat cs)"
proof (induction acc buf cs rule: read_rounds [of delim])
  case (more acc buf cs d cs1)
  from conn_read_Some [OF more(3)] have "set (concat cs) = set d \<union> set (concat cs1)"
    by (metis set_append)
  with more.IH read_string_more [OF more(1-3)] more(1) show ?case by auto
next
  case (full acc buf cs)
  then show ?case by (simp add: read_string_full)
next
  case (eof acc buf)
  then show ?case by (simp add: read_string_end)
next
  case (here acc l r cs)
  then show ?case by (simp add: read_string_here)
qed

lemma split_at_unique:
  "l1 @ x # r1 = l2 @ x # r2 \<Longrightarrow> x \<notin> set l1 \<Longrightarrow> x \<notin> set l2 \<Longrightarrow> l1 = l2 \<and> r1 = r2"
proof (induction l1 arbitrary: l2)
  case Nil
  then show ?case by (cases l2) auto
next
  case (Cons y l1)
  then show ?case by (cases l2) auto
qed

text \<open>If the delimiter ends a chunk, nothing is read ahead.\<close>

lemma read_string_exact:
  assumes "buf @ concat pre = l @ [delim]" and "delim \<notin> set l" and "[] \<notin> set pre"
  shows "read_string delim acc buf (pre @ post) = ((acc @ l @ [delim], True), [], post)"
proof -
  have "\<forall>pre l. cs = pre @ post \<and> buf @ concat pre = l @ [delim] \<and> delim \<notin> set l \<and> [] \<notin> set pre \<longrightarrow>
    read_string delim acc buf cs = ((acc @ l @ [delim], True), [], post)" for cs
  proof (induction acc buf cs rule: read_rounds [of delim])
    case (here acc l1 r cs)
    show ?case
    proof (intro allI impI, elim conjE)
      fix pre l
      assume a: "cs = pre @ post" "(l1 @ delim # r) @ concat pre = l @ [delim]" "delim \<notin> set l" "[] \<notin> set pre"
      from a(2) have "l1 @ delim # (r @ concat pre) = l @ delim # []" by simp
      from split_at_unique [OF this here a(3)] have "l1 = l" "r @ concat pre = []" by simp_all
      with a(4) have "pre = []" by (cases pre) auto
      with \<open>l1 = l\<close> \<open>r @ concat pre = []\<close> here a(1)
      show "read_string delim acc (l1 @ delim # r) cs = ((acc @ l @ [delim], True), [], post)"
        by (simp add: read_string_here)
    qed
  next
    case (full acc buf cs)
    show ?case
    proof (intro allI impI, elim conjE)
      fix pre l
      assume a: "cs = pre @ post" "buf @ concat pre = l @ [delim]" "delim \<notin> set l" "[] \<notin> set pre"
      obtain l' where l': "l = buf @ l'" "concat pre = l' @ [delim]"
        using a(2) full(1) by (auto simp: append_eq_append_conv2 append_eq_Cons_conv)
      with full a show "read_string delim acc buf cs = ((acc @ l @ [delim], True), [], post)"
        by (simp add: read_string_full)
    qed
  next
    case (eof acc buf)
    then show ?case by auto
  next
    case (more acc buf cs d cs1)
    show ?case
    proof (intro allI impI, elim conjE)
      fix pre l
      assume a: "cs = pre @ post" "buf @ concat pre = l @ [delim]" "delim \<notin> set l" "[] \<notin> set pre"
      let ?n = "bufio_size - length buf"
      from a(2) more(1) obtain c pre' where pre: "pre = c # pre'" by (cases pre) auto
      let ?pre = "if length c \<le> ?n then pre' else drop ?n c # pre'"
      from more(3) a(1) pre have r: "d = take ?n c" "cs1 = ?pre @ post" by auto
      have "d @ concat ?pre = concat pre" by (simp add: r pre)
      with a(2) have "(buf @ d) @ concat ?pre = l @ [delim]" by simp
      moreover have "[] \<notin> set ?pre" using a(4) pre by auto
      ultimately have "read_string delim acc (buf @ d) cs1 = ((acc @ l @ [delim], True), [], post)"
        using more(4) r(2) a(3) by blast
      then show "read_string delim acc buf cs = ((acc @ l @ [delim], True), [], post)"
        by (simp add: read_string_more [OF more(1-3)])
    qed
  qed
  with assms show ?thesis by blast
qed

subsection \<open>One attempt\<close>

record peer =
  dial_err :: "vsock_error option"
  wrote :: nat
  write_err :: "vsock_error option"
  chunks :: "string list"
  read_err :: vsock_error

text \<open>What the attempt does to the connection; a deadline of \<open>None\<close> is the zero time, no deadline.\<close>

datatype vsock_event =
    EvDial string int64
  | EvDeadline "int64 option"
  | EvWrite string
  | EvReadLine
  | EvClose

text \<open>The connection that a caller gets: what it can still read from it.\<close>

type_synonym conn = "string list"

definition connectMsg :: "32 word \<Rightarrow> string" where
  "connectMsg port = ''CONNECT '' @ itoa (uint port) @ ''\<newline>''"

definition tryConnWrite :: "peer \<Rightarrow> string \<Rightarrow> int64 \<Rightarrow> vsock_error option \<times> vsock_event list" where
  "tryConnWrite p expectedWrite timeout =
    (case write_err p of
       Some err \<Rightarrow> Some err
     | None \<Rightarrow>
         if wrote p \<noteq> length expectedWrite
         then Some (IncompleteWrite (length expectedWrite) (wrote p)) else None,
     [EvDeadline (Some timeout), EvWrite expectedWrite, EvDeadline None])"

definition tryConnReadUntil ::
  "peer \<Rightarrow> char \<Rightarrow> int64 \<Rightarrow> (string \<times> vsock_error option) \<times> conn \<times> vsock_event list" where
  "tryConnReadUntil p endc timeout =
    (case read_string endc [] [] (chunks p) of
       ((line, found), buf, rest) \<Rightarrow>
         ((line, if found then None else Some (read_err p)), rest,
          [EvDeadline (Some timeout), EvReadLine, EvDeadline None]))"

definition tryConnect ::
  "peer \<Rightarrow> string \<Rightarrow> 32 word \<Rightarrow> config \<Rightarrow> (vsock_error + conn) \<times> vsock_event list" where
  "tryConnect p udsPath port c =
    (case dial_err p of
       Some err \<Rightarrow> (Inl (DialFailed udsPath (DialTimeout c) err), [EvDial udsPath (DialTimeout c)])
     | None \<Rightarrow>
        (let msg = connectMsg port in
         case tryConnWrite p msg (ConnectMsgTimeout c) of
           (Some err, evs1) \<Rightarrow>
             (Inl (connectMsgError (WriteFailed msg (ConnectMsgTimeout c) err)),
              EvDial udsPath (DialTimeout c) # evs1 @ [EvClose])
         | (None, evs1) \<Rightarrow>
            (case tryConnReadUntil p CHR ''\<newline>'' (AckMsgTimeout c) of
               ((line, Some err), rest, evs2) \<Rightarrow>
                 (Inl (ackError (AckReadFailed (AckMsgTimeout c) err)),
                  EvDial udsPath (DialTimeout c) # evs1 @ evs2 @ [EvClose])
             | ((line, None), rest, evs2) \<Rightarrow>
                 (if \<not> has_prefix line ''OK ''
                  then (Inl (ackError (UnexpectedAck line)), EvDial udsPath (DialTimeout c) # evs1 @ evs2)
                  else (Inr rest, EvDial udsPath (DialTimeout c) # evs1 @ evs2)))))"

text \<open>The connection is open at the end of an attempt if it was made and not closed.\<close>

definition left_open :: "peer \<Rightarrow> vsock_event list \<Rightarrow> bool" where
  "left_open p evs \<longleftrightarrow> dial_err p = None \<and> EvClose \<notin> set evs"

text \<open>The line that the peer sent, if the connection delivered a whole one.\<close>

definition peer_line :: "peer \<Rightarrow> string option" where
  "peer_line p =
    (let s = concat (chunks p) in
     if CHR ''\<newline>'' \<in> set s then Some (takeWhile (\<lambda>x. x \<noteq> CHR ''\<newline>'') s @ [CHR ''\<newline>'']) else None)"

definition accepts :: "peer \<Rightarrow> 32 word \<Rightarrow> bool" where
  "accepts p port \<longleftrightarrow> dial_err p = None \<and> write_err p = None \<and> wrote p = length (connectMsg port)
     \<and> (\<exists>line. peer_line p = Some line \<and> has_prefix line ''OK '')"

text \<open>The four ways a read of the acknowledgement can end, in terms of what arrived.\<close>

lemma takeWhile_line:
  "delim \<notin> set l \<Longrightarrow> takeWhile (\<lambda>x. x \<noteq> delim) (l @ delim # r) = l"
  by (auto simp: takeWhile_append takeWhile_eq_all_conv)

lemma read_line_Some:
  assumes "peer_line p = Some line"
  shows "\<exists>buf rest. read_string CHR ''\<newline>'' [] [] (chunks p) = ((line, True), buf, rest)
    \<and> concat (chunks p) = line @ buf @ concat rest \<and> length buf < bufio_size"
proof -
  let ?nl = "CHR ''\<newline>''"
  obtain l ok buf rest where r: "read_string ?nl [] [] (chunks p) = ((l, ok), buf, rest)"
    by (metis surj_pair)
  from assms have "?nl \<in> set (concat (chunks p))"
    by (simp add: peer_line_def Let_def split: if_splits)
  with r read_string_lines [of ?nl "[]" "[]" "chunks p"] have "ok" by simp
  with r have r': "read_string ?nl [] [] (chunks p) = ((l, True), buf, rest)" by simp
  from read_string_found [OF r'] obtain k where
    k: "l = k @ [?nl]" "concat (chunks p) = k @ ?nl # buf @ concat rest" "?nl \<notin> set k" "length buf < bufio_size"
    by auto
  with assms have "line = l"
    by (simp add: peer_line_def Let_def takeWhile_line split: if_splits)
  with r' k show ?thesis by simp
qed

lemma read_line_None:
  assumes "peer_line p = None"
  shows "\<not> snd (fst (read_string CHR ''\<newline>'' [] [] (chunks p)))"
  using assms read_string_lines [of "CHR ''\<newline>''" "[]" "[]" "chunks p"]
  by (simp add: peer_line_def Let_def split: if_splits)

definition write_ok :: "peer \<Rightarrow> 32 word \<Rightarrow> bool" where
  "write_ok p port \<longleftrightarrow> write_err p = None \<and> wrote p = length (connectMsg port)"

lemma tryConnWrite_ok:
  "fst (tryConnWrite p (connectMsg port) t) = None \<longleftrightarrow> write_ok p port"
  by (auto simp: tryConnWrite_def write_ok_def split: option.splits)

lemma tryConnWrite_events:
  "snd (tryConnWrite p msg t) = [EvDeadline (Some t), EvWrite msg, EvDeadline None]"
  by (simp add: tryConnWrite_def)

lemma tryConnReadUntil_Some:
  "peer_line p = Some line \<Longrightarrow> \<exists>buf rest.
     tryConnReadUntil p CHR ''\<newline>'' t = ((line, None), rest, [EvDeadline (Some t), EvReadLine, EvDeadline None])
     \<and> concat (chunks p) = line @ buf @ concat rest \<and> length buf < bufio_size"
  by (drule read_line_Some) (auto simp: tryConnReadUntil_def)

lemma tryConnReadUntil_None:
  "peer_line p = None \<Longrightarrow> \<exists>line rest.
     tryConnReadUntil p CHR ''\<newline>'' t = ((line, Some (read_err p)), rest, [EvDeadline (Some t), EvReadLine, EvDeadline None])"
  by (drule read_line_None) (auto simp: tryConnReadUntil_def split: prod.splits)

text \<open>The five outcomes of an attempt.\<close>

lemma tryConnect_cases:
  obtains (no_dial) err where "dial_err p = Some err"
      "tryConnect p path port c = (Inl (DialFailed path (DialTimeout c) err), [EvDial path (DialTimeout c)])"
  | (no_write) err evs where "dial_err p = None" "\<not> write_ok p port"
      "tryConnect p path port c = (Inl (connectMsgError err), evs)" "EvClose \<in> set evs"
  | (no_line) err evs where "dial_err p = None" "write_ok p port" "peer_line p = None"
      "tryConnect p path port c = (Inl (ackError err), evs)" "EvClose \<in> set evs"
  | (bad_ack) line evs where "dial_err p = None" "write_ok p port" "peer_line p = Some line"
      "\<not> has_prefix line ''OK ''"
      "tryConnect p path port c = (Inl (ackError (UnexpectedAck line)), evs)" "EvClose \<notin> set evs"
  | (connected) line buf rest evs where "dial_err p = None" "write_ok p port" "peer_line p = Some line"
      "has_prefix line ''OK ''" "tryConnect p path port c = (Inr rest, evs)" "EvClose \<notin> set evs"
      "concat (chunks p) = line @ buf @ concat rest" "length buf < bufio_size"
proof (cases "dial_err p")
  case (Some err)
  then show ?thesis by (intro no_dial [of err]) (simp_all add: tryConnect_def)
next
  case None
  note dial = this
  obtain werr wevs where w: "tryConnWrite p (connectMsg port) (ConnectMsgTimeout c) = (werr, wevs)"
    by (metis surj_pair)
  have we: "EvClose \<notin> set wevs" using tryConnWrite_events [of p "connectMsg port" "ConnectMsgTimeout c"] w by auto
  show ?thesis
  proof (cases "write_ok p port")
    case False
    with tryConnWrite_ok [of p port "ConnectMsgTimeout c"] w obtain err where "werr = Some err" by auto
    with dial w False show ?thesis by (intro no_write) (auto simp: tryConnect_def Let_def)
  next
    case True
    with tryConnWrite_ok [of p port "ConnectMsgTimeout c"] w have "werr = None" by simp
    note facts = dial True w this we
    show ?thesis
    proof (cases "peer_line p")
      case None
      with tryConnReadUntil_None [OF None, of "AckMsgTimeout c"] facts show ?thesis
        by (intro no_line) (auto simp: tryConnect_def Let_def)
    next
      case (Some line)
      with tryConnReadUntil_Some [OF Some, of "AckMsgTimeout c"] obtain buf rest where
        r: "tryConnReadUntil p CHR ''\<newline>'' (AckMsgTimeout c)
              = ((line, None), rest, [EvDeadline (Some (AckMsgTimeout c)), EvReadLine, EvDeadline None])"
          "concat (chunks p) = line @ buf @ concat rest" "length buf < bufio_size" by auto
      show ?thesis
      proof (cases "has_prefix line ''OK ''")
        case True
        with Some r facts have "tryConnect p path port c = (Inr rest, EvDial path (DialTimeout c) # wevs @
            [EvDeadline (Some (AckMsgTimeout c)), EvReadLine, EvDeadline None])"
          by (simp add: tryConnect_def Let_def)
        from connected [OF facts(1,2) Some True this _ r(2,3)] facts(5) show ?thesis by simp
      next
        case False
        with Some r facts have "tryConnect p path port c = (Inl (ackError (UnexpectedAck line)),
            EvDial path (DialTimeout c) # wevs @ [EvDeadline (Some (AckMsgTimeout c)), EvReadLine, EvDeadline None])"
          by (simp add: tryConnect_def Let_def)
        from bad_ack [OF facts(1,2) Some False this] facts(5) show ?thesis by simp
      qed
    qed
  qed
qed

lemma tryConnect_Inr_iff: "(\<exists>rest. fst (tryConnect p path port c) = Inr rest) \<longleftrightarrow> accepts p port"
  by (cases rule: tryConnect_cases [of p path port c]) (auto simp: accepts_def write_ok_def)

text \<open>A peer for the examples: it accepts, then speaks first.\<close>

definition talking_peer :: "string list \<Rightarrow> peer" where
  "talking_peer cs =
     \<lparr>dial_err = None, wrote = 13, write_err = None, chunks = cs, read_err = Opaque 0 None\<rparr>"

lemma talking_peer_port [simp]: "length (connectMsg 1024) = 13"
  by code_simp

text \<open>C16: An attempt succeeds exactly when the socket can be dialled, the whole \<open>CONNECT\<close> message is
  written and the first line that arrives starts with \<open>OK\<close>. What arrives after that line is not
  reordered: the connection that is returned delivers the rest of it, less a part directly after the
  line of at most 31 bytes, which the buffered reader had read ahead.\<close>

theorem tryConnect_success:
  "accepts p port = (\<exists>rest. fst (tryConnect p path port c) = Inr rest) \<and>
   (case fst (tryConnect p path port c) of
      Inl err \<Rightarrow> True
    | Inr rest \<Rightarrow> \<exists>line lost. peer_line p = Some line \<and> has_prefix line ''OK ''
        \<and> concat (chunks p) = line @ lost @ concat rest \<and> length lost \<le> 31)"
  using tryConnect_Inr_iff [of p path port c]
  by (cases rule: tryConnect_cases [of p path port c]) (auto simp: bufio_size_def)

text \<open>If the peer's acknowledgement ends a chunk, that is, if nothing was sent behind it yet, no
  byte is lost: the connection delivers exactly what comes later.\<close>

lemma tryConnect_keeps_later_data:
  assumes "chunks p = pre @ post" and "concat pre = ''OK '' @ l @ ''\<newline>''" and "CHR ''\<newline>'' \<notin> set l"
    and "[] \<notin> set pre" and "dial_err p = None" and "write_err p = None" and "wrote p = length (connectMsg port)"
  shows "fst (tryConnect p path port c) = Inr post"
proof -
  have "read_string CHR ''\<newline>'' [] [] (chunks p) = (([] @ (''OK '' @ l) @ [CHR ''\<newline>''], True), [], post)"
    unfolding assms(1) by (rule read_string_exact) (use assms(2-4) in auto)
  then have "tryConnReadUntil p CHR ''\<newline>'' (AckMsgTimeout c) = ((''OK '' @ l @ ''\<newline>'', None), post,
      [EvDeadline (Some (AckMsgTimeout c)), EvReadLine, EvDeadline None])"
    by (simp add: tryConnReadUntil_def)
  moreover have "has_prefix (''OK '' @ l @ ''\<newline>'') ''OK ''" by (simp add: has_prefix_def)
  ultimately show ?thesis
    using assms(5-7) by (simp add: tryConnect_def Let_def tryConnWrite_def)
qed

lemma tryConnect_keeps_later_data_witness:
  "fst (tryConnect (talking_peer [''OK 52'', ''\<newline>'', ''hello'']) ''/v.sock'' 1024 defaultConfig) = Inr [''hello'']"
  by (rule tryConnect_keeps_later_data [where pre = "[''OK 52'', ''\<newline>'']" and l = "''52''"])
    (simp_all add: talking_peer_def)

text \<open>A peer that speaks first loses data: if its greeting arrives together with the
  acknowledgement, the reader takes both, and the returned connection never delivers the greeting.\<close>

lemma tryConnect_loses_greeting:
  "fst (tryConnect (talking_peer [''OK 52\<newline>hello'', ''world'']) ''/v.sock'' 1024 defaultConfig) = Inr [''world'']"
  by code_simp

text \<open>When an attempt is over the connection is open exactly if the attempt succeeded or the
  acknowledgement was a line that does not start with \<open>OK\<close>: in that case it is neither returned nor
  closed, and every retry opens another. All other failures close what they opened.\<close>

lemma tryConnect_left_open:
  "left_open p (snd (tryConnect p path port c)) \<longleftrightarrow>
     accepts p port \<or>
     (dial_err p = None \<and> write_err p = None \<and> wrote p = length (connectMsg port)
      \<and> (\<exists>line. peer_line p = Some line \<and> has_prefix line ''OK '' = False))"
  by (cases rule: tryConnect_cases [of p path port c])
    (auto simp: accepts_def write_ok_def left_open_def)

end
