(* ===== verification/VsockRetry.thy ===== *)
theory VsockRetry
  imports Prelude VsockConn
begin

text \<open>
  The retry loops of the vsock package: \<open>DialContext\<close> of \<open>vsock/dial.go\<close> on the host and \<open>Accept\<close> of
  \<open>vsock/listener.go\<close> in the guest. Each is \<open>for { select { ctx.Done, ticker } }\<close>. The schedule is a
  function of the number of the round: whether the select takes the branch of the context (it may
  take either when both are ready). The loops may run for ever, so they are partial functions: \<open>None\<close>
  is a call that does not return. What both have in common is proved once, in a locale.
\<close>

subsection \<open>Loops of rounds\<close>

datatype 'r round = Again | Finish 'r | Hang

locale retry_loop =
  fixes round :: "nat \<Rightarrow> 'r round" and log :: "nat \<Rightarrow> 'ev list"
    and loop :: "nat \<Rightarrow> 'ev list \<Rightarrow> ('r \<times> 'ev list) option"
  assumes unfold: "loop n tr = (case round n of
      Again \<Rightarrow> loop (Suc n) (tr @ log n) | Finish r \<Rightarrow> Some (r, tr @ log n) | Hang \<Rightarrow> None)"
    and returns: "loop n tr = Some x \<Longrightarrow> \<exists>k\<ge>n. round k \<noteq> Again"
begin

lemma skip:
  "n \<le> k \<Longrightarrow> \<forall>i. n \<le> i \<and> i < k \<longrightarrow> round i = Again \<Longrightarrow> loop n tr = loop k (tr @ concat (map log [n..<k]))"
proof (induction k rule: dec_induct)
  case base
  then show ?case by simp
next
  case (step k)
  then have "loop n tr = loop k (tr @ concat (map log [n..<k]))" by simp
  also have "round k = Again" using step by simp
  then have "loop k (tr @ concat (map log [n..<k])) = loop (Suc k) ((tr @ concat (map log [n..<k])) @ log k)"
    by (subst unfold) simp
  finally show ?case using step(1) by simp
qed

lemma first_decision:
  assumes "n \<le> k" and "round k \<noteq> Again"
  obtains j where "n \<le> j" "round j \<noteq> Again" "\<forall>i. n \<le> i \<and> i < j \<longrightarrow> round i = Again"
proof -
  define j where "j = (LEAST j. n \<le> j \<and> round j \<noteq> Again)"
  have "n \<le> j \<and> round j \<noteq> Again" unfolding j_def by (rule LeastI [of _ k]) (use assms in simp)
  moreover have "round i = Again" if "n \<le> i" "i < j" for i
    using not_less_Least [of i "\<lambda>j. n \<le> j \<and> round j \<noteq> Again"] that by (auto simp: j_def)
  ultimately show thesis by (blast intro: that)
qed

lemma loop_Some_iff:
  "loop n tr = Some (r, tr') \<longleftrightarrow>
     (\<exists>k\<ge>n. (\<forall>i. n \<le> i \<and> i < k \<longrightarrow> round i = Again) \<and> round k = Finish r
        \<and> tr' = tr @ concat (map log [n..<Suc k]))"
proof
  assume l: "loop n tr = Some (r, tr')"
  from returns [OF l] obtain k where "n \<le> k" "round k \<noteq> Again" by blast
  then obtain j where j: "n \<le> j" "round j \<noteq> Again" "\<forall>i. n \<le> i \<and> i < j \<longrightarrow> round i = Again"
    by (rule first_decision)
  have "loop j (tr @ concat (map log [n..<j])) = Some (r, tr')" using l skip [OF j(1,3), of tr] by simp
  with j(2) unfold [of j] have "round j = Finish r" "tr' = (tr @ concat (map log [n..<j])) @ log j"
    by (auto split: round.splits)
  with j show "\<exists>k\<ge>n. (\<forall>i. n \<le> i \<and> i < k \<longrightarrow> round i = Again) \<and> round k = Finish r
      \<and> tr' = tr @ concat (map log [n..<Suc k])"
    by (intro exI [of _ j]) simp
next
  assume "\<exists>k\<ge>n. (\<forall>i. n \<le> i \<and> i < k \<longrightarrow> round i = Again) \<and> round k = Finish r
      \<and> tr' = tr @ concat (map log [n..<Suc k])"
  then obtain k where k: "n \<le> k" "\<forall>i. n \<le> i \<and> i < k \<longrightarrow> round i = Again" "round k = Finish r"
      "tr' = tr @ concat (map log [n..<Suc k])" by blast
  then show "loop n tr = Some (r, tr')"
    using skip [OF k(1,2), of tr] unfold [of k] by simp
qed

lemma loop_diverges: "\<forall>k\<ge>n. round k = Again \<Longrightarrow> loop n tr = None"
  using returns [of n tr] by (cases "loop n tr") auto

lemma loop_returns:
  assumes "n \<le> k" and "round k \<noteq> Again" and "\<forall>i. round i \<noteq> Hang"
  shows "\<exists>r tr'. loop n tr = Some (r, tr')"
proof -
  from assms(1,2) obtain j where j: "n \<le> j" "round j \<noteq> Again" "\<forall>i. n \<le> i \<and> i < j \<longrightarrow> round i = Again"
    by (rule first_decision)
  with assms(3) obtain r where "round j = Finish r" by (cases "round j") auto
  with j show ?thesis using loop_Some_iff by blast
qed

end

subsection \<open>The dialer\<close>

record dial_env =
  peers :: "nat \<Rightarrow> peer"
  ctx_done :: "nat \<Rightarrow> bool"
  ctx_error :: vsock_error

partial_function (option) dial_loop ::
  "dial_env \<Rightarrow> string \<Rightarrow> 32 word \<Rightarrow> config \<Rightarrow> nat \<Rightarrow> vsock_event list
     \<Rightarrow> ((vsock_error + conn) \<times> vsock_event list) option" where
  "dial_loop e udsPath port c attemptCount tr =
    (if ctx_done e attemptCount then Some (Inl (ctx_error e), tr)
     else case tryConnect (peers e attemptCount) udsPath port c of
            (Inl err, evs) \<Rightarrow>
              (if isTemporaryNetErr (Some err)
               then dial_loop e udsPath port c (Suc attemptCount) (tr @ evs)
               else Some (Inl (NonTemporary ''dial'' err), tr @ evs))
          | (Inr conn, evs) \<Rightarrow> Some (Inr conn, tr @ evs))"

text \<open>\<open>time.NewTicker\<close> panics on an interval that is not positive.\<close>

definition dial ::
  "dial_env \<Rightarrow> string \<Rightarrow> 32 word \<Rightarrow> config \<Rightarrow> go_panic + ((vsock_error + conn) \<times> vsock_event list) option" where
  "dial e udsPath port c =
    (if sint (RetryInterval c) \<le> 0 then Inl NonPositiveInterval
     else Inr (dial_loop e udsPath port c 0 []))"

definition DialContext ::
  "dial_env \<Rightarrow> string \<Rightarrow> 32 word \<Rightarrow> (config \<Rightarrow> config) list
     \<Rightarrow> go_panic + ((vsock_error + conn) \<times> vsock_event list) option" where
  "DialContext e path port opts = dial e path port (foldl (\<lambda>t o'. o' t) defaultConfig opts)"

text \<open>\<open>Dial\<close> passes the background context, which is never done.\<close>

definition Dial ::
  "dial_env \<Rightarrow> string \<Rightarrow> 32 word \<Rightarrow> (config \<Rightarrow> config) list
     \<Rightarrow> go_panic + ((vsock_error + conn) \<times> vsock_event list) option" where
  "Dial e path port opts = DialContext (e\<lparr>ctx_done := \<lambda>_. False\<rparr>) path port opts"

text \<open>A round of the dialer.\<close>

definition dial_round :: "dial_env \<Rightarrow> string \<Rightarrow> 32 word \<Rightarrow> config \<Rightarrow> nat \<Rightarrow> (vsock_error + conn) round" where
  "dial_round e path port c n =
    (if ctx_done e n then Finish (Inl (ctx_error e))
     else case fst (tryConnect (peers e n) path port c) of
            Inl err \<Rightarrow> if as_net_error err = Some True then Again else Finish (Inl (NonTemporary ''dial'' err))
          | Inr conn \<Rightarrow> Finish (Inr conn))"

definition dial_log :: "dial_env \<Rightarrow> string \<Rightarrow> 32 word \<Rightarrow> config \<Rightarrow> nat \<Rightarrow> vsock_event list" where
  "dial_log e path port c n = (if ctx_done e n then [] else snd (tryConnect (peers e n) path port c))"

lemma dial_loop_decides:
  assumes "dial_loop e path port c n tr = Some x"
  shows "\<exists>k\<ge>n. dial_round e path port c k \<noteq> Again"
proof (rule dial_loop.raw_induct [where P = "\<lambda>e path port c n tr x. \<exists>k\<ge>n. dial_round e path port c k \<noteq> Again",
      OF _ assms])
  fix f e path port c n tr x
  assume IH: "\<And>e path port c n tr x. f e path port c n tr = Some x \<Longrightarrow>
      \<exists>k\<ge>n. dial_round e path port c k \<noteq> Again"
    and eq: "(if ctx_done e n then Some (Inl (ctx_error e), tr)
     else case tryConnect (peers e n) path port c of
            (Inl err, evs) \<Rightarrow>
              (if isTemporaryNetErr (Some err) then f e path port c (Suc n) (tr @ evs)
               else Some (Inl (NonTemporary ''dial'' err), tr @ evs))
          | (Inr conn, evs) \<Rightarrow> Some (Inr conn, tr @ evs)) = Some x"
  show "\<exists>k\<ge>n. dial_round e path port c k \<noteq> Again"
  proof (cases "dial_round e path port c n")
    case Again
    then obtain err evs where "tryConnect (peers e n) path port c = (Inl err, evs)"
      "as_net_error err = Some True" "\<not> ctx_done e n"
      by (cases "tryConnect (peers e n) path port c")
        (auto simp: dial_round_def split: if_splits sum.splits)
    with eq have "f e path port c (Suc n) (tr @ evs) = Some x" by (simp add: isTemporaryNetErr_def)
    from IH [OF this] show ?thesis by (meson Suc_leD)
  qed auto
qed

interpretation dial: retry_loop "dial_round e path port c" "dial_log e path port c" "dial_loop e path port c"
  for e path port c
proof unfold_locales
  show "dial_loop e path port c n tr = (case dial_round e path port c n of
      Again \<Rightarrow> dial_loop e path port c (Suc n) (tr @ dial_log e path port c n)
    | Finish r \<Rightarrow> Some (r, tr @ dial_log e path port c n) | Hang \<Rightarrow> None)" for n tr
    by (subst dial_loop.simps)
      (auto simp: dial_round_def dial_log_def isTemporaryNetErr_def split: prod.splits sum.splits)
qed (rule dial_loop_decides)

subsection \<open>The listener\<close>

text \<open>The listener of \<open>mdlayher/vsock\<close> answers the n-th accept, or blocks in it.\<close>

datatype accept_answer = AcceptError vsock_error | Accepted conn | AcceptBlocks

record listener =
  l_listener :: "nat \<Rightarrow> accept_answer"
  l_port :: "32 word"
  l_config :: config

definition Listener :: "vsock_error + (nat \<Rightarrow> accept_answer) \<Rightarrow> 32 word \<Rightarrow> vsock_error + listener" where
  "Listener listen port =
    (case listen of
       Inl err \<Rightarrow> Inl err
     | Inr l \<Rightarrow> Inr \<lparr>l_listener = l, l_port = port, l_config = defaultConfig\<rparr>)"

definition tryAccept :: "accept_answer \<Rightarrow> (vsock_error + conn) option" where
  "tryAccept a =
    (case a of
       AcceptError err \<Rightarrow> Some (Inl err)
     | Accepted conn \<Rightarrow> Some (Inr conn)
     | AcceptBlocks \<Rightarrow> None)"

record accept_env =
  timeout_done :: "nat \<Rightarrow> bool"
  timeout_error :: vsock_error

partial_function (option) accept_loop ::
  "accept_env \<Rightarrow> listener \<Rightarrow> nat \<Rightarrow> accept_answer list \<Rightarrow> ((vsock_error + conn) \<times> accept_answer list) option" where
  "accept_loop e l attemptCount tr =
    (if timeout_done e attemptCount then Some (Inl (timeout_error e), tr)
     else case tryAccept (l_listener l attemptCount) of
            None \<Rightarrow> None
          | Some (Inl err) \<Rightarrow>
              (if isTemporaryNetErr (Some err) then accept_loop e l (Suc attemptCount) (tr @ [l_listener l attemptCount])
               else Some (Inl (NonTemporary ''accept'' err), tr @ [l_listener l attemptCount]))
          | Some (Inr conn) \<Rightarrow> Some (Inr conn, tr @ [l_listener l attemptCount]))"

definition Accept :: "accept_env \<Rightarrow> listener \<Rightarrow> go_panic + (vsock_error + conn) option" where
  "Accept e l =
    (if sint (RetryInterval (l_config l)) \<le> 0 then Inl NonPositiveInterval
     else Inr (map_option fst (accept_loop e l 0 [])))"

definition accept_round :: "accept_env \<Rightarrow> listener \<Rightarrow> nat \<Rightarrow> (vsock_error + conn) round" where
  "accept_round e l n =
    (if timeout_done e n then Finish (Inl (timeout_error e))
     else case l_listener l n of
            AcceptError err \<Rightarrow> if as_net_error err = Some True then Again else Finish (Inl (NonTemporary ''accept'' err))
          | Accepted conn \<Rightarrow> Finish (Inr conn)
          | AcceptBlocks \<Rightarrow> Hang)"

definition accept_log :: "accept_env \<Rightarrow> listener \<Rightarrow> nat \<Rightarrow> accept_answer list" where
  "accept_log e l n = (if timeout_done e n then [] else [l_listener l n])"

lemma accept_loop_decides:
  assumes "accept_loop e l n tr = Some x"
  shows "\<exists>k\<ge>n. accept_round e l k \<noteq> Again"
proof (rule accept_loop.raw_induct [where P = "\<lambda>e l n tr x. \<exists>k\<ge>n. accept_round e l k \<noteq> Again", OF _ assms])
  fix f e l n tr x
  assume IH: "\<And>e l n tr x. f e l n tr = Some x \<Longrightarrow> \<exists>k\<ge>n. accept_round e l k \<noteq> Again"
    and eq: "(if timeout_done e n then Some (Inl (timeout_error e), tr)
     else case tryAccept (l_listener l n) of
            None \<Rightarrow> None
          | Some (Inl err) \<Rightarrow>
              (if isTemporaryNetErr (Some err) then f e l (Suc n) (tr @ [l_listener l n])
               else Some (Inl (NonTemporary ''accept'' err), tr @ [l_listener l n]))
          | Some (Inr conn) \<Rightarrow> Some (Inr conn, tr @ [l_listener l n])) = Some x"
  show "\<exists>k\<ge>n. accept_round e l k \<noteq> Again"
  proof (cases "accept_round e l n")
    case Again
    with eq have "f e l (Suc n) (tr @ [l_listener l n]) = Some x"
      by (auto simp: accept_round_def tryAccept_def isTemporaryNetErr_def split: if_splits accept_answer.splits)
    from IH [OF this] show ?thesis by (meson Suc_leD)
  qed auto
qed

interpretation accept: retry_loop "accept_round e l" "accept_log e l" "accept_loop e l" for e l
proof unfold_locales
  show "accept_loop e l n tr = (case accept_round e l n of
      Again \<Rightarrow> accept_loop e l (Suc n) (tr @ accept_log e l n)
    | Finish r \<Rightarrow> Some (r, tr @ accept_log e l n) | Hang \<Rightarrow> None)" for n tr
    by (subst accept_loop.simps)
      (auto simp: accept_round_def accept_log_def tryAccept_def isTemporaryNetErr_def split: accept_answer.splits)
qed (rule accept_loop_decides)

subsection \<open>When the dialer returns\<close>

text \<open>A round after which the loop goes on: the context is not done and the attempt failed with an
  error that is temporary.\<close>

definition retries :: "dial_env \<Rightarrow> string \<Rightarrow> 32 word \<Rightarrow> config \<Rightarrow> nat \<Rightarrow> bool" where
  "retries e path port c n \<longleftrightarrow> \<not> ctx_done e n \<and>
     (case fst (tryConnect (peers e n) path port c) of
        Inl err \<Rightarrow> isTemporaryNetErr (Some err) | Inr conn \<Rightarrow> False)"

lemma retries_Again: "retries e path port c n \<longleftrightarrow> dial_round e path port c n = Again"
  by (auto simp: retries_def dial_round_def isTemporaryNetErr_def split: sum.splits)

lemma dial_never_hangs: "dial_round e path port c n \<noteq> Hang"
  by (auto simp: dial_round_def split: sum.splits)

text \<open>An attempt on a peer that takes the message and does not acknowledge it is always retried.\<close>

lemma unacknowledged_retries:
  assumes "\<not> ctx_done e n" and "dial_err (peers e n) = None" and "write_ok (peers e n) port"
    and "\<not> accepts (peers e n) port"
  shows "retries e path port c n"
  using assms
  by (cases rule: tryConnect_cases [of "peers e n" path port c])
    (auto simp: retries_def isTemporaryNetErr_def accepts_def write_ok_def)

text \<open>C12: \<open>dial\<close> returns exactly when some round does not ask for a retry, that is, when the context is
  done, an attempt succeeds, or an attempt fails with an error that is not temporary. Otherwise it
  runs for ever; an interval that is not positive makes it panic before the first round.\<close>

theorem dial_returns_iff:
  "(\<exists>x. dial e path port c = Inr (Some x)) \<longleftrightarrow>
     0 < sint (RetryInterval c) \<and> (\<exists>n. retries e path port c n = False)"
proof -
  have "(\<exists>x. dial_loop e path port c 0 [] = Some x) \<longleftrightarrow> (\<exists>n. \<not> retries e path port c n)"
    using dial.loop_returns [of 0 _ e path port c "[]"] dial_loop_decides [of e path port c 0 "[]"]
      dial_never_hangs [of e path port c] retries_Again [of e path port c]
    by (metis surj_pair le0)
  then show ?thesis by (auto simp: dial_def)
qed

text \<open>C27: The retry timeout has no effect on \<open>dial\<close>: when the guest does not listen on the port, which
  each attempt sees as a connection without acknowledgement, and the context is never done, as in
  \<open>Dial\<close>, no value of \<open>RetryTimeout\<close> makes it return.\<close>

theorem dial_ignores_RetryTimeout:
  assumes "\<And>n. dial_err (peers e n) = None" and "\<And>n. write_ok (peers e n) port"
    and "\<And>n. \<not> accepts (peers e n) port" and "0 < sint (RetryInterval c)"
  shows "dial (e\<lparr>ctx_done := \<lambda>_. False\<rparr>) path port (WithRetryTimeout t c) = Inr None"
proof -
  let ?e = "e\<lparr>ctx_done := \<lambda>_. False\<rparr>" and ?c = "WithRetryTimeout t c"
  have "dial_round ?e path port ?c n = Again" for n
    using unacknowledged_retries [of ?e n port path ?c] assms(1-3) by (simp add: retries_Again)
  then have "dial_loop ?e path port ?c 0 [] = None" by (intro dial.loop_diverges) simp
  with assms(4) show ?thesis by (simp add: dial_def WithRetryTimeout_def)
qed

theorem dial_ignores_RetryTimeout_witness:
  "dial \<lparr>peers = \<lambda>_. talking_peer [], ctx_done = \<lambda>_. False, ctx_error = Opaque 1 None\<rparr>
     ''/v.sock'' 1024 (WithRetryTimeout 1000000000 defaultConfig) = Inr None"
  using dial_ignores_RetryTimeout
    [of "\<lparr>peers = \<lambda>_. talking_peer [], ctx_done = \<lambda>_. False, ctx_error = Opaque 1 None\<rparr>" 1024
      defaultConfig "''/v.sock''" 1000000000]
  by (simp add: talking_peer_def write_ok_def accepts_def peer_line_def defaultConfig_def)

text \<open>A connection that \<open>dial\<close> returns comes from the first attempt that the peer acknowledged; all
  earlier attempts were refused with temporary errors, and everything that was done on a socket is
  what these attempts did, in order.\<close>

lemma dial_success:
  assumes "dial e path port c = Inr (Some (Inr conn, tr))"
  shows "\<exists>n. accepts (peers e n) port \<and> fst (tryConnect (peers e n) path port c) = Inr conn
    \<and> (\<forall>i<n. retries e path port c i \<and> \<not> accepts (peers e i) port)
    \<and> tr = concat (map (\<lambda>i. snd (tryConnect (peers e i) path port c)) [0..<Suc n])"
proof -
  from assms have "dial_loop e path port c 0 [] = Some (Inr conn, tr)"
    by (simp add: dial_def split: if_splits)
  then obtain n where n: "\<forall>i<n. dial_round e path port c i = Again"
      "dial_round e path port c n = Finish (Inr conn)"
      "tr = concat (map (dial_log e path port c) [0..<Suc n])"
    by (auto simp: dial.loop_Some_iff)
  have r: "fst (tryConnect (peers e n) path port c) = Inr conn" "\<not> ctx_done e n"
    using n(2) by (auto simp: dial_round_def split: if_splits sum.splits)
  have b: "retries e path port c i" "\<not> accepts (peers e i) port" if "i < n" for i
    using n(1) that tryConnect_Inr_iff [of "peers e i" path port c]
    by (auto simp: retries_Again [symmetric] retries_def split: sum.splits)
  have "dial_log e path port c i = snd (tryConnect (peers e i) path port c)" if "i < Suc n" for i
    using that b(1) [of i] r(2) by (cases "i = n") (auto simp: dial_log_def retries_def)
  with n(3) have "tr = concat (map (\<lambda>i. snd (tryConnect (peers e i) path port c)) [0..<Suc n])"
    by (metis (mono_tags, lifting) atLeastLessThan_iff map_cong set_upt)
  moreover have "accepts (peers e n) port" using r(1) tryConnect_Inr_iff by blast
  ultimately show ?thesis using r(1) b by blast
qed

lemma dial_once:
  "dial \<lparr>peers = \<lambda>_. talking_peer [''OK 52\<newline>''], ctx_done = \<lambda>_. False, ctx_error = Opaque 1 None\<rparr>
     ''/v.sock'' 1024 defaultConfig =
   Inr (Some (Inr [], snd (tryConnect (talking_peer [''OK 52\<newline>'']) ''/v.sock'' 1024 defaultConfig)))"
proof -
  let ?t = "tryConnect (talking_peer [''OK 52\<newline>'']) ''/v.sock'' 1024 defaultConfig"
  have "fst ?t = Inr []" by code_simp
  then obtain evs where "?t = (Inr [], evs)" by (metis prod.collapse)
  moreover have "0 < sint (RetryInterval defaultConfig)" by code_simp
  ultimately show ?thesis by (simp add: dial_def dial_loop.simps)
qed

lemma dial_success_witness: "accepts (talking_peer [''OK 52\<newline>'']) 1024"
  using dial_success [OF dial_once] by auto

text \<open>C31: \<open>Accept\<close> returns when its timeout comes, as long as no accept of the underlying listener
  blocks; one that blocks is not interrupted: then \<open>Accept\<close> does not return, whatever the timeout.\<close>

theorem Accept_returns:
  assumes "0 < sint (RetryInterval (l_config l))" and "timeout_done e n"
  shows "if \<forall>i. l_listener l i \<noteq> AcceptBlocks then (\<exists>r. Accept e l = Inr (Some r))
    else (\<forall>k. l_listener l k = AcceptBlocks \<and> (\<forall>i\<le>k. \<not> timeout_done e i)
      \<and> (\<forall>i<k. \<exists>err. l_listener l i = AcceptError err \<and> isTemporaryNetErr (Some err)) \<longrightarrow> Accept e l = Inr None)"
proof (cases "\<forall>i. l_listener l i \<noteq> AcceptBlocks")
  case True
  then have "\<forall>i. accept_round e l i \<noteq> Hang" by (auto simp: accept_round_def split: accept_answer.splits)
  moreover have "accept_round e l n \<noteq> Again" using assms(2) by (simp add: accept_round_def)
  ultimately have "\<exists>r tr. accept_loop e l 0 [] = Some (r, tr)" by (intro accept.loop_returns) auto
  with True assms(1) show ?thesis by (auto simp: Accept_def)
next
  case False
  have "Accept e l = Inr None" if k: "l_listener l k = AcceptBlocks" "\<forall>i\<le>k. \<not> timeout_done e i"
    "\<forall>i<k. \<exists>err. l_listener l i = AcceptError err \<and> isTemporaryNetErr (Some err)" for k
  proof -
    have "\<forall>i. 0 \<le> i \<and> i < k \<longrightarrow> accept_round e l i = Again"
      using k(2,3) by (fastforce simp: accept_round_def isTemporaryNetErr_def)
    moreover have "accept_round e l k = Hang" using k(1,2) by (simp add: accept_round_def)
    ultimately have "accept_loop e l 0 [] = None"
      using accept.skip [of 0 k e l "[]"] accept.unfold [of e l k] by simp
    with assms(1) show ?thesis by (simp add: Accept_def)
  qed
  with False show ?thesis by auto
qed

theorem Accept_returns_witness:
  "\<exists>r. Accept \<lparr>timeout_done = \<lambda>n. n = 200, timeout_error = Opaque 1 None\<rparr>
     \<lparr>l_listener = \<lambda>_. AcceptError (Opaque 2 (Some True)), l_port = 1024, l_config = defaultConfig\<rparr> = Inr (Some r)"
  using Accept_returns
    [of "\<lparr>l_listener = \<lambda>_. AcceptError (Opaque 2 (Some True)), l_port = 1024, l_config = defaultConfig\<rparr>"
      "\<lparr>timeout_done = \<lambda>n. n = 200, timeout_error = Opaque 1 None\<rparr>" 200]
  by (simp add: defaultConfig_def)

end
