(* ===== verification/CpuTemplate.thy ===== *)
theory CpuTemplate
  imports GoString
begin

text \<open>
  \<open>internal/cpu_template.go\<close>: whether Firecracker supports CPU templates, which is decided by the first
  vendor id in \<open>/proc/cpuinfo\<close> and remembered by a \<open>sync.Once\<close>. The file is a parameter: the error of
  opening it, or its bytes up to the end or to the first failing read (the scanner treats both alike).
\<close>

subsection \<open>Lines\<close>

text \<open>
  \<open>bufio.Scanner\<close> with its default split: lines without their end, a carriage return at the end of
  a line dropped; it stops without a token at a line that does not fit its buffer of 65536 bytes.
\<close>

definition max_token :: nat where
  "max_token = 65536"

definition dropCR :: "string \<Rightarrow> string" where
  "dropCR l = (if l \<noteq> [] \<and> last l = CHR 0x0D then butlast l else l)"

abbreviation (input) newline :: char where
  "newline \<equiv> CHR ''\<newline>''"

function scan_lines :: "string \<Rightarrow> string list" where
  "scan_lines s =
    (if s = [] then []
     else let l = takeWhile (\<lambda>x. x \<noteq> newline) s in
       if max_token \<le> length l then []
       else dropCR l # scan_lines (drop (Suc (length l)) s))"
  by pat_completeness auto
termination
  by (relation "measure length") auto

declare scan_lines.simps [simp del]

lemma scan_lines_Nil [simp]: "scan_lines [] = []"
  by (subst scan_lines.simps) simp

lemma scan_lines_line:
  assumes "newline \<notin> set l" and "length l < max_token"
  shows "scan_lines (l @ newline # s) = dropCR l # scan_lines s"
proof -
  have "takeWhile (\<lambda>x. x \<noteq> newline) (l @ newline # s) = l"
    using assms(1) by (auto simp: takeWhile_append takeWhile_eq_all_conv)
  with assms(2) show ?thesis by (subst scan_lines.simps) (simp add: Let_def)
qed

text \<open>Text that is written line by line is scanned into these lines.\<close>

definition text_line :: "string \<Rightarrow> bool" where
  "text_line l \<longleftrightarrow> newline \<notin> set l \<and> length l < max_token \<and> \<not> (l \<noteq> [] \<and> last l = CHR 0x0D)"

lemma scan_lines_unlines: "list_all text_line ls \<Longrightarrow> scan_lines (concat (map (\<lambda>l. l @ [newline]) ls)) = ls"
proof (induction ls)
  case (Cons l ls)
  then have "scan_lines (l @ newline # concat (map (\<lambda>l. l @ [newline]) ls)) = dropCR l # ls"
    by (simp add: scan_lines_line text_line_def)
  with Cons.prems show ?case by (auto simp: text_line_def dropCR_def)
qed simp

subsection \<open>The vendor id\<close>

text \<open>
  The first group of the regular expression \<^verbatim>\<open>^vendor_id\s*:\s*(.+)$\<close> on a line: the greedy white space
  after the colon gives back one character if nothing else is left for the group.
\<close>

definition re_space :: "char \<Rightarrow> bool" where
  "re_space x \<longleftrightarrow> x = CHR '' '' \<or> x = CHR 0x09 \<or> x = CHR 0x0A \<or> x = CHR 0x0C \<or> x = CHR 0x0D"

definition vendorID :: "string \<Rightarrow> string option" where
  "vendorID line =
    (if has_prefix line ''vendor_id'' then
       (case dropWhile re_space (drop 9 line) of
          [] \<Rightarrow> None
        | x # rest \<Rightarrow>
           (if x \<noteq> CHR '':'' \<or> rest = [] then None
            else case dropWhile re_space rest of
                   [] \<Rightarrow> Some [last rest]
                 | y # ys \<Rightarrow> Some (y # ys)))
     else None)"

fun first_vendorID :: "string list \<Rightarrow> string" where
  "first_vendorID [] = ''''"
| "first_vendorID (line # ls) =
    (case vendorID line of Some vid \<Rightarrow> vid | None \<Rightarrow> first_vendorID ls)"

definition findFirstVendorID :: "string \<Rightarrow> string \<times> 'e option" where
  "findFirstVendorID r = (first_vendorID (scan_lines r), None)"

definition checkIsIntel :: "'e + string \<Rightarrow> bool \<times> 'e option" where
  "checkIsIntel cpuinfo =
    (case cpuinfo of
       Inl err \<Rightarrow> (False, Some err)
     | Inr f \<Rightarrow>
        (case findFirstVendorID f of
           (vid, Some err) \<Rightarrow> (False, Some err)
         | (vid, None) \<Rightarrow> (vid = ''GenuineIntel'', None)))"

subsection \<open>The answer and its cache\<close>

text \<open>The package variables \<open>isIntel\<close> and \<open>isIntelOnce\<close>.\<close>

record cpu_state =
  isIntel :: bool
  isIntelOnce :: bool

definition SupportCPUTemplate ::
  "string \<Rightarrow> 'e + string \<Rightarrow> cpu_state \<Rightarrow> (bool \<times> 'e option) \<times> cpu_state" where
  "SupportCPUTemplate GOARCH cpuinfo s =
    (if GOARCH \<noteq> ''amd64'' then ((False, None), s)
     else if isIntelOnce s then ((isIntel s, None), s)
     else case checkIsIntel cpuinfo of
            (b, err) \<Rightarrow> ((b, err), s\<lparr>isIntel := b, isIntelOnce := True\<rparr>))"

text \<open>Calls one after the other, each with what the file holds at that time.\<close>

fun support_calls ::
  "string \<Rightarrow> ('e + string) list \<Rightarrow> cpu_state \<Rightarrow> (bool \<times> 'e option) list" where
  "support_calls arch [] s = []"
| "support_calls arch (f # fs) s =
    (case SupportCPUTemplate arch f s of (r, s') \<Rightarrow> r # support_calls arch fs s')"

definition fresh_cpu :: cpu_state where
  "fresh_cpu = \<lparr>isIntel = False, isIntelOnce = False\<rparr>"

lemma calls_cached:
  "isIntelOnce s \<Longrightarrow> support_calls ''amd64'' fs s = replicate (length fs) (isIntel s, None)"
  by (induction fs) (simp_all add: SupportCPUTemplate_def)

lemma vendorID_line:
  assumes "list_all re_space w1" and "list_all re_space w2" and "vid \<noteq> []" and "\<not> re_space (hd vid)"
  shows "vendorID (''vendor_id'' @ w1 @ '':'' @ w2 @ vid) = Some vid"
proof -
  have drop: "dropWhile re_space (w @ xs) = dropWhile re_space xs" if "list_all re_space w" for w xs
    using that by (induction w) simp_all
  have "dropWhile re_space vid = vid" using assms(3,4) by (cases vid) simp_all
  with drop [OF assms(1), of "CHR '':'' # w2 @ vid"] drop [OF assms(2), of vid] assms(3) show ?thesis
    by (auto simp: vendorID_def has_prefix_def re_space_def split: list.splits)
qed

lemma first_vendorID_skip:
  "list_all (\<lambda>l. vendorID l = None) pre \<Longrightarrow> first_vendorID (pre @ ls) = first_vendorID ls"
  by (induction pre) simp_all

text \<open>On amd64 the answer of every call is that of the first: templates are supported exactly when
  the first line of \<open>/proc/cpuinfo\<close> that names a vendor, in the format of the kernel, names
  \<open>GenuineIntel\<close>; later calls do not read the file.\<close>

lemma SupportCPUTemplate_vendor:
  assumes "list_all text_line (pre @ (''vendor_id'' @ w1 @ '':'' @ w2 @ vid) # post)"
    and "list_all (\<lambda>l. vendorID l = None) pre"
    and "list_all re_space w1" and "list_all re_space w2" and "vid \<noteq> []" and "\<not> re_space (hd vid)"
    and "cpuinfo = concat (map (\<lambda>l. l @ [newline]) (pre @ (''vendor_id'' @ w1 @ '':'' @ w2 @ vid) # post))"
  shows "support_calls ''amd64'' (Inr cpuinfo # fs) fresh_cpu
    = replicate (Suc (length fs)) (vid = ''GenuineIntel'', None)"
proof -
  let ?l = "''vendor_id'' @ w1 @ '':'' @ w2 @ vid"
  have "scan_lines cpuinfo = pre @ ?l # post"
    unfolding assms(7) by (rule scan_lines_unlines [OF assms(1)])
  then have "first_vendorID (scan_lines cpuinfo) = vid"
    by (simp only: first_vendorID_skip [OF assms(2)] first_vendorID.simps vendorID_line [OF assms(3-6)]
        option.case)
  then show ?thesis
    by (simp add: SupportCPUTemplate_def checkIsIntel_def findFirstVendorID_def fresh_cpu_def calls_cached)
qed

lemma SupportCPUTemplate_vendor_witness:
  "support_calls ''amd64'' [Inr (''processor : 0'' @ [newline] @ ''vendor_id : GenuineIntel'' @ [newline]), Inl (0::nat)] fresh_cpu
    = [(True, None), (True, None)]"
  using SupportCPUTemplate_vendor [of "[''processor : 0'']" "'' ''" "'' ''" "''GenuineIntel''" "[]" _ "[Inl (0::nat)]"]
  by (simp add: text_line_def max_token_def vendorID_def has_prefix_def re_space_def)

text \<open>An error of the first call is reported once only: the calls after it return false without
  an error, also when the file could be read by then.\<close>

lemma SupportCPUTemplate_loses_error:
  "support_calls ''amd64'' (Inl err # fs) fresh_cpu = (False, Some err) # replicate (length fs) (False, None)"
  by (simp add: SupportCPUTemplate_def checkIsIntel_def fresh_cpu_def calls_cached)

end
