(* ===== verification/Netlink.thy ===== *)
theory Netlink
  imports World GoString
begin

text \<open>
  The netlink operations of \<open>cni/internal/netlink.go\<close>, which set up a tap device and redirect traffic
  between it and another device. The netlink library and the kernel are a parameter: the answer to
  each call is a function of the calls so far, and the library's handles are values of it.
\<close>

record nl_link =
  nl_Name :: string
  nl_Index :: int

record qdisc =
  q_LinkIndex :: int
  q_Parent :: "32 word"

text \<open>A filter of the list is a u32 filter, of which the code reads the redirect index, or another.\<close>

datatype nl_filter = U32 (RedirIndex: int) nat | OtherFilter nat

datatype nl_protocol = ETH_P_ALL
datatype nl_action = MirredAction tc_action mirred int
  and tc_action = TC_ACT_STOLEN
  and mirred = TCA_EGRESS_REDIR

record u32_filter =
  u_LinkIndex :: int
  u_Parent :: "32 word"
  u_Protocol :: nl_protocol
  u_Actions :: "nl_action list"

datatype tuntap_mode = TUNTAP_MODE_TUN | TUNTAP_MODE_TAP
datatype tuntap_flag = TUNTAP_ONE_QUEUE | TUNTAP_VNET_HDR

record tuntap =
  t_Name :: string
  t_Mode :: tuntap_mode
  t_Queues :: nat
  t_Flags :: "tuntap_flag list"

datatype nl_event =
    QdiscAdd qdisc
  | QdiscDel qdisc
  | QdiscList nl_link
  | FilterAdd u32_filter
  | FilterList nl_link "32 word"
  | LinkByName string
  | LinkDel nl_link
  | LinkAdd tuntap
  | IoctlOwner nat int
  | IoctlGroup nat int
  | LinkSetMTU string int
  | LinkSetUp string

record nl_env =
  nl_call :: "nl_event list \<Rightarrow> nl_event \<Rightarrow> go_error option"
  nl_qdiscs :: "nl_event list \<Rightarrow> nl_link \<Rightarrow> go_error + qdisc list"
  nl_filters :: "nl_event list \<Rightarrow> nl_link \<Rightarrow> 32 word \<Rightarrow> go_error + nl_filter list"
  nl_by_name :: "nl_event list \<Rightarrow> string \<Rightarrow> go_error + nl_link"
  nl_not_found :: "go_error \<Rightarrow> bool"
  nl_tap_fds :: "nl_event list \<Rightarrow> nat list"
  nl_tap_index :: "nl_event list \<Rightarrow> int"
  MakeHandle :: "16 word \<Rightarrow> 16 word \<Rightarrow> 32 word"
  HANDLE_INGRESS :: "32 word"

definition nl_do :: "nl_env \<Rightarrow> nl_event \<Rightarrow> nl_event list \<Rightarrow> go_error option \<times> nl_event list" where
  "nl_do e ev tr = (nl_call e tr ev, tr @ [ev])"

lemma nl_do_simps [simp]: "fst (nl_do e ev tr) = nl_call e tr ev" "snd (nl_do e ev tr) = tr @ [ev]"
  by (simp_all add: nl_do_def)

definition RootFilterHandle :: "nl_env \<Rightarrow> 32 word" where
  "RootFilterHandle e = MakeHandle e 0xffff 0"

definition ingressQdisc :: "nl_env \<Rightarrow> nl_link \<Rightarrow> qdisc" where
  "ingressQdisc e link = \<lparr>q_LinkIndex = nl_Index link, q_Parent = HANDLE_INGRESS e\<rparr>"

definition AddIngressQdisc :: "nl_env \<Rightarrow> nl_link \<Rightarrow> nl_event list \<Rightarrow> go_error option \<times> nl_event list" where
  "AddIngressQdisc e link tr =
    (case nl_do e (QdiscAdd (ingressQdisc e link)) tr of
       (Some err, tr1) \<Rightarrow>
         (Some (Wrapf ''failed to add ingress qdisc to device %q: %w'' [nl_Name link] err), tr1)
     | (None, tr1) \<Rightarrow> (None, tr1))"

fun find_qdisc :: "32 word \<Rightarrow> qdisc list \<Rightarrow> qdisc option" where
  "find_qdisc parent [] = None"
| "find_qdisc parent (q # qs) = (if q_Parent q = parent then Some q else find_qdisc parent qs)"

definition GetIngressQdisc :: "nl_env \<Rightarrow> nl_link \<Rightarrow> nl_event list \<Rightarrow> (go_error + qdisc) \<times> nl_event list" where
  "GetIngressQdisc e link tr =
    (case nl_qdiscs e tr link of
       Inl err \<Rightarrow> Inl (Wrapf ''failed to list qdiscs for link %q: %w'' [nl_Name link] err)
     | Inr qdiscs \<Rightarrow>
        (case find_qdisc (q_Parent (ingressQdisc e link)) qdiscs of
           Some q \<Rightarrow> Inr q
         | None \<Rightarrow> Inl (QdiscNotFoundError (nl_Name link))),
     tr @ [QdiscList link])"

definition RemoveIngressQdisc :: "nl_env \<Rightarrow> nl_link \<Rightarrow> nl_event list \<Rightarrow> go_error option \<times> nl_event list" where
  "RemoveIngressQdisc e link tr =
    (case GetIngressQdisc e link tr of
       (Inl err, tr1) \<Rightarrow> (Some err, tr1)
     | (Inr q, tr1) \<Rightarrow>
        (case nl_do e (QdiscDel q) tr1 of
           (Some err, tr2) \<Rightarrow>
             (Some (Wrapf ''failed to remove ingress qdisc from device %q: %w'' [nl_Name link] err), tr2)
         | (None, tr2) \<Rightarrow> (None, tr2)))"

definition AddRedirectFilter ::
  "nl_env \<Rightarrow> nl_link \<Rightarrow> nl_link \<Rightarrow> nl_event list \<Rightarrow> go_error option \<times> nl_event list" where
  "AddRedirectFilter e sourceLink targetLink tr =
    (case nl_do e (FilterAdd \<lparr>u_LinkIndex = nl_Index sourceLink, u_Parent = RootFilterHandle e,
             u_Protocol = ETH_P_ALL,
             u_Actions = [MirredAction TC_ACT_STOLEN TCA_EGRESS_REDIR (nl_Index targetLink)]\<rparr>) tr of
       (Some err, tr1) \<Rightarrow>
         (Some (Wrapf ''failed to add u32 filter redirecting from device %q to device %q, does %q exist and have a qdisc attached to its ingress?: %w''
            [nl_Name sourceLink, nl_Name targetLink, nl_Name sourceLink] err), tr1)
     | (None, tr1) \<Rightarrow> (None, tr1))"

fun find_redirect :: "int \<Rightarrow> nl_filter list \<Rightarrow> nl_filter option" where
  "find_redirect target [] = None"
| "find_redirect target (f # fs) =
    (case f of
       OtherFilter n \<Rightarrow> find_redirect target fs
     | U32 idx n \<Rightarrow> if idx = target then Some f else find_redirect target fs)"

definition GetRedirectFilter ::
  "nl_env \<Rightarrow> nl_link \<Rightarrow> nl_link \<Rightarrow> nl_event list \<Rightarrow> (go_error + nl_filter) \<times> nl_event list" where
  "GetRedirectFilter e sourceLink targetLink tr =
    (case nl_filters e tr sourceLink (RootFilterHandle e) of
       Inl err \<Rightarrow> Inl (Wrapf ''failed to list filters for device %q: %w'' [nl_Name sourceLink] err)
     | Inr filters \<Rightarrow>
        (case find_redirect (nl_Index targetLink) filters of
           Some f \<Rightarrow> Inr f
         | None \<Rightarrow> Inl (FilterNotFoundError (nl_Name sourceLink))),
     tr @ [FilterList sourceLink (RootFilterHandle e)])"

definition ops_GetLink :: "nl_env \<Rightarrow> string \<Rightarrow> nl_event list \<Rightarrow> (go_error + nl_link) \<times> nl_event list" where
  "ops_GetLink e name tr =
    (case nl_by_name e tr name of
       Inl err \<Rightarrow> if nl_not_found e err then Inl (LinkNotFoundError name) else Inl err
     | Inr link \<Rightarrow> Inr link,
     tr @ [LinkByName name])"

definition RemoveLink :: "nl_env \<Rightarrow> string \<Rightarrow> nl_event list \<Rightarrow> go_error option \<times> nl_event list" where
  "RemoveLink e name tr =
    (case ops_GetLink e name tr of
       (Inl err, tr1) \<Rightarrow> (Some err, tr1)
     | (Inr link, tr1) \<Rightarrow>
        (case nl_do e (LinkDel link) tr1 of
           (Some err, tr2) \<Rightarrow>
             (Some (if nl_not_found e err then LinkNotFoundError (nl_Name link) else err), tr2)
         | (None, tr2) \<Rightarrow> (None, tr2)))"

fun set_owners ::
  "nl_env \<Rightarrow> string \<Rightarrow> int \<Rightarrow> int \<Rightarrow> nat list \<Rightarrow> nl_event list \<Rightarrow> go_error option \<times> nl_event list" where
  "set_owners e name uid gid [] tr = (None, tr)"
| "set_owners e name uid gid (tapFd # fds) tr =
    (case nl_do e (IoctlOwner tapFd uid) tr of
       (Some err, tr1) \<Rightarrow> (Some (Wrapf ''failed to set tap %s owner to uid %d: %w'' [name, itoa uid] err), tr1)
     | (None, tr1) \<Rightarrow>
        (case nl_do e (IoctlGroup tapFd gid) tr1 of
           (Some err, tr2) \<Rightarrow> (Some (Wrapf ''failed to set tap %s group to gid %d: %w'' [name, itoa gid] err), tr2)
         | (None, tr2) \<Rightarrow> set_owners e name uid gid fds tr2))"

definition tap_link :: "string \<Rightarrow> tuntap" where
  "tap_link name =
     \<lparr>t_Name = name, t_Mode = TUNTAP_MODE_TAP, t_Queues = 1,
      t_Flags = [TUNTAP_ONE_QUEUE, TUNTAP_VNET_HDR]\<rparr>"

definition CreateTap ::
  "nl_env \<Rightarrow> string \<Rightarrow> int \<Rightarrow> int \<Rightarrow> int \<Rightarrow> nl_event list \<Rightarrow> (go_error + nl_link) \<times> nl_event list" where
  "CreateTap e name mtu ownerUID ownerGID tr =
    (case nl_do e (LinkAdd (tap_link name)) tr of
       (Some err, tr1) \<Rightarrow> (Inl (Wrapf ''failed to create tap device: %w'' [] err), tr1)
     | (None, tr1) \<Rightarrow>
        (case set_owners e name ownerUID ownerGID (nl_tap_fds e tr1) tr1 of
           (Some err, tr2) \<Rightarrow> (Inl err, tr2)
         | (None, tr2) \<Rightarrow>
            (case nl_do e (LinkSetMTU name mtu) tr2 of
               (Some err, tr3) \<Rightarrow> (Inl (Wrapf ''failed to set tap device MTU to %d: %w'' [itoa mtu] err), tr3)
             | (None, tr3) \<Rightarrow>
                (case nl_do e (LinkSetUp name) tr3 of
                   (Some err, tr4) \<Rightarrow> (Inl (Wrapf ''failed to set tap up: %w'' [] err), tr4)
                 | (None, tr4) \<Rightarrow> (Inr \<lparr>nl_Name = name, nl_Index = nl_tap_index e tr1\<rparr>, tr4)))))"

subsection \<open>The sequence of calls\<close>

text \<open>Calls one after the other, up to the first that fails.\<close>

fun nl_run :: "nl_env \<Rightarrow> nl_event list \<Rightarrow> nl_event list \<Rightarrow> bool \<times> nl_event list" where
  "nl_run e [] tr = (True, tr)"
| "nl_run e (ev # evs) tr =
    (if nl_call e tr ev = None then nl_run e evs (tr @ [ev]) else (False, tr @ [ev]))"

lemma nl_run_append:
  "nl_run e (evs @ evs') tr =
    (case nl_run e evs tr of (True, tr') \<Rightarrow> nl_run e evs' tr' | (False, tr') \<Rightarrow> (False, tr'))"
  by (induction evs arbitrary: tr) auto

lemma nl_run_prefix: "\<exists>n. snd (nl_run e evs tr) = tr @ take n evs"
proof (induction evs arbitrary: tr)
  case (Cons ev evs)
  from Cons.IH [of "tr @ [ev]"] obtain n where "snd (nl_run e evs (tr @ [ev])) = tr @ take (Suc n) (ev # evs)"
    by auto
  moreover have "tr @ [ev] = tr @ take 1 (ev # evs)" by simp
  ultimately show ?case by (metis nl_run.simps(2) snd_conv)
qed simp

definition owner_calls :: "int \<Rightarrow> int \<Rightarrow> nat list \<Rightarrow> nl_event list" where
  "owner_calls uid gid fds = concat (map (\<lambda>fd. [IoctlOwner fd uid, IoctlGroup fd gid]) fds)"

definition tap_calls :: "nl_env \<Rightarrow> string \<Rightarrow> int \<Rightarrow> int \<Rightarrow> int \<Rightarrow> nl_event list \<Rightarrow> nl_event list" where
  "tap_calls e name mtu uid gid tr =
     LinkAdd (tap_link name) # owner_calls uid gid (nl_tap_fds e (tr @ [LinkAdd (tap_link name)])) @
       [LinkSetMTU name mtu, LinkSetUp name]"

lemma set_owners_run:
  "nl_run e (owner_calls uid gid fds) tr =
     (fst (set_owners e name uid gid fds tr) = None, snd (set_owners e name uid gid fds tr))"
  by (induction e name uid gid fds tr rule: set_owners.induct)
    (auto simp: owner_calls_def nl_do_def split: option.splits)

lemma CreateTap_run:
  "nl_run e (tap_calls e name mtu uid gid tr) tr =
     (\<not> isl (fst (CreateTap e name mtu uid gid tr)), snd (CreateTap e name mtu uid gid tr))"
proof (cases "nl_call e tr (LinkAdd (tap_link name))")
  case (Some err)
  then show ?thesis by (simp add: tap_calls_def CreateTap_def nl_do_def)
next
  case None
  let ?tr1 = "tr @ [LinkAdd (tap_link name)]"
  obtain err tr2 where o: "set_owners e name uid gid (nl_tap_fds e ?tr1) ?tr1 = (err, tr2)"
    by (metis surj_pair)
  with set_owners_run [of e uid gid "nl_tap_fds e ?tr1" ?tr1 name]
  have r: "nl_run e (owner_calls uid gid (nl_tap_fds e ?tr1)) ?tr1 = (err = None, tr2)" by simp
  from None o r show ?thesis
    by (auto simp: tap_calls_def CreateTap_def nl_do_def nl_run_append split: option.splits)
qed

lemma no_LinkDel: "LinkDel l \<notin> set (tap_calls e name mtu uid gid tr)"
  by (auto simp: tap_calls_def owner_calls_def)

text \<open>C32: \<open>CreateTap\<close> makes the device, gives each of its queues to the user and the group, sets the
  MTU and brings it up, in this order and up to the first call that fails; it returns the device
  exactly if none failed. It never deletes a device: a failure after the first step leaves a tap
  behind that is not set up.\<close>

theorem CreateTap_calls:
  "nl_run e (tap_calls e name mtu uid gid tr) tr =
     (\<not> isl (fst (CreateTap e name mtu uid gid tr)), snd (CreateTap e name mtu uid gid tr))
   \<and> (\<exists>n. snd (CreateTap e name mtu uid gid tr) = tr @ take n (tap_calls e name mtu uid gid tr))
   \<and> LinkDel l \<notin> set (drop (length tr) (snd (CreateTap e name mtu uid gid tr)))"
proof -
  obtain n where n: "snd (CreateTap e name mtu uid gid tr) = tr @ take n (tap_calls e name mtu uid gid tr)"
    using nl_run_prefix [of e "tap_calls e name mtu uid gid tr" tr] by (auto simp: CreateTap_run)
  moreover have "LinkDel l \<notin> set (take n (tap_calls e name mtu uid gid tr))"
    by (meson in_set_takeD no_LinkDel)
  ultimately show ?thesis by (auto simp: CreateTap_run)
qed

subsection \<open>Queueing disciplines and filters\<close>

lemma find_qdisc_filter:
  "find_qdisc p qs = (case filter (\<lambda>q. q_Parent q = p) qs of [] \<Rightarrow> None | q # rest \<Rightarrow> Some q)"
  by (induction qs) auto

lemma find_redirect_filter:
  "find_redirect i fs = (case filter (\<lambda>f. case f of U32 idx n \<Rightarrow> idx = i | OtherFilter n \<Rightarrow> False) fs of
     [] \<Rightarrow> None | f # rest \<Rightarrow> Some f)"
  by (induction fs) (auto split: nl_filter.splits)

text \<open>\<open>RemoveIngressQdisc\<close> succeeds exactly when the queueing disciplines of the device can be
  listed, one of them has the ingress handle as its parent, as the one that \<open>AddIngressQdisc\<close> adds
  has, and the kernel deletes the first of these; it deletes at most this one. If there is none, it
  returns a \<open>QdiscNotFoundError\<close> with the name of the device and deletes nothing.\<close>

lemma RemoveIngressQdisc_iff:
  "(fst (RemoveIngressQdisc e link tr) = None \<longleftrightarrow>
     (\<exists>qs q rest. nl_qdiscs e tr link = Inr qs
        \<and> filter (\<lambda>q. q_Parent q = q_Parent (ingressQdisc e link)) qs = q # rest
        \<and> nl_call e (tr @ [QdiscList link]) (QdiscDel q) = None
        \<and> snd (RemoveIngressQdisc e link tr) = tr @ [QdiscList link, QdiscDel q]))
   \<and> (fst (RemoveIngressQdisc e link tr) = Some (QdiscNotFoundError (nl_Name link)) \<longleftrightarrow>
       (\<exists>qs. nl_qdiscs e tr link = Inr qs
          \<and> filter (\<lambda>q. q_Parent q = q_Parent (ingressQdisc e link)) qs = []
          \<and> snd (RemoveIngressQdisc e link tr) = tr @ [QdiscList link]))"
  by (auto simp: RemoveIngressQdisc_def GetIngressQdisc_def nl_do_def find_qdisc_filter
      split: sum.splits option.splits list.splits prod.splits)

text \<open>A redirect filter that is listed is found, and the first that redirects to the device is.\<close>

lemma GetRedirectFilter_found:
  "fst (GetRedirectFilter e src tgt tr) = Inr f \<longleftrightarrow>
     (\<exists>fs rest. nl_filters e tr src (RootFilterHandle e) = Inr fs \<and>
        filter (\<lambda>f. case f of U32 idx n \<Rightarrow> idx = nl_Index tgt | OtherFilter n \<Rightarrow> False) fs = f # rest)"
  by (auto simp: GetRedirectFilter_def find_redirect_filter split: sum.splits option.splits list.splits)

end
