(* ===== verification/Params.thy ===== *)
theory Params
  imports ApiClient
begin

text \<open>
  The types of the parameters of the operations, their constructors and their setters
  (\<open>client/operations/*_parameters.go\<close>): 29 structs of their own, of five shapes. The setters change
  the receiver; the \<open>With\<close> methods return the receiver as well, so that they can be chained. What an
  operation reads of its parameters is the abstraction \<open>..._request\<close>; the locales state that the
  methods act on it as the ones of \<open>Operations\<close> do, and are interpreted for every operation.
\<close>

subsection \<open>The structs and their methods\<close>

record plain_params =
  op_timeout :: int64
  op_Context :: "ctx option"
  op_HTTPClient :: "http_client option"

record 'b body_params = plain_params +
  op_Body :: "'b option"

record 'b drive_params = "'b body_params" +
  op_DriveID :: string

record 'b iface_params = "'b body_params" +
  op_IfaceID :: string

record info_params = plain_params +
  op_Info :: "InstanceActionInfo option"

text \<open>The constructors and methods of a struct with receiver type \<open>'p\<close>.\<close>

record 'p methods =
  m_New :: "env \<Rightarrow> 'p"
  m_NewWithTimeout :: "int64 \<Rightarrow> 'p"
  m_NewWithContext :: "ctx option \<Rightarrow> 'p"
  m_NewWithHTTPClient :: "http_client option \<Rightarrow> 'p"
  m_SetTimeout :: "int64 \<Rightarrow> 'p \<Rightarrow> 'p"
  m_WithTimeout :: "int64 \<Rightarrow> 'p \<Rightarrow> 'p"
  m_SetContext :: "ctx option \<Rightarrow> 'p \<Rightarrow> 'p"
  m_WithContext :: "ctx option \<Rightarrow> 'p \<Rightarrow> 'p"
  m_SetHTTPClient :: "http_client option \<Rightarrow> 'p \<Rightarrow> 'p"
  m_WithHTTPClient :: "http_client option \<Rightarrow> 'p \<Rightarrow> 'p"

record ('p, 'b) body_methods = "'p methods" +
  m_SetBody :: "'b option \<Rightarrow> 'p \<Rightarrow> 'p"
  m_WithBody :: "'b option \<Rightarrow> 'p \<Rightarrow> 'p"

record ('p, 'b) id_methods = "('p, 'b) body_methods" +
  m_SetID :: "string \<Rightarrow> 'p \<Rightarrow> 'p"
  m_WithID :: "string \<Rightarrow> 'p \<Rightarrow> 'p"

subsection \<open>The operations\<close>

definition CreateSnapshotParams :: "(SnapshotCreateParams body_params, SnapshotCreateParams) body_methods" where
  "CreateSnapshotParams =
    (let zero = \<lparr>op_timeout = 0, op_Context = None, op_HTTPClient = None, op_Body = None\<rparr>;
         SetTimeout = (\<lambda>timeout p. p\<lparr>op_timeout := timeout\<rparr>);
         SetContext = (\<lambda>ctx p. p\<lparr>op_Context := ctx\<rparr>);
         SetHTTPClient = (\<lambda>client p. p\<lparr>op_HTTPClient := client\<rparr>);
         SetBody = (\<lambda>body p. p\<lparr>op_Body := body\<rparr>)
     in \<lparr>m_New = (\<lambda>e. zero\<lparr>op_timeout := default_timeout e\<rparr>),
         m_NewWithTimeout = (\<lambda>timeout. zero\<lparr>op_timeout := timeout\<rparr>),
         m_NewWithContext = (\<lambda>ctx. zero\<lparr>op_Context := ctx\<rparr>),
         m_NewWithHTTPClient = (\<lambda>client. zero\<lparr>op_HTTPClient := client\<rparr>),
         m_SetTimeout = SetTimeout, m_WithTimeout = (\<lambda>timeout p. SetTimeout timeout p),
         m_SetContext = SetContext, m_WithContext = (\<lambda>ctx p. SetContext ctx p),
         m_SetHTTPClient = SetHTTPClient, m_WithHTTPClient = (\<lambda>client p. SetHTTPClient client p),
         m_SetBody = SetBody, m_WithBody = (\<lambda>body p. SetBody body p)\<rparr>)"

definition CreateSyncActionParams :: "(info_params, InstanceActionInfo) body_methods" where
  "CreateSyncActionParams =
    (let zero = \<lparr>op_timeout = 0, op_Context = None, op_HTTPClient = None, op_Info = None\<rparr>;
         SetTimeout = (\<lambda>timeout p. p\<lparr>op_timeout := timeout\<rparr>);
         SetContext = (\<lambda>ctx p. p\<lparr>op_Context := ctx\<rparr>);
         SetHTTPClient = (\<lambda>client p. p\<lparr>op_HTTPClient := client\<rparr>);
         SetInfo = (\<lambda>info p. p\<lparr>op_Info := info\<rparr>)
     in \<lparr>m_New = (\<lambda>e. zero\<lparr>op_timeout := default_timeout e\<rparr>),
         m_NewWithTimeout = (\<lambda>timeout. zero\<lparr>op_timeout := timeout\<rparr>),
         m_NewWithContext = (\<lambda>ctx. zero\<lparr>op_Context := ctx\<rparr>),
         m_NewWithHTTPClient = (\<lambda>client. zero\<lparr>op_HTTPClient := client\<rparr>),
         m_SetTimeout = SetTimeout, m_WithTimeout = (\<lambda>timeout p. SetTimeout timeout p),
         m_SetContext = SetContext, m_WithContext = (\<lambda>ctx p. SetContext ctx p),
         m_SetHTTPClient = SetHTTPClient, m_WithHTTPClient = (\<lambda>client p. SetHTTPClient client p),
         m_SetBody = SetInfo, m_WithBody = (\<lambda>info p. SetInfo info p)\<rparr>)"

definition DescribeBalloonConfigParams :: "plain_params methods" where
  "DescribeBalloonConfigParams =
    (let zero = \<lparr>op_timeout = 0, op_Context = None, op_HTTPClient = None\<rparr>;
         SetTimeout = (\<lambda>timeout p. p\<lparr>op_timeout := timeout\<rparr>);
         SetContext = (\<lambda>ctx p. p\<lparr>op_Context := ctx\<rparr>);
         SetHTTPClient = (\<lambda>client p. p\<lparr>op_HTTPClient := client\<rparr>)
     in \<lparr>m_New = (\<lambda>e. zero\<lparr>op_timeout := default_timeout e\<rparr>),
         m_NewWithTimeout = (\<lambda>timeout. zero\<lparr>op_timeout := timeout\<rparr>),
         m_NewWithContext = (\<lambda>ctx. zero\<lparr>op_Context := ctx\<rparr>),
         m_NewWithHTTPClient = (\<lambda>client. zero\<lparr>op_HTTPClient := client\<rparr>),
         m_SetTimeout = SetTimeout, m_WithTimeout = (\<lambda>timeout p. SetTimeout timeout p),
         m_SetContext = SetContext, m_WithContext = (\<lambda>ctx p. SetContext ctx p),
         m_SetHTTPClient = SetHTTPClient, m_WithHTTPClient = (\<lambda>client p. SetHTTPClient client p)\<rparr>)"

definition DescribeBalloonStatsParams :: "plain_params methods" where
  "DescribeBalloonStatsParams =
    (let zero = \<lparr>op_timeout = 0, op_Context = None, op_HTTPClient = None\<rparr>;
         SetTimeout = (\<lambda>timeout p. p\<lparr>op_timeout := timeout\<rparr>);
         SetContext = (\<lambda>ctx p. p\<lparr>op_Context := ctx\<rparr>);
         SetHTTPClient = (\<lambda>client p. p\<lparr>op_HTTPClient := client\<rparr>)
     in \<lparr>m_New = (\<lambda>e. zero\<lparr>op_timeout := default_timeout e\<rparr>),
         m_NewWithTimeout = (\<lambda>timeout. zero\<lparr>op_timeout := timeout\<rparr>),
         m_NewWithContext = (\<lambda>ctx. zero\<lparr>op_Context := ctx\<rparr>),
         m_NewWithHTTPClient = (\<lambda>client. zero\<lparr>op_HTTPClient := client\<rparr>),
         m_SetTimeout = SetTimeout, m_WithTimeout = (\<lambda>timeout p. SetTimeout timeout p),
         m_SetContext = SetContext, m_WithContext = (\<lambda>ctx p. SetContext ctx p),
         m_SetHTTPClient = SetHTTPClient, m_WithHTTPClient = (\<lambda>client p. SetHTTPClient client p)\<rparr>)"

definition DescribeInstanceParams :: "plain_params methods" where
  "DescribeInstanceParams =
    (let zero = \<lparr>op_timeout = 0, op_Context = None, op_HTTPClient = None\<rparr>;
         SetTimeout = (\<lambda>timeout p. p\<lparr>op_timeout := timeout\<rparr>);
         SetContext = (\<lambda>ctx p. p\<lparr>op_Context := ctx\<rparr>);
         SetHTTPClient = (\<lambda>client p. p\<lparr>op_HTTPClient := client\<rparr>)
     in \<lparr>m_New = (\<lambda>e. zero\<lparr>op_timeout := default_timeout e\<rparr>),
         m_NewWithTimeout = (\<lambda>timeout. zero\<lparr>op_timeout := timeout\<rparr>),
         m_NewWithContext = (\<lambda>ctx. zero\<lparr>op_Context := ctx\<rparr>),
         m_NewWithHTTPClient = (\<lambda>client. zero\<lparr>op_HTTPClient := client\<rparr>),
         m_SetTimeout = SetTimeout, m_WithTimeout = (\<lambda>timeout p. SetTimeout timeout p),
         m_SetContext = SetContext, m_WithContext = (\<lambda>ctx p. SetContext ctx p),
         m_SetHTTPClient = SetHTTPClient, m_WithHTTPClient = (\<lambda>client p. SetHTTPClient client p)\<rparr>)"

definition GetExportVMConfigParams :: "plain_params methods" where
  "GetExportVMConfigParams =
    (let zero = \<lparr>op_timeout = 0, op_Context = None, op_HTTPClient = None\<rparr>;
         SetTimeout = (\<lambda>timeout p. p\<lparr>op_timeout := timeout\<rparr>);
         SetContext = (\<lambda>ctx p. p\<lparr>op_Context := ctx\<rparr>);
         SetHTTPClient = (\<lambda>client p. p\<lparr>op_HTTPClient := client\<rparr>)
     in \<lparr>m_New = (\<lambda>e. zero\<lparr>op_timeout := default_timeout e\<rparr>),
         m_NewWithTimeout = (\<lambda>timeout. zero\<lparr>op_timeout := timeout\<rparr>),
         m_NewWithContext = (\<lambda>ctx. zero\<lparr>op_Context := ctx\<rparr>),
         m_NewWithHTTPClient = (\<lambda>client. zero\<lparr>op_HTTPClient := client\<rparr>),
         m_SetTimeout = SetTimeout, m_WithTimeout = (\<lambda>timeout p. SetTimeout timeout p),
         m_SetContext = SetContext, m_WithContext = (\<lambda>ctx p. SetContext ctx p),
         m_SetHTTPClient = SetHTTPClient, m_WithHTTPClient = (\<lambda>client p. SetHTTPClient client p)\<rparr>)"

definition GetFirecrackerVersionParams :: "plain_params methods" where
  "GetFirecrackerVersionParams =
    (let zero = \<lparr>op_timeout = 0, op_Context = None, op_HTTPClient = None\<rparr>;
         SetTimeout = (\<lambda>timeout p. p\<lparr>op_timeout := timeout\<rparr>);
         SetContext = (\<lambda>ctx p. p\<lparr>op_Context := ctx\<rparr>);
         SetHTTPClient = (\<lambda>client p. p\<lparr>op_HTTPClient := client\<rparr>)
     in \<lparr>m_New = (\<lambda>e. zero\<lparr>op_timeout := default_timeout e\<rparr>),
         m_NewWithTimeout = (\<lambda>timeout. zero\<lparr>op_timeout := timeout\<rparr>),
         m_NewWithContext = (\<lambda>ctx. zero\<lparr>op_Context := ctx\<rparr>),
         m_NewWithHTTPClient = (\<lambda>client. zero\<lparr>op_HTTPClient := client\<rparr>),
         m_SetTimeout = SetTimeout, m_WithTimeout = (\<lambda>timeout p. SetTimeout timeout p),
         m_SetContext = SetContext, m_WithContext = (\<lambda>ctx p. SetContext ctx p),
         m_SetHTTPClient = SetHTTPClient, m_WithHTTPClient = (\<lambda>client p. SetHTTPClient client p)\<rparr>)"

definition GetMachineConfigurationParams :: "plain_params methods" where
  "GetMachineConfigurationParams =
    (let zero = \<lparr>op_timeout = 0, op_Context = None, op_HTTPClient = None\<rparr>;
         SetTimeout = (\<lambda>timeout p. p\<lparr>op_timeout := timeout\<rparr>);
         SetContext = (\<lambda>ctx p. p\<lparr>op_Context := ctx\<rparr>);
         SetHTTPClient = (\<lambda>client p. p\<lparr>op_HTTPClient := client\<rparr>)
     in \<lparr>m_New = (\<lambda>e. zero\<lparr>op_timeout := default_timeout e\<rparr>),
         m_NewWithTimeout = (\<lambda>timeout. zero\<lparr>op_timeout := timeout\<rparr>),
         m_NewWithContext = (\<lambda>ctx. zero\<lparr>op_Context := ctx\<rparr>),
         m_NewWithHTTPClient = (\<lambda>client. zero\<lparr>op_HTTPClient := client\<rparr>),
         m_SetTimeout = SetTimeout, m_WithTimeout = (\<lambda>timeout p. SetTimeout timeout p),
         m_SetContext = SetContext, m_WithContext = (\<lambda>ctx p. SetContext ctx p),
         m_SetHTTPClient = SetHTTPClient, m_WithHTTPClient = (\<lambda>client p. SetHTTPClient client p)\<rparr>)"

definition GetMmdsParams :: "plain_params methods" where
  "GetMmdsParams =
    (let zero = \<lparr>op_timeout = 0, op_Context = None, op_HTTPClient = None\<rparr>;
         SetTimeout = (\<lambda>timeout p. p\<lparr>op_timeout := timeout\<rparr>);
         SetContext = (\<lambda>ctx p. p\<lparr>op_Context := ctx\<rparr>);
         SetHTTPClient = (\<lambda>client p. p\<lparr>op_HTTPClient := client\<rparr>)
     in \<lparr>m_New = (\<lambda>e. zero\<lparr>op_timeout := default_timeout e\<rparr>),
         m_NewWithTimeout = (\<lambda>timeout. zero\<lparr>op_timeout := timeout\<rparr>),
         m_NewWithContext = (\<lambda>ctx. zero\<lparr>op_Context := ctx\<rparr>),
         m_NewWithHTTPClient = (\<lambda>client. zero\<lparr>op_HTTPClient := client\<rparr>),
         m_SetTimeout = SetTimeout, m_WithTimeout = (\<lambda>timeout p. SetTimeout timeout p),
         m_SetContext = SetContext, m_WithContext = (\<lambda>ctx p. SetContext ctx p),
         m_SetHTTPClient = SetHTTPClient, m_WithHTTPClient = (\<lambda>client p. SetHTTPClient client p)\<rparr>)"

definition LoadSnapshotParams :: "(SnapshotLoadParams body_params, SnapshotLoadParams) body_methods" where
  "LoadSnapshotParams =
    (let zero = \<lparr>op_timeout = 0, op_Context = None, op_HTTPClient = None, op_Body = None\<rparr>;
         SetTimeout = (\<lambda>timeout p. p\<lparr>op_timeout := timeout\<rparr>);
         SetContext = (\<lambda>ctx p. p\<lparr>op_Context := ctx\<rparr>);
         SetHTTPClient = (\<lambda>client p. p\<lparr>op_HTTPClient := client\<rparr>);
         SetBody = (\<lambda>body p. p\<lparr>op_Body := body\<rparr>)
     in \<lparr>m_New = (\<lambda>e. zero\<lparr>op_timeout := default_timeout e\<rparr>),
         m_NewWithTimeout = (\<lambda>timeout. zero\<lparr>op_timeout := timeout\<rparr>),
         m_NewWithContext = (\<lambda>ctx. zero\<lparr>op_Context := ctx\<rparr>),
         m_NewWithHTTPClient = (\<lambda>client. zero\<lparr>op_HTTPClient := client\<rparr>),
         m_SetTimeout = SetTimeout, m_WithTimeout = (\<lambda>timeout p. SetTimeout timeout p),
         m_SetContext = SetContext, m_WithContext = (\<lambda>ctx p. SetContext ctx p),
         m_SetHTTPClient = SetHTTPClient, m_WithHTTPClient = (\<lambda>client p. SetHTTPClient client p),
         m_SetBody = SetBody, m_WithBody = (\<lambda>body p. SetBody body p)\<rparr>)"

definition PatchBalloonParams :: "(BalloonUpdate body_params, BalloonUpdate) body_methods" where
  "PatchBalloonParams =
    (let zero = \<lparr>op_timeout = 0, op_Context = None, op_HTTPClient = None, op_Body = None\<rparr>;
         SetTimeout = (\<lambda>timeout p. p\<lparr>op_timeout := timeout\<rparr>);
         SetContext = (\<lambda>ctx p. p\<lparr>op_Context := ctx\<rparr>);
         SetHTTPClient = (\<lambda>client p. p\<lparr>op_HTTPClient := client\<rparr>);
         SetBody = (\<lambda>body p. p\<lparr>op_Body := body\<rparr>)
     in \<lparr>m_New = (\<lambda>e. zero\<lparr>op_timeout := default_timeout e\<rparr>),
         m_NewWithTimeout = (\<lambda>timeout. zero\<lparr>op_timeout := timeout\<rparr>),
         m_NewWithContext = (\<lambda>ctx. zero\<lparr>op_Context := ctx\<rparr>),
         m_NewWithHTTPClient = (\<lambda>client. zero\<lparr>op_HTTPClient := client\<rparr>),
         m_SetTimeout = SetTimeout, m_WithTimeout = (\<lambda>timeout p. SetTimeout timeout p),
         m_SetContext = SetContext, m_WithContext = (\<lambda>ctx p. SetContext ctx p),
         m_SetHTTPClient = SetHTTPClient, m_WithHTTPClient = (\<lambda>client p. SetHTTPClient client p),
         m_SetBody = SetBody, m_WithBody = (\<lambda>body p. SetBody body p)\<rparr>)"

definition PatchBalloonStatsIntervalParams :: "(BalloonStatsUpdate body_params, BalloonStatsUpdate) body_methods" where
  "PatchBalloonStatsIntervalParams =
    (let zero = \<lparr>op_timeout = 0, op_Context = None, op_HTTPClient = None, op_Body = None\<rparr>;
         SetTimeout = (\<lambda>timeout p. p\<lparr>op_timeout := timeout\<rparr>);
         SetContext = (\<lambda>ctx p. p\<lparr>op_Context := ctx\<rparr>);
         SetHTTPClient = (\<lambda>client p. p\<lparr>op_HTTPClient := client\<rparr>);
         SetBody = (\<lambda>body p. p\<lparr>op_Body := body\<rparr>)
     in \<lparr>m_New = (\<lambda>e. zero\<lparr>op_timeout := default_timeout e\<rparr>),
         m_NewWithTimeout = (\<lambda>timeout. zero\<lparr>op_timeout := timeout\<rparr>),
         m_NewWithContext = (\<lambda>ctx. zero\<lparr>op_Context := ctx\<rparr>),
         m_NewWithHTTPClient = (\<lambda>client. zero\<lparr>op_HTTPClient := client\<rparr>),
         m_SetTimeout = SetTimeout, m_WithTimeout = (\<lambda>timeout p. SetTimeout timeout p),
         m_SetContext = SetContext, m_WithContext = (\<lambda>ctx p. SetContext ctx p),
         m_SetHTTPClient = SetHTTPClient, m_WithHTTPClient = (\<lambda>client p. SetHTTPClient client p),
         m_SetBody = SetBody, m_WithBody = (\<lambda>body p. SetBody body p)\<rparr>)"

definition PatchGuestDriveByIDParams :: "(PartialDrive drive_params, PartialDrive) id_methods" where
  "PatchGuestDriveByIDParams =
    (let zero = \<lparr>op_timeout = 0, op_Context = None, op_HTTPClient = None, op_Body = None, op_DriveID = ''''\<rparr>;
         SetTimeout = (\<lambda>timeout p. p\<lparr>op_timeout := timeout\<rparr>);
         SetContext = (\<lambda>ctx p. p\<lparr>op_Context := ctx\<rparr>);
         SetHTTPClient = (\<lambda>client p. p\<lparr>op_HTTPClient := client\<rparr>);
         SetBody = (\<lambda>body p. p\<lparr>op_Body := body\<rparr>);
         SetDriveID = (\<lambda>driveID p. p\<lparr>op_DriveID := driveID\<rparr>)
     in \<lparr>m_New = (\<lambda>e. zero\<lparr>op_timeout := default_timeout e\<rparr>),
         m_NewWithTimeout = (\<lambda>timeout. zero\<lparr>op_timeout := timeout\<rparr>),
         m_NewWithContext = (\<lambda>ctx. zero\<lparr>op_Context := ctx\<rparr>),
         m_NewWithHTTPClient = (\<lambda>client. zero\<lparr>op_HTTPClient := client\<rparr>),
         m_SetTimeout = SetTimeout, m_WithTimeout = (\<lambda>timeout p. SetTimeout timeout p),
         m_SetContext = SetContext, m_WithContext = (\<lambda>ctx p. SetContext ctx p),
         m_SetHTTPClient = SetHTTPClient, m_WithHTTPClient = (\<lambda>client p. SetHTTPClient client p),
         m_SetBody = SetBody, m_WithBody = (\<lambda>body p. SetBody body p),
         m_SetID = SetDriveID, m_WithID = (\<lambda>driveID p. SetDriveID driveID p)\<rparr>)"

definition PatchGuestNetworkInterfaceByIDParams :: "(PartialNetworkInterface iface_params, PartialNetworkInterface) id_methods" where
  "PatchGuestNetworkInterfaceByIDParams =
    (let zero = \<lparr>op_timeout = 0, op_Context = None, op_HTTPClient = None, op_Body = None, op_IfaceID = ''''\<rparr>;
         SetTimeout = (\<lambda>timeout p. p\<lparr>op_timeout := timeout\<rparr>);
         SetContext = (\<lambda>ctx p. p\<lparr>op_Context := ctx\<rparr>);
         SetHTTPClient = (\<lambda>client p. p\<lparr>op_HTTPClient := client\<rparr>);
         SetBody = (\<lambda>body p. p\<lparr>op_Body := body\<rparr>);
         SetIfaceID = (\<lambda>ifaceID p. p\<lparr>op_IfaceID := ifaceID\<rparr>)
     in \<lparr>m_New = (\<lambda>e. zero\<lparr>op_timeout := default_timeout e\<rparr>),
         m_NewWithTimeout = (\<lambda>timeout. zero\<lparr>op_timeout := timeout\<rparr>),
         m_NewWithContext = (\<lambda>ctx. zero\<lparr>op_Context := ctx\<rparr>),
         m_NewWithHTTPClient = (\<lambda>client. zero\<lparr>op_HTTPClient := client\<rparr>),
         m_SetTimeout = SetTimeout, m_WithTimeout = (\<lambda>timeout p. SetTimeout timeout p),
         m_SetContext = SetContext, m_WithContext = (\<lambda>ctx p. SetContext ctx p),
         m_SetHTTPClient = SetHTTPClient, m_WithHTTPClient = (\<lambda>client p. SetHTTPClient client p),
         m_SetBody = SetBody, m_WithBody = (\<lambda>body p. SetBody body p),
         m_SetID = SetIfaceID, m_WithID = (\<lambda>ifaceID p. SetIfaceID ifaceID p)\<rparr>)"

definition PatchMachineConfigurationParams :: "(MachineConfiguration body_params, MachineConfiguration) body_methods" where
  "PatchMachineConfigurationParams =
    (let zero = \<lparr>op_timeout = 0, op_Context = None, op_HTTPClient = None, op_Body = None\<rparr>;
         SetTimeout = (\<lambda>timeout p. p\<lparr>op_timeout := timeout\<rparr>);
         SetContext = (\<lambda>ctx p. p\<lparr>op_Context := ctx\<rparr>);
         SetHTTPClient = (\<lambda>client p. p\<lparr>op_HTTPClient := client\<rparr>);
         SetBody = (\<lambda>body p. p\<lparr>op_Body := body\<rparr>)
     in \<lparr>m_New = (\<lambda>e. zero\<lparr>op_timeout := default_timeout e\<rparr>),
         m_NewWithTimeout = (\<lambda>timeout. zero\<lparr>op_timeout := timeout\<rparr>),
         m_NewWithContext = (\<lambda>ctx. zero\<lparr>op_Context := ctx\<rparr>),
         m_NewWithHTTPClient = (\<lambda>client. zero\<lparr>op_HTTPClient := client\<rparr>),
         m_SetTimeout = SetTimeout, m_WithTimeout = (\<lambda>timeout p. SetTimeout timeout p),
         m_SetContext = SetContext, m_WithContext = (\<lambda>ctx p. SetContext ctx p),
         m_SetHTTPClient = SetHTTPClient, m_WithHTTPClient = (\<lambda>client p. SetHTTPClient client p),
         m_SetBody = SetBody, m_WithBody = (\<lambda>body p. SetBody body p)\<rparr>)"

definition PatchMmdsParams :: "(string body_params, string) body_methods" where
  "PatchMmdsParams =
    (let zero = \<lparr>op_timeout = 0, op_Context = None, op_HTTPClient = None, op_Body = None\<rparr>;
         SetTimeout = (\<lambda>timeout p. p\<lparr>op_timeout := timeout\<rparr>);
         SetContext = (\<lambda>ctx p. p\<lparr>op_Context := ctx\<rparr>);
         SetHTTPClient = (\<lambda>client p. p\<lparr>op_HTTPClient := client\<rparr>);
         SetBody = (\<lambda>body p. p\<lparr>op_Body := body\<rparr>)
     in \<lparr>m_New = (\<lambda>e. zero\<lparr>op_timeout := default_timeout e\<rparr>),
         m_NewWithTimeout = (\<lambda>timeout. zero\<lparr>op_timeout := timeout\<rparr>),
         m_NewWithContext = (\<lambda>ctx. zero\<lparr>op_Context := ctx\<rparr>),
         m_NewWithHTTPClient = (\<lambda>client. zero\<lparr>op_HTTPClient := client\<rparr>),
         m_SetTimeout = SetTimeout, m_WithTimeout = (\<lambda>timeout p. SetTimeout timeout p),
         m_SetContext = SetContext, m_WithContext = (\<lambda>ctx p. SetContext ctx p),
         m_SetHTTPClient = SetHTTPClient, m_WithHTTPClient = (\<lambda>client p. SetHTTPClient client p),
         m_SetBody = SetBody, m_WithBody = (\<lambda>body p. SetBody body p)\<rparr>)"

definition PatchVMParams :: "(VM body_params, VM) body_methods" where
  "PatchVMParams =
    (let zero = \<lparr>op_timeout = 0, op_Context = None, op_HTTPClient = None, op_Body = None\<rparr>;
         SetTimeout = (\<lambda>timeout p. p\<lparr>op_timeout := timeout\<rparr>);
         SetContext = (\<lambda>ctx p. p\<lparr>op_Context := ctx\<rparr>);
         SetHTTPClient = (\<lambda>client p. p\<lparr>op_HTTPClient := client\<rparr>);
         SetBody = (\<lambda>body p. p\<lparr>op_Body := body\<rparr>)
     in \<lparr>m_New = (\<lambda>e. zero\<lparr>op_timeout := default_timeout e\<rparr>),
         m_NewWithTimeout = (\<lambda>timeout. zero\<lparr>op_timeout := timeout\<rparr>),
         m_NewWithContext = (\<lambda>ctx. zero\<lparr>op_Context := ctx\<rparr>),
         m_NewWithHTTPClient = (\<lambda>client. zero\<lparr>op_HTTPClient := client\<rparr>),
         m_SetTimeout = SetTimeout, m_WithTimeout = (\<lambda>timeout p. SetTimeout timeout p),
         m_SetContext = SetContext, m_WithContext = (\<lambda>ctx p. SetContext ctx p),
         m_SetHTTPClient = SetHTTPClient, m_WithHTTPClient = (\<lambda>client p. SetHTTPClient client p),
         m_SetBody = SetBody, m_WithBody = (\<lambda>body p. SetBody body p)\<rparr>)"

definition PutBalloonParams :: "(Balloon body_params, Balloon) body_methods" where
  "PutBalloonParams =
    (let zero = \<lparr>op_timeout = 0, op_Context = None, op_HTTPClient = None, op_Body = None\<rparr>;
         SetTimeout = (\<lambda>timeout p. p\<lparr>op_timeout := timeout\<rparr>);
         SetContext = (\<lambda>ctx p. p\<lparr>op_Context := ctx\<rparr>);
         SetHTTPClient = (\<lambda>client p. p\<lparr>op_HTTPClient := client\<rparr>);
         SetBody = (\<lambda>body p. p\<lparr>op_Body := body\<rparr>)
     in \<lparr>m_New = (\<lambda>e. zero\<lparr>op_timeout := default_timeout e\<rparr>),
         m_NewWithTimeout = (\<lambda>timeout. zero\<lparr>op_timeout := timeout\<rparr>),
         m_NewWithContext = (\<lambda>ctx. zero\<lparr>op_Context := ctx\<rparr>),
         m_NewWithHTTPClient = (\<lambda>client. zero\<lparr>op_HTTPClient := client\<rparr>),
         m_SetTimeout = SetTimeout, m_WithTimeout = (\<lambda>timeout p. SetTimeout timeout p),
         m_SetContext = SetContext, m_WithContext = (\<lambda>ctx p. SetContext ctx p),
         m_SetHTTPClient = SetHTTPClient, m_WithHTTPClient = (\<lambda>client p. SetHTTPClient client p),
         m_SetBody = SetBody, m_WithBody = (\<lambda>body p. SetBody body p)\<rparr>)"

definition PutCPUConfigurationParams :: "(string body_params, string) body_methods" where
  "PutCPUConfigurationParams =
    (let zero = \<lparr>op_timeout = 0, op_Context = None, op_HTTPClient = None, op_Body = None\<rparr>;
         SetTimeout = (\<lambda>timeout p. p\<lparr>op_timeout := timeout\<rparr>);
         SetContext = (\<lambda>ctx p. p\<lparr>op_Context := ctx\<rparr>);
         SetHTTPClient = (\<lambda>client p. p\<lparr>op_HTTPClient := client\<rparr>);
         SetBody = (\<lambda>body p. p\<lparr>op_Body := body\<rparr>)
     in \<lparr>m_New = (\<lambda>e. zero\<lparr>op_timeout := default_timeout e\<rparr>),
         m_NewWithTimeout = (\<lambda>timeout. zero\<lparr>op_timeout := timeout\<rparr>),
         m_NewWithContext = (\<lambda>ctx. zero\<lparr>op_Context := ctx\<rparr>),
         m_NewWithHTTPClient = (\<lambda>client. zero\<lparr>op_HTTPClient := client\<rparr>),
         m_SetTimeout = SetTimeout, m_WithTimeout = (\<lambda>timeout p. SetTimeout timeout p),
         m_SetContext = SetContext, m_WithContext = (\<lambda>ctx p. SetContext ctx p),
         m_SetHTTPClient = SetHTTPClient, m_WithHTTPClient = (\<lambda>client p. SetHTTPClient client p),
         m_SetBody = SetBody, m_WithBody = (\<lambda>body p. SetBody body p)\<rparr>)"

definition PutEntropyDeviceParams :: "(EntropyDevice body_params, EntropyDevice) body_methods" where
  "PutEntropyDeviceParams =
    (let zero = \<lparr>op_timeout = 0, op_Context = None, op_HTTPClient = None, op_Body = None\<rparr>;
         SetTimeout = (\<lambda>timeout p. p\<lparr>op_timeout := timeout\<rparr>);
         SetContext = (\<lambda>ctx p. p\<lparr>op_Context := ctx\<rparr>);
         SetHTTPClient = (\<lambda>client p. p\<lparr>op_HTTPClient := client\<rparr>);
         SetBody = (\<lambda>body p. p\<lparr>op_Body := body\<rparr>)
     in \<lparr>m_New = (\<lambda>e. zero\<lparr>op_timeout := default_timeout e\<rparr>),
         m_NewWithTimeout = (\<lambda>timeout. zero\<lparr>op_timeout := timeout\<rparr>),
         m_NewWithContext = (\<lambda>ctx. zero\<lparr>op_Context := ctx\<rparr>),
         m_NewWithHTTPClient = (\<lambda>client. zero\<lparr>op_HTTPClient := client\<rparr>),
         m_SetTimeout = SetTimeout, m_WithTimeout = (\<lambda>timeout p. SetTimeout timeout p),
         m_SetContext = SetContext, m_WithContext = (\<lambda>ctx p. SetContext ctx p),
         m_SetHTTPClient = SetHTTPClient, m_WithHTTPClient = (\<lambda>client p. SetHTTPClient client p),
         m_SetBody = SetBody, m_WithBody = (\<lambda>body p. SetBody body p)\<rparr>)"

definition PutGuestBootSourceParams :: "(BootSource body_params, BootSource) body_methods" where
  "PutGuestBootSourceParams =
    (let zero = \<lparr>op_timeout = 0, op_Context = None, op_HTTPClient = None, op_Body = None\<rparr>;
         SetTimeout = (\<lambda>timeout p. p\<lparr>op_timeout := timeout\<rparr>);
         SetContext = (\<lambda>ctx p. p\<lparr>op_Context := ctx\<rparr>);
         SetHTTPClient = (\<lambda>client p. p\<lparr>op_HTTPClient := client\<rparr>);
         SetBody = (\<lambda>body p. p\<lparr>op_Body := body\<rparr>)
     in \<lparr>m_New = (\<lambda>e. zero\<lparr>op_timeout := default_timeout e\<rparr>),
         m_NewWithTimeout = (\<lambda>timeout. zero\<lparr>op_timeout := timeout\<rparr>),
         m_NewWithContext = (\<lambda>ctx. zero\<lparr>op_Context := ctx\<rparr>),
         m_NewWithHTTPClient = (\<lambda>client. zero\<lparr>op_HTTPClient := client\<rparr>),
         m_SetTimeout = SetTimeout, m_WithTimeout = (\<lambda>timeout p. SetTimeout timeout p),
         m_SetContext = SetContext, m_WithContext = (\<lambda>ctx p. SetContext ctx p),
         m_SetHTTPClient = SetHTTPClient, m_WithHTTPClient = (\<lambda>client p. SetHTTPClient client p),
         m_SetBody = SetBody, m_WithBody = (\<lambda>body p. SetBody body p)\<rparr>)"

definition PutGuestDriveByIDParams :: "(Drive drive_params, Drive) id_methods" where
  "PutGuestDriveByIDParams =
    (let zero = \<lparr>op_timeout = 0, op_Context = None, op_HTTPClient = None, op_Body = None, op_DriveID = ''''\<rparr>;
         SetTimeout = (\<lambda>timeout p. p\<lparr>op_timeout := timeout\<rparr>);
         SetContext = (\<lambda>ctx p. p\<lparr>op_Context := ctx\<rparr>);
         SetHTTPClient = (\<lambda>client p. p\<lparr>op_HTTPClient := client\<rparr>);
         SetBody = (\<lambda>body p. p\<lparr>op_Body := body\<rparr>);
         SetDriveID = (\<lambda>driveID p. p\<lparr>op_DriveID := driveID\<rparr>)
     in \<lparr>m_New = (\<lambda>e. zero\<lparr>op_timeout := default_timeout e\<rparr>),
         m_NewWithTimeout = (\<lambda>timeout. zero\<lparr>op_timeout := timeout\<rparr>),
         m_NewWithContext = (\<lambda>ctx. zero\<lparr>op_Context := ctx\<rparr>),
         m_NewWithHTTPClient = (\<lambda>client. zero\<lparr>op_HTTPClient := client\<rparr>),
         m_SetTimeout = SetTimeout, m_WithTimeout = (\<lambda>timeout p. SetTimeout timeout p),
         m_SetContext = SetContext, m_WithContext = (\<lambda>ctx p. SetContext ctx p),
         m_SetHTTPClient = SetHTTPClient, m_WithHTTPClient = (\<lambda>client p. SetHTTPClient client p),
         m_SetBody = SetBody, m_WithBody = (\<lambda>body p. SetBody body p),
         m_SetID = SetDriveID, m_WithID = (\<lambda>driveID p. SetDriveID driveID p)\<rparr>)"

definition PutGuestNetworkInterfaceByIDParams :: "(ApiNetworkInterface iface_params, ApiNetworkInterface) id_methods" where
  "PutGuestNetworkInterfaceByIDParams =
    (let zero = \<lparr>op_timeout = 0, op_Context = None, op_HTTPClient = None, op_Body = None, op_IfaceID = ''''\<rparr>;
         SetTimeout = (\<lambda>timeout p. p\<lparr>op_timeout := timeout\<rparr>);
         SetContext = (\<lambda>ctx p. p\<lparr>op_Context := ctx\<rparr>);
         SetHTTPClient = (\<lambda>client p. p\<lparr>op_HTTPClient := client\<rparr>);
         SetBody = (\<lambda>body p. p\<lparr>op_Body := body\<rparr>);
         SetIfaceID = (\<lambda>ifaceID p. p\<lparr>op_IfaceID := ifaceID\<rparr>)
     in \<lparr>m_New = (\<lambda>e. zero\<lparr>op_timeout := default_timeout e\<rparr>),
         m_NewWithTimeout = (\<lambda>timeout. zero\<lparr>op_timeout := timeout\<rparr>),
         m_NewWithContext = (\<lambda>ctx. zero\<lparr>op_Context := ctx\<rparr>),
         m_NewWithHTTPClient = (\<lambda>client. zero\<lparr>op_HTTPClient := client\<rparr>),
         m_SetTimeout = SetTimeout, m_WithTimeout = (\<lambda>timeout p. SetTimeout timeout p),
         m_SetContext = SetContext, m_WithContext = (\<lambda>ctx p. SetContext ctx p),
         m_SetHTTPClient = SetHTTPClient, m_WithHTTPClient = (\<lambda>client p. SetHTTPClient client p),
         m_SetBody = SetBody, m_WithBody = (\<lambda>body p. SetBody body p),
         m_SetID = SetIfaceID, m_WithID = (\<lambda>ifaceID p. SetIfaceID ifaceID p)\<rparr>)"

definition PutGuestVsockParams :: "(Vsock body_params, Vsock) body_methods" where
  "PutGuestVsockParams =
    (let zero = \<lparr>op_timeout = 0, op_Context = None, op_HTTPClient = None, op_Body = None\<rparr>;
         SetTimeout = (\<lambda>timeout p. p\<lparr>op_timeout := timeout\<rparr>);
         SetContext = (\<lambda>ctx p. p\<lparr>op_Context := ctx\<rparr>);
         SetHTTPClient = (\<lambda>client p. p\<lparr>op_HTTPClient := client\<rparr>);
         SetBody = (\<lambda>body p. p\<lparr>op_Body := body\<rparr>)
     in \<lparr>m_New = (\<lambda>e. zero\<lparr>op_timeout := default_timeout e\<rparr>),
         m_NewWithTimeout = (\<lambda>timeout. zero\<lparr>op_timeout := timeout\<rparr>),
         m_NewWithContext = (\<lambda>ctx. zero\<lparr>op_Context := ctx\<rparr>),
         m_NewWithHTTPClient = (\<lambda>client. zero\<lparr>op_HTTPClient := client\<rparr>),
         m_SetTimeout = SetTimeout, m_WithTimeout = (\<lambda>timeout p. SetTimeout timeout p),
         m_SetContext = SetContext, m_WithContext = (\<lambda>ctx p. SetContext ctx p),
         m_SetHTTPClient = SetHTTPClient, m_WithHTTPClient = (\<lambda>client p. SetHTTPClient client p),
         m_SetBody = SetBody, m_WithBody = (\<lambda>body p. SetBody body p)\<rparr>)"

definition PutLoggerParams :: "(Logger body_params, Logger) body_methods" where
  "PutLoggerParams =
    (let zero = \<lparr>op_timeout = 0, op_Context = None, op_HTTPClient = None, op_Body = None\<rparr>;
         SetTimeout = (\<lambda>timeout p. p\<lparr>op_timeout := timeout\<rparr>);
         SetContext = (\<lambda>ctx p. p\<lparr>op_Context := ctx\<rparr>);
         SetHTTPClient = (\<lambda>client p. p\<lparr>op_HTTPClient := client\<rparr>);
         SetBody = (\<lambda>body p. p\<lparr>op_Body := body\<rparr>)
     in \<lparr>m_New = (\<lambda>e. zero\<lparr>op_timeout := default_timeout e\<rparr>),
         m_NewWithTimeout = (\<lambda>timeout. zero\<lparr>op_timeout := timeout\<rparr>),
         m_NewWithContext = (\<lambda>ctx. zero\<lparr>op_Context := ctx\<rparr>),
         m_NewWithHTTPClient = (\<lambda>client. zero\<lparr>op_HTTPClient := client\<rparr>),
         m_SetTimeout = SetTimeout, m_WithTimeout = (\<lambda>timeout p. SetTimeout timeout p),
         m_SetContext = SetContext, m_WithContext = (\<lambda>ctx p. SetContext ctx p),
         m_SetHTTPClient = SetHTTPClient, m_WithHTTPClient = (\<lambda>client p. SetHTTPClient client p),
         m_SetBody = SetBody, m_WithBody = (\<lambda>body p. SetBody body p)\<rparr>)"

definition PutMachineConfigurationParams :: "(MachineConfiguration body_params, MachineConfiguration) body_methods" where
  "PutMachineConfigurationParams =
    (let zero = \<lparr>op_timeout = 0, op_Context = None, op_HTTPClient = None, op_Body = None\<rparr>;
         SetTimeout = (\<lambda>timeout p. p\<lparr>op_timeout := timeout\<rparr>);
         SetContext = (\<lambda>ctx p. p\<lparr>op_Context := ctx\<rparr>);
         SetHTTPClient = (\<lambda>client p. p\<lparr>op_HTTPClient := client\<rparr>);
         SetBody = (\<lambda>body p. p\<lparr>op_Body := body\<rparr>)
     in \<lparr>m_New = (\<lambda>e. zero\<lparr>op_timeout := default_timeout e\<rparr>),
         m_NewWithTimeout = (\<lambda>timeout. zero\<lparr>op_timeout := timeout\<rparr>),
         m_NewWithContext = (\<lambda>ctx. zero\<lparr>op_Context := ctx\<rparr>),
         m_NewWithHTTPClient = (\<lambda>client. zero\<lparr>op_HTTPClient := client\<rparr>),
         m_SetTimeout = SetTimeout, m_WithTimeout = (\<lambda>timeout p. SetTimeout timeout p),
         m_SetContext = SetContext, m_WithContext = (\<lambda>ctx p. SetContext ctx p),
         m_SetHTTPClient = SetHTTPClient, m_WithHTTPClient = (\<lambda>client p. SetHTTPClient client p),
         m_SetBody = SetBody, m_WithBody = (\<lambda>body p. SetBody body p)\<rparr>)"

definition PutMetricsParams :: "(Metrics body_params, Metrics) body_methods" where
  "PutMetricsParams =
    (let zero = \<lparr>op_timeout = 0, op_Context = None, op_HTTPClient = None, op_Body = None\<rparr>;
         SetTimeout = (\<lambda>timeout p. p\<lparr>op_timeout := timeout\<rparr>);
         SetContext = (\<lambda>ctx p. p\<lparr>op_Context := ctx\<rparr>);
         SetHTTPClient = (\<lambda>client p. p\<lparr>op_HTTPClient := client\<rparr>);
         SetBody = (\<lambda>body p. p\<lparr>op_Body := body\<rparr>)
     in \<lparr>m_New = (\<lambda>e. zero\<lparr>op_timeout := default_timeout e\<rparr>),
         m_NewWithTimeout = (\<lambda>timeout. zero\<lparr>op_timeout := timeout\<rparr>),
         m_NewWithContext = (\<lambda>ctx. zero\<lparr>op_Context := ctx\<rparr>),
         m_NewWithHTTPClient = (\<lambda>client. zero\<lparr>op_HTTPClient := client\<rparr>),
         m_SetTimeout = SetTimeout, m_WithTimeout = (\<lambda>timeout p. SetTimeout timeout p),
         m_SetContext = SetContext, m_WithContext = (\<lambda>ctx p. SetContext ctx p),
         m_SetHTTPClient = SetHTTPClient, m_WithHTTPClient = (\<lambda>client p. SetHTTPClient client p),
         m_SetBody = SetBody, m_WithBody = (\<lambda>body p. SetBody body p)\<rparr>)"

definition PutMmdsConfigParams :: "(MmdsConfig body_params, MmdsConfig) body_methods" where
  "PutMmdsConfigParams =
    (let zero = \<lparr>op_timeout = 0, op_Context = None, op_HTTPClient = None, op_Body = None\<rparr>;
         SetTimeout = (\<lambda>timeout p. p\<lparr>op_timeout := timeout\<rparr>);
         SetContext = (\<lambda>ctx p. p\<lparr>op_Context := ctx\<rparr>);
         SetHTTPClient = (\<lambda>client p. p\<lparr>op_HTTPClient := client\<rparr>);
         SetBody = (\<lambda>body p. p\<lparr>op_Body := body\<rparr>)
     in \<lparr>m_New = (\<lambda>e. zero\<lparr>op_timeout := default_timeout e\<rparr>),
         m_NewWithTimeout = (\<lambda>timeout. zero\<lparr>op_timeout := timeout\<rparr>),
         m_NewWithContext = (\<lambda>ctx. zero\<lparr>op_Context := ctx\<rparr>),
         m_NewWithHTTPClient = (\<lambda>client. zero\<lparr>op_HTTPClient := client\<rparr>),
         m_SetTimeout = SetTimeout, m_WithTimeout = (\<lambda>timeout p. SetTimeout timeout p),
         m_SetContext = SetContext, m_WithContext = (\<lambda>ctx p. SetContext ctx p),
         m_SetHTTPClient = SetHTTPClient, m_WithHTTPClient = (\<lambda>client p. SetHTTPClient client p),
         m_SetBody = SetBody, m_WithBody = (\<lambda>body p. SetBody body p)\<rparr>)"

definition PutMmdsParams :: "(string body_params, string) body_methods" where
  "PutMmdsParams =
    (let zero = \<lparr>op_timeout = 0, op_Context = None, op_HTTPClient = None, op_Body = None\<rparr>;
         SetTimeout = (\<lambda>timeout p. p\<lparr>op_timeout := timeout\<rparr>);
         SetContext = (\<lambda>ctx p. p\<lparr>op_Context := ctx\<rparr>);
         SetHTTPClient = (\<lambda>client p. p\<lparr>op_HTTPClient := client\<rparr>);
         SetBody = (\<lambda>body p. p\<lparr>op_Body := body\<rparr>)
     in \<lparr>m_New = (\<lambda>e. zero\<lparr>op_timeout := default_timeout e\<rparr>),
         m_NewWithTimeout = (\<lambda>timeout. zero\<lparr>op_timeout := timeout\<rparr>),
         m_NewWithContext = (\<lambda>ctx. zero\<lparr>op_Context := ctx\<rparr>),
         m_NewWithHTTPClient = (\<lambda>client. zero\<lparr>op_HTTPClient := client\<rparr>),
         m_SetTimeout = SetTimeout, m_WithTimeout = (\<lambda>timeout p. SetTimeout timeout p),
         m_SetContext = SetContext, m_WithContext = (\<lambda>ctx p. SetContext ctx p),
         m_SetHTTPClient = SetHTTPClient, m_WithHTTPClient = (\<lambda>client p. SetHTTPClient client p),
         m_SetBody = SetBody, m_WithBody = (\<lambda>body p. SetBody body p)\<rparr>)"

subsection \<open>What an operation reads of its parameters\<close>

definition plain_request :: "'a plain_params_scheme \<Rightarrow> api_params" where
  "plain_request p = \<lparr>Body = None, PathParams = [], ptimeout = op_timeout p,
     Context = op_Context p, HTTPClient = op_HTTPClient p\<rparr>"

definition body_request :: "('b \<Rightarrow> api_body) \<Rightarrow> ('b, 'a) body_params_scheme \<Rightarrow> api_params" where
  "body_request inject p = (plain_request p)\<lparr>Body := map_option inject (op_Body p)\<rparr>"

definition drive_request :: "('b \<Rightarrow> api_body) \<Rightarrow> 'b drive_params \<Rightarrow> api_params" where
  "drive_request inject p = (body_request inject p)\<lparr>PathParams := [(''drive_id'', op_DriveID p)]\<rparr>"

definition iface_request :: "('b \<Rightarrow> api_body) \<Rightarrow> 'b iface_params \<Rightarrow> api_params" where
  "iface_request inject p = (body_request inject p)\<lparr>PathParams := [(''iface_id'', op_IfaceID p)]\<rparr>"

definition info_request :: "info_params \<Rightarrow> api_params" where
  "info_request p = (plain_request p)\<lparr>Body := map_option BAction (op_Info p)\<rparr>"

lemmas params_simps = Let_def plain_request_def body_request_def drive_request_def iface_request_def
  info_request_def params_defs

subsection \<open>The laws of the methods\<close>

locale params_laws =
  fixes api :: "('p, 'x) methods_scheme"
    and request :: "'p \<Rightarrow> api_params"
    and blank :: "(string \<times> string) list"
  assumes New: "request (m_New api e) = (NewParams e)\<lparr>PathParams := blank\<rparr>"
    and NewWithTimeout: "request (m_NewWithTimeout api timeout) =
      \<lparr>Body = None, PathParams = blank, ptimeout = timeout, Context = None, HTTPClient = None\<rparr>"
    and NewWithContext: "request (m_NewWithContext api ctx) =
      \<lparr>Body = None, PathParams = blank, ptimeout = 0, Context = ctx, HTTPClient = None\<rparr>"
    and NewWithHTTPClient: "request (m_NewWithHTTPClient api client) =
      \<lparr>Body = None, PathParams = blank, ptimeout = 0, Context = None, HTTPClient = client\<rparr>"
    and SetTimeout: "request (m_SetTimeout api timeout p) = SetTimeout timeout (request p)"
    and SetContext: "request (m_SetContext api ctx p) = (request p)\<lparr>Context := ctx\<rparr>"
    and SetHTTPClient: "request (m_SetHTTPClient api client p) = (request p)\<lparr>HTTPClient := client\<rparr>"
    and WithTimeout: "m_WithTimeout api = m_SetTimeout api"
    and WithContext: "m_WithContext api = m_SetContext api"
    and WithHTTPClient: "m_WithHTTPClient api = m_SetHTTPClient api"
begin

text \<open>
  Only \<open>New\<close> sets the default timeout: with the other constructors the request has no timeout of its
  own unless \<open>SetTimeout\<close> is called.
\<close>

lemma NewWithContext_as_New:
  "request (m_NewWithContext api (Some ctx)) = request (m_SetTimeout api 0 (m_SetContext api (Some ctx) (m_New api e)))"
  by (simp add: New NewWithContext SetTimeout SetContext params_defs)

lemma setters_commute:
  "request (m_SetTimeout api t (m_SetContext api c p)) = request (m_SetContext api c (m_SetTimeout api t p))"
  "request (m_SetTimeout api t (m_SetHTTPClient api h p)) = request (m_SetHTTPClient api h (m_SetTimeout api t p))"
  "request (m_SetContext api c (m_SetHTTPClient api h p)) = request (m_SetHTTPClient api h (m_SetContext api c p))"
  by (simp_all add: SetTimeout SetContext SetHTTPClient params_defs)

end

locale body_laws = params_laws api request blank
  for api :: "('p, 'b, 'x) body_methods_scheme" and request and blank +
  fixes inject :: "'b \<Rightarrow> api_body"
  assumes SetBody: "request (m_SetBody api body p) = SetBody (map_option inject body) (request p)"
    and WithBody: "m_WithBody api = m_SetBody api"

text \<open>A call of one of the methods, for options given as a list of calls.\<close>

datatype 'b param_value =
    TimeoutTo int64 | ContextTo "ctx option" | HTTPClientTo "http_client option" | BodyTo "'b option" | IDTo string

datatype 'b param_call = CallSet "'b param_value" | CallWith "'b param_value"

fun run_call :: "('p, 'b) id_methods \<Rightarrow> 'b param_call \<Rightarrow> 'p \<Rightarrow> 'p" where
  "run_call api (CallSet (TimeoutTo t)) = m_SetTimeout api t"
| "run_call api (CallSet (ContextTo c)) = m_SetContext api c"
| "run_call api (CallSet (HTTPClientTo h)) = m_SetHTTPClient api h"
| "run_call api (CallSet (BodyTo b)) = m_SetBody api b"
| "run_call api (CallSet (IDTo i)) = m_SetID api i"
| "run_call api (CallWith (TimeoutTo t)) = m_WithTimeout api t"
| "run_call api (CallWith (ContextTo c)) = m_WithContext api c"
| "run_call api (CallWith (HTTPClientTo h)) = m_WithHTTPClient api h"
| "run_call api (CallWith (BodyTo b)) = m_WithBody api b"
| "run_call api (CallWith (IDTo i)) = m_WithID api i"

fun value_of_call :: "'b param_call \<Rightarrow> 'b param_value" where
  "value_of_call (CallSet v) = v"
| "value_of_call (CallWith v) = v"

fun set_request :: "string \<Rightarrow> ('b \<Rightarrow> api_body) \<Rightarrow> 'b param_value \<Rightarrow> api_params \<Rightarrow> api_params" where
  "set_request name inject (TimeoutTo t) = SetTimeout t"
| "set_request name inject (ContextTo c) = Context_update (\<lambda>_. c)"
| "set_request name inject (HTTPClientTo h) = HTTPClient_update (\<lambda>_. h)"
| "set_request name inject (BodyTo b) = SetBody (map_option inject b)"
| "set_request name inject (IDTo i) = SetPathParam name i"

text \<open>The last value that a list of values gives to a field, or its value before.\<close>

definition last_set :: "('c \<Rightarrow> 'v option) \<Rightarrow> 'v \<Rightarrow> 'c list \<Rightarrow> 'v" where
  "last_set pick v cs = last (v # List.map_filter pick cs)"

lemma last_set_simps [simp]:
  "last_set pick v [] = v"
  "last_set pick v (c # cs) = last_set pick (case pick c of None \<Rightarrow> v | Some w \<Rightarrow> w) cs"
  by (simp_all add: last_set_def map_filter_simps split: option.split)

lemma last_set_map: "last_set (\<lambda>c. map_option f (pick c)) (f v) cs = f (last_set pick v cs)"
  by (induction cs arbitrary: v) (simp_all add: option.map_comp split: option.split)

fun timeout_to :: "'b param_value \<Rightarrow> int64 option" where
  "timeout_to (TimeoutTo t) = Some t" | "timeout_to v = None"

fun context_to :: "'b param_value \<Rightarrow> ctx option option" where
  "context_to (ContextTo c) = Some c" | "context_to v = None"

fun client_to :: "'b param_value \<Rightarrow> http_client option option" where
  "client_to (HTTPClientTo h) = Some h" | "client_to v = None"

fun body_to :: "'b param_value \<Rightarrow> 'b option option" where
  "body_to (BodyTo b) = Some b" | "body_to v = None"

fun id_to :: "'b param_value \<Rightarrow> string option" where
  "id_to (IDTo i) = Some i" | "id_to v = None"

lemma set_requests:
  "fold (set_request name inject) vs p =
     p\<lparr>Body := last_set (\<lambda>v. map_option (map_option inject) (body_to v)) (Body p) vs,
       PathParams := last_set (\<lambda>v. map_option (\<lambda>i. [(name, i)]) (id_to v)) (PathParams p) vs,
       ptimeout := last_set timeout_to (ptimeout p) vs,
       Context := last_set context_to (Context p) vs,
       HTTPClient := last_set client_to (HTTPClient p) vs\<rparr>"
proof (induction vs arbitrary: p)
  case (Cons v vs)
  then show ?case by (cases v) (simp_all add: params_defs)
qed simp

locale id_laws = body_laws api request blank inject
  for api :: "('p, 'b) id_methods" and request and blank and inject +
  fixes name :: string
  assumes SetID: "request (m_SetID api i p) = SetPathParam name i (request p)"
    and WithID: "m_WithID api = m_SetID api"
begin

lemma run_call_request: "request (run_call api c p) = set_request name inject (value_of_call c) (request p)"
  by (cases c; cases "value_of_call c")
    (simp_all add: SetTimeout SetContext SetHTTPClient SetBody SetID WithTimeout WithContext
      WithHTTPClient WithBody WithID)

text \<open>Any chain of calls leaves the last value of each field, whatever the order between fields.\<close>

lemma chain_request:
  "request (fold (run_call api) calls p) = fold (set_request name inject) (map value_of_call calls) (request p)"
  by (induction calls arbitrary: p) (simp_all add: run_call_request)

end

subsection \<open>Every operation keeps the laws\<close>

interpretation CreateSnapshot: body_laws CreateSnapshotParams "body_request BSnapshotCreate" "[]" BSnapshotCreate
  by unfold_locales (simp_all add: CreateSnapshotParams_def params_simps)

interpretation CreateSyncAction: body_laws CreateSyncActionParams info_request "[]" BAction
  by unfold_locales (simp_all add: CreateSyncActionParams_def params_simps)

interpretation DescribeBalloonConfig: params_laws DescribeBalloonConfigParams plain_request "[]"
  by unfold_locales (simp_all add: DescribeBalloonConfigParams_def params_simps)

interpretation DescribeBalloonStats: params_laws DescribeBalloonStatsParams plain_request "[]"
  by unfold_locales (simp_all add: DescribeBalloonStatsParams_def params_simps)

interpretation DescribeInstance: params_laws DescribeInstanceParams plain_request "[]"
  by unfold_locales (simp_all add: DescribeInstanceParams_def params_simps)

interpretation GetExportVMConfig: params_laws GetExportVMConfigParams plain_request "[]"
  by unfold_locales (simp_all add: GetExportVMConfigParams_def params_simps)

interpretation GetFirecrackerVersion: params_laws GetFirecrackerVersionParams plain_request "[]"
  by unfold_locales (simp_all add: GetFirecrackerVersionParams_def params_simps)

interpretation GetMachineConfiguration: params_laws GetMachineConfigurationParams plain_request "[]"
  by unfold_locales (simp_all add: GetMachineConfigurationParams_def params_simps)

interpretation GetMmds: params_laws GetMmdsParams plain_request "[]"
  by unfold_locales (simp_all add: GetMmdsParams_def params_simps)

interpretation LoadSnapshot: body_laws LoadSnapshotParams "body_request BSnapshotLoad" "[]" BSnapshotLoad
  by unfold_locales (simp_all add: LoadSnapshotParams_def params_simps)

interpretation PatchBalloon: body_laws PatchBalloonParams "body_request BBalloonUpdate" "[]" BBalloonUpdate
  by unfold_locales (simp_all add: PatchBalloonParams_def params_simps)

interpretation PatchBalloonStatsInterval: body_laws PatchBalloonStatsIntervalParams "body_request BBalloonStatsUpdate" "[]" BBalloonStatsUpdate
  by unfold_locales (simp_all add: PatchBalloonStatsIntervalParams_def params_simps)

interpretation PatchGuestDriveByID: id_laws PatchGuestDriveByIDParams "drive_request BPartialDrive" "[(''drive_id'', '''')]" BPartialDrive "''drive_id''"
  by unfold_locales (simp_all add: PatchGuestDriveByIDParams_def params_simps)

interpretation PatchGuestNetworkInterfaceByID: id_laws PatchGuestNetworkInterfaceByIDParams "iface_request BPartialNetworkInterface" "[(''iface_id'', '''')]" BPartialNetworkInterface "''iface_id''"
  by unfold_locales (simp_all add: PatchGuestNetworkInterfaceByIDParams_def params_simps)

interpretation PatchMachineConfiguration: body_laws PatchMachineConfigurationParams "body_request BMachineConfiguration" "[]" BMachineConfiguration
  by unfold_locales (simp_all add: PatchMachineConfigurationParams_def params_simps)

interpretation PatchMmds: body_laws PatchMmdsParams "body_request BJson" "[]" BJson
  by unfold_locales (simp_all add: PatchMmdsParams_def params_simps)

interpretation PatchVM: body_laws PatchVMParams "body_request BVM" "[]" BVM
  by unfold_locales (simp_all add: PatchVMParams_def params_simps)

interpretation PutBalloon: body_laws PutBalloonParams "body_request BBalloon" "[]" BBalloon
  by unfold_locales (simp_all add: PutBalloonParams_def params_simps)

interpretation PutCPUConfiguration: body_laws PutCPUConfigurationParams "body_request BCPUConfig" "[]" BCPUConfig
  by unfold_locales (simp_all add: PutCPUConfigurationParams_def params_simps)

interpretation PutEntropyDevice: body_laws PutEntropyDeviceParams "body_request BEntropyDevice" "[]" BEntropyDevice
  by unfold_locales (simp_all add: PutEntropyDeviceParams_def params_simps)

interpretation PutGuestBootSource: body_laws PutGuestBootSourceParams "body_request BBootSource" "[]" BBootSource
  by unfold_locales (simp_all add: PutGuestBootSourceParams_def params_simps)

interpretation PutGuestDriveByID: id_laws PutGuestDriveByIDParams "drive_request BDrive" "[(''drive_id'', '''')]" BDrive "''drive_id''"
  by unfold_locales (simp_all add: PutGuestDriveByIDParams_def params_simps)

interpretation PutGuestNetworkInterfaceByID: id_laws PutGuestNetworkInterfaceByIDParams "iface_request BNetworkInterface" "[(''iface_id'', '''')]" BNetworkInterface "''iface_id''"
  by unfold_locales (simp_all add: PutGuestNetworkInterfaceByIDParams_def params_simps)

interpretation PutGuestVsock: body_laws PutGuestVsockParams "body_request BVsock" "[]" BVsock
  by unfold_locales (simp_all add: PutGuestVsockParams_def params_simps)

interpretation PutLogger: body_laws PutLoggerParams "body_request BLogger" "[]" BLogger
  by unfold_locales (simp_all add: PutLoggerParams_def params_simps)

interpretation PutMachineConfiguration: body_laws PutMachineConfigurationParams "body_request BMachineConfiguration" "[]" BMachineConfiguration
  by unfold_locales (simp_all add: PutMachineConfigurationParams_def params_simps)

interpretation PutMetrics: body_laws PutMetricsParams "body_request BMetrics" "[]" BMetrics
  by unfold_locales (simp_all add: PutMetricsParams_def params_simps)

interpretation PutMmdsConfig: body_laws PutMmdsConfigParams "body_request BMmdsConfig" "[]" BMmdsConfig
  by unfold_locales (simp_all add: PutMmdsConfigParams_def params_simps)

interpretation PutMmds: body_laws PutMmdsParams "body_request BJson" "[]" BJson
  by unfold_locales (simp_all add: PutMmdsParams_def params_simps)

subsection \<open>Options of the client's methods\<close>

text \<open>
  The options of a method of the client are functions on the typed parameters. A list of calls acts on
  the parameters as the list of the updates of what the operation reads of them.
\<close>

lemma apply_opts_fold: "apply_opts fs p = fold (\<lambda>f. f) fs p"
  by (induction fs arbitrary: p) (simp_all add: apply_opts_def)

lemma apply_opts_calls:
  "apply_opts (map (\<lambda>c. set_request name inject (value_of_call c)) calls) p =
     fold (set_request name inject) (map value_of_call calls) p"
  by (simp add: apply_opts_fold fold_map comp_def)

lemma last_set_drive:
  "last_set (\<lambda>v. map_option (map_option f) (body_to v)) (map_option f b) vs = map_option f (last_set body_to b vs)"
  "last_set (\<lambda>v. map_option (\<lambda>i. [(name, i)]) (id_to v)) [(name, i)] vs = [(name, last_set id_to i vs)]"
  using last_set_map [of "map_option f" body_to b vs] last_set_map [of "\<lambda>i. [(name, i)]" id_to i vs] by simp_all

text \<open>C26: The options of \<open>PutGuestDriveByID\<close>, given as any sequence of \<open>Set\<close> and \<open>With\<close> calls on its
  parameter type, act as the client's method expects: the one request that is submitted carries, for
  the body, the id in the path, the timeout, the context and the HTTP client each, the value of the
  last call that sets it, whatever the order between them; without one it is the drive, the id and
  the context of the caller with half the request timeout, and no timeout of its own.\<close>

theorem PutGuestDriveByID_options:
  "let api = PutGuestDriveByIDParams; vs = map value_of_call calls;
       base = Some (CtxWithTimeout ctx (half_request_timeout f));
       p = fold (run_call api) calls (m_SetBody api (Some drive) (m_SetID api driveID (m_NewWithContext api base)))
   in PutGuestDriveByID e f ctx driveID drive (map (\<lambda>c. set_request ''drive_id'' BDrive (value_of_call c)) calls) tr =
        ops_PutGuestDriveByID e (drive_request BDrive p) tr
    \<and> snd (ops_PutGuestDriveByID e (drive_request BDrive p) tr) =
        tr @ [EvApi \<lparr>OpID = ''putGuestDriveByID'', Method = ''PUT'', PathPattern = ''/drives/{drive_id}'',
          Params = \<lparr>Body = map_option BDrive (last_set body_to (Some drive) vs),
            PathParams = [(''drive_id'', last_set id_to driveID vs)],
            ptimeout = last_set timeout_to 0 vs,
            Context = last_set context_to base vs,
            HTTPClient = last_set client_to None vs\<rparr>\<rparr>]"
proof -
  let ?base = "CtxWithTimeout ctx (half_request_timeout f)"
  let ?p = "m_SetBody PutGuestDriveByIDParams (Some drive) (m_SetID PutGuestDriveByIDParams driveID
    (m_NewWithContext PutGuestDriveByIDParams (Some ?base)))"
  have "drive_request BDrive ?p =
      SetPathParam ''drive_id'' driveID (SetBody (Some (BDrive drive)) (NewParamsWithContext ?base))"
    by (simp add: PutGuestDriveByID.SetBody PutGuestDriveByID.SetID PutGuestDriveByID.NewWithContext params_defs)
  then have r: "drive_request BDrive (fold (run_call PutGuestDriveByIDParams) calls ?p) =
      fold (set_request ''drive_id'' BDrive) (map value_of_call calls)
        (SetPathParam ''drive_id'' driveID (SetBody (Some (BDrive drive)) (NewParamsWithContext ?base)))"
    by (simp add: PutGuestDriveByID.chain_request)
  show ?thesis
    unfolding Let_def r
    using last_set_drive(1) [of BDrive "Some drive" "map value_of_call calls"]
    by (simp add: PutGuestDriveByID_def apply_opts_calls ops_PutGuestDriveByID_def op_submit_def set_requests
        params_defs last_set_drive)
qed

end
