(* ===== verification/ResponseTypes.thy ===== *)
theory ResponseTypes
  imports Responses
begin

text \<open>
  The types of the responses (\<open>client/operations/*_responses.go\<close>): for each operation one type per
  status that it knows and a default type, with the constructor and the methods. The readers of
  \<open>Responses\<close> make a value of one of them, let it read the body, and return it as a result or as an
  error; that they do so with these very methods is what the interpretations of \<open>reply_laws\<close> show.
\<close>

subsection \<open>The structs and their methods\<close>

record 'p with_payload =
  Payload :: "'p option"

record coded_error = "ApiError with_payload" +
  statusCode :: int

text \<open>The argument of \<open>r_New\<close> is the status code; only the default types have it as a parameter.\<close>

record ('r, 'c) reply_type =
  r_New :: "int \<Rightarrow> 'r"
  r_Error :: "'r \<Rightarrow> string"
  r_readResponse :: "'c \<Rightarrow> 'r \<Rightarrow> go_error + 'r"

record ('r, 'c, 'p) payload_type = "('r, 'c) reply_type" +
  r_GetPayload :: "'r \<Rightarrow> 'p option"

record ('r, 'c, 'p) coded_type = "('r, 'c, 'p) payload_type" +
  r_Code :: "'r \<Rightarrow> int"

text \<open>
  The body is consumed into a new value behind the pointer, or into the field itself. An end of file
  is no error. After another error the receiver is given up by the reader.
\<close>

definition consume_new :: "'p \<Rightarrow> 'p consumed \<Rightarrow> ('p, 'a) with_payload_scheme \<Rightarrow> go_error + ('p, 'a) with_payload_scheme" where
  "consume_new zero body r =
    (case body of
       Consumed p \<Rightarrow> Inr (r\<lparr>Payload := Some p\<rparr>)
     | ConsumedEOF \<Rightarrow> Inr (r\<lparr>Payload := Some zero\<rparr>)
     | ConsumeFailed err \<Rightarrow> Inl err)"

definition consume_value :: "'p consumed \<Rightarrow> 'p with_payload \<Rightarrow> go_error + 'p with_payload" where
  "consume_value body r =
    (case body of
       Consumed p \<Rightarrow> Inr (r\<lparr>Payload := Some p\<rparr>)
     | ConsumedEOF \<Rightarrow> Inr r
     | ConsumeFailed err \<Rightarrow> Inl err)"

text \<open>
  \<open>%+v\<close> of a pointer to a \<open>models.Error\<close>. What it prints for the other payloads, whose fields are
  addresses, is the parameter \<open>plusv\<close>.
\<close>

definition pointer_plusv :: "ApiError option \<Rightarrow> string" where
  "pointer_plusv p = (case p of None \<Rightarrow> ''<nil>'' | Some payload \<Rightarrow> ApiError_plusv payload)"

subsection \<open>The types of the operations\<close>

definition CreateSnapshotNoContent :: "(unit, unit consumed) reply_type" where
  "CreateSnapshotNoContent = \<lparr>r_New = (\<lambda>_. ()),
     r_Error = (\<lambda>r. ''[PUT /snapshot/create]['' @ itoa 204 @ ''] createSnapshotNoContent ''),
     r_readResponse = (\<lambda>body r. Inr r)\<rparr>"

definition CreateSnapshotBadRequest :: "(ApiError with_payload, ApiError consumed, ApiError) payload_type" where
  "CreateSnapshotBadRequest = \<lparr>r_New = (\<lambda>_. \<lparr>Payload = None\<rparr>),
     r_Error = (\<lambda>r. ''[PUT /snapshot/create]['' @ itoa 400 @ ''] createSnapshotBadRequest  '' @ pointer_plusv (Payload r)),
     r_readResponse = consume_new zero_ApiError, r_GetPayload = Payload\<rparr>"

definition CreateSnapshotDefault :: "(coded_error, ApiError consumed, ApiError) coded_type" where
  "CreateSnapshotDefault = \<lparr>r_New = (\<lambda>code. \<lparr>Payload = None, statusCode = code\<rparr>),
     r_Error = (\<lambda>r. ''[PUT /snapshot/create]['' @ itoa (statusCode r) @ ''] createSnapshot default  '' @ pointer_plusv (Payload r)),
     r_readResponse = consume_new zero_ApiError, r_GetPayload = Payload, r_Code = statusCode\<rparr>"

definition CreateSyncActionNoContent :: "(unit, unit consumed) reply_type" where
  "CreateSyncActionNoContent = \<lparr>r_New = (\<lambda>_. ()),
     r_Error = (\<lambda>r. ''[PUT /actions]['' @ itoa 204 @ ''] createSyncActionNoContent ''),
     r_readResponse = (\<lambda>body r. Inr r)\<rparr>"

definition CreateSyncActionBadRequest :: "(ApiError with_payload, ApiError consumed, ApiError) payload_type" where
  "CreateSyncActionBadRequest = \<lparr>r_New = (\<lambda>_. \<lparr>Payload = None\<rparr>),
     r_Error = (\<lambda>r. ''[PUT /actions]['' @ itoa 400 @ ''] createSyncActionBadRequest  '' @ pointer_plusv (Payload r)),
     r_readResponse = consume_new zero_ApiError, r_GetPayload = Payload\<rparr>"

definition CreateSyncActionDefault :: "(coded_error, ApiError consumed, ApiError) coded_type" where
  "CreateSyncActionDefault = \<lparr>r_New = (\<lambda>code. \<lparr>Payload = None, statusCode = code\<rparr>),
     r_Error = (\<lambda>r. ''[PUT /actions]['' @ itoa (statusCode r) @ ''] createSyncAction default  '' @ pointer_plusv (Payload r)),
     r_readResponse = consume_new zero_ApiError, r_GetPayload = Payload, r_Code = statusCode\<rparr>"

definition DescribeBalloonConfigOK :: "(Balloon option \<Rightarrow> string) \<Rightarrow> (Balloon with_payload, Balloon consumed, Balloon) payload_type" where
  "DescribeBalloonConfigOK plusv = \<lparr>r_New = (\<lambda>_. \<lparr>Payload = None\<rparr>),
     r_Error = (\<lambda>r. ''[GET /balloon]['' @ itoa 200 @ ''] describeBalloonConfigOK  '' @ plusv (Payload r)),
     r_readResponse = consume_new zero_Balloon, r_GetPayload = Payload\<rparr>"

definition DescribeBalloonConfigBadRequest :: "(ApiError with_payload, ApiError consumed, ApiError) payload_type" where
  "DescribeBalloonConfigBadRequest = \<lparr>r_New = (\<lambda>_. \<lparr>Payload = None\<rparr>),
     r_Error = (\<lambda>r. ''[GET /balloon]['' @ itoa 400 @ ''] describeBalloonConfigBadRequest  '' @ pointer_plusv (Payload r)),
     r_readResponse = consume_new zero_ApiError, r_GetPayload = Payload\<rparr>"

definition DescribeBalloonConfigDefault :: "(coded_error, ApiError consumed, ApiError) coded_type" where
  "DescribeBalloonConfigDefault = \<lparr>r_New = (\<lambda>code. \<lparr>Payload = None, statusCode = code\<rparr>),
     r_Error = (\<lambda>r. ''[GET /balloon]['' @ itoa (statusCode r) @ ''] describeBalloonConfig default  '' @ pointer_plusv (Payload r)),
     r_readResponse = consume_new zero_ApiError, r_GetPayload = Payload, r_Code = statusCode\<rparr>"

definition DescribeBalloonStatsOK :: "(BalloonStats option \<Rightarrow> string) \<Rightarrow> (BalloonStats with_payload, BalloonStats consumed, BalloonStats) payload_type" where
  "DescribeBalloonStatsOK plusv = \<lparr>r_New = (\<lambda>_. \<lparr>Payload = None\<rparr>),
     r_Error = (\<lambda>r. ''[GET /balloon/statistics]['' @ itoa 200 @ ''] describeBalloonStatsOK  '' @ plusv (Payload r)),
     r_readResponse = consume_new zero_BalloonStats, r_GetPayload = Payload\<rparr>"

definition DescribeBalloonStatsBadRequest :: "(ApiError with_payload, ApiError consumed, ApiError) payload_type" where
  "DescribeBalloonStatsBadRequest = \<lparr>r_New = (\<lambda>_. \<lparr>Payload = None\<rparr>),
     r_Error = (\<lambda>r. ''[GET /balloon/statistics]['' @ itoa 400 @ ''] describeBalloonStatsBadRequest  '' @ pointer_plusv (Payload r)),
     r_readResponse = consume_new zero_ApiError, r_GetPayload = Payload\<rparr>"

definition DescribeBalloonStatsDefault :: "(coded_error, ApiError consumed, ApiError) coded_type" where
  "DescribeBalloonStatsDefault = \<lparr>r_New = (\<lambda>code. \<lparr>Payload = None, statusCode = code\<rparr>),
     r_Error = (\<lambda>r. ''[GET /balloon/statistics]['' @ itoa (statusCode r) @ ''] describeBalloonStats default  '' @ pointer_plusv (Payload r)),
     r_readResponse = consume_new zero_ApiError, r_GetPayload = Payload, r_Code = statusCode\<rparr>"

definition DescribeInstanceOK :: "(InstanceInfo option \<Rightarrow> string) \<Rightarrow> (InstanceInfo with_payload, InstanceInfo consumed, InstanceInfo) payload_type" where
  "DescribeInstanceOK plusv = \<lparr>r_New = (\<lambda>_. \<lparr>Payload = None\<rparr>),
     r_Error = (\<lambda>r. ''[GET /]['' @ itoa 200 @ ''] describeInstanceOK  '' @ plusv (Payload r)),
     r_readResponse = consume_new zero_InstanceInfo, r_GetPayload = Payload\<rparr>"

definition DescribeInstanceDefault :: "(coded_error, ApiError consumed, ApiError) coded_type" where
  "DescribeInstanceDefault = \<lparr>r_New = (\<lambda>code. \<lparr>Payload = None, statusCode = code\<rparr>),
     r_Error = (\<lambda>r. ''[GET /]['' @ itoa (statusCode r) @ ''] describeInstance default  '' @ pointer_plusv (Payload r)),
     r_readResponse = consume_new zero_ApiError, r_GetPayload = Payload, r_Code = statusCode\<rparr>"

definition GetExportVMConfigOK :: "(FullVMConfiguration option \<Rightarrow> string) \<Rightarrow> (FullVMConfiguration with_payload, FullVMConfiguration consumed, FullVMConfiguration) payload_type" where
  "GetExportVMConfigOK plusv = \<lparr>r_New = (\<lambda>_. \<lparr>Payload = None\<rparr>),
     r_Error = (\<lambda>r. ''[GET /vm/config]['' @ itoa 200 @ ''] getExportVmConfigOK  '' @ plusv (Payload r)),
     r_readResponse = consume_new zero_FullVMConfiguration, r_GetPayload = Payload\<rparr>"

definition GetExportVMConfigDefault :: "(coded_error, ApiError consumed, ApiError) coded_type" where
  "GetExportVMConfigDefault = \<lparr>r_New = (\<lambda>code. \<lparr>Payload = None, statusCode = code\<rparr>),
     r_Error = (\<lambda>r. ''[GET /vm/config]['' @ itoa (statusCode r) @ ''] getExportVmConfig default  '' @ pointer_plusv (Payload r)),
     r_readResponse = consume_new zero_ApiError, r_GetPayload = Payload, r_Code = statusCode\<rparr>"

definition GetFirecrackerVersionOK :: "(FirecrackerVersion option \<Rightarrow> string) \<Rightarrow> (FirecrackerVersion with_payload, FirecrackerVersion consumed, FirecrackerVersion) payload_type" where
  "GetFirecrackerVersionOK plusv = \<lparr>r_New = (\<lambda>_. \<lparr>Payload = None\<rparr>),
     r_Error = (\<lambda>r. ''[GET /version]['' @ itoa 200 @ ''] getFirecrackerVersionOK  '' @ plusv (Payload r)),
     r_readResponse = consume_new zero_FirecrackerVersion, r_GetPayload = Payload\<rparr>"

definition GetFirecrackerVersionDefault :: "(coded_error, ApiError consumed, ApiError) coded_type" where
  "GetFirecrackerVersionDefault = \<lparr>r_New = (\<lambda>code. \<lparr>Payload = None, statusCode = code\<rparr>),
     r_Error = (\<lambda>r. ''[GET /version]['' @ itoa (statusCode r) @ ''] getFirecrackerVersion default  '' @ pointer_plusv (Payload r)),
     r_readResponse = consume_new zero_ApiError, r_GetPayload = Payload, r_Code = statusCode\<rparr>"

definition GetMachineConfigurationOK :: "(MachineConfiguration option \<Rightarrow> string) \<Rightarrow> (MachineConfiguration with_payload, MachineConfiguration consumed, MachineConfiguration) payload_type" where
  "GetMachineConfigurationOK plusv = \<lparr>r_New = (\<lambda>_. \<lparr>Payload = None\<rparr>),
     r_Error = (\<lambda>r. ''[GET /machine-config]['' @ itoa 200 @ ''] getMachineConfigurationOK  '' @ plusv (Payload r)),
     r_readResponse = consume_new zero_MachineConfiguration, r_GetPayload = Payload\<rparr>"

definition GetMachineConfigurationDefault :: "(coded_error, ApiError consumed, ApiError) coded_type" where
  "GetMachineConfigurationDefault = \<lparr>r_New = (\<lambda>code. \<lparr>Payload = None, statusCode = code\<rparr>),
     r_Error = (\<lambda>r. ''[GET /machine-config]['' @ itoa (statusCode r) @ ''] getMachineConfiguration default  '' @ pointer_plusv (Payload r)),
     r_readResponse = consume_new zero_ApiError, r_GetPayload = Payload, r_Code = statusCode\<rparr>"

definition GetMmdsOK :: "(string option \<Rightarrow> string) \<Rightarrow> (string with_payload, string consumed, string) payload_type" where
  "GetMmdsOK plusv = \<lparr>r_New = (\<lambda>_. \<lparr>Payload = None\<rparr>),
     r_Error = (\<lambda>r. ''[GET /mmds]['' @ itoa 200 @ ''] getMmdsOK  '' @ plusv (Payload r)),
     r_readResponse = consume_value, r_GetPayload = Payload\<rparr>"

definition GetMmdsNotFound :: "(ApiError with_payload, ApiError consumed, ApiError) payload_type" where
  "GetMmdsNotFound = \<lparr>r_New = (\<lambda>_. \<lparr>Payload = None\<rparr>),
     r_Error = (\<lambda>r. ''[GET /mmds]['' @ itoa 404 @ ''] getMmdsNotFound  '' @ pointer_plusv (Payload r)),
     r_readResponse = consume_new zero_ApiError, r_GetPayload = Payload\<rparr>"

definition GetMmdsDefault :: "(coded_error, ApiError consumed, ApiError) coded_type" where
  "GetMmdsDefault = \<lparr>r_New = (\<lambda>code. \<lparr>Payload = None, statusCode = code\<rparr>),
     r_Error = (\<lambda>r. ''[GET /mmds]['' @ itoa (statusCode r) @ ''] getMmds default  '' @ pointer_plusv (Payload r)),
     r_readResponse = consume_new zero_ApiError, r_GetPayload = Payload, r_Code = statusCode\<rparr>"

definition LoadSnapshotNoContent :: "(unit, unit consumed) reply_type" where
  "LoadSnapshotNoContent = \<lparr>r_New = (\<lambda>_. ()),
     r_Error = (\<lambda>r. ''[PUT /snapshot/load]['' @ itoa 204 @ ''] loadSnapshotNoContent ''),
     r_readResponse = (\<lambda>body r. Inr r)\<rparr>"

definition LoadSnapshotBadRequest :: "(ApiError with_payload, ApiError consumed, ApiError) payload_type" where
  "LoadSnapshotBadRequest = \<lparr>r_New = (\<lambda>_. \<lparr>Payload = None\<rparr>),
     r_Error = (\<lambda>r. ''[PUT /snapshot/load]['' @ itoa 400 @ ''] loadSnapshotBadRequest  '' @ pointer_plusv (Payload r)),
     r_readResponse = consume_new zero_ApiError, r_GetPayload = Payload\<rparr>"

definition LoadSnapshotDefault :: "(coded_error, ApiError consumed, ApiError) coded_type" where
  "LoadSnapshotDefault = \<lparr>r_New = (\<lambda>code. \<lparr>Payload = None, statusCode = code\<rparr>),
     r_Error = (\<lambda>r. ''[PUT /snapshot/load]['' @ itoa (statusCode r) @ ''] loadSnapshot default  '' @ pointer_plusv (Payload r)),
     r_readResponse = consume_new zero_ApiError, r_GetPayload = Payload, r_Code = statusCode\<rparr>"

definition PatchBalloonNoContent :: "(unit, unit consumed) reply_type" where
  "PatchBalloonNoContent = \<lparr>r_New = (\<lambda>_. ()),
     r_Error = (\<lambda>r. ''[PATCH /balloon]['' @ itoa 204 @ ''] patchBalloonNoContent ''),
     r_readResponse = (\<lambda>body r. Inr r)\<rparr>"

definition PatchBalloonBadRequest :: "(ApiError with_payload, ApiError consumed, ApiError) payload_type" where
  "PatchBalloonBadRequest = \<lparr>r_New = (\<lambda>_. \<lparr>Payload = None\<rparr>),
     r_Error = (\<lambda>r. ''[PATCH /balloon]['' @ itoa 400 @ ''] patchBalloonBadRequest  '' @ pointer_plusv (Payload r)),
     r_readResponse = consume_new zero_ApiError, r_GetPayload = Payload\<rparr>"

definition PatchBalloonDefault :: "(coded_error, ApiError consumed, ApiError) coded_type" where
  "PatchBalloonDefault = \<lparr>r_New = (\<lambda>code. \<lparr>Payload = None, statusCode = code\<rparr>),
     r_Error = (\<lambda>r. ''[PATCH /balloon]['' @ itoa (statusCode r) @ ''] patchBalloon default  '' @ pointer_plusv (Payload r)),
     r_readResponse = consume_new zero_ApiError, r_GetPayload = Payload, r_Code = statusCode\<rparr>"

definition PatchBalloonStatsIntervalNoContent :: "(unit, unit consumed) reply_type" where
  "PatchBalloonStatsIntervalNoContent = \<lparr>r_New = (\<lambda>_. ()),
     r_Error = (\<lambda>r. ''[PATCH /balloon/statistics]['' @ itoa 204 @ ''] patchBalloonStatsIntervalNoContent ''),
     r_readResponse = (\<lambda>body r. Inr r)\<rparr>"

definition PatchBalloonStatsIntervalBadRequest :: "(ApiError with_payload, ApiError consumed, ApiError) payload_type" where
  "PatchBalloonStatsIntervalBadRequest = \<lparr>r_New = (\<lambda>_. \<lparr>Payload = None\<rparr>),
     r_Error = (\<lambda>r. ''[PATCH /balloon/statistics]['' @ itoa 400 @ ''] patchBalloonStatsIntervalBadRequest  '' @ pointer_plusv (Payload r)),
     r_readResponse = consume_new zero_ApiError, r_GetPayload = Payload\<rparr>"

definition PatchBalloonStatsIntervalDefault :: "(coded_error, ApiError consumed, ApiError) coded_type" where
  "PatchBalloonStatsIntervalDefault = \<lparr>r_New = (\<lambda>code. \<lparr>Payload = None, statusCode = code\<rparr>),
     r_Error = (\<lambda>r. ''[PATCH /balloon/statistics]['' @ itoa (statusCode r) @ ''] patchBalloonStatsInterval default  '' @ pointer_plusv (Payload r)),
     r_readResponse = consume_new zero_ApiError, r_GetPayload = Payload, r_Code = statusCode\<rparr>"

definition PatchGuestDriveByIDNoContent :: "(unit, unit consumed) reply_type" where
  "PatchGuestDriveByIDNoContent = \<lparr>r_New = (\<lambda>_. ()),
     r_Error = (\<lambda>r. ''[PATCH /drives/{drive_id}]['' @ itoa 204 @ ''] patchGuestDriveByIdNoContent ''),
     r_readResponse = (\<lambda>body r. Inr r)\<rparr>"

definition PatchGuestDriveByIDBadRequest :: "(ApiError with_payload, ApiError consumed, ApiError) payload_type" where
  "PatchGuestDriveByIDBadRequest = \<lparr>r_New = (\<lambda>_. \<lparr>Payload = None\<rparr>),
     r_Error = (\<lambda>r. ''[PATCH /drives/{drive_id}]['' @ itoa 400 @ ''] patchGuestDriveByIdBadRequest  '' @ pointer_plusv (Payload r)),
     r_readResponse = consume_new zero_ApiError, r_GetPayload = Payload\<rparr>"

definition PatchGuestDriveByIDDefault :: "(coded_error, ApiError consumed, ApiError) coded_type" where
  "PatchGuestDriveByIDDefault = \<lparr>r_New = (\<lambda>code. \<lparr>Payload = None, statusCode = code\<rparr>),
     r_Error = (\<lambda>r. ''[PATCH /drives/{drive_id}]['' @ itoa (statusCode r) @ ''] patchGuestDriveByID default  '' @ pointer_plusv (Payload r)),
     r_readResponse = consume_new zero_ApiError, r_GetPayload = Payload, r_Code = statusCode\<rparr>"

definition PatchGuestNetworkInterfaceByIDNoContent :: "(unit, unit consumed) reply_type" where
  "PatchGuestNetworkInterfaceByIDNoContent = \<lparr>r_New = (\<lambda>_. ()),
     r_Error = (\<lambda>r. ''[PATCH /network-interfaces/{iface_id}]['' @ itoa 204 @ ''] patchGuestNetworkInterfaceByIdNoContent ''),
     r_readResponse = (\<lambda>body r. Inr r)\<rparr>"

definition PatchGuestNetworkInterfaceByIDBadRequest :: "(ApiError with_payload, ApiError consumed, ApiError) payload_type" where
  "PatchGuestNetworkInterfaceByIDBadRequest = \<lparr>r_New = (\<lambda>_. \<lparr>Payload = None\<rparr>),
     r_Error = (\<lambda>r. ''[PATCH /network-interfaces/{iface_id}]['' @ itoa 400 @ ''] patchGuestNetworkInterfaceByIdBadRequest  '' @ pointer_plusv (Payload r)),
     r_readResponse = consume_new zero_ApiError, r_GetPayload = Payload\<rparr>"

definition PatchGuestNetworkInterfaceByIDDefault :: "(coded_error, ApiError consumed, ApiError) coded_type" where
  "PatchGuestNetworkInterfaceByIDDefault = \<lparr>r_New = (\<lambda>code. \<lparr>Payload = None, statusCode = code\<rparr>),
     r_Error = (\<lambda>r. ''[PATCH /network-interfaces/{iface_id}]['' @ itoa (statusCode r) @ ''] patchGuestNetworkInterfaceByID default  '' @ pointer_plusv (Payload r)),
     r_readResponse = consume_new zero_ApiError, r_GetPayload = Payload, r_Code = statusCode\<rparr>"

definition PatchMachineConfigurationNoContent :: "(unit, unit consumed) reply_type" where
  "PatchMachineConfigurationNoContent = \<lparr>r_New = (\<lambda>_. ()),
     r_Error = (\<lambda>r. ''[PATCH /machine-config]['' @ itoa 204 @ ''] patchMachineConfigurationNoContent ''),
     r_readResponse = (\<lambda>body r. Inr r)\<rparr>"

definition PatchMachineConfigurationBadRequest :: "(ApiError with_payload, ApiError consumed, ApiError) payload_type" where
  "PatchMachineConfigurationBadRequest = \<lparr>r_New = (\<lambda>_. \<lparr>Payload = None\<rparr>),
     r_Error = (\<lambda>r. ''[PATCH /machine-config]['' @ itoa 400 @ ''] patchMachineConfigurationBadRequest  '' @ pointer_plusv (Payload r)),
     r_readResponse = consume_new zero_ApiError, r_GetPayload = Payload\<rparr>"

definition PatchMachineConfigurationDefault :: "(coded_error, ApiError consumed, ApiError) coded_type" where
  "PatchMachineConfigurationDefault = \<lparr>r_New = (\<lambda>code. \<lparr>Payload = None, statusCode = code\<rparr>),
     r_Error = (\<lambda>r. ''[PATCH /machine-config]['' @ itoa (statusCode r) @ ''] patchMachineConfiguration default  '' @ pointer_plusv (Payload r)),
     r_readResponse = consume_new zero_ApiError, r_GetPayload = Payload, r_Code = statusCode\<rparr>"

definition PatchMmdsNoContent :: "(unit, unit consumed) reply_type" where
  "PatchMmdsNoContent = \<lparr>r_New = (\<lambda>_. ()),
     r_Error = (\<lambda>r. ''[PATCH /mmds]['' @ itoa 204 @ ''] patchMmdsNoContent ''),
     r_readResponse = (\<lambda>body r. Inr r)\<rparr>"

definition PatchMmdsBadRequest :: "(ApiError with_payload, ApiError consumed, ApiError) payload_type" where
  "PatchMmdsBadRequest = \<lparr>r_New = (\<lambda>_. \<lparr>Payload = None\<rparr>),
     r_Error = (\<lambda>r. ''[PATCH /mmds]['' @ itoa 400 @ ''] patchMmdsBadRequest  '' @ pointer_plusv (Payload r)),
     r_readResponse = consume_new zero_ApiError, r_GetPayload = Payload\<rparr>"

definition PatchMmdsDefault :: "(coded_error, ApiError consumed, ApiError) coded_type" where
  "PatchMmdsDefault = \<lparr>r_New = (\<lambda>code. \<lparr>Payload = None, statusCode = code\<rparr>),
     r_Error = (\<lambda>r. ''[PATCH /mmds]['' @ itoa (statusCode r) @ ''] patchMmds default  '' @ pointer_plusv (Payload r)),
     r_readResponse = consume_new zero_ApiError, r_GetPayload = Payload, r_Code = statusCode\<rparr>"

definition PatchVMNoContent :: "(unit, unit consumed) reply_type" where
  "PatchVMNoContent = \<lparr>r_New = (\<lambda>_. ()),
     r_Error = (\<lambda>r. ''[PATCH /vm]['' @ itoa 204 @ ''] patchVmNoContent ''),
     r_readResponse = (\<lambda>body r. Inr r)\<rparr>"

definition PatchVMBadRequest :: "(ApiError with_payload, ApiError consumed, ApiError) payload_type" where
  "PatchVMBadRequest = \<lparr>r_New = (\<lambda>_. \<lparr>Payload = None\<rparr>),
     r_Error = (\<lambda>r. ''[PATCH /vm]['' @ itoa 400 @ ''] patchVmBadRequest  '' @ pointer_plusv (Payload r)),
     r_readResponse = consume_new zero_ApiError, r_GetPayload = Payload\<rparr>"

definition PatchVMDefault :: "(coded_error, ApiError consumed, ApiError) coded_type" where
  "PatchVMDefault = \<lparr>r_New = (\<lambda>code. \<lparr>Payload = None, statusCode = code\<rparr>),
     r_Error = (\<lambda>r. ''[PATCH /vm]['' @ itoa (statusCode r) @ ''] patchVm default  '' @ pointer_plusv (Payload r)),
     r_readResponse = consume_new zero_ApiError, r_GetPayload = Payload, r_Code = statusCode\<rparr>"

definition PutBalloonNoContent :: "(unit, unit consumed) reply_type" where
  "PutBalloonNoContent = \<lparr>r_New = (\<lambda>_. ()),
     r_Error = (\<lambda>r. ''[PUT /balloon]['' @ itoa 204 @ ''] putBalloonNoContent ''),
     r_readResponse = (\<lambda>body r. Inr r)\<rparr>"

definition PutBalloonBadRequest :: "(ApiError with_payload, ApiError consumed, ApiError) payload_type" where
  "PutBalloonBadRequest = \<lparr>r_New = (\<lambda>_. \<lparr>Payload = None\<rparr>),
     r_Error = (\<lambda>r. ''[PUT /balloon]['' @ itoa 400 @ ''] putBalloonBadRequest  '' @ pointer_plusv (Payload r)),
     r_readResponse = consume_new zero_ApiError, r_GetPayload = Payload\<rparr>"

definition PutBalloonDefault :: "(coded_error, ApiError consumed, ApiError) coded_type" where
  "PutBalloonDefault = \<lparr>r_New = (\<lambda>code. \<lparr>Payload = None, statusCode = code\<rparr>),
     r_Error = (\<lambda>r. ''[PUT /balloon]['' @ itoa (statusCode r) @ ''] putBalloon default  '' @ pointer_plusv (Payload r)),
     r_readResponse = consume_new zero_ApiError, r_GetPayload = Payload, r_Code = statusCode\<rparr>"

definition PutCPUConfigurationNoContent :: "(unit, unit consumed) reply_type" where
  "PutCPUConfigurationNoContent = \<lparr>r_New = (\<lambda>_. ()),
     r_Error = (\<lambda>r. ''[PUT /cpu-config]['' @ itoa 204 @ ''] putCpuConfigurationNoContent ''),
     r_readResponse = (\<lambda>body r. Inr r)\<rparr>"

definition PutCPUConfigurationBadRequest :: "(ApiError with_payload, ApiError consumed, ApiError) payload_type" where
  "PutCPUConfigurationBadRequest = \<lparr>r_New = (\<lambda>_. \<lparr>Payload = None\<rparr>),
     r_Error = (\<lambda>r. ''[PUT /cpu-config]['' @ itoa 400 @ ''] putCpuConfigurationBadRequest  '' @ pointer_plusv (Payload r)),
     r_readResponse = consume_new zero_ApiError, r_GetPayload = Payload\<rparr>"

definition PutCPUConfigurationDefault :: "(coded_error, ApiError consumed, ApiError) coded_type" where
  "PutCPUConfigurationDefault = \<lparr>r_New = (\<lambda>code. \<lparr>Payload = None, statusCode = code\<rparr>),
     r_Error = (\<lambda>r. ''[PUT /cpu-config]['' @ itoa (statusCode r) @ ''] putCpuConfiguration default  '' @ pointer_plusv (Payload r)),
     r_readResponse = consume_new zero_ApiError, r_GetPayload = Payload, r_Code = statusCode\<rparr>"

definition PutEntropyDeviceNoContent :: "(unit, unit consumed) reply_type" where
  "PutEntropyDeviceNoContent = \<lparr>r_New = (\<lambda>_. ()),
     r_Error = (\<lambda>r. ''[PUT /entropy]['' @ itoa 204 @ ''] putEntropyDeviceNoContent ''),
     r_readResponse = (\<lambda>body r. Inr r)\<rparr>"

definition PutEntropyDeviceDefault :: "(coded_error, ApiError consumed, ApiError) coded_type" where
  "PutEntropyDeviceDefault = \<lparr>r_New = (\<lambda>code. \<lparr>Payload = None, statusCode = code\<rparr>),
     r_Error = (\<lambda>r. ''[PUT /entropy]['' @ itoa (statusCode r) @ ''] putEntropyDevice default  '' @ pointer_plusv (Payload r)),
     r_readResponse = consume_new zero_ApiError, r_GetPayload = Payload, r_Code = statusCode\<rparr>"

definition PutGuestBootSourceNoContent :: "(unit, unit consumed) reply_type" where
  "PutGuestBootSourceNoContent = \<lparr>r_New = (\<lambda>_. ()),
     r_Error = (\<lambda>r. ''[PUT /boot-source]['' @ itoa 204 @ ''] putGuestBootSourceNoContent ''),
     r_readResponse = (\<lambda>body r. Inr r)\<rparr>"

definition PutGuestBootSourceBadRequest :: "(ApiError with_payload, ApiError consumed, ApiError) payload_type" where
  "PutGuestBootSourceBadRequest = \<lparr>r_New = (\<lambda>_. \<lparr>Payload = None\<rparr>),
     r_Error = (\<lambda>r. ''[PUT /boot-source]['' @ itoa 400 @ ''] putGuestBootSourceBadRequest  '' @ pointer_plusv (Payload r)),
     r_readResponse = consume_new zero_ApiError, r_GetPayload = Payload\<rparr>"

definition PutGuestBootSourceDefault :: "(coded_error, ApiError consumed, ApiError) coded_type" where
  "PutGuestBootSourceDefault = \<lparr>r_New = (\<lambda>code. \<lparr>Payload = None, statusCode = code\<rparr>),
     r_Error = (\<lambda>r. ''[PUT /boot-source]['' @ itoa (statusCode r) @ ''] putGuestBootSource default  '' @ pointer_plusv (Payload r)),
     r_readResponse = consume_new zero_ApiError, r_GetPayload = Payload, r_Code = statusCode\<rparr>"

definition PutGuestDriveByIDNoContent :: "(unit, unit consumed) reply_type" where
  "PutGuestDriveByIDNoContent = \<lparr>r_New = (\<lambda>_. ()),
     r_Error = (\<lambda>r. ''[PUT /drives/{drive_id}]['' @ itoa 204 @ ''] putGuestDriveByIdNoContent ''),
     r_readResponse = (\<lambda>body r. Inr r)\<rparr>"

definition PutGuestDriveByIDBadRequest :: "(ApiError with_payload, ApiError consumed, ApiError) payload_type" where
  "PutGuestDriveByIDBadRequest = \<lparr>r_New = (\<lambda>_. \<lparr>Payload = None\<rparr>),
     r_Error = (\<lambda>r. ''[PUT /drives/{drive_id}]['' @ itoa 400 @ ''] putGuestDriveByIdBadRequest  '' @ pointer_plusv (Payload r)),
     r_readResponse = consume_new zero_ApiError, r_GetPayload = Payload\<rparr>"

definition PutGuestDriveByIDDefault :: "(coded_error, ApiError consumed, ApiError) coded_type" where
  "PutGuestDriveByIDDefault = \<lparr>r_New = (\<lambda>code. \<lparr>Payload = None, statusCode = code\<rparr>),
     r_Error = (\<lambda>r. ''[PUT /drives/{drive_id}]['' @ itoa (statusCode r) @ ''] putGuestDriveByID default  '' @ pointer_plusv (Payload r)),
     r_readResponse = consume_new zero_ApiError, r_GetPayload = Payload, r_Code = statusCode\<rparr>"

definition PutGuestNetworkInterfaceByIDNoContent :: "(unit, unit consumed) reply_type" where
  "PutGuestNetworkInterfaceByIDNoContent = \<lparr>r_New = (\<lambda>_. ()),
     r_Error = (\<lambda>r. ''[PUT /network-interfaces/{iface_id}]['' @ itoa 204 @ ''] putGuestNetworkInterfaceByIdNoContent ''),
     r_readResponse = (\<lambda>body r. Inr r)\<rparr>"

definition PutGuestNetworkInterfaceByIDBadRequest :: "(ApiError with_payload, ApiError consumed, ApiError) payload_type" where
  "PutGuestNetworkInterfaceByIDBadRequest = \<lparr>r_New = (\<lambda>_. \<lparr>Payload = None\<rparr>),
     r_Error = (\<lambda>r. ''[PUT /network-interfaces/{iface_id}]['' @ itoa 400 @ ''] putGuestNetworkInterfaceByIdBadRequest  '' @ pointer_plusv (Payload r)),
     r_readResponse = consume_new zero_ApiError, r_GetPayload = Payload\<rparr>"

definition PutGuestNetworkInterfaceByIDDefault :: "(coded_error, ApiError consumed, ApiError) coded_type" where
  "PutGuestNetworkInterfaceByIDDefault = \<lparr>r_New = (\<lambda>code. \<lparr>Payload = None, statusCode = code\<rparr>),
     r_Error = (\<lambda>r. ''[PUT /network-interfaces/{iface_id}]['' @ itoa (statusCode r) @ ''] putGuestNetworkInterfaceByID default  '' @ pointer_plusv (Payload r)),
     r_readResponse = consume_new zero_ApiError, r_GetPayload = Payload, r_Code = statusCode\<rparr>"

definition PutGuestVsockNoContent :: "(unit, unit consumed) reply_type" where
  "PutGuestVsockNoContent = \<lparr>r_New = (\<lambda>_. ()),
     r_Error = (\<lambda>r. ''[PUT /vsock]['' @ itoa 204 @ ''] putGuestVsockNoContent ''),
     r_readResponse = (\<lambda>body r. Inr r)\<rparr>"

definition PutGuestVsockBadRequest :: "(ApiError with_payload, ApiError consumed, ApiError) payload_type" where
  "PutGuestVsockBadRequest = \<lparr>r_New = (\<lambda>_. \<lparr>Payload = None\<rparr>),
     r_Error = (\<lambda>r. ''[PUT /vsock]['' @ itoa 400 @ ''] putGuestVsockBadRequest  '' @ pointer_plusv (Payload r)),
     r_readResponse = consume_new zero_ApiError, r_GetPayload = Payload\<rparr>"

definition PutGuestVsockDefault :: "(coded_error, ApiError consumed, ApiError) coded_type" where
  "PutGuestVsockDefault = \<lparr>r_New = (\<lambda>code. \<lparr>Payload = None, statusCode = code\<rparr>),
     r_Error = (\<lambda>r. ''[PUT /vsock]['' @ itoa (statusCode r) @ ''] putGuestVsock default  '' @ pointer_plusv (Payload r)),
     r_readResponse = consume_new zero_ApiError, r_GetPayload = Payload, r_Code = statusCode\<rparr>"

definition PutLoggerNoContent :: "(unit, unit consumed) reply_type" where
  "PutLoggerNoContent = \<lparr>r_New = (\<lambda>_. ()),
     r_Error = (\<lambda>r. ''[PUT /logger]['' @ itoa 204 @ ''] putLoggerNoContent ''),
     r_readResponse = (\<lambda>body r. Inr r)\<rparr>"

definition PutLoggerBadRequest :: "(ApiError with_payload, ApiError consumed, ApiError) payload_type" where
  "PutLoggerBadRequest = \<lparr>r_New = (\<lambda>_. \<lparr>Payload = None\<rparr>),
     r_Error = (\<lambda>r. ''[PUT /logger]['' @ itoa 400 @ ''] putLoggerBadRequest  '' @ pointer_plusv (Payload r)),
     r_readResponse = consume_new zero_ApiError, r_GetPayload = Payload\<rparr>"

definition PutLoggerDefault :: "(coded_error, ApiError consumed, ApiError) coded_type" where
  "PutLoggerDefault = \<lparr>r_New = (\<lambda>code. \<lparr>Payload = None, statusCode = code\<rparr>),
     r_Error = (\<lambda>r. ''[PUT /logger]['' @ itoa (statusCode r) @ ''] putLogger default  '' @ pointer_plusv (Payload r)),
     r_readResponse = consume_new zero_ApiError, r_GetPayload = Payload, r_Code = statusCode\<rparr>"

definition PutMachineConfigurationNoContent :: "(unit, unit consumed) reply_type" where
  "PutMachineConfigurationNoContent = \<lparr>r_New = (\<lambda>_. ()),
     r_Error = (\<lambda>r. ''[PUT /machine-config]['' @ itoa 204 @ ''] putMachineConfigurationNoContent ''),
     r_readResponse = (\<lambda>body r. Inr r)\<rparr>"

definition PutMachineConfigurationBadRequest :: "(ApiError with_payload, ApiError consumed, ApiError) payload_type" where
  "PutMachineConfigurationBadRequest = \<lparr>r_New = (\<lambda>_. \<lparr>Payload = None\<rparr>),
     r_Error = (\<lambda>r. ''[PUT /machine-config]['' @ itoa 400 @ ''] putMachineConfigurationBadRequest  '' @ pointer_plusv (Payload r)),
     r_readResponse = consume_new zero_ApiError, r_GetPayload = Payload\<rparr>"

definition PutMachineConfigurationDefault :: "(coded_error, ApiError consumed, ApiError) coded_type" where
  "PutMachineConfigurationDefault = \<lparr>r_New = (\<lambda>code. \<lparr>Payload = None, statusCode = code\<rparr>),
     r_Error = (\<lambda>r. ''[PUT /machine-config]['' @ itoa (statusCode r) @ ''] putMachineConfiguration default  '' @ pointer_plusv (Payload r)),
     r_readResponse = consume_new zero_ApiError, r_GetPayload = Payload, r_Code = statusCode\<rparr>"

definition PutMetricsNoContent :: "(unit, unit consumed) reply_type" where
  "PutMetricsNoContent = \<lparr>r_New = (\<lambda>_. ()),
     r_Error = (\<lambda>r. ''[PUT /metrics]['' @ itoa 204 @ ''] putMetricsNoContent ''),
     r_readResponse = (\<lambda>body r. Inr r)\<rparr>"

definition PutMetricsBadRequest :: "(ApiError with_payload, ApiError consumed, ApiError) payload_type" where
  "PutMetricsBadRequest = \<lparr>r_New = (\<lambda>_. \<lparr>Payload = None\<rparr>),
     r_Error = (\<lambda>r. ''[PUT /metrics]['' @ itoa 400 @ ''] putMetricsBadRequest  '' @ pointer_plusv (Payload r)),
     r_readResponse = consume_new zero_ApiError, r_GetPayload = Payload\<rparr>"

definition PutMetricsDefault :: "(coded_error, ApiError consumed, ApiError) coded_type" where
  "PutMetricsDefault = \<lparr>r_New = (\<lambda>code. \<lparr>Payload = None, statusCode = code\<rparr>),
     r_Error = (\<lambda>r. ''[PUT /metrics]['' @ itoa (statusCode r) @ ''] putMetrics default  '' @ pointer_plusv (Payload r)),
     r_readResponse = consume_new zero_ApiError, r_GetPayload = Payload, r_Code = statusCode\<rparr>"

definition PutMmdsConfigNoContent :: "(unit, unit consumed) reply_type" where
  "PutMmdsConfigNoContent = \<lparr>r_New = (\<lambda>_. ()),
     r_Error = (\<lambda>r. ''[PUT /mmds/config]['' @ itoa 204 @ ''] putMmdsConfigNoContent ''),
     r_readResponse = (\<lambda>body r. Inr r)\<rparr>"

definition PutMmdsConfigBadRequest :: "(ApiError with_payload, ApiError consumed, ApiError) payload_type" where
  "PutMmdsConfigBadRequest = \<lparr>r_New = (\<lambda>_. \<lparr>Payload = None\<rparr>),
     r_Error = (\<lambda>r. ''[PUT /mmds/config]['' @ itoa 400 @ ''] putMmdsConfigBadRequest  '' @ pointer_plusv (Payload r)),
     r_readResponse = consume_new zero_ApiError, r_GetPayload = Payload\<rparr>"

definition PutMmdsConfigDefault :: "(coded_error, ApiError consumed, ApiError) coded_type" where
  "PutMmdsConfigDefault = \<lparr>r_New = (\<lambda>code. \<lparr>Payload = None, statusCode = code\<rparr>),
     r_Error = (\<lambda>r. ''[PUT /mmds/config]['' @ itoa (statusCode r) @ ''] putMmdsConfig default  '' @ pointer_plusv (Payload r)),
     r_readResponse = consume_new zero_ApiError, r_GetPayload = Payload, r_Code = statusCode\<rparr>"

definition PutMmdsNoContent :: "(unit, unit consumed) reply_type" where
  "PutMmdsNoContent = \<lparr>r_New = (\<lambda>_. ()),
     r_Error = (\<lambda>r. ''[PUT /mmds]['' @ itoa 204 @ ''] putMmdsNoContent ''),
     r_readResponse = (\<lambda>body r. Inr r)\<rparr>"

definition PutMmdsBadRequest :: "(ApiError with_payload, ApiError consumed, ApiError) payload_type" where
  "PutMmdsBadRequest = \<lparr>r_New = (\<lambda>_. \<lparr>Payload = None\<rparr>),
     r_Error = (\<lambda>r. ''[PUT /mmds]['' @ itoa 400 @ ''] putMmdsBadRequest  '' @ pointer_plusv (Payload r)),
     r_readResponse = consume_new zero_ApiError, r_GetPayload = Payload\<rparr>"

definition PutMmdsDefault :: "(coded_error, ApiError consumed, ApiError) coded_type" where
  "PutMmdsDefault = \<lparr>r_New = (\<lambda>code. \<lparr>Payload = None, statusCode = code\<rparr>),
     r_Error = (\<lambda>r. ''[PUT /mmds]['' @ itoa (statusCode r) @ ''] putMmds default  '' @ pointer_plusv (Payload r)),
     r_readResponse = consume_new zero_ApiError, r_GetPayload = Payload, r_Code = statusCode\<rparr>"

subsection \<open>The readers use these types\<close>

definition error_of :: "string \<Rightarrow> int \<Rightarrow> ('r \<Rightarrow> ApiError option) \<Rightarrow> 'r \<Rightarrow> go_error" where
  "error_of tname code payload r =
     ApiErrorResponse tname code (case payload r of None \<Rightarrow> zero_ApiError | Some p \<Rightarrow> p)"

text \<open>A reader made of the constructors and methods of its types.\<close>

definition read_reply ::
  "int \<Rightarrow> ('r, 'p consumed, 'x) reply_type_scheme \<Rightarrow> ('r \<Rightarrow> 'p)
   \<Rightarrow> (int \<times> string \<times> (ApiError with_payload, ApiError consumed, ApiError) payload_type) option
   \<Rightarrow> string \<Rightarrow> (coded_error, ApiError consumed, ApiError) coded_type
   \<Rightarrow> 'p http_response \<Rightarrow> go_error + 'p read_result" where
  "read_reply ok_code ok payload bad dname dflt response =
    (let by_default =
       (case r_readResponse dflt (err_body response) (r_New dflt (Code response)) of
          Inl err \<Rightarrow> Inl err
        | Inr r \<Rightarrow>
            if Code response div 100 = 2
            then Inr (ReadDefault (r_Code dflt r) (case r_GetPayload dflt r of None \<Rightarrow> zero_ApiError | Some p \<Rightarrow> p))
            else Inl (error_of dname (r_Code dflt r) (r_GetPayload dflt) r))
     in if Code response = ok_code then
          (case r_readResponse ok (ok_body response) (r_New ok ok_code) of
             Inl err \<Rightarrow> Inl err | Inr r \<Rightarrow> Inr (ReadOK (payload r)))
        else (case bad of
            Some (code, bname, b) \<Rightarrow>
              if Code response = code then
                (case r_readResponse b (err_body response) (r_New b code) of
                   Inl err \<Rightarrow> Inl err | Inr r \<Rightarrow> Inl (error_of bname code (r_GetPayload b) r))
              else by_default
          | None \<Rightarrow> by_default))"

locale reply_laws =
  fixes reader :: "'p http_response \<Rightarrow> go_error + 'p read_result"
    and ok_code :: int
    and ok :: "('r, 'p consumed, 'x) reply_type_scheme"
    and payload :: "'r \<Rightarrow> 'p"
    and bad :: "(int \<times> string \<times> (ApiError with_payload, ApiError consumed, ApiError) payload_type) option"
    and dname :: string
    and dflt :: "(coded_error, ApiError consumed, ApiError) coded_type"
  assumes reader: "reader response = read_reply ok_code ok payload bad dname dflt response"
    and default_methods: "r_readResponse dflt = consume_new zero_ApiError" "r_GetPayload dflt = Payload"
      "r_Code dflt = statusCode" "r_New dflt code = \<lparr>Payload = None, statusCode = code\<rparr>"
    and default_text: "api_error_text dname code p = Some (r_Error dflt \<lparr>Payload = Some p, statusCode = code\<rparr>)"
    and bad_methods: "pred_option (\<lambda>(c, n, b). r_readResponse b = consume_new zero_ApiError \<and> r_GetPayload b = Payload
      \<and> r_New b c = \<lparr>Payload = None\<rparr> \<and> (\<forall>p. api_error_text n c p = Some (r_Error b \<lparr>Payload = Some p\<rparr>))) bad"
begin

text \<open>
  An error that a reader makes of a response is a value of one of its types: it carries the status
  code of the response, the payload that was read, and its text is the one of the type's method.
\<close>

lemma error_value:
  assumes "reader response = Inl err" and "Code response \<noteq> ok_code"
    and "\<forall>e. err_body response \<noteq> ConsumeFailed e"
  obtains (default) p where "err = ApiErrorResponse dname (Code response) p"
      "readPayload zero_ApiError (err_body response) = Inr p" "Code response div 100 \<noteq> 2"
      "api_error_text dname (Code response) p = Some (r_Error dflt \<lparr>Payload = Some p, statusCode = Code response\<rparr>)"
  | (own) p c n b where "bad = Some (c, n, b)" "err = ApiErrorResponse n c p" "Code response = c"
      "readPayload zero_ApiError (err_body response) = Inr p"
      "api_error_text n c p = Some (r_Error b \<lparr>Payload = Some p\<rparr>)"
  using assms bad_methods default_text
  by (auto simp: reader read_reply_def Let_def default_methods consume_new_def readPayload_def error_of_def
      split: option.splits if_splits consumed.splits)

end

lemmas reply_simps = read_reply_def Let_def consume_new_def consume_value_def readPayload_def error_of_def
  pointer_plusv_def error_texts

interpretation CreateSnapshot: reply_laws CreateSnapshotReader_ReadResponse 204 "CreateSnapshotNoContent" "(\<lambda>r. ())"
  "(Some (400, ''CreateSnapshotBadRequest'', CreateSnapshotBadRequest))" "''CreateSnapshotDefault''" CreateSnapshotDefault
  by unfold_locales
    (auto simp: CreateSnapshotReader_ReadResponse_def CreateSnapshotNoContent_def CreateSnapshotBadRequest_def CreateSnapshotDefault_def CreateSnapshotBadRequest_Error_def CreateSnapshotDefault_Error_def reply_simps split: consumed.split)

interpretation CreateSyncAction: reply_laws CreateSyncActionReader_ReadResponse 204 "CreateSyncActionNoContent" "(\<lambda>r. ())"
  "(Some (400, ''CreateSyncActionBadRequest'', CreateSyncActionBadRequest))" "''CreateSyncActionDefault''" CreateSyncActionDefault
  by unfold_locales
    (auto simp: CreateSyncActionReader_ReadResponse_def CreateSyncActionNoContent_def CreateSyncActionBadRequest_def CreateSyncActionDefault_def CreateSyncActionBadRequest_Error_def CreateSyncActionDefault_Error_def reply_simps split: consumed.split)

interpretation DescribeBalloonConfig: reply_laws DescribeBalloonConfigReader_ReadResponse 200 "DescribeBalloonConfigOK plusv" "(\<lambda>r. case Payload r of None \<Rightarrow> zero_Balloon | Some v \<Rightarrow> v)"
  "(Some (400, ''DescribeBalloonConfigBadRequest'', DescribeBalloonConfigBadRequest))" "''DescribeBalloonConfigDefault''" DescribeBalloonConfigDefault
  by unfold_locales
    (auto simp: DescribeBalloonConfigReader_ReadResponse_def DescribeBalloonConfigOK_def DescribeBalloonConfigBadRequest_def DescribeBalloonConfigDefault_def DescribeBalloonConfigBadRequest_Error_def DescribeBalloonConfigDefault_Error_def reply_simps split: consumed.split)

interpretation DescribeBalloonStats: reply_laws DescribeBalloonStatsReader_ReadResponse 200 "DescribeBalloonStatsOK plusv" "(\<lambda>r. case Payload r of None \<Rightarrow> zero_BalloonStats | Some v \<Rightarrow> v)"
  "(Some (400, ''DescribeBalloonStatsBadRequest'', DescribeBalloonStatsBadRequest))" "''DescribeBalloonStatsDefault''" DescribeBalloonStatsDefault
  by unfold_locales
    (auto simp: DescribeBalloonStatsReader_ReadResponse_def DescribeBalloonStatsOK_def DescribeBalloonStatsBadRequest_def DescribeBalloonStatsDefault_def DescribeBalloonStatsBadRequest_Error_def DescribeBalloonStatsDefault_Error_def reply_simps split: consumed.split)

interpretation DescribeInstance: reply_laws DescribeInstanceReader_ReadResponse 200 "DescribeInstanceOK plusv" "(\<lambda>r. case Payload r of None \<Rightarrow> zero_InstanceInfo | Some v \<Rightarrow> v)"
  "None" "''DescribeInstanceDefault''" DescribeInstanceDefault
  by unfold_locales
    (auto simp: DescribeInstanceReader_ReadResponse_def DescribeInstanceOK_def DescribeInstanceDefault_def DescribeInstanceDefault_Error_def reply_simps split: consumed.split)

interpretation GetExportVMConfig: reply_laws GetExportVMConfigReader_ReadResponse 200 "GetExportVMConfigOK plusv" "(\<lambda>r. case Payload r of None \<Rightarrow> zero_FullVMConfiguration | Some v \<Rightarrow> v)"
  "None" "''GetExportVMConfigDefault''" GetExportVMConfigDefault
  by unfold_locales
    (auto simp: GetExportVMConfigReader_ReadResponse_def GetExportVMConfigOK_def GetExportVMConfigDefault_def GetExportVMConfigDefault_Error_def reply_simps split: consumed.split)

interpretation GetFirecrackerVersion: reply_laws GetFirecrackerVersionReader_ReadResponse 200 "GetFirecrackerVersionOK plusv" "(\<lambda>r. case Payload r of None \<Rightarrow> zero_FirecrackerVersion | Some v \<Rightarrow> v)"
  "None" "''GetFirecrackerVersionDefault''" GetFirecrackerVersionDefault
  by unfold_locales
    (auto simp: GetFirecrackerVersionReader_ReadResponse_def GetFirecrackerVersionOK_def GetFirecrackerVersionDefault_def GetFirecrackerVersionDefault_Error_def reply_simps split: consumed.split)

interpretation GetMachineConfiguration: reply_laws GetMachineConfigurationReader_ReadResponse 200 "GetMachineConfigurationOK plusv" "(\<lambda>r. case Payload r of None \<Rightarrow> zero_MachineConfiguration | Some v \<Rightarrow> v)"
  "None" "''GetMachineConfigurationDefault''" GetMachineConfigurationDefault
  by unfold_locales
    (auto simp: GetMachineConfigurationReader_ReadResponse_def GetMachineConfigurationOK_def GetMachineConfigurationDefault_def GetMachineConfigurationDefault_Error_def reply_simps split: consumed.split)

interpretation GetMmds: reply_laws GetMmdsReader_ReadResponse 200 "GetMmdsOK plusv" "(\<lambda>r. case Payload r of None \<Rightarrow> ''null'' | Some v \<Rightarrow> v)"
  "(Some (404, ''GetMmdsNotFound'', GetMmdsNotFound))" "''GetMmdsDefault''" GetMmdsDefault
  by unfold_locales
    (auto simp: GetMmdsReader_ReadResponse_def GetMmdsOK_def GetMmdsNotFound_def GetMmdsDefault_def GetMmdsNotFound_Error_def GetMmdsDefault_Error_def reply_simps split: consumed.split)

interpretation LoadSnapshot: reply_laws LoadSnapshotReader_ReadResponse 204 "LoadSnapshotNoContent" "(\<lambda>r. ())"
  "(Some (400, ''LoadSnapshotBadRequest'', LoadSnapshotBadRequest))" "''LoadSnapshotDefault''" LoadSnapshotDefault
  by unfold_locales
    (auto simp: LoadSnapshotReader_ReadResponse_def LoadSnapshotNoContent_def LoadSnapshotBadRequest_def LoadSnapshotDefault_def LoadSnapshotBadRequest_Error_def LoadSnapshotDefault_Error_def reply_simps split: consumed.split)

interpretation PatchBalloon: reply_laws PatchBalloonReader_ReadResponse 204 "PatchBalloonNoContent" "(\<lambda>r. ())"
  "(Some (400, ''PatchBalloonBadRequest'', PatchBalloonBadRequest))" "''PatchBalloonDefault''" PatchBalloonDefault
  by unfold_locales
    (auto simp: PatchBalloonReader_ReadResponse_def PatchBalloonNoContent_def PatchBalloonBadRequest_def PatchBalloonDefault_def PatchBalloonBadRequest_Error_def PatchBalloonDefault_Error_def reply_simps split: consumed.split)

interpretation PatchBalloonStatsInterval: reply_laws PatchBalloonStatsIntervalReader_ReadResponse 204 "PatchBalloonStatsIntervalNoContent" "(\<lambda>r. ())"
  "(Some (400, ''PatchBalloonStatsIntervalBadRequest'', PatchBalloonStatsIntervalBadRequest))" "''PatchBalloonStatsIntervalDefault''" PatchBalloonStatsIntervalDefault
  by unfold_locales
    (auto simp: PatchBalloonStatsIntervalReader_ReadResponse_def PatchBalloonStatsIntervalNoContent_def PatchBalloonStatsIntervalBadRequest_def PatchBalloonStatsIntervalDefault_def PatchBalloonStatsIntervalBadRequest_Error_def PatchBalloonStatsIntervalDefault_Error_def reply_simps split: consumed.split)

interpretation PatchGuestDriveByID: reply_laws PatchGuestDriveByIDReader_ReadResponse 204 "PatchGuestDriveByIDNoContent" "(\<lambda>r. ())"
  "(Some (400, ''PatchGuestDriveByIDBadRequest'', PatchGuestDriveByIDBadRequest))" "''PatchGuestDriveByIDDefault''" PatchGuestDriveByIDDefault
  by unfold_locales
    (auto simp: PatchGuestDriveByIDReader_ReadResponse_def PatchGuestDriveByIDNoContent_def PatchGuestDriveByIDBadRequest_def PatchGuestDriveByIDDefault_def PatchGuestDriveByIDBadRequest_Error_def PatchGuestDriveByIDDefault_Error_def reply_simps split: consumed.split)

interpretation PatchGuestNetworkInterfaceByID: reply_laws PatchGuestNetworkInterfaceByIDReader_ReadResponse 204 "PatchGuestNetworkInterfaceByIDNoContent" "(\<lambda>r. ())"
  "(Some (400, ''PatchGuestNetworkInterfaceByIDBadRequest'', PatchGuestNetworkInterfaceByIDBadRequest))" "''PatchGuestNetworkInterfaceByIDDefault''" PatchGuestNetworkInterfaceByIDDefault
  by unfold_locales
    (auto simp: PatchGuestNetworkInterfaceByIDReader_ReadResponse_def PatchGuestNetworkInterfaceByIDNoContent_def PatchGuestNetworkInterfaceByIDBadRequest_def PatchGuestNetworkInterfaceByIDDefault_def PatchGuestNetworkInterfaceByIDBadRequest_Error_def PatchGuestNetworkInterfaceByIDDefault_Error_def reply_simps split: consumed.split)

interpretation PatchMachineConfiguration: reply_laws PatchMachineConfigurationReader_ReadResponse 204 "PatchMachineConfigurationNoContent" "(\<lambda>r. ())"
  "(Some (400, ''PatchMachineConfigurationBadRequest'', PatchMachineConfigurationBadRequest))" "''PatchMachineConfigurationDefault''" PatchMachineConfigurationDefault
  by unfold_locales
    (auto simp: PatchMachineConfigurationReader_ReadResponse_def PatchMachineConfigurationNoContent_def PatchMachineConfigurationBadRequest_def PatchMachineConfigurationDefault_def PatchMachineConfigurationBadRequest_Error_def PatchMachineConfigurationDefault_Error_def reply_simps split: consumed.split)

interpretation PatchMmds: reply_laws PatchMmdsReader_ReadResponse 204 "PatchMmdsNoContent" "(\<lambda>r. ())"
  "(Some (400, ''PatchMmdsBadRequest'', PatchMmdsBadRequest))" "''PatchMmdsDefault''" PatchMmdsDefault
  by unfold_locales
    (auto simp: PatchMmdsReader_ReadResponse_def PatchMmdsNoContent_def PatchMmdsBadRequest_def PatchMmdsDefault_def PatchMmdsBadRequest_Error_def PatchMmdsDefault_Error_def reply_simps split: consumed.split)

interpretation PatchVM: reply_laws PatchVMReader_ReadResponse 204 "PatchVMNoContent" "(\<lambda>r. ())"
  "(Some (400, ''PatchVMBadRequest'', PatchVMBadRequest))" "''PatchVMDefault''" PatchVMDefault
  by unfold_locales
    (auto simp: PatchVMReader_ReadResponse_def PatchVMNoContent_def PatchVMBadRequest_def PatchVMDefault_def PatchVMBadRequest_Error_def PatchVMDefault_Error_def reply_simps split: consumed.split)

interpretation PutBalloon: reply_laws PutBalloonReader_ReadResponse 204 "PutBalloonNoContent" "(\<lambda>r. ())"
  "(Some (400, ''PutBalloonBadRequest'', PutBalloonBadRequest))" "''PutBalloonDefault''" PutBalloonDefault
  by unfold_locales
    (auto simp: PutBalloonReader_ReadResponse_def PutBalloonNoContent_def PutBalloonBadRequest_def PutBalloonDefault_def PutBalloonBadRequest_Error_def PutBalloonDefault_Error_def reply_simps split: consumed.split)

interpretation PutCPUConfiguration: reply_laws PutCPUConfigurationReader_ReadResponse 204 "PutCPUConfigurationNoContent" "(\<lambda>r. ())"
  "(Some (400, ''PutCPUConfigurationBadRequest'', PutCPUConfigurationBadRequest))" "''PutCPUConfigurationDefault''" PutCPUConfigurationDefault
  by unfold_locales
    (auto simp: PutCPUConfigurationReader_ReadResponse_def PutCPUConfigurationNoContent_def PutCPUConfigurationBadRequest_def PutCPUConfigurationDefault_def PutCPUConfigurationBadRequest_Error_def PutCPUConfigurationDefault_Error_def reply_simps split: consumed.split)

interpretation PutEntropyDevice: reply_laws PutEntropyDeviceReader_ReadResponse 204 "PutEntropyDeviceNoContent" "(\<lambda>r. ())"
  "None" "''PutEntropyDeviceDefault''" PutEntropyDeviceDefault
  by unfold_locales
    (auto simp: PutEntropyDeviceReader_ReadResponse_def PutEntropyDeviceNoContent_def PutEntropyDeviceDefault_def PutEntropyDeviceDefault_Error_def reply_simps split: consumed.split)

interpretation PutGuestBootSource: reply_laws PutGuestBootSourceReader_ReadResponse 204 "PutGuestBootSourceNoContent" "(\<lambda>r. ())"
  "(Some (400, ''PutGuestBootSourceBadRequest'', PutGuestBootSourceBadRequest))" "''PutGuestBootSourceDefault''" PutGuestBootSourceDefault
  by unfold_locales
    (auto simp: PutGuestBootSourceReader_ReadResponse_def PutGuestBootSourceNoContent_def PutGuestBootSourceBadRequest_def PutGuestBootSourceDefault_def PutGuestBootSourceBadRequest_Error_def PutGuestBootSourceDefault_Error_def reply_simps split: consumed.split)

interpretation PutGuestDriveByID: reply_laws PutGuestDriveByIDReader_ReadResponse 204 "PutGuestDriveByIDNoContent" "(\<lambda>r. ())"
  "(Some (400, ''PutGuestDriveByIDBadRequest'', PutGuestDriveByIDBadRequest))" "''PutGuestDriveByIDDefault''" PutGuestDriveByIDDefault
  by unfold_locales
    (auto simp: PutGuestDriveByIDReader_ReadResponse_def PutGuestDriveByIDNoContent_def PutGuestDriveByIDBadRequest_def PutGuestDriveByIDDefault_def PutGuestDriveByIDBadRequest_Error_def PutGuestDriveByIDDefault_Error_def reply_simps split: consumed.split)

interpretation PutGuestNetworkInterfaceByID: reply_laws PutGuestNetworkInterfaceByIDReader_ReadResponse 204 "PutGuestNetworkInterfaceByIDNoContent" "(\<lambda>r. ())"
  "(Some (400, ''PutGuestNetworkInterfaceByIDBadRequest'', PutGuestNetworkInterfaceByIDBadRequest))" "''PutGuestNetworkInterfaceByIDDefault''" PutGuestNetworkInterfaceByIDDefault
  by unfold_locales
    (auto simp: PutGuestNetworkInterfaceByIDReader_ReadResponse_def PutGuestNetworkInterfaceByIDNoContent_def PutGuestNetworkInterfaceByIDBadRequest_def PutGuestNetworkInterfaceByIDDefault_def PutGuestNetworkInterfaceByIDBadRequest_Error_def PutGuestNetworkInterfaceByIDDefault_Error_def reply_simps split: consumed.split)

interpretation PutGuestVsock: reply_laws PutGuestVsockReader_ReadResponse 204 "PutGuestVsockNoContent" "(\<lambda>r. ())"
  "(Some (400, ''PutGuestVsockBadRequest'', PutGuestVsockBadRequest))" "''PutGuestVsockDefault''" PutGuestVsockDefault
  by unfold_locales
    (auto simp: PutGuestVsockReader_ReadResponse_def PutGuestVsockNoContent_def PutGuestVsockBadRequest_def PutGuestVsockDefault_def PutGuestVsockBadRequest_Error_def PutGuestVsockDefault_Error_def reply_simps split: consumed.split)

interpretation PutLogger: reply_laws PutLoggerReader_ReadResponse 204 "PutLoggerNoContent" "(\<lambda>r. ())"
  "(Some (400, ''PutLoggerBadRequest'', PutLoggerBadRequest))" "''PutLoggerDefault''" PutLoggerDefault
  by unfold_locales
    (auto simp: PutLoggerReader_ReadResponse_def PutLoggerNoContent_def PutLoggerBadRequest_def PutLoggerDefault_def PutLoggerBadRequest_Error_def PutLoggerDefault_Error_def reply_simps split: consumed.split)

interpretation PutMachineConfiguration: reply_laws PutMachineConfigurationReader_ReadResponse 204 "PutMachineConfigurationNoContent" "(\<lambda>r. ())"
  "(Some (400, ''PutMachineConfigurationBadRequest'', PutMachineConfigurationBadRequest))" "''PutMachineConfigurationDefault''" PutMachineConfigurationDefault
  by unfold_locales
    (auto simp: PutMachineConfigurationReader_ReadResponse_def PutMachineConfigurationNoContent_def PutMachineConfigurationBadRequest_def PutMachineConfigurationDefault_def PutMachineConfigurationBadRequest_Error_def PutMachineConfigurationDefault_Error_def reply_simps split: consumed.split)

interpretation PutMetrics: reply_laws PutMetricsReader_ReadResponse 204 "PutMetricsNoContent" "(\<lambda>r. ())"
  "(Some (400, ''PutMetricsBadRequest'', PutMetricsBadRequest))" "''PutMetricsDefault''" PutMetricsDefault
  by unfold_locales
    (auto simp: PutMetricsReader_ReadResponse_def PutMetricsNoContent_def PutMetricsBadRequest_def PutMetricsDefault_def PutMetricsBadRequest_Error_def PutMetricsDefault_Error_def reply_simps split: consumed.split)

interpretation PutMmdsConfig: reply_laws PutMmdsConfigReader_ReadResponse 204 "PutMmdsConfigNoContent" "(\<lambda>r. ())"
  "(Some (400, ''PutMmdsConfigBadRequest'', PutMmdsConfigBadRequest))" "''PutMmdsConfigDefault''" PutMmdsConfigDefault
  by unfold_locales
    (auto simp: PutMmdsConfigReader_ReadResponse_def PutMmdsConfigNoContent_def PutMmdsConfigBadRequest_def PutMmdsConfigDefault_def PutMmdsConfigBadRequest_Error_def PutMmdsConfigDefault_Error_def reply_simps split: consumed.split)

interpretation PutMmds: reply_laws PutMmdsReader_ReadResponse 204 "PutMmdsNoContent" "(\<lambda>r. ())"
  "(Some (400, ''PutMmdsBadRequest'', PutMmdsBadRequest))" "''PutMmdsDefault''" PutMmdsDefault
  by unfold_locales
    (auto simp: PutMmdsReader_ReadResponse_def PutMmdsNoContent_def PutMmdsBadRequest_def PutMmdsDefault_def PutMmdsBadRequest_Error_def PutMmdsDefault_Error_def reply_simps split: consumed.split)

end
