(* ===== verification/Json.thy ===== *)
theory Json
  imports World
begin

text \<open>
  The JSON form of Go values: what \<open>encoding/json\<close> of the standard library does with the structs of
  the API models. A struct is encoded by reflection over its fields and their tags, so it is modelled
  as a list of fields, each with a name, a way to encode and decode it and the \<open>omitempty\<close> option.
  The text of a JSON value is made and parsed by a library, which is a parameter.

  Decoding writes into an existing value: a member that is absent leaves its field alone, and so does
  \<open>null\<close> unless the field is a pointer or a slice. The names of members match without regard to case
  when no field has the exact name. A failed decoding is \<open>None\<close>: the text of the error is not modelled.
\<close>

datatype json =
    JNull
  | JBool bool
  | JNumber string
  | JString string
  | JArray "json list"
  | JObject "(string \<times> json) list"

subsection \<open>Codecs of Go types\<close>

record 'v codec =
  enc :: "'v \<Rightarrow> json"
  dec :: "json \<Rightarrow> 'v \<Rightarrow> 'v option"
  zero_value :: 'v
  is_empty :: "'v \<Rightarrow> bool"

definition bool_codec :: "bool codec" where
  "bool_codec = \<lparr>enc = JBool,
     dec = (\<lambda>j v. case j of JBool b \<Rightarrow> Some b | JNull \<Rightarrow> Some v | _ \<Rightarrow> None),
     zero_value = False, is_empty = Not\<rparr>"

definition string_codec :: "string codec" where
  "string_codec = \<lparr>enc = JString,
     dec = (\<lambda>j v. case j of JString s \<Rightarrow> Some s | JNull \<Rightarrow> Some v | _ \<Rightarrow> None),
     zero_value = [], is_empty = (\<lambda>s. s = [])\<rparr>"

text \<open>Numbers are read with \<open>strconv.ParseInt\<close>: \<open>1.0\<close> and \<open>1e3\<close> are errors, as is an overflow.\<close>

definition int64_codec :: "int64 codec" where
  "int64_codec = \<lparr>enc = (\<lambda>v. JNumber (itoa (sint v))),
     dec = (\<lambda>j v. case j of JNumber s \<Rightarrow> map_option word_of_int (atoi s) | JNull \<Rightarrow> Some v | _ \<Rightarrow> None),
     zero_value = 0, is_empty = (\<lambda>v. v = 0)\<rparr>"

text \<open>\<open>null\<close> makes a pointer nil; anything else is decoded into what it points to, if anything.\<close>

definition ptr_codec :: "'v codec \<Rightarrow> 'v option codec" where
  "ptr_codec c = \<lparr>enc = (\<lambda>p. case p of None \<Rightarrow> JNull | Some v \<Rightarrow> enc c v),
     dec = (\<lambda>j p. if j = JNull then Some None
       else map_option Some (dec c j (case p of None \<Rightarrow> zero_value c | Some v \<Rightarrow> v))),
     zero_value = None, is_empty = (\<lambda>p. p = None)\<rparr>"

text \<open>
  The empty list stands for the nil slice, which is what the SDK has when it appended nothing; it is
  encoded as \<open>null\<close>.
\<close>

definition list_codec :: "'v codec \<Rightarrow> 'v list codec" where
  "list_codec c = \<lparr>enc = (\<lambda>vs. if vs = [] then JNull else JArray (map (enc c) vs)),
     dec = (\<lambda>j vs. case j of
         JArray js \<Rightarrow> those (map (\<lambda>i. dec c i (zero_value c)) js)
       | JNull \<Rightarrow> Some []
       | _ \<Rightarrow> None),
     zero_value = [], is_empty = (\<lambda>vs. vs = [])\<rparr>"

subsection \<open>Structs\<close>

record 'm jfield =
  jname :: string
  jomit :: "'m \<Rightarrow> bool"
  jenc :: "'m \<Rightarrow> json"
  jdec :: "json \<Rightarrow> 'm \<Rightarrow> 'm option"
  jcopy :: "'m \<Rightarrow> 'm \<Rightarrow> 'm"
  jzero :: "'m \<Rightarrow> bool"

text \<open>
  A field with its tag: \<open>get\<close> and \<open>upd\<close> are those of the record. \<open>jcopy\<close> and \<open>jzero\<close> are for the
  laws below.
\<close>

definition tagged ::
  "string \<Rightarrow> bool \<Rightarrow> 'v codec \<Rightarrow> ('m \<Rightarrow> 'v) \<Rightarrow> (('v \<Rightarrow> 'v) \<Rightarrow> 'm \<Rightarrow> 'm) \<Rightarrow> 'm jfield" where
  "tagged name omitempty c get upd =
     \<lparr>jname = name,
      jomit = (\<lambda>m. omitempty \<and> is_empty c (get m)),
      jenc = (\<lambda>m. enc c (get m)),
      jdec = (\<lambda>j m. map_option (\<lambda>v. upd (\<lambda>_. v) m) (dec c j (get m))),
      jcopy = (\<lambda>m. upd (\<lambda>_. get m)),
      jzero = (\<lambda>m. get m = zero_value c)\<rparr>"

definition req :: "string \<Rightarrow> 'v codec \<Rightarrow> ('m \<Rightarrow> 'v) \<Rightarrow> (('v \<Rightarrow> 'v) \<Rightarrow> 'm \<Rightarrow> 'm) \<Rightarrow> 'm jfield" where
  "req name = tagged name False"

definition opt :: "string \<Rightarrow> 'v codec \<Rightarrow> ('m \<Rightarrow> 'v) \<Rightarrow> (('v \<Rightarrow> 'v) \<Rightarrow> 'm \<Rightarrow> 'm) \<Rightarrow> 'm jfield" where
  "opt name = tagged name True"

lemmas tag_defs = req_def opt_def tagged_def

definition enc_members :: "'m jfield list \<Rightarrow> 'm \<Rightarrow> (string \<times> json) list" where
  "enc_members fds m = map (\<lambda>f. (jname f, jenc f m)) (filter (\<lambda>f. \<not> jomit f m) fds)"

text \<open>
  Simple case folding of names, for names of letters and underscores: besides the ASCII letters, the
  long s (\<open>C5 BF\<close>) folds to S and the Kelvin sign (\<open>E2 84 AA\<close>) to K.
\<close>

definition upper :: "char \<Rightarrow> char" where
  "upper c = (let n = of_char c :: nat in if 97 \<le> n \<and> n \<le> 122 then char_of (n - 32) else c)"

function json_fold :: "string \<Rightarrow> string" where
  "json_fold [] = []"
| "json_fold (c # cs) =
    (if take 2 (c # cs) = [CHR 0xC5, CHR 0xBF] then CHR ''S'' # json_fold (drop 1 cs)
     else if take 3 (c # cs) = [CHR 0xE2, CHR 0x84, CHR 0xAA] then CHR ''K'' # json_fold (drop 2 cs)
     else upper c # json_fold cs)"
  by pat_completeness auto

termination by (relation "measure length") auto

definition find_field :: "'m jfield list \<Rightarrow> string \<Rightarrow> 'm jfield option" where
  "find_field fds k =
    (case find (\<lambda>f. jname f = k) fds of
       Some f \<Rightarrow> Some f
     | None \<Rightarrow> find (\<lambda>f. json_fold (jname f) = json_fold k) fds)"

fun dec_members :: "'m jfield list \<Rightarrow> (string \<times> json) list \<Rightarrow> 'm \<Rightarrow> 'm option" where
  "dec_members fds [] m = Some m"
| "dec_members fds ((k, j) # ms) m =
    (case find_field fds k of
       None \<Rightarrow> dec_members fds ms m
     | Some f \<Rightarrow> (case jdec f j m of None \<Rightarrow> None | Some m' \<Rightarrow> dec_members fds ms m'))"

definition struct_codec :: "'m jfield list \<Rightarrow> 'm \<Rightarrow> 'm codec" where
  "struct_codec fds zero = \<lparr>enc = (\<lambda>m. JObject (enc_members fds m)),
     dec = (\<lambda>j m. case j of JObject ms \<Rightarrow> dec_members fds ms m | JNull \<Rightarrow> Some m | _ \<Rightarrow> None),
     zero_value = zero, is_empty = (\<lambda>m. False)\<rparr>"

subsection \<open>The binary methods of the models\<close>

text \<open>The functions of \<open>swag\<close> on the text of JSON; a value that does not fit its type is \<open>TypeError\<close>.\<close>

record 't json_text =
  WriteJSON :: "json \<Rightarrow> go_error + 't"
  ReadJSON :: "'t \<Rightarrow> go_error + json"
  TypeError :: go_error

text \<open>\<open>MarshalBinary\<close> of a nil receiver gives neither bytes nor an error.\<close>

definition marshal :: "'t json_text \<Rightarrow> 'm codec \<Rightarrow> 'm option \<Rightarrow> go_error + 't option" where
  "marshal lib c m = (case m of None \<Rightarrow> Inr None
     | Some v \<Rightarrow> (case WriteJSON lib (enc c v) of Inl err \<Rightarrow> Inl err | Inr b \<Rightarrow> Inr (Some b)))"

text \<open>\<open>UnmarshalBinary\<close> decodes into a zero value and assigns it to the receiver on success only.\<close>

definition unmarshal :: "'t json_text \<Rightarrow> 'm codec \<Rightarrow> 't \<Rightarrow> 'm \<Rightarrow> go_error option \<times> 'm" where
  "unmarshal lib c b m =
    (case ReadJSON lib b of
       Inl err \<Rightarrow> (Some err, m)
     | Inr j \<Rightarrow> (case dec c j (zero_value c) of None \<Rightarrow> (Some (TypeError lib), m) | Some res \<Rightarrow> (None, res)))"

text \<open>What the library promises: reading a text that it wrote gives the value back.\<close>

definition reads_back :: "'t json_text \<Rightarrow> bool" where
  "reads_back lib \<longleftrightarrow> (\<forall>j b. WriteJSON lib j = Inr b \<longrightarrow> ReadJSON lib b = Inr j)"

subsection \<open>Laws of codecs\<close>

locale codec_laws =
  fixes c :: "'v codec"
  assumes decode_encode: "dec c (enc c v) (zero_value c) = Some v"
    and empty_zero: "is_empty c v \<Longrightarrow> v = zero_value c"
begin

lemma encode_inj: "enc c v = enc c w \<Longrightarrow> v = w"
  using decode_encode by (metis option.inject)

lemma unmarshal_marshal:
  assumes "reads_back lib" and "marshal lib c (Some v) = Inr (Some b)"
  shows "unmarshal lib c b m = (None, v)"
  using assms by (auto simp: marshal_def unmarshal_def reads_back_def decode_encode split: sum.splits)

end

locale value_codec = codec_laws +
  assumes never_null: "enc c v \<noteq> JNull"

text \<open>A pointer to a value that is never \<open>null\<close>, and a slice of any values, can be told from nil.\<close>

sublocale value_codec \<subseteq> ptr: codec_laws "ptr_codec c"
  by unfold_locales (auto simp: ptr_codec_def never_null decode_encode split: option.split)

lemma those_map_Some: "(\<And>x. x \<in> set xs \<Longrightarrow> f x = Some (g x)) \<Longrightarrow> those (map f xs) = Some (map g xs)"
  by (induction xs) simp_all

lemma list_codec_laws: "codec_laws c \<Longrightarrow> codec_laws (list_codec c)"
  by unfold_locales (auto simp: list_codec_def codec_laws.decode_encode those_map_Some [where g = "\<lambda>x. x"] comp_def)

interpretation bool: value_codec bool_codec
  by unfold_locales (simp_all add: bool_codec_def)

interpretation string: value_codec string_codec
  by unfold_locales (simp_all add: string_codec_def)

text \<open>Printing and parsing of signed numbers.\<close>

lemma atoi_itoa_neg:
  assumes "0 < n" and "n \<le> 2 ^ 63"
  shows "atoi (itoa (- int n)) = Some (- int n)"
proof -
  have "nat_dec n \<noteq> []" "list_all is_digit (nat_dec n)"
    by (auto simp: nat_dec_nonempty list_all_iff nat_dec_digits)
  moreover have "int n \<le> 2 ^ 63" using assms(2) by (metis of_nat_le_iff of_nat_numeral of_nat_power)
  ultimately show ?thesis
    using assms(1) by (simp add: atoi_def itoa_def Let_def)
qed

lemma atoi_itoa:
  assumes "- (2 ^ 63) \<le> i" and "i < 2 ^ 63"
  shows "atoi (itoa i) = Some i"
proof (cases "0 \<le> i")
  case True
  then show ?thesis using assms(2) atoi_nat_dec [of "nat i"] by (simp add: itoa_def nat_less_iff)
next
  case False
  then show ?thesis using assms(1) atoi_itoa_neg [of "nat (- i)"] by (simp add: nat_le_iff)
qed

interpretation int64: value_codec int64_codec
proof unfold_locales
  show "dec int64_codec (enc int64_codec v) (zero_value int64_codec) = Some v" for v
    using atoi_itoa [of "sint v"] sint_ge [of v] sint_lt [of v] by (simp add: int64_codec_def)
qed (simp_all add: int64_codec_def)

subsection \<open>Laws of structs\<close>

text \<open>Decoding what was encoded copies the field, and a field is left out only if it is zero.\<close>

definition field_ok :: "'m jfield \<Rightarrow> bool" where
  "field_ok f \<longleftrightarrow>
     (\<forall>m m0. jzero f m0 \<longrightarrow> jdec f (jenc f m) m0 = Some (jcopy f m m0) \<and> (jomit f m \<longrightarrow> jcopy f m m0 = m0))"

locale json_struct =
  fixes fds :: "'m jfield list" and zero :: 'm
  assumes names: "distinct (map jname fds)"
    and fields_ok: "\<forall>f\<in>set fds. field_ok f"
    and blank: "\<forall>f\<in>set fds. jzero f zero"
    and independent: "\<forall>f\<in>set fds. \<forall>g\<in>set fds. jname f \<noteq> jname g \<longrightarrow>
      (\<forall>m m0. jzero g (jcopy f m m0) = jzero g m0)"
    and complete: "\<forall>m. fold (\<lambda>f. jcopy f m) fds zero = m"
begin

lemma find_own: "f \<in> set fds \<Longrightarrow> find_field fds (jname f) = Some f"
proof -
  assume f: "f \<in> set fds"
  have "find (\<lambda>g. jname g = jname f) fds = Some f"
    using names f by (induction fds) (auto simp: image_iff)
  then show ?thesis by (simp add: find_field_def)
qed

lemma decode_fields:
  assumes "set fs \<subseteq> set fds" and "distinct (map jname fs)" and "\<forall>f\<in>set fs. jzero f m0"
  shows "dec_members fds (enc_members fs m) m0 = Some (fold (\<lambda>f. jcopy f m) fs m0)"
  using assms
proof (induction fs arbitrary: m0)
  case Nil
  then show ?case by (simp add: enc_members_def)
next
  case (Cons f fs)
  then have f: "f \<in> set fds" "jzero f m0" by auto
  have rest: "\<forall>g\<in>set fs. jzero g (jcopy f m m0)"
  proof
    fix g assume g: "g \<in> set fs"
    with Cons.prems have "jname f \<noteq> jname g" "g \<in> set fds" by force+
    then show "jzero g (jcopy f m m0)" using independent f(1) g Cons.prems(3) by simp
  qed
  have "dec_members fds (enc_members (f # fs) m) m0 = dec_members fds (enc_members fs m) (jcopy f m m0)"
    using f fields_ok by (auto simp: enc_members_def find_own field_ok_def)
  with Cons rest show ?case by simp
qed

lemma struct_roundtrip: "dec_members fds (enc_members fds m) zero = Some m"
  using decode_fields [of fds zero m] names blank complete by simp

end

sublocale json_struct \<subseteq> struct: value_codec "struct_codec fds zero"
  by unfold_locales (simp_all add: struct_codec_def struct_roundtrip)

text \<open>Fields made with \<open>tagged\<close> obey the laws if their codecs do.\<close>

named_theorems codec_facts \<open>the laws of the codecs in use\<close>

declare bool.codec_laws_axioms [codec_facts] bool.ptr.codec_laws_axioms [codec_facts]
  string.codec_laws_axioms [codec_facts] string.ptr.codec_laws_axioms [codec_facts]
  int64.codec_laws_axioms [codec_facts] int64.ptr.codec_laws_axioms [codec_facts]
  list_codec_laws [codec_facts]

lemma field_ok_tagged:
  assumes "codec_laws c" and "\<forall>m. upd (\<lambda>_. get m) m = m"
  shows "field_ok (tagged n om c get upd)"
proof -
  have "upd (\<lambda>_. get m) m0 = m0" if "is_empty c (get m)" "get m0 = zero_value c" for m m0
    using that codec_laws.empty_zero [OF assms(1)] assms(2) by metis
  then show ?thesis
    by (auto simp: field_ok_def tagged_def codec_laws.decode_encode [OF assms(1)])
qed

lemma zero_codecs:
  "zero_value bool_codec = False" "zero_value string_codec = []" "zero_value int64_codec = 0"
  "zero_value (ptr_codec c) = None" "zero_value (list_codec d) = []"
  by (simp_all add: bool_codec_def string_codec_def int64_codec_def ptr_codec_def list_codec_def)

lemma tagged_simps:
  "jname (tagged n om c get upd) = n"
  "jzero (tagged n om c get upd) m = (get m = zero_value c)"
  "jcopy (tagged n om c get upd) m = upd (\<lambda>_. get m)"
  by (simp_all add: tagged_def)

lemma map_of_enc_members:
  "f \<in> set fds \<Longrightarrow> distinct (map jname fds) \<Longrightarrow>
     map_of (enc_members fds m) (jname f) = (if jomit f m then None else Some (jenc f m))"
  by (induction fds) (auto simp: enc_members_def map_of_eq_None_iff image_iff)

end
