(* ===== verification/ModelJson.thy ===== *)
theory ModelJson
  imports Json Responses
begin

text \<open>
  The JSON form of the API models (\<open>client/models\<close>): the fields of each struct with their names and
  \<open>omitempty\<close> options, the \<open>MarshalBinary\<close> and \<open>UnmarshalBinary\<close> methods, and for each struct the
  laws of \<open>json_struct\<close>. A nested struct uses the codec of its own type.
\<close>

lemmas struct_laws = req_def opt_def field_ok_tagged tagged_simps zero_codecs

definition zero_TokenBucket :: TokenBucket where
  "zero_TokenBucket = \<lparr>OneTimeBurst = None, RefillTime = None, Size = None\<rparr>"

definition TokenBucket_fields :: "TokenBucket jfield list" where
  "TokenBucket_fields =
    [opt ''one_time_burst'' (ptr_codec int64_codec) OneTimeBurst OneTimeBurst_update,
     req ''refill_time'' (ptr_codec int64_codec) RefillTime RefillTime_update,
     req ''size'' (ptr_codec int64_codec) Size Size_update]"

definition TokenBucket_json :: "TokenBucket codec" where
  "TokenBucket_json = struct_codec TokenBucket_fields zero_TokenBucket"

definition TokenBucket_MarshalBinary :: "'t json_text \<Rightarrow> TokenBucket option \<Rightarrow> go_error + 't option" where
  "TokenBucket_MarshalBinary lib = marshal lib TokenBucket_json"

definition TokenBucket_UnmarshalBinary :: "'t json_text \<Rightarrow> 't \<Rightarrow> TokenBucket \<Rightarrow> go_error option \<times> TokenBucket" where
  "TokenBucket_UnmarshalBinary lib = unmarshal lib TokenBucket_json"

interpretation TokenBucket_json: json_struct TokenBucket_fields zero_TokenBucket
  by unfold_locales (simp_all add: TokenBucket_fields_def zero_TokenBucket_def struct_laws codec_facts)

lemmas TokenBucket_laws [codec_facts] =
  TokenBucket_json.struct.codec_laws_axioms [folded TokenBucket_json_def]
  TokenBucket_json.struct.ptr.codec_laws_axioms [folded TokenBucket_json_def]

definition zero_RateLimiter :: RateLimiter where
  "zero_RateLimiter = \<lparr>Bandwidth = None, Ops = None\<rparr>"

definition RateLimiter_fields :: "RateLimiter jfield list" where
  "RateLimiter_fields =
    [opt ''bandwidth'' (ptr_codec TokenBucket_json) Bandwidth Bandwidth_update,
     opt ''ops'' (ptr_codec TokenBucket_json) Ops Ops_update]"

definition RateLimiter_json :: "RateLimiter codec" where
  "RateLimiter_json = struct_codec RateLimiter_fields zero_RateLimiter"

definition RateLimiter_MarshalBinary :: "'t json_text \<Rightarrow> RateLimiter option \<Rightarrow> go_error + 't option" where
  "RateLimiter_MarshalBinary lib = marshal lib RateLimiter_json"

definition RateLimiter_UnmarshalBinary :: "'t json_text \<Rightarrow> 't \<Rightarrow> RateLimiter \<Rightarrow> go_error option \<times> RateLimiter" where
  "RateLimiter_UnmarshalBinary lib = unmarshal lib RateLimiter_json"

interpretation RateLimiter_json: json_struct RateLimiter_fields zero_RateLimiter
  by unfold_locales (simp_all add: RateLimiter_fields_def zero_RateLimiter_def struct_laws codec_facts)

lemmas RateLimiter_laws [codec_facts] =
  RateLimiter_json.struct.codec_laws_axioms [folded RateLimiter_json_def]
  RateLimiter_json.struct.ptr.codec_laws_axioms [folded RateLimiter_json_def]

definition zero_Drive :: Drive where
  "zero_Drive = \<lparr>CacheType = None, DriveID = None, IoEngine = None, IsReadOnly = None, IsRootDevice = None, Partuuid = '''', PathOnHost = None, drv_RateLimiter = None\<rparr>"

definition Drive_fields :: "Drive jfield list" where
  "Drive_fields =
    [opt ''cache_type'' (ptr_codec string_codec) CacheType CacheType_update,
     req ''drive_id'' (ptr_codec string_codec) DriveID DriveID_update,
     opt ''io_engine'' (ptr_codec string_codec) IoEngine IoEngine_update,
     req ''is_read_only'' (ptr_codec bool_codec) IsReadOnly IsReadOnly_update,
     req ''is_root_device'' (ptr_codec bool_codec) IsRootDevice IsRootDevice_update,
     opt ''partuuid'' string_codec Partuuid Partuuid_update,
     req ''path_on_host'' (ptr_codec string_codec) PathOnHost PathOnHost_update,
     opt ''rate_limiter'' (ptr_codec RateLimiter_json) drv_RateLimiter drv_RateLimiter_update]"

definition Drive_json :: "Drive codec" where
  "Drive_json = struct_codec Drive_fields zero_Drive"

definition Drive_MarshalBinary :: "'t json_text \<Rightarrow> Drive option \<Rightarrow> go_error + 't option" where
  "Drive_MarshalBinary lib = marshal lib Drive_json"

definition Drive_UnmarshalBinary :: "'t json_text \<Rightarrow> 't \<Rightarrow> Drive \<Rightarrow> go_error option \<times> Drive" where
  "Drive_UnmarshalBinary lib = unmarshal lib Drive_json"

interpretation Drive_json: json_struct Drive_fields zero_Drive
  by unfold_locales (simp_all add: Drive_fields_def zero_Drive_def struct_laws codec_facts)

lemmas Drive_laws [codec_facts] =
  Drive_json.struct.codec_laws_axioms [folded Drive_json_def]
  Drive_json.struct.ptr.codec_laws_axioms [folded Drive_json_def]

definition zero_PartialDrive :: PartialDrive where
  "zero_PartialDrive = \<lparr>pd_DriveID = None, pd_PathOnHost = '''', pd_RateLimiter = None\<rparr>"

definition PartialDrive_fields :: "PartialDrive jfield list" where
  "PartialDrive_fields =
    [req ''drive_id'' (ptr_codec string_codec) pd_DriveID pd_DriveID_update,
     opt ''path_on_host'' string_codec pd_PathOnHost pd_PathOnHost_update,
     opt ''rate_limiter'' (ptr_codec RateLimiter_json) pd_RateLimiter pd_RateLimiter_update]"

definition PartialDrive_json :: "PartialDrive codec" where
  "PartialDrive_json = struct_codec PartialDrive_fields zero_PartialDrive"

definition PartialDrive_MarshalBinary :: "'t json_text \<Rightarrow> PartialDrive option \<Rightarrow> go_error + 't option" where
  "PartialDrive_MarshalBinary lib = marshal lib PartialDrive_json"

definition PartialDrive_UnmarshalBinary :: "'t json_text \<Rightarrow> 't \<Rightarrow> PartialDrive \<Rightarrow> go_error option \<times> PartialDrive" where
  "PartialDrive_UnmarshalBinary lib = unmarshal lib PartialDrive_json"

interpretation PartialDrive_json: json_struct PartialDrive_fields zero_PartialDrive
  by unfold_locales (simp_all add: PartialDrive_fields_def zero_PartialDrive_def struct_laws codec_facts)

lemmas PartialDrive_laws [codec_facts] =
  PartialDrive_json.struct.codec_laws_axioms [folded PartialDrive_json_def]
  PartialDrive_json.struct.ptr.codec_laws_axioms [folded PartialDrive_json_def]

definition zero_ApiNetworkInterface :: ApiNetworkInterface where
  "zero_ApiNetworkInterface = \<lparr>GuestMac = '''', ani_HostDevName = None, ani_IfaceID = None, RxRateLimiter = None, TxRateLimiter = None\<rparr>"

definition ApiNetworkInterface_fields :: "ApiNetworkInterface jfield list" where
  "ApiNetworkInterface_fields =
    [opt ''guest_mac'' string_codec GuestMac GuestMac_update,
     req ''host_dev_name'' (ptr_codec string_codec) ani_HostDevName ani_HostDevName_update,
     req ''iface_id'' (ptr_codec string_codec) ani_IfaceID ani_IfaceID_update,
     opt ''rx_rate_limiter'' (ptr_codec RateLimiter_json) RxRateLimiter RxRateLimiter_update,
     opt ''tx_rate_limiter'' (ptr_codec RateLimiter_json) TxRateLimiter TxRateLimiter_update]"

definition ApiNetworkInterface_json :: "ApiNetworkInterface codec" where
  "ApiNetworkInterface_json = struct_codec ApiNetworkInterface_fields zero_ApiNetworkInterface"

definition ApiNetworkInterface_MarshalBinary :: "'t json_text \<Rightarrow> ApiNetworkInterface option \<Rightarrow> go_error + 't option" where
  "ApiNetworkInterface_MarshalBinary lib = marshal lib ApiNetworkInterface_json"

definition ApiNetworkInterface_UnmarshalBinary :: "'t json_text \<Rightarrow> 't \<Rightarrow> ApiNetworkInterface \<Rightarrow> go_error option \<times> ApiNetworkInterface" where
  "ApiNetworkInterface_UnmarshalBinary lib = unmarshal lib ApiNetworkInterface_json"

interpretation ApiNetworkInterface_json: json_struct ApiNetworkInterface_fields zero_ApiNetworkInterface
  by unfold_locales (simp_all add: ApiNetworkInterface_fields_def zero_ApiNetworkInterface_def struct_laws codec_facts)

lemmas ApiNetworkInterface_laws [codec_facts] =
  ApiNetworkInterface_json.struct.codec_laws_axioms [folded ApiNetworkInterface_json_def]
  ApiNetworkInterface_json.struct.ptr.codec_laws_axioms [folded ApiNetworkInterface_json_def]

definition zero_PartialNetworkInterface :: PartialNetworkInterface where
  "zero_PartialNetworkInterface = \<lparr>pni_IfaceID = None, pni_RxRateLimiter = None, pni_TxRateLimiter = None\<rparr>"

definition PartialNetworkInterface_fields :: "PartialNetworkInterface jfield list" where
  "PartialNetworkInterface_fields =
    [req ''iface_id'' (ptr_codec string_codec) pni_IfaceID pni_IfaceID_update,
     opt ''rx_rate_limiter'' (ptr_codec RateLimiter_json) pni_RxRateLimiter pni_RxRateLimiter_update,
     opt ''tx_rate_limiter'' (ptr_codec RateLimiter_json) pni_TxRateLimiter pni_TxRateLimiter_update]"

definition PartialNetworkInterface_json :: "PartialNetworkInterface codec" where
  "PartialNetworkInterface_json = struct_codec PartialNetworkInterface_fields zero_PartialNetworkInterface"

definition PartialNetworkInterface_MarshalBinary :: "'t json_text \<Rightarrow> PartialNetworkInterface option \<Rightarrow> go_error + 't option" where
  "PartialNetworkInterface_MarshalBinary lib = marshal lib PartialNetworkInterface_json"

definition PartialNetworkInterface_UnmarshalBinary :: "'t json_text \<Rightarrow> 't \<Rightarrow> PartialNetworkInterface \<Rightarrow> go_error option \<times> PartialNetworkInterface" where
  "PartialNetworkInterface_UnmarshalBinary lib = unmarshal lib PartialNetworkInterface_json"

interpretation PartialNetworkInterface_json: json_struct PartialNetworkInterface_fields zero_PartialNetworkInterface
  by unfold_locales (simp_all add: PartialNetworkInterface_fields_def zero_PartialNetworkInterface_def struct_laws codec_facts)

lemmas PartialNetworkInterface_laws [codec_facts] =
  PartialNetworkInterface_json.struct.codec_laws_axioms [folded PartialNetworkInterface_json_def]
  PartialNetworkInterface_json.struct.ptr.codec_laws_axioms [folded PartialNetworkInterface_json_def]

definition MachineConfiguration_fields :: "MachineConfiguration jfield list" where
  "MachineConfiguration_fields =
    [opt ''cpu_template'' string_codec CPUTemplate CPUTemplate_update,
     req ''mem_size_mib'' (ptr_codec int64_codec) MemSizeMib MemSizeMib_update,
     opt ''smt'' (ptr_codec bool_codec) Smt Smt_update,
     opt ''track_dirty_pages'' (ptr_codec bool_codec) TrackDirtyPages TrackDirtyPages_update,
     req ''vcpu_count'' (ptr_codec int64_codec) VcpuCount VcpuCount_update]"

definition MachineConfiguration_json :: "MachineConfiguration codec" where
  "MachineConfiguration_json = struct_codec MachineConfiguration_fields zero_MachineConfiguration"

definition MachineConfiguration_MarshalBinary :: "'t json_text \<Rightarrow> MachineConfiguration option \<Rightarrow> go_error + 't option" where
  "MachineConfiguration_MarshalBinary lib = marshal lib MachineConfiguration_json"

definition MachineConfiguration_UnmarshalBinary :: "'t json_text \<Rightarrow> 't \<Rightarrow> MachineConfiguration \<Rightarrow> go_error option \<times> MachineConfiguration" where
  "MachineConfiguration_UnmarshalBinary lib = unmarshal lib MachineConfiguration_json"

interpretation MachineConfiguration_json: json_struct MachineConfiguration_fields zero_MachineConfiguration
  by unfold_locales (simp_all add: MachineConfiguration_fields_def zero_MachineConfiguration_def struct_laws codec_facts)

lemmas MachineConfiguration_laws [codec_facts] =
  MachineConfiguration_json.struct.codec_laws_axioms [folded MachineConfiguration_json_def]
  MachineConfiguration_json.struct.ptr.codec_laws_axioms [folded MachineConfiguration_json_def]

definition zero_BootSource :: BootSource where
  "zero_BootSource = \<lparr>BootArgs = '''', bs_InitrdPath = '''', bs_KernelImagePath = None\<rparr>"

definition BootSource_fields :: "BootSource jfield list" where
  "BootSource_fields =
    [opt ''boot_args'' string_codec BootArgs BootArgs_update,
     opt ''initrd_path'' string_codec bs_InitrdPath bs_InitrdPath_update,
     req ''kernel_image_path'' (ptr_codec string_codec) bs_KernelImagePath bs_KernelImagePath_update]"

definition BootSource_json :: "BootSource codec" where
  "BootSource_json = struct_codec BootSource_fields zero_BootSource"

definition BootSource_MarshalBinary :: "'t json_text \<Rightarrow> BootSource option \<Rightarrow> go_error + 't option" where
  "BootSource_MarshalBinary lib = marshal lib BootSource_json"

definition BootSource_UnmarshalBinary :: "'t json_text \<Rightarrow> 't \<Rightarrow> BootSource \<Rightarrow> go_error option \<times> BootSource" where
  "BootSource_UnmarshalBinary lib = unmarshal lib BootSource_json"

interpretation BootSource_json: json_struct BootSource_fields zero_BootSource
  by unfold_locales (simp_all add: BootSource_fields_def zero_BootSource_def struct_laws codec_facts)

lemmas BootSource_laws [codec_facts] =
  BootSource_json.struct.codec_laws_axioms [folded BootSource_json_def]
  BootSource_json.struct.ptr.codec_laws_axioms [folded BootSource_json_def]

definition zero_Logger :: Logger where
  "zero_Logger = \<lparr>Level = None, lg_LogPath = None, ShowLevel = None, ShowLogOrigin = None\<rparr>"

definition Logger_fields :: "Logger jfield list" where
  "Logger_fields =
    [opt ''level'' (ptr_codec string_codec) Level Level_update,
     req ''log_path'' (ptr_codec string_codec) lg_LogPath lg_LogPath_update,
     opt ''show_level'' (ptr_codec bool_codec) ShowLevel ShowLevel_update,
     opt ''show_log_origin'' (ptr_codec bool_codec) ShowLogOrigin ShowLogOrigin_update]"

definition Logger_json :: "Logger codec" where
  "Logger_json = struct_codec Logger_fields zero_Logger"

definition Logger_MarshalBinary :: "'t json_text \<Rightarrow> Logger option \<Rightarrow> go_error + 't option" where
  "Logger_MarshalBinary lib = marshal lib Logger_json"

definition Logger_UnmarshalBinary :: "'t json_text \<Rightarrow> 't \<Rightarrow> Logger \<Rightarrow> go_error option \<times> Logger" where
  "Logger_UnmarshalBinary lib = unmarshal lib Logger_json"

interpretation Logger_json: json_struct Logger_fields zero_Logger
  by unfold_locales (simp_all add: Logger_fields_def zero_Logger_def struct_laws codec_facts)

lemmas Logger_laws [codec_facts] =
  Logger_json.struct.codec_laws_axioms [folded Logger_json_def]
  Logger_json.struct.ptr.codec_laws_axioms [folded Logger_json_def]

definition zero_Metrics :: Metrics where
  "zero_Metrics = \<lparr>mt_MetricsPath = None\<rparr>"

definition Metrics_fields :: "Metrics jfield list" where
  "Metrics_fields =
    [req ''metrics_path'' (ptr_codec string_codec) mt_MetricsPath mt_MetricsPath_update]"

definition Metrics_json :: "Metrics codec" where
  "Metrics_json = struct_codec Metrics_fields zero_Metrics"

definition Metrics_MarshalBinary :: "'t json_text \<Rightarrow> Metrics option \<Rightarrow> go_error + 't option" where
  "Metrics_MarshalBinary lib = marshal lib Metrics_json"

definition Metrics_UnmarshalBinary :: "'t json_text \<Rightarrow> 't \<Rightarrow> Metrics \<Rightarrow> go_error option \<times> Metrics" where
  "Metrics_UnmarshalBinary lib = unmarshal lib Metrics_json"

interpretation Metrics_json: json_struct Metrics_fields zero_Metrics
  by unfold_locales (simp_all add: Metrics_fields_def zero_Metrics_def struct_laws codec_facts)

lemmas Metrics_laws [codec_facts] =
  Metrics_json.struct.codec_laws_axioms [folded Metrics_json_def]
  Metrics_json.struct.ptr.codec_laws_axioms [folded Metrics_json_def]

definition zero_MmdsConfig :: MmdsConfig where
  "zero_MmdsConfig = \<lparr>IPV4Address = None, mc_NetworkInterfaces = [], mc_Version = None\<rparr>"

definition MmdsConfig_fields :: "MmdsConfig jfield list" where
  "MmdsConfig_fields =
    [opt ''ipv4_address'' (ptr_codec string_codec) IPV4Address IPV4Address_update,
     req ''network_interfaces'' (list_codec string_codec) mc_NetworkInterfaces mc_NetworkInterfaces_update,
     opt ''version'' (ptr_codec string_codec) mc_Version mc_Version_update]"

definition MmdsConfig_json :: "MmdsConfig codec" where
  "MmdsConfig_json = struct_codec MmdsConfig_fields zero_MmdsConfig"

definition MmdsConfig_MarshalBinary :: "'t json_text \<Rightarrow> MmdsConfig option \<Rightarrow> go_error + 't option" where
  "MmdsConfig_MarshalBinary lib = marshal lib MmdsConfig_json"

definition MmdsConfig_UnmarshalBinary :: "'t json_text \<Rightarrow> 't \<Rightarrow> MmdsConfig \<Rightarrow> go_error option \<times> MmdsConfig" where
  "MmdsConfig_UnmarshalBinary lib = unmarshal lib MmdsConfig_json"

interpretation MmdsConfig_json: json_struct MmdsConfig_fields zero_MmdsConfig
  by unfold_locales (simp_all add: MmdsConfig_fields_def zero_MmdsConfig_def struct_laws codec_facts)

lemmas MmdsConfig_laws [codec_facts] =
  MmdsConfig_json.struct.codec_laws_axioms [folded MmdsConfig_json_def]
  MmdsConfig_json.struct.ptr.codec_laws_axioms [folded MmdsConfig_json_def]

definition zero_Vsock :: Vsock where
  "zero_Vsock = \<lparr>GuestCid = None, UdsPath = None, VsockID = ''''\<rparr>"

definition Vsock_fields :: "Vsock jfield list" where
  "Vsock_fields =
    [req ''guest_cid'' (ptr_codec int64_codec) GuestCid GuestCid_update,
     req ''uds_path'' (ptr_codec string_codec) UdsPath UdsPath_update,
     opt ''vsock_id'' string_codec VsockID VsockID_update]"

definition Vsock_json :: "Vsock codec" where
  "Vsock_json = struct_codec Vsock_fields zero_Vsock"

definition Vsock_MarshalBinary :: "'t json_text \<Rightarrow> Vsock option \<Rightarrow> go_error + 't option" where
  "Vsock_MarshalBinary lib = marshal lib Vsock_json"

definition Vsock_UnmarshalBinary :: "'t json_text \<Rightarrow> 't \<Rightarrow> Vsock \<Rightarrow> go_error option \<times> Vsock" where
  "Vsock_UnmarshalBinary lib = unmarshal lib Vsock_json"

interpretation Vsock_json: json_struct Vsock_fields zero_Vsock
  by unfold_locales (simp_all add: Vsock_fields_def zero_Vsock_def struct_laws codec_facts)

lemmas Vsock_laws [codec_facts] =
  Vsock_json.struct.codec_laws_axioms [folded Vsock_json_def]
  Vsock_json.struct.ptr.codec_laws_axioms [folded Vsock_json_def]

definition zero_VM :: VM where
  "zero_VM = \<lparr>vm_State = None\<rparr>"

definition VM_fields :: "VM jfield list" where
  "VM_fields =
    [req ''state'' (ptr_codec string_codec) vm_State vm_State_update]"

definition VM_json :: "VM codec" where
  "VM_json = struct_codec VM_fields zero_VM"

definition VM_MarshalBinary :: "'t json_text \<Rightarrow> VM option \<Rightarrow> go_error + 't option" where
  "VM_MarshalBinary lib = marshal lib VM_json"

definition VM_UnmarshalBinary :: "'t json_text \<Rightarrow> 't \<Rightarrow> VM \<Rightarrow> go_error option \<times> VM" where
  "VM_UnmarshalBinary lib = unmarshal lib VM_json"

interpretation VM_json: json_struct VM_fields zero_VM
  by unfold_locales (simp_all add: VM_fields_def zero_VM_def struct_laws codec_facts)

lemmas VM_laws [codec_facts] =
  VM_json.struct.codec_laws_axioms [folded VM_json_def]
  VM_json.struct.ptr.codec_laws_axioms [folded VM_json_def]

definition zero_InstanceActionInfo :: InstanceActionInfo where
  "zero_InstanceActionInfo = \<lparr>ActionType = None\<rparr>"

definition InstanceActionInfo_fields :: "InstanceActionInfo jfield list" where
  "InstanceActionInfo_fields =
    [req ''action_type'' (ptr_codec string_codec) ActionType ActionType_update]"

definition InstanceActionInfo_json :: "InstanceActionInfo codec" where
  "InstanceActionInfo_json = struct_codec InstanceActionInfo_fields zero_InstanceActionInfo"

definition InstanceActionInfo_MarshalBinary :: "'t json_text \<Rightarrow> InstanceActionInfo option \<Rightarrow> go_error + 't option" where
  "InstanceActionInfo_MarshalBinary lib = marshal lib InstanceActionInfo_json"

definition InstanceActionInfo_UnmarshalBinary :: "'t json_text \<Rightarrow> 't \<Rightarrow> InstanceActionInfo \<Rightarrow> go_error option \<times> InstanceActionInfo" where
  "InstanceActionInfo_UnmarshalBinary lib = unmarshal lib InstanceActionInfo_json"

interpretation InstanceActionInfo_json: json_struct InstanceActionInfo_fields zero_InstanceActionInfo
  by unfold_locales (simp_all add: InstanceActionInfo_fields_def zero_InstanceActionInfo_def struct_laws codec_facts)

lemmas InstanceActionInfo_laws [codec_facts] =
  InstanceActionInfo_json.struct.codec_laws_axioms [folded InstanceActionInfo_json_def]
  InstanceActionInfo_json.struct.ptr.codec_laws_axioms [folded InstanceActionInfo_json_def]

definition zero_MemoryBackend :: MemoryBackend where
  "zero_MemoryBackend = \<lparr>BackendPath = None, BackendType = None\<rparr>"

definition MemoryBackend_fields :: "MemoryBackend jfield list" where
  "MemoryBackend_fields =
    [req ''backend_path'' (ptr_codec string_codec) BackendPath BackendPath_update,
     req ''backend_type'' (ptr_codec string_codec) BackendType BackendType_update]"

definition MemoryBackend_json :: "MemoryBackend codec" where
  "MemoryBackend_json = struct_codec MemoryBackend_fields zero_MemoryBackend"

definition MemoryBackend_MarshalBinary :: "'t json_text \<Rightarrow> MemoryBackend option \<Rightarrow> go_error + 't option" where
  "MemoryBackend_MarshalBinary lib = marshal lib MemoryBackend_json"

definition MemoryBackend_UnmarshalBinary :: "'t json_text \<Rightarrow> 't \<Rightarrow> MemoryBackend \<Rightarrow> go_error option \<times> MemoryBackend" where
  "MemoryBackend_UnmarshalBinary lib = unmarshal lib MemoryBackend_json"

interpretation MemoryBackend_json: json_struct MemoryBackend_fields zero_MemoryBackend
  by unfold_locales (simp_all add: MemoryBackend_fields_def zero_MemoryBackend_def struct_laws codec_facts)

lemmas MemoryBackend_laws [codec_facts] =
  MemoryBackend_json.struct.codec_laws_axioms [folded MemoryBackend_json_def]
  MemoryBackend_json.struct.ptr.codec_laws_axioms [folded MemoryBackend_json_def]

definition zero_SnapshotCreateParams :: SnapshotCreateParams where
  "zero_SnapshotCreateParams = \<lparr>scp_MemFilePath = None, scp_SnapshotPath = None, SnapshotType = '''', scp_Version = ''''\<rparr>"

definition SnapshotCreateParams_fields :: "SnapshotCreateParams jfield list" where
  "SnapshotCreateParams_fields =
    [req ''mem_file_path'' (ptr_codec string_codec) scp_MemFilePath scp_MemFilePath_update,
     req ''snapshot_path'' (ptr_codec string_codec) scp_SnapshotPath scp_SnapshotPath_update,
     opt ''snapshot_type'' string_codec SnapshotType SnapshotType_update,
     opt ''version'' string_codec scp_Version scp_Version_update]"

definition SnapshotCreateParams_json :: "SnapshotCreateParams codec" where
  "SnapshotCreateParams_json = struct_codec SnapshotCreateParams_fields zero_SnapshotCreateParams"

definition SnapshotCreateParams_MarshalBinary :: "'t json_text \<Rightarrow> SnapshotCreateParams option \<Rightarrow> go_error + 't option" where
  "SnapshotCreateParams_MarshalBinary lib = marshal lib SnapshotCreateParams_json"

definition SnapshotCreateParams_UnmarshalBinary :: "'t json_text \<Rightarrow> 't \<Rightarrow> SnapshotCreateParams \<Rightarrow> go_error option \<times> SnapshotCreateParams" where
  "SnapshotCreateParams_UnmarshalBinary lib = unmarshal lib SnapshotCreateParams_json"

interpretation SnapshotCreateParams_json: json_struct SnapshotCreateParams_fields zero_SnapshotCreateParams
  by unfold_locales (simp_all add: SnapshotCreateParams_fields_def zero_SnapshotCreateParams_def struct_laws codec_facts)

lemmas SnapshotCreateParams_laws [codec_facts] =
  SnapshotCreateParams_json.struct.codec_laws_axioms [folded SnapshotCreateParams_json_def]
  SnapshotCreateParams_json.struct.ptr.codec_laws_axioms [folded SnapshotCreateParams_json_def]

definition zero_SnapshotLoadParams :: SnapshotLoadParams where
  "zero_SnapshotLoadParams = \<lparr>slp_EnableDiffSnapshots = False, slp_MemBackend = None, slp_MemFilePath = '''', slp_ResumeVM = False, slp_SnapshotPath = None\<rparr>"

definition SnapshotLoadParams_fields :: "SnapshotLoadParams jfield list" where
  "SnapshotLoadParams_fields =
    [opt ''enable_diff_snapshots'' bool_codec slp_EnableDiffSnapshots slp_EnableDiffSnapshots_update,
     opt ''mem_backend'' (ptr_codec MemoryBackend_json) slp_MemBackend slp_MemBackend_update,
     opt ''mem_file_path'' string_codec slp_MemFilePath slp_MemFilePath_update,
     opt ''resume_vm'' bool_codec slp_ResumeVM slp_ResumeVM_update,
     req ''snapshot_path'' (ptr_codec string_codec) slp_SnapshotPath slp_SnapshotPath_update]"

definition SnapshotLoadParams_json :: "SnapshotLoadParams codec" where
  "SnapshotLoadParams_json = struct_codec SnapshotLoadParams_fields zero_SnapshotLoadParams"

definition SnapshotLoadParams_MarshalBinary :: "'t json_text \<Rightarrow> SnapshotLoadParams option \<Rightarrow> go_error + 't option" where
  "SnapshotLoadParams_MarshalBinary lib = marshal lib SnapshotLoadParams_json"

definition SnapshotLoadParams_UnmarshalBinary :: "'t json_text \<Rightarrow> 't \<Rightarrow> SnapshotLoadParams \<Rightarrow> go_error option \<times> SnapshotLoadParams" where
  "SnapshotLoadParams_UnmarshalBinary lib = unmarshal lib SnapshotLoadParams_json"

interpretation SnapshotLoadParams_json: json_struct SnapshotLoadParams_fields zero_SnapshotLoadParams
  by unfold_locales (simp_all add: SnapshotLoadParams_fields_def zero_SnapshotLoadParams_def struct_laws codec_facts)

lemmas SnapshotLoadParams_laws [codec_facts] =
  SnapshotLoadParams_json.struct.codec_laws_axioms [folded SnapshotLoadParams_json_def]
  SnapshotLoadParams_json.struct.ptr.codec_laws_axioms [folded SnapshotLoadParams_json_def]

definition Balloon_fields :: "Balloon jfield list" where
  "Balloon_fields =
    [req ''amount_mib'' (ptr_codec int64_codec) AmountMib AmountMib_update,
     req ''deflate_on_oom'' (ptr_codec bool_codec) DeflateOnOom DeflateOnOom_update,
     opt ''stats_polling_interval_s'' int64_codec StatsPollingIntervals StatsPollingIntervals_update]"

definition Balloon_json :: "Balloon codec" where
  "Balloon_json = struct_codec Balloon_fields zero_Balloon"

definition Balloon_MarshalBinary :: "'t json_text \<Rightarrow> Balloon option \<Rightarrow> go_error + 't option" where
  "Balloon_MarshalBinary lib = marshal lib Balloon_json"

definition Balloon_UnmarshalBinary :: "'t json_text \<Rightarrow> 't \<Rightarrow> Balloon \<Rightarrow> go_error option \<times> Balloon" where
  "Balloon_UnmarshalBinary lib = unmarshal lib Balloon_json"

interpretation Balloon_json: json_struct Balloon_fields zero_Balloon
  by unfold_locales (simp_all add: Balloon_fields_def zero_Balloon_def struct_laws codec_facts)

lemmas Balloon_laws [codec_facts] =
  Balloon_json.struct.codec_laws_axioms [folded Balloon_json_def]
  Balloon_json.struct.ptr.codec_laws_axioms [folded Balloon_json_def]

definition zero_BalloonUpdate :: BalloonUpdate where
  "zero_BalloonUpdate = \<lparr>bu_AmountMib = None\<rparr>"

definition BalloonUpdate_fields :: "BalloonUpdate jfield list" where
  "BalloonUpdate_fields =
    [req ''amount_mib'' (ptr_codec int64_codec) bu_AmountMib bu_AmountMib_update]"

definition BalloonUpdate_json :: "BalloonUpdate codec" where
  "BalloonUpdate_json = struct_codec BalloonUpdate_fields zero_BalloonUpdate"

definition BalloonUpdate_MarshalBinary :: "'t json_text \<Rightarrow> BalloonUpdate option \<Rightarrow> go_error + 't option" where
  "BalloonUpdate_MarshalBinary lib = marshal lib BalloonUpdate_json"

definition BalloonUpdate_UnmarshalBinary :: "'t json_text \<Rightarrow> 't \<Rightarrow> BalloonUpdate \<Rightarrow> go_error option \<times> BalloonUpdate" where
  "BalloonUpdate_UnmarshalBinary lib = unmarshal lib BalloonUpdate_json"

interpretation BalloonUpdate_json: json_struct BalloonUpdate_fields zero_BalloonUpdate
  by unfold_locales (simp_all add: BalloonUpdate_fields_def zero_BalloonUpdate_def struct_laws codec_facts)

lemmas BalloonUpdate_laws [codec_facts] =
  BalloonUpdate_json.struct.codec_laws_axioms [folded BalloonUpdate_json_def]
  BalloonUpdate_json.struct.ptr.codec_laws_axioms [folded BalloonUpdate_json_def]

definition zero_BalloonStatsUpdate :: BalloonStatsUpdate where
  "zero_BalloonStatsUpdate = \<lparr>bsu_StatsPollingIntervals = None\<rparr>"

definition BalloonStatsUpdate_fields :: "BalloonStatsUpdate jfield list" where
  "BalloonStatsUpdate_fields =
    [req ''stats_polling_interval_s'' (ptr_codec int64_codec) bsu_StatsPollingIntervals bsu_StatsPollingIntervals_update]"

definition BalloonStatsUpdate_json :: "BalloonStatsUpdate codec" where
  "BalloonStatsUpdate_json = struct_codec BalloonStatsUpdate_fields zero_BalloonStatsUpdate"

definition BalloonStatsUpdate_MarshalBinary :: "'t json_text \<Rightarrow> BalloonStatsUpdate option \<Rightarrow> go_error + 't option" where
  "BalloonStatsUpdate_MarshalBinary lib = marshal lib BalloonStatsUpdate_json"

definition BalloonStatsUpdate_UnmarshalBinary :: "'t json_text \<Rightarrow> 't \<Rightarrow> BalloonStatsUpdate \<Rightarrow> go_error option \<times> BalloonStatsUpdate" where
  "BalloonStatsUpdate_UnmarshalBinary lib = unmarshal lib BalloonStatsUpdate_json"

interpretation BalloonStatsUpdate_json: json_struct BalloonStatsUpdate_fields zero_BalloonStatsUpdate
  by unfold_locales (simp_all add: BalloonStatsUpdate_fields_def zero_BalloonStatsUpdate_def struct_laws codec_facts)

lemmas BalloonStatsUpdate_laws [codec_facts] =
  BalloonStatsUpdate_json.struct.codec_laws_axioms [folded BalloonStatsUpdate_json_def]
  BalloonStatsUpdate_json.struct.ptr.codec_laws_axioms [folded BalloonStatsUpdate_json_def]

definition BalloonStats_fields :: "BalloonStats jfield list" where
  "BalloonStats_fields =
    [req ''actual_mib'' (ptr_codec int64_codec) ActualMib ActualMib_update,
     req ''actual_pages'' (ptr_codec int64_codec) ActualPages ActualPages_update,
     opt ''available_memory'' int64_codec AvailableMemory AvailableMemory_update,
     opt ''disk_caches'' int64_codec DiskCaches DiskCaches_update,
     opt ''free_memory'' int64_codec FreeMemory FreeMemory_update,
     opt ''hugetlb_allocations'' int64_codec HugetlbAllocations HugetlbAllocations_update,
     opt ''hugetlb_failures'' int64_codec HugetlbFailures HugetlbFailures_update,
     opt ''major_faults'' int64_codec MajorFaults MajorFaults_update,
     opt ''minor_faults'' int64_codec MinorFaults MinorFaults_update,
     opt ''swap_in'' int64_codec SwapIn SwapIn_update,
     opt ''swap_out'' int64_codec SwapOut SwapOut_update,
     req ''target_mib'' (ptr_codec int64_codec) TargetMib TargetMib_update,
     req ''target_pages'' (ptr_codec int64_codec) TargetPages TargetPages_update,
     opt ''total_memory'' int64_codec TotalMemory TotalMemory_update]"

definition BalloonStats_json :: "BalloonStats codec" where
  "BalloonStats_json = struct_codec BalloonStats_fields zero_BalloonStats"

definition BalloonStats_MarshalBinary :: "'t json_text \<Rightarrow> BalloonStats option \<Rightarrow> go_error + 't option" where
  "BalloonStats_MarshalBinary lib = marshal lib BalloonStats_json"

definition BalloonStats_UnmarshalBinary :: "'t json_text \<Rightarrow> 't \<Rightarrow> BalloonStats \<Rightarrow> go_error option \<times> BalloonStats" where
  "BalloonStats_UnmarshalBinary lib = unmarshal lib BalloonStats_json"

interpretation BalloonStats_json: json_struct BalloonStats_fields zero_BalloonStats
  by unfold_locales (simp_all add: BalloonStats_fields_def zero_BalloonStats_def struct_laws codec_facts)

lemmas BalloonStats_laws [codec_facts] =
  BalloonStats_json.struct.codec_laws_axioms [folded BalloonStats_json_def]
  BalloonStats_json.struct.ptr.codec_laws_axioms [folded BalloonStats_json_def]

definition InstanceInfo_fields :: "InstanceInfo jfield list" where
  "InstanceInfo_fields =
    [req ''app_name'' (ptr_codec string_codec) AppName AppName_update,
     req ''id'' (ptr_codec string_codec) ii_ID ii_ID_update,
     req ''state'' (ptr_codec string_codec) ii_State ii_State_update,
     req ''vmm_version'' (ptr_codec string_codec) VmmVersion VmmVersion_update]"

definition InstanceInfo_json :: "InstanceInfo codec" where
  "InstanceInfo_json = struct_codec InstanceInfo_fields zero_InstanceInfo"

definition InstanceInfo_MarshalBinary :: "'t json_text \<Rightarrow> InstanceInfo option \<Rightarrow> go_error + 't option" where
  "InstanceInfo_MarshalBinary lib = marshal lib InstanceInfo_json"

definition InstanceInfo_UnmarshalBinary :: "'t json_text \<Rightarrow> 't \<Rightarrow> InstanceInfo \<Rightarrow> go_error option \<times> InstanceInfo" where
  "InstanceInfo_UnmarshalBinary lib = unmarshal lib InstanceInfo_json"

interpretation InstanceInfo_json: json_struct InstanceInfo_fields zero_InstanceInfo
  by unfold_locales (simp_all add: InstanceInfo_fields_def zero_InstanceInfo_def struct_laws codec_facts)

lemmas InstanceInfo_laws [codec_facts] =
  InstanceInfo_json.struct.codec_laws_axioms [folded InstanceInfo_json_def]
  InstanceInfo_json.struct.ptr.codec_laws_axioms [folded InstanceInfo_json_def]

definition FirecrackerVersion_fields :: "FirecrackerVersion jfield list" where
  "FirecrackerVersion_fields =
    [req ''firecracker_version'' (ptr_codec string_codec) fv_FirecrackerVersion fv_FirecrackerVersion_update]"

definition FirecrackerVersion_json :: "FirecrackerVersion codec" where
  "FirecrackerVersion_json = struct_codec FirecrackerVersion_fields zero_FirecrackerVersion"

definition FirecrackerVersion_MarshalBinary :: "'t json_text \<Rightarrow> FirecrackerVersion option \<Rightarrow> go_error + 't option" where
  "FirecrackerVersion_MarshalBinary lib = marshal lib FirecrackerVersion_json"

definition FirecrackerVersion_UnmarshalBinary :: "'t json_text \<Rightarrow> 't \<Rightarrow> FirecrackerVersion \<Rightarrow> go_error option \<times> FirecrackerVersion" where
  "FirecrackerVersion_UnmarshalBinary lib = unmarshal lib FirecrackerVersion_json"

interpretation FirecrackerVersion_json: json_struct FirecrackerVersion_fields zero_FirecrackerVersion
  by unfold_locales (simp_all add: FirecrackerVersion_fields_def zero_FirecrackerVersion_def struct_laws codec_facts)

lemmas FirecrackerVersion_laws [codec_facts] =
  FirecrackerVersion_json.struct.codec_laws_axioms [folded FirecrackerVersion_json_def]
  FirecrackerVersion_json.struct.ptr.codec_laws_axioms [folded FirecrackerVersion_json_def]

definition ApiError_fields :: "ApiError jfield list" where
  "ApiError_fields =
    [opt ''fault_message'' string_codec FaultMessage FaultMessage_update]"

definition ApiError_json :: "ApiError codec" where
  "ApiError_json = struct_codec ApiError_fields zero_ApiError"

definition ApiError_MarshalBinary :: "'t json_text \<Rightarrow> ApiError option \<Rightarrow> go_error + 't option" where
  "ApiError_MarshalBinary lib = marshal lib ApiError_json"

definition ApiError_UnmarshalBinary :: "'t json_text \<Rightarrow> 't \<Rightarrow> ApiError \<Rightarrow> go_error option \<times> ApiError" where
  "ApiError_UnmarshalBinary lib = unmarshal lib ApiError_json"

interpretation ApiError_json: json_struct ApiError_fields zero_ApiError
  by unfold_locales (simp_all add: ApiError_fields_def zero_ApiError_def struct_laws codec_facts)

lemmas ApiError_laws [codec_facts] =
  ApiError_json.struct.codec_laws_axioms [folded ApiError_json_def]
  ApiError_json.struct.ptr.codec_laws_axioms [folded ApiError_json_def]

definition zero_EntropyDevice :: EntropyDevice where
  "zero_EntropyDevice = \<lparr>ed_RateLimiter = None\<rparr>"

definition EntropyDevice_fields :: "EntropyDevice jfield list" where
  "EntropyDevice_fields =
    [opt ''rate_limiter'' (ptr_codec RateLimiter_json) ed_RateLimiter ed_RateLimiter_update]"

definition EntropyDevice_json :: "EntropyDevice codec" where
  "EntropyDevice_json = struct_codec EntropyDevice_fields zero_EntropyDevice"

definition EntropyDevice_MarshalBinary :: "'t json_text \<Rightarrow> EntropyDevice option \<Rightarrow> go_error + 't option" where
  "EntropyDevice_MarshalBinary lib = marshal lib EntropyDevice_json"

definition EntropyDevice_UnmarshalBinary :: "'t json_text \<Rightarrow> 't \<Rightarrow> EntropyDevice \<Rightarrow> go_error option \<times> EntropyDevice" where
  "EntropyDevice_UnmarshalBinary lib = unmarshal lib EntropyDevice_json"

interpretation EntropyDevice_json: json_struct EntropyDevice_fields zero_EntropyDevice
  by unfold_locales (simp_all add: EntropyDevice_fields_def zero_EntropyDevice_def struct_laws codec_facts)

lemmas EntropyDevice_laws [codec_facts] =
  EntropyDevice_json.struct.codec_laws_axioms [folded EntropyDevice_json_def]
  EntropyDevice_json.struct.ptr.codec_laws_axioms [folded EntropyDevice_json_def]

definition FullVMConfiguration_fields :: "FullVMConfiguration jfield list" where
  "FullVMConfiguration_fields =
    [opt ''balloon'' (ptr_codec Balloon_json) fvc_Balloon fvc_Balloon_update,
     opt ''boot-source'' (ptr_codec BootSource_json) fvc_BootSource fvc_BootSource_update,
     req ''drives'' (list_codec (ptr_codec Drive_json)) fvc_Drives fvc_Drives_update,
     opt ''logger'' (ptr_codec Logger_json) fvc_Logger fvc_Logger_update,
     opt ''machine-config'' (ptr_codec MachineConfiguration_json) fvc_MachineConfig fvc_MachineConfig_update,
     opt ''metrics'' (ptr_codec Metrics_json) fvc_Metrics fvc_Metrics_update,
     opt ''mmds-config'' (ptr_codec MmdsConfig_json) fvc_MmdsConfig fvc_MmdsConfig_update,
     req ''network-interfaces'' (list_codec (ptr_codec ApiNetworkInterface_json)) fvc_NetworkInterfaces fvc_NetworkInterfaces_update,
     opt ''vsock'' (ptr_codec Vsock_json) fvc_Vsock fvc_Vsock_update]"

definition FullVMConfiguration_json :: "FullVMConfiguration codec" where
  "FullVMConfiguration_json = struct_codec FullVMConfiguration_fields zero_FullVMConfiguration"

definition FullVMConfiguration_MarshalBinary :: "'t json_text \<Rightarrow> FullVMConfiguration option \<Rightarrow> go_error + 't option" where
  "FullVMConfiguration_MarshalBinary lib = marshal lib FullVMConfiguration_json"

definition FullVMConfiguration_UnmarshalBinary :: "'t json_text \<Rightarrow> 't \<Rightarrow> FullVMConfiguration \<Rightarrow> go_error option \<times> FullVMConfiguration" where
  "FullVMConfiguration_UnmarshalBinary lib = unmarshal lib FullVMConfiguration_json"

interpretation FullVMConfiguration_json: json_struct FullVMConfiguration_fields zero_FullVMConfiguration
  by unfold_locales (simp_all add: FullVMConfiguration_fields_def zero_FullVMConfiguration_def struct_laws codec_facts)

lemmas FullVMConfiguration_laws [codec_facts] =
  FullVMConfiguration_json.struct.codec_laws_axioms [folded FullVMConfiguration_json_def]
  FullVMConfiguration_json.struct.ptr.codec_laws_axioms [folded FullVMConfiguration_json_def]

lemmas binary_defs =
  TokenBucket_MarshalBinary_def TokenBucket_UnmarshalBinary_def
  RateLimiter_MarshalBinary_def RateLimiter_UnmarshalBinary_def
  Drive_MarshalBinary_def Drive_UnmarshalBinary_def
  PartialDrive_MarshalBinary_def PartialDrive_UnmarshalBinary_def
  ApiNetworkInterface_MarshalBinary_def ApiNetworkInterface_UnmarshalBinary_def
  PartialNetworkInterface_MarshalBinary_def PartialNetworkInterface_UnmarshalBinary_def
  MachineConfiguration_MarshalBinary_def MachineConfiguration_UnmarshalBinary_def
  BootSource_MarshalBinary_def BootSource_UnmarshalBinary_def
  Logger_MarshalBinary_def Logger_UnmarshalBinary_def
  Metrics_MarshalBinary_def Metrics_UnmarshalBinary_def
  MmdsConfig_MarshalBinary_def MmdsConfig_UnmarshalBinary_def
  Vsock_MarshalBinary_def Vsock_UnmarshalBinary_def
  VM_MarshalBinary_def VM_UnmarshalBinary_def
  InstanceActionInfo_MarshalBinary_def InstanceActionInfo_UnmarshalBinary_def
  MemoryBackend_MarshalBinary_def MemoryBackend_UnmarshalBinary_def
  SnapshotCreateParams_MarshalBinary_def SnapshotCreateParams_UnmarshalBinary_def
  SnapshotLoadParams_MarshalBinary_def SnapshotLoadParams_UnmarshalBinary_def
  Balloon_MarshalBinary_def Balloon_UnmarshalBinary_def
  BalloonUpdate_MarshalBinary_def BalloonUpdate_UnmarshalBinary_def
  BalloonStatsUpdate_MarshalBinary_def BalloonStatsUpdate_UnmarshalBinary_def
  BalloonStats_MarshalBinary_def BalloonStats_UnmarshalBinary_def
  InstanceInfo_MarshalBinary_def InstanceInfo_UnmarshalBinary_def
  FirecrackerVersion_MarshalBinary_def FirecrackerVersion_UnmarshalBinary_def
  ApiError_MarshalBinary_def ApiError_UnmarshalBinary_def
  EntropyDevice_MarshalBinary_def EntropyDevice_UnmarshalBinary_def
  FullVMConfiguration_MarshalBinary_def FullVMConfiguration_UnmarshalBinary_def

subsection \<open>Round trips\<close>

text \<open>A library for the examples, whose texts are the JSON values themselves.\<close>

definition tree_text :: "json json_text" where
  "tree_text = \<lparr>WriteJSON = Inr, ReadJSON = Inr, TypeError = LibError 0\<rparr>"

lemma tree_text_reads_back: "reads_back tree_text"
  by (simp add: reads_back_def tree_text_def)

lemma unmarshal_error: "unmarshal lib c b m = (Some err, m') \<Longrightarrow> m' = m"
  by (auto simp: unmarshal_def split: sum.splits option.splits)




end
