(* ===== verification/Schema.thy ===== *)
theory Schema
  imports ModelJson RequestTypes
begin

text \<open>
  The description of the API (\<open>client/swagger.yaml\<close>), of which the models were generated: a schema for
  each type, with the required properties, the enumerations and the bounds, and what it means for a
  JSON value to conform to it. The theorems compare the generated code with it: the \<open>Validate\<close> methods
  accept exactly the values whose JSON conforms, and whatever conforms can be decoded.
\<close>

datatype schema =
    SBool
  | SString "string list"
  | SInt "int option" "int option"
  | SArray schema
  | SObject "(string \<times> bool \<times> schema) list"

text \<open>
  Enumerations and bounds that are not there are the empty list and \<open>None\<close>. Integers are those of
  64 bits. An object has each property at most once, all that are required, and no others.
\<close>

definition property :: "(string \<times> bool \<times> schema) list \<Rightarrow> string \<Rightarrow> schema option" where
  "property ps k = map_option snd (map_of ps k)"

fun conforms :: "schema \<Rightarrow> json \<Rightarrow> bool" where
  "conforms SBool (JBool b) = True"
| "conforms (SString es) (JString s) = (es = [] \<or> s \<in> set es)"
| "conforms (SInt lo hi) (JNumber s) =
    (case atoi s of None \<Rightarrow> False | Some i \<Rightarrow> pred_option (\<lambda>l. l \<le> i) lo \<and> pred_option (\<lambda>h. i \<le> h) hi)"
| "conforms (SArray sc) (JArray js) = list_all (conforms sc) js"
| "conforms (SObject ps) (JObject ms) =
    (distinct (map fst ms)
     \<and> list_all (\<lambda>(k, j). case property ps k of None \<Rightarrow> False | Some sc \<Rightarrow> conforms sc j) ms
     \<and> list_all (\<lambda>(k, required, sc). required \<longrightarrow> k \<in> fst ` set ms) ps)"
| "conforms sc j = False"

lemma conforms_null [simp]: "\<not> conforms sc JNull"
  by (cases sc) simp_all

subsection \<open>The definitions of the description\<close>

definition int_schema :: schema where "int_schema = SInt None None"
definition str_schema :: schema where "str_schema = SString []"

definition TokenBucket_schema :: schema where
  "TokenBucket_schema = SObject
    [(''one_time_burst'', False, SInt (Some 0) None),
     (''refill_time'', True, SInt (Some 0) None),
     (''size'', True, SInt (Some 0) None)]"

definition RateLimiter_schema :: schema where
  "RateLimiter_schema = SObject
    [(''bandwidth'', False, TokenBucket_schema), (''ops'', False, TokenBucket_schema)]"

definition Drive_schema :: schema where
  "Drive_schema = SObject
    [(''drive_id'', True, str_schema),
     (''cache_type'', False, SString [''Unsafe'', ''Writeback'']),
     (''is_read_only'', True, SBool),
     (''is_root_device'', True, SBool),
     (''partuuid'', False, str_schema),
     (''path_on_host'', True, str_schema),
     (''rate_limiter'', False, RateLimiter_schema),
     (''io_engine'', False, SString [''Sync'', ''Async''])]"

definition PartialDrive_schema :: schema where
  "PartialDrive_schema = SObject
    [(''drive_id'', True, str_schema), (''path_on_host'', False, str_schema),
     (''rate_limiter'', False, RateLimiter_schema)]"

definition NetworkInterface_schema :: schema where
  "NetworkInterface_schema = SObject
    [(''guest_mac'', False, str_schema), (''host_dev_name'', True, str_schema), (''iface_id'', True, str_schema),
     (''rx_rate_limiter'', False, RateLimiter_schema), (''tx_rate_limiter'', False, RateLimiter_schema)]"

definition PartialNetworkInterface_schema :: schema where
  "PartialNetworkInterface_schema = SObject
    [(''iface_id'', True, str_schema), (''rx_rate_limiter'', False, RateLimiter_schema),
     (''tx_rate_limiter'', False, RateLimiter_schema)]"

definition CpuTemplate_schema :: schema where
  "CpuTemplate_schema = SString [''C3'', ''T2'', ''T2S'', ''T2CL'', ''T2A'', ''V1N1'', ''None'']"

definition MachineConfiguration_schema :: schema where
  "MachineConfiguration_schema = SObject
    [(''cpu_template'', False, CpuTemplate_schema), (''smt'', False, SBool), (''mem_size_mib'', True, int_schema),
     (''track_dirty_pages'', False, SBool), (''vcpu_count'', True, SInt (Some 1) (Some 32))]"

definition BootSource_schema :: schema where
  "BootSource_schema = SObject
    [(''boot_args'', False, str_schema), (''initrd_path'', False, str_schema), (''kernel_image_path'', True, str_schema)]"

definition Logger_schema :: schema where
  "Logger_schema = SObject
    [(''level'', False, SString [''Error'', ''Warning'', ''Info'', ''Debug'']), (''log_path'', True, str_schema),
     (''show_level'', False, SBool), (''show_log_origin'', False, SBool)]"

definition Metrics_schema :: schema where
  "Metrics_schema = SObject [(''metrics_path'', True, str_schema)]"

definition MmdsConfig_schema :: schema where
  "MmdsConfig_schema = SObject
    [(''version'', False, SString [''V1'', ''V2'']), (''network_interfaces'', True, SArray str_schema),
     (''ipv4_address'', False, str_schema)]"

definition Vsock_schema :: schema where
  "Vsock_schema = SObject
    [(''guest_cid'', True, SInt (Some 3) None), (''uds_path'', True, str_schema), (''vsock_id'', False, str_schema)]"

definition Vm_schema :: schema where
  "Vm_schema = SObject [(''state'', True, SString [''Paused'', ''Resumed''])]"

definition InstanceActionInfo_schema :: schema where
  "InstanceActionInfo_schema = SObject
    [(''action_type'', True, SString [''FlushMetrics'', ''InstanceStart'', ''SendCtrlAltDel''])]"

definition MemoryBackend_schema :: schema where
  "MemoryBackend_schema = SObject
    [(''backend_type'', True, SString [''File'', ''Uffd'']), (''backend_path'', True, str_schema)]"

definition SnapshotCreateParams_schema :: schema where
  "SnapshotCreateParams_schema = SObject
    [(''mem_file_path'', True, str_schema), (''snapshot_path'', True, str_schema),
     (''snapshot_type'', False, SString [''Full'', ''Diff'']), (''version'', False, str_schema)]"

definition SnapshotLoadParams_schema :: schema where
  "SnapshotLoadParams_schema = SObject
    [(''enable_diff_snapshots'', False, SBool), (''mem_file_path'', False, str_schema),
     (''mem_backend'', False, MemoryBackend_schema), (''snapshot_path'', True, str_schema),
     (''resume_vm'', False, SBool)]"

definition Balloon_schema :: schema where
  "Balloon_schema = SObject
    [(''amount_mib'', True, int_schema), (''deflate_on_oom'', True, SBool),
     (''stats_polling_interval_s'', False, int_schema)]"

definition BalloonUpdate_schema :: schema where
  "BalloonUpdate_schema = SObject [(''amount_mib'', True, int_schema)]"

definition BalloonStatsUpdate_schema :: schema where
  "BalloonStatsUpdate_schema = SObject [(''stats_polling_interval_s'', True, int_schema)]"

definition EntropyDevice_schema :: schema where
  "EntropyDevice_schema = SObject [(''rate_limiter'', False, RateLimiter_schema)]"

definition BalloonStats_schema :: schema where
  "BalloonStats_schema = SObject
    ([(''target_pages'', True, int_schema), (''actual_pages'', True, int_schema),
      (''target_mib'', True, int_schema), (''actual_mib'', True, int_schema)]
     @ map (\<lambda>k. (k, False, int_schema))
        [''swap_in'', ''swap_out'', ''major_faults'', ''minor_faults'', ''free_memory'', ''total_memory'',
         ''available_memory'', ''disk_caches'', ''hugetlb_allocations'', ''hugetlb_failures''])"

definition InstanceInfo_schema :: schema where
  "InstanceInfo_schema = SObject
    [(''app_name'', True, str_schema), (''id'', True, str_schema),
     (''state'', True, SString [''Not started'', ''Running'', ''Paused'']), (''vmm_version'', True, str_schema)]"

definition FirecrackerVersion_schema :: schema where
  "FirecrackerVersion_schema = SObject [(''firecracker_version'', True, str_schema)]"

definition Error_schema :: schema where
  "Error_schema = SObject [(''fault_message'', False, str_schema)]"

definition FullVmConfiguration_schema :: schema where
  "FullVmConfiguration_schema = SObject
    [(''balloon'', False, Balloon_schema), (''drives'', False, SArray Drive_schema),
     (''boot-source'', False, BootSource_schema), (''logger'', False, Logger_schema),
     (''machine-config'', False, MachineConfiguration_schema), (''metrics'', False, Metrics_schema),
     (''mmds-config'', False, MmdsConfig_schema), (''network-interfaces'', False, SArray NetworkInterface_schema),
     (''vsock'', False, Vsock_schema)]"

subsection \<open>Encoded values\<close>

lemma conforms_enc [simp]:
  "conforms SBool (enc bool_codec b)"
  "conforms (SString es) (enc string_codec s) \<longleftrightarrow> es = [] \<or> s \<in> set es"
  "conforms (SInt lo hi) (enc int64_codec v) \<longleftrightarrow>
     pred_option (\<lambda>l. l \<le> sint v) lo \<and> pred_option (\<lambda>h. sint v \<le> h) hi"
  "conforms sc (enc (ptr_codec c) p) \<longleftrightarrow> has p (\<lambda>v. conforms sc (enc c v))"
  "conforms (SArray sc) (enc (list_codec c) vs) \<longleftrightarrow> vs \<noteq> [] \<and> list_all (\<lambda>v. conforms sc (enc c v)) vs"
proof -
  have "atoi (itoa (sint v)) = Some (sint v)"
    using atoi_itoa [of "sint v"] sint_ge [of v] sint_lt [of v] by simp
  then show "conforms (SInt lo hi) (enc int64_codec v) \<longleftrightarrow>
     pred_option (\<lambda>l. l \<le> sint v) lo \<and> pred_option (\<lambda>h. sint v \<le> h) hi"
    by (simp add: int64_codec_def)
qed (auto simp: bool_codec_def string_codec_def ptr_codec_def list_codec_def has_def list_all_iff split: option.split)

lemma empty_simps [simp]:
  "is_empty bool_codec b \<longleftrightarrow> \<not> b"
  "is_empty string_codec s \<longleftrightarrow> s = []"
  "is_empty int64_codec v \<longleftrightarrow> v = 0"
  "is_empty (ptr_codec c) p \<longleftrightarrow> p = None"
  "is_empty (list_codec d) vs \<longleftrightarrow> vs = []"
  by (simp_all add: bool_codec_def string_codec_def int64_codec_def ptr_codec_def list_codec_def)

lemma conforms_struct:
  assumes "distinct (map jname fds)"
  shows "conforms (SObject ps) (enc (struct_codec fds zero) m) \<longleftrightarrow>
     list_all (\<lambda>f. jomit f m \<or> (case property ps (jname f) of None \<Rightarrow> False | Some sc \<Rightarrow> conforms sc (jenc f m))) fds
   \<and> list_all (\<lambda>(k, required, sc). required \<longrightarrow> list_ex (\<lambda>f. jname f = k \<and> \<not> jomit f m) fds) ps"
proof -
  have "distinct (map fst (enc_members fds m))"
    using assms by (induction fds) (auto simp: enc_members_def)
  then show ?thesis
    by (auto simp: struct_codec_def enc_members_def list_all_iff list_ex_iff image_iff split: option.splits)
qed

lemma tagged_members [simp]:
  "jname (tagged n om c get upd) = n"
  "jomit (tagged n om c get upd) m \<longleftrightarrow> om \<and> is_empty c (get m)"
  "jenc (tagged n om c get upd) m = enc c (get m)"
  by (simp_all add: tagged_def)

named_theorems schema_facts \<open>which values of a type have conforming JSON\<close>

lemma TokenBucket_conforms [schema_facts]:
  "conforms TokenBucket_schema (enc TokenBucket_json m) \<longleftrightarrow> TokenBucket_valid m"
  unfolding TokenBucket_schema_def TokenBucket_json_def conforms_struct [OF TokenBucket_json.names]
  by (auto simp: TokenBucket_fields_def req_def opt_def property_def TokenBucket_valid_def has_def
      split: option.splits)

lemma RateLimiter_conforms [schema_facts]:
  "conforms RateLimiter_schema (enc RateLimiter_json m) \<longleftrightarrow> RateLimiter_valid m"
  unfolding RateLimiter_schema_def RateLimiter_json_def conforms_struct [OF RateLimiter_json.names]
  by (auto simp: RateLimiter_fields_def req_def opt_def property_def RateLimiter_valid_def has_def schema_facts
      split: option.splits)

lemma Drive_conforms [schema_facts]:
  "conforms Drive_schema (enc Drive_json m) \<longleftrightarrow> Drive_valid m"
  unfolding Drive_schema_def Drive_json_def conforms_struct [OF Drive_json.names]
  by (auto simp: Drive_fields_def req_def opt_def property_def Drive_valid_def has_def schema_facts
      str_schema_def enum_defs split: option.splits)

lemma PartialDrive_conforms [schema_facts]:
  "conforms PartialDrive_schema (enc PartialDrive_json m) \<longleftrightarrow> PartialDrive_valid m"
  unfolding PartialDrive_schema_def PartialDrive_json_def conforms_struct [OF PartialDrive_json.names]
  by (auto simp: PartialDrive_fields_def req_def opt_def property_def PartialDrive_valid_def has_def schema_facts
      str_schema_def int_schema_def enum_defs split: option.splits)

lemma NetworkInterface_conforms [schema_facts]:
  "conforms NetworkInterface_schema (enc ApiNetworkInterface_json m) \<longleftrightarrow> NetworkInterface_valid m"
  unfolding NetworkInterface_schema_def ApiNetworkInterface_json_def conforms_struct [OF ApiNetworkInterface_json.names]
  by (auto simp: ApiNetworkInterface_fields_def req_def opt_def property_def NetworkInterface_valid_def has_def schema_facts
      str_schema_def int_schema_def enum_defs split: option.splits)

lemma PartialNetworkInterface_conforms [schema_facts]:
  "conforms PartialNetworkInterface_schema (enc PartialNetworkInterface_json m) \<longleftrightarrow> PartialNetworkInterface_valid m"
  unfolding PartialNetworkInterface_schema_def PartialNetworkInterface_json_def conforms_struct [OF PartialNetworkInterface_json.names]
  by (auto simp: PartialNetworkInterface_fields_def req_def opt_def property_def PartialNetworkInterface_valid_def has_def schema_facts
      str_schema_def int_schema_def enum_defs split: option.splits)

lemma MachineConfiguration_conforms [schema_facts]:
  "conforms MachineConfiguration_schema (enc MachineConfiguration_json m) \<longleftrightarrow> MachineConfiguration_valid m"
  unfolding MachineConfiguration_schema_def MachineConfiguration_json_def conforms_struct [OF MachineConfiguration_json.names]
  by (auto simp: MachineConfiguration_fields_def req_def opt_def property_def MachineConfiguration_valid_def has_def schema_facts
      str_schema_def int_schema_def CpuTemplate_schema_def enum_defs split: option.splits)

lemma BootSource_conforms [schema_facts]:
  "conforms BootSource_schema (enc BootSource_json m) \<longleftrightarrow> BootSource_valid m"
  unfolding BootSource_schema_def BootSource_json_def conforms_struct [OF BootSource_json.names]
  by (auto simp: BootSource_fields_def req_def opt_def property_def BootSource_valid_def has_def schema_facts
      str_schema_def int_schema_def enum_defs split: option.splits)

lemma Logger_conforms [schema_facts]:
  "conforms Logger_schema (enc Logger_json m) \<longleftrightarrow> Logger_valid m"
  unfolding Logger_schema_def Logger_json_def conforms_struct [OF Logger_json.names]
  by (auto simp: Logger_fields_def req_def opt_def property_def Logger_valid_def has_def schema_facts
      str_schema_def int_schema_def enum_defs split: option.splits)

lemma Metrics_conforms [schema_facts]:
  "conforms Metrics_schema (enc Metrics_json m) \<longleftrightarrow> Metrics_valid m"
  unfolding Metrics_schema_def Metrics_json_def conforms_struct [OF Metrics_json.names]
  by (auto simp: Metrics_fields_def req_def opt_def property_def Metrics_valid_def has_def schema_facts
      str_schema_def int_schema_def enum_defs split: option.splits)

lemma MmdsConfig_conforms [schema_facts]:
  "conforms MmdsConfig_schema (enc MmdsConfig_json m) \<longleftrightarrow> MmdsConfig_valid m"
  unfolding MmdsConfig_schema_def MmdsConfig_json_def conforms_struct [OF MmdsConfig_json.names]
  by (auto simp: MmdsConfig_fields_def req_def opt_def property_def MmdsConfig_valid_def has_def schema_facts
      str_schema_def int_schema_def list_all_iff enum_defs split: option.splits)

lemma Vsock_conforms [schema_facts]:
  "conforms Vsock_schema (enc Vsock_json m) \<longleftrightarrow> Vsock_valid m"
  unfolding Vsock_schema_def Vsock_json_def conforms_struct [OF Vsock_json.names]
  by (auto simp: Vsock_fields_def req_def opt_def property_def Vsock_valid_def has_def schema_facts
      str_schema_def int_schema_def enum_defs split: option.splits)

lemma Vm_conforms [schema_facts]:
  "conforms Vm_schema (enc VM_json m) \<longleftrightarrow> VM_valid m"
  unfolding Vm_schema_def VM_json_def conforms_struct [OF VM_json.names]
  by (auto simp: VM_fields_def req_def opt_def property_def VM_valid_def has_def schema_facts
      str_schema_def int_schema_def enum_defs split: option.splits)

lemma InstanceActionInfo_conforms [schema_facts]:
  "conforms InstanceActionInfo_schema (enc InstanceActionInfo_json m) \<longleftrightarrow> InstanceActionInfo_valid m"
  unfolding InstanceActionInfo_schema_def InstanceActionInfo_json_def conforms_struct [OF InstanceActionInfo_json.names]
  by (auto simp: InstanceActionInfo_fields_def req_def opt_def property_def InstanceActionInfo_valid_def has_def schema_facts
      str_schema_def int_schema_def enum_defs split: option.splits)

lemma MemoryBackend_conforms [schema_facts]:
  "conforms MemoryBackend_schema (enc MemoryBackend_json m) \<longleftrightarrow> MemoryBackend_valid m"
  unfolding MemoryBackend_schema_def MemoryBackend_json_def conforms_struct [OF MemoryBackend_json.names]
  by (auto simp: MemoryBackend_fields_def req_def opt_def property_def MemoryBackend_valid_def has_def schema_facts
      str_schema_def int_schema_def enum_defs split: option.splits)

lemma SnapshotCreateParams_conforms [schema_facts]:
  "conforms SnapshotCreateParams_schema (enc SnapshotCreateParams_json m) \<longleftrightarrow> SnapshotCreateParams_valid m"
  unfolding SnapshotCreateParams_schema_def SnapshotCreateParams_json_def conforms_struct [OF SnapshotCreateParams_json.names]
  by (auto simp: SnapshotCreateParams_fields_def req_def opt_def property_def SnapshotCreateParams_valid_def has_def schema_facts
      str_schema_def int_schema_def enum_defs split: option.splits)

lemma SnapshotLoadParams_conforms [schema_facts]:
  "conforms SnapshotLoadParams_schema (enc SnapshotLoadParams_json m) \<longleftrightarrow> SnapshotLoadParams_valid m"
  unfolding SnapshotLoadParams_schema_def SnapshotLoadParams_json_def conforms_struct [OF SnapshotLoadParams_json.names]
  by (auto simp: SnapshotLoadParams_fields_def req_def opt_def property_def SnapshotLoadParams_valid_def has_def schema_facts
      str_schema_def int_schema_def enum_defs split: option.splits)

lemma Balloon_conforms [schema_facts]:
  "conforms Balloon_schema (enc Balloon_json m) \<longleftrightarrow> Balloon_valid m"
  unfolding Balloon_schema_def Balloon_json_def conforms_struct [OF Balloon_json.names]
  by (auto simp: Balloon_fields_def req_def opt_def property_def Balloon_valid_def has_def schema_facts
      str_schema_def int_schema_def enum_defs split: option.splits)

lemma BalloonUpdate_conforms [schema_facts]:
  "conforms BalloonUpdate_schema (enc BalloonUpdate_json m) \<longleftrightarrow> BalloonUpdate_valid m"
  unfolding BalloonUpdate_schema_def BalloonUpdate_json_def conforms_struct [OF BalloonUpdate_json.names]
  by (auto simp: BalloonUpdate_fields_def req_def opt_def property_def BalloonUpdate_valid_def has_def schema_facts
      str_schema_def int_schema_def enum_defs split: option.splits)

lemma BalloonStatsUpdate_conforms [schema_facts]:
  "conforms BalloonStatsUpdate_schema (enc BalloonStatsUpdate_json m) \<longleftrightarrow> BalloonStatsUpdate_valid m"
  unfolding BalloonStatsUpdate_schema_def BalloonStatsUpdate_json_def conforms_struct [OF BalloonStatsUpdate_json.names]
  by (auto simp: BalloonStatsUpdate_fields_def req_def opt_def property_def BalloonStatsUpdate_valid_def has_def schema_facts
      str_schema_def int_schema_def enum_defs split: option.splits)

lemma EntropyDevice_conforms [schema_facts]:
  "conforms EntropyDevice_schema (enc EntropyDevice_json m) \<longleftrightarrow> EntropyDevice_valid m"
  unfolding EntropyDevice_schema_def EntropyDevice_json_def conforms_struct [OF EntropyDevice_json.names]
  by (auto simp: EntropyDevice_fields_def req_def opt_def property_def EntropyDevice_valid_def has_def schema_facts
      str_schema_def int_schema_def enum_defs split: option.splits)

lemma BalloonStats_conforms [schema_facts]:
  "conforms BalloonStats_schema (enc BalloonStats_json m) \<longleftrightarrow> BalloonStats_valid m"
  unfolding BalloonStats_schema_def BalloonStats_json_def conforms_struct [OF BalloonStats_json.names]
  by (auto simp: BalloonStats_fields_def req_def opt_def property_def BalloonStats_valid_def has_def schema_facts
      str_schema_def int_schema_def enum_defs split: option.splits)

lemma InstanceInfo_conforms [schema_facts]:
  "conforms InstanceInfo_schema (enc InstanceInfo_json m) \<longleftrightarrow> InstanceInfo_valid m"
  unfolding InstanceInfo_schema_def InstanceInfo_json_def conforms_struct [OF InstanceInfo_json.names]
  by (auto simp: InstanceInfo_fields_def req_def opt_def property_def InstanceInfo_valid_def has_def schema_facts
      str_schema_def int_schema_def enum_defs split: option.splits)

lemma FirecrackerVersion_conforms [schema_facts]:
  "conforms FirecrackerVersion_schema (enc FirecrackerVersion_json m) \<longleftrightarrow> FirecrackerVersion_valid m"
  unfolding FirecrackerVersion_schema_def FirecrackerVersion_json_def conforms_struct [OF FirecrackerVersion_json.names]
  by (auto simp: FirecrackerVersion_fields_def req_def opt_def property_def FirecrackerVersion_valid_def has_def schema_facts
      str_schema_def int_schema_def enum_defs split: option.splits)

text \<open>
  A whole configuration needs drives and interfaces, none of them nil, to conform: without \<open>omitempty\<close>
  the slice of a machine with no network is sent as \<open>null\<close>, which is no array.
\<close>

lemma optional_has:
  "p = None \<or> has p P \<longleftrightarrow> pred_option P p"
  "list_all (\<lambda>p. has p P) ps \<longleftrightarrow> None \<notin> set ps \<and> list_all (pred_option P) ps"
  by (cases p; simp add: has_def) (induction ps; auto simp: has_def split: option.splits)

lemma FullVmConfiguration_conforms [schema_facts]:
  "conforms FullVmConfiguration_schema (enc FullVMConfiguration_json m) \<longleftrightarrow>
     FullVMConfiguration_valid m \<and> fvc_Drives m \<noteq> [] \<and> fvc_NetworkInterfaces m \<noteq> []
   \<and> None \<notin> set (fvc_Drives m) \<and> None \<notin> set (fvc_NetworkInterfaces m)"
  unfolding FullVmConfiguration_schema_def FullVMConfiguration_json_def conforms_struct [OF FullVMConfiguration_json.names]
  by (simp add: FullVMConfiguration_fields_def req_def opt_def property_def FullVMConfiguration_valid_def
      schema_facts optional_has, blast)

subsection \<open>Requests\<close>

text \<open>
  The JSON of a request body. The data for the metadata service is the user's own, and is not looked
  into; a CPU configuration is a string.
\<close>

definition body_json :: "api_body \<Rightarrow> json option" where
  "body_json b =
    (case b of
       BLogger x \<Rightarrow> Some (enc Logger_json x)
     | BMetrics x \<Rightarrow> Some (enc Metrics_json x)
     | BMachineConfiguration x \<Rightarrow> Some (enc MachineConfiguration_json x)
     | BBootSource x \<Rightarrow> Some (enc BootSource_json x)
     | BNetworkInterface x \<Rightarrow> Some (enc ApiNetworkInterface_json x)
     | BPartialNetworkInterface x \<Rightarrow> Some (enc PartialNetworkInterface_json x)
     | BDrive x \<Rightarrow> Some (enc Drive_json x)
     | BPartialDrive x \<Rightarrow> Some (enc PartialDrive_json x)
     | BVsock x \<Rightarrow> Some (enc Vsock_json x)
     | BVM x \<Rightarrow> Some (enc VM_json x)
     | BSnapshotCreate x \<Rightarrow> Some (enc SnapshotCreateParams_json x)
     | BSnapshotLoad x \<Rightarrow> Some (enc SnapshotLoadParams_json x)
     | BAction x \<Rightarrow> Some (enc InstanceActionInfo_json x)
     | BJson j \<Rightarrow> None
     | BMmdsConfig x \<Rightarrow> Some (enc MmdsConfig_json x)
     | BBalloon x \<Rightarrow> Some (enc Balloon_json x)
     | BBalloonUpdate x \<Rightarrow> Some (enc BalloonUpdate_json x)
     | BBalloonStatsUpdate x \<Rightarrow> Some (enc BalloonStatsUpdate_json x)
     | BCPUConfig x \<Rightarrow> Some (enc string_codec x)
     | BEntropyDevice x \<Rightarrow> Some (enc EntropyDevice_json x))"

definition body_schema :: "api_body \<Rightarrow> schema" where
  "body_schema b =
    (case b of
       BLogger x \<Rightarrow> Logger_schema
     | BMetrics x \<Rightarrow> Metrics_schema
     | BMachineConfiguration x \<Rightarrow> MachineConfiguration_schema
     | BBootSource x \<Rightarrow> BootSource_schema
     | BNetworkInterface x \<Rightarrow> NetworkInterface_schema
     | BPartialNetworkInterface x \<Rightarrow> PartialNetworkInterface_schema
     | BDrive x \<Rightarrow> Drive_schema
     | BPartialDrive x \<Rightarrow> PartialDrive_schema
     | BVsock x \<Rightarrow> Vsock_schema
     | BVM x \<Rightarrow> Vm_schema
     | BSnapshotCreate x \<Rightarrow> SnapshotCreateParams_schema
     | BSnapshotLoad x \<Rightarrow> SnapshotLoadParams_schema
     | BAction x \<Rightarrow> InstanceActionInfo_schema
     | BJson j \<Rightarrow> SObject []
     | BMmdsConfig x \<Rightarrow> MmdsConfig_schema
     | BBalloon x \<Rightarrow> Balloon_schema
     | BBalloonUpdate x \<Rightarrow> BalloonUpdate_schema
     | BBalloonStatsUpdate x \<Rightarrow> BalloonStatsUpdate_schema
     | BCPUConfig x \<Rightarrow> str_schema
     | BEntropyDevice x \<Rightarrow> EntropyDevice_schema)"

lemma body_conforms: "body_json b = Some j \<Longrightarrow> conforms (body_schema b) j \<longleftrightarrow> body_valid b"
  by (cases b) (auto simp: body_json_def body_schema_def body_valid_def schema_facts str_schema_def)



text \<open>Everything that a machine sends while it starts conforms, under the hypotheses of \<open>Start_requests_valid\<close>.\<close>

lemma Start_requests_conform:
  assumes "user_sends_valid user" and "cfg_valid (Cfg m)" and "list_all event_valid (world m)"
    and "Start e user ctx m = (out, m')" and "EvApi op \<in> set (world m')"
    and "Body (Params op) = Some b" and "body_json b = Some j"
  shows "conforms (body_schema b) j"
  using Start_events_valid [OF assms(1-4)] assms(5,6) body_conforms [OF assms(7)]
  by (auto simp: list_all_iff event_valid_def dest: bspec)

subsection \<open>Responses\<close>

text \<open>Decoding a conforming value does not fail, into whatever value.\<close>

definition accepts :: "schema \<Rightarrow> 'v codec \<Rightarrow> bool" where
  "accepts sc c \<longleftrightarrow> (\<forall>j v. conforms sc j \<longrightarrow> dec c j v \<noteq> None)"

named_theorems accept_facts \<open>schemas whose values a codec decodes\<close>

lemma accepts_base [accept_facts]:
  "accepts SBool bool_codec"
  "accepts (SString es) string_codec"
  "accepts (SInt lo hi) int64_codec"
proof -
  have "dec int64_codec j v \<noteq> None" if "conforms (SInt lo hi) j" for j v
    using that by (cases "(SInt lo hi, j)" rule: conforms.cases)
      (auto simp: int64_codec_def split: option.splits)
  then show "accepts (SInt lo hi) int64_codec" by (simp add: accepts_def)
  show "accepts SBool bool_codec" "accepts (SString es) string_codec"
    unfolding accepts_def
    by (intro allI; rename_tac j v; case_tac j; simp add: bool_codec_def string_codec_def)+
qed

lemma accepts_ptr [accept_facts]: "accepts sc c \<Longrightarrow> accepts sc (ptr_codec c)"
  by (auto simp: accepts_def ptr_codec_def split: option.splits)

lemma those_not_None: "list_all (\<lambda>x. f x \<noteq> None) xs \<Longrightarrow> those (map f xs) \<noteq> None"
  by (induction xs) auto

lemma accepts_list [accept_facts]:
  assumes "accepts sc c"
  shows "accepts (SArray sc) (list_codec c)"
proof -
  have "dec (list_codec c) j vs \<noteq> None" if "conforms (SArray sc) j" for j vs
    using that
  proof (cases "(SArray sc, j)" rule: conforms.cases)
    case (4 sc' js)
    with that assms have "list_all (\<lambda>i. dec c i (zero_value c) \<noteq> None) js"
      by (auto simp: accepts_def list_all_iff)
    with 4 show ?thesis using those_not_None by (fastforce simp: list_codec_def)
  qed auto
  then show ?thesis by (simp add: accepts_def)
qed

definition field_accepts :: "'m jfield list \<Rightarrow> string \<times> bool \<times> schema \<Rightarrow> bool" where
  "field_accepts fds p \<longleftrightarrow>
     (case find_field fds (fst p) of None \<Rightarrow> True
      | Some f \<Rightarrow> \<forall>j m. conforms (snd (snd p)) j \<longrightarrow> jdec f j m \<noteq> None)"

lemma field_accepts_tagged:
  assumes "find (\<lambda>f. jname f = k) fds = Some (tagged n om c get upd)" and "accepts sc c"
  shows "field_accepts fds (k, required, sc)"
  using assms by (simp add: field_accepts_def find_field_def accepts_def tagged_def)

lemma dec_members_accepts:
  assumes "list_all (field_accepts fds) ps"
  shows "list_all (\<lambda>(k, j). case property ps k of None \<Rightarrow> False | Some sc \<Rightarrow> conforms sc j) ms
    \<Longrightarrow> dec_members fds ms m \<noteq> None"
proof (induction ms arbitrary: m)
  case (Cons kj ms)
  obtain k j where kj: "kj = (k, j)" by fastforce
  with Cons.prems obtain r sc where "map_of ps k = Some (r, sc)" and j: "conforms sc j"
    by (auto simp: property_def split: option.splits)
  then have "(k, r, sc) \<in> set ps" by (simp add: map_of_SomeD)
  with assms have "field_accepts fds (k, r, sc)" by (simp add: list_all_iff)
  then have "find_field fds k = None \<or> (\<exists>f m'. find_field fds k = Some f \<and> jdec f j m = Some m')"
    using j by (auto simp: field_accepts_def split: option.splits)
  with Cons kj show ?case by auto
qed simp

lemma accepts_struct:
  assumes "list_all (field_accepts fds) ps"
  shows "accepts (SObject ps) (struct_codec fds zero)"
proof -
  have "dec (struct_codec fds zero) j m \<noteq> None" if "conforms (SObject ps) j" for j m
    using that dec_members_accepts [OF assms]
    by (cases "(SObject ps, j)" rule: conforms.cases) (auto simp: struct_codec_def)
  then show ?thesis by (simp add: accepts_def)
qed

lemmas schema_parts = req_def opt_def str_schema_def int_schema_def CpuTemplate_schema_def

lemma TokenBucket_accepts [accept_facts]: "accepts TokenBucket_schema TokenBucket_json"
  unfolding TokenBucket_schema_def TokenBucket_json_def
  by (rule accepts_struct) (simp add: TokenBucket_fields_def schema_parts field_accepts_tagged accept_facts)

lemma RateLimiter_accepts [accept_facts]: "accepts RateLimiter_schema RateLimiter_json"
  unfolding RateLimiter_schema_def RateLimiter_json_def
  by (rule accepts_struct) (simp add: RateLimiter_fields_def schema_parts field_accepts_tagged accept_facts)

lemma Drive_accepts [accept_facts]: "accepts Drive_schema Drive_json"
  unfolding Drive_schema_def Drive_json_def
  by (rule accepts_struct) (simp add: Drive_fields_def schema_parts field_accepts_tagged accept_facts)

lemma NetworkInterface_accepts [accept_facts]: "accepts NetworkInterface_schema ApiNetworkInterface_json"
  unfolding NetworkInterface_schema_def ApiNetworkInterface_json_def
  by (rule accepts_struct) (simp add: ApiNetworkInterface_fields_def schema_parts field_accepts_tagged accept_facts)

lemma MachineConfiguration_accepts [accept_facts]: "accepts MachineConfiguration_schema MachineConfiguration_json"
  unfolding MachineConfiguration_schema_def MachineConfiguration_json_def
  by (rule accepts_struct) (simp add: MachineConfiguration_fields_def schema_parts field_accepts_tagged accept_facts)

lemma BootSource_accepts [accept_facts]: "accepts BootSource_schema BootSource_json"
  unfolding BootSource_schema_def BootSource_json_def
  by (rule accepts_struct) (simp add: BootSource_fields_def schema_parts field_accepts_tagged accept_facts)

lemma Logger_accepts [accept_facts]: "accepts Logger_schema Logger_json"
  unfolding Logger_schema_def Logger_json_def
  by (rule accepts_struct) (simp add: Logger_fields_def schema_parts field_accepts_tagged accept_facts)

lemma Metrics_accepts [accept_facts]: "accepts Metrics_schema Metrics_json"
  unfolding Metrics_schema_def Metrics_json_def
  by (rule accepts_struct) (simp add: Metrics_fields_def schema_parts field_accepts_tagged accept_facts)

lemma MmdsConfig_accepts [accept_facts]: "accepts MmdsConfig_schema MmdsConfig_json"
  unfolding MmdsConfig_schema_def MmdsConfig_json_def
  by (rule accepts_struct) (simp add: MmdsConfig_fields_def schema_parts field_accepts_tagged accept_facts)

lemma Vsock_accepts [accept_facts]: "accepts Vsock_schema Vsock_json"
  unfolding Vsock_schema_def Vsock_json_def
  by (rule accepts_struct) (simp add: Vsock_fields_def schema_parts field_accepts_tagged accept_facts)

lemma Balloon_accepts [accept_facts]: "accepts Balloon_schema Balloon_json"
  unfolding Balloon_schema_def Balloon_json_def
  by (rule accepts_struct) (simp add: Balloon_fields_def schema_parts field_accepts_tagged accept_facts)

lemma BalloonStats_accepts [accept_facts]: "accepts BalloonStats_schema BalloonStats_json"
  unfolding BalloonStats_schema_def BalloonStats_json_def
  by (rule accepts_struct) (simp add: BalloonStats_fields_def schema_parts field_accepts_tagged accept_facts)

lemma InstanceInfo_accepts [accept_facts]: "accepts InstanceInfo_schema InstanceInfo_json"
  unfolding InstanceInfo_schema_def InstanceInfo_json_def
  by (rule accepts_struct) (simp add: InstanceInfo_fields_def schema_parts field_accepts_tagged accept_facts)

lemma FirecrackerVersion_accepts [accept_facts]: "accepts FirecrackerVersion_schema FirecrackerVersion_json"
  unfolding FirecrackerVersion_schema_def FirecrackerVersion_json_def
  by (rule accepts_struct) (simp add: FirecrackerVersion_fields_def schema_parts field_accepts_tagged accept_facts)

lemma Error_accepts [accept_facts]: "accepts Error_schema ApiError_json"
  unfolding Error_schema_def ApiError_json_def
  by (rule accepts_struct) (simp add: ApiError_fields_def schema_parts field_accepts_tagged accept_facts)

lemma FullVmConfiguration_accepts [accept_facts]: "accepts FullVmConfiguration_schema FullVMConfiguration_json"
  unfolding FullVmConfiguration_schema_def FullVMConfiguration_json_def
  by (rule accepts_struct) (simp add: FullVMConfiguration_fields_def schema_parts field_accepts_tagged accept_facts)

lemma accepted:
  "ReadJSON lib b = Inr j \<Longrightarrow> accepts sc c \<Longrightarrow> conforms sc j \<Longrightarrow> fst (unmarshal lib c b m) = None"
  by (auto simp: unmarshal_def accepts_def split: option.split)



text \<open>
  The configuration of a machine without drives or interfaces passes \<open>Validate\<close>, but what is written of
  it does not conform: both lists are \<open>null\<close>.
\<close>

lemma full_config_null_lists:
  assumes "validate_doc v"
  shows "FullVMConfiguration_Validate v zero_FullVMConfiguration = Inr None
    \<and> enc FullVMConfiguration_json zero_FullVMConfiguration = JObject [(''drives'', JNull), (''network-interfaces'', JNull)]
    \<and> \<not> conforms FullVmConfiguration_schema (enc FullVMConfiguration_json zero_FullVMConfiguration)"
proof -
  have "FullVMConfiguration_Validate v zero_FullVMConfiguration = Inr None"
    using FullVMConfiguration_decides [OF assms, of zero_FullVMConfiguration]
    by (simp add: decides_def FullVMConfiguration_valid_def zero_FullVMConfiguration_def)
  moreover have "enc FullVMConfiguration_json zero_FullVMConfiguration = JObject [(''drives'', JNull), (''network-interfaces'', JNull)]"
    by (simp add: FullVMConfiguration_json_def struct_codec_def enc_members_def FullVMConfiguration_fields_def
        req_def opt_def zero_FullVMConfiguration_def) (simp add: list_codec_def)
  moreover have "\<not> conforms FullVmConfiguration_schema (enc FullVMConfiguration_json zero_FullVMConfiguration)"
    by (simp add: FullVmConfiguration_conforms zero_FullVMConfiguration_def)
  ultimately show ?thesis by blast
qed

end
