(* ===== verification/Transport.thy ===== *)
theory Transport
  imports World
begin

text \<open>
  How a client is put together (\<open>client/firecracker_client.go\<close>, \<open>client_transports.go\<close>, the constructors
  of \<open>client/operations/operations_client.go\<close> and \<open>newFirecrackerClient\<close> of \<open>firecracker.go\<close>): the
  transport that reaches Firecracker through its socket, and the operations client that uses it. The
  HTTP runtime of go-openapi and the registries of string formats are parameters.
\<close>

type_synonym registry = nat
type_synonym logger = nat

text \<open>An \<open>http.Transport\<close>: which connection it opens for a network and an address; \<open>'c\<close> is the connection.\<close>

record 'c http_transport =
  DialContext :: "string \<Rightarrow> string \<Rightarrow> go_error + 'c"

text \<open>The libraries; \<open>'rt\<close> is the transport of the runtime. \<open>lib_DialUnix\<close> connects to a socket of the host.\<close>

record ('rt, 'c) transport_lib =
  strfmt_Default :: registry
  strfmt_NewFormats :: registry
  httptransport_New :: "string \<Rightarrow> string \<Rightarrow> string list \<Rightarrow> 'rt"
  rt_set_Transport :: "'c http_transport \<Rightarrow> 'rt \<Rightarrow> 'rt"
  rt_SetDebug :: "bool \<Rightarrow> 'rt \<Rightarrow> 'rt"
  rt_SetLogger :: "logger \<Rightarrow> 'rt \<Rightarrow> 'rt"
  lib_ResolveUnixAddr :: "string \<Rightarrow> string \<Rightarrow> go_error + string"
  lib_DialUnix :: "string \<Rightarrow> go_error + 'c"

subsection \<open>The generated client\<close>

record 'rt ops_client =
  oc_transport :: 'rt
  oc_formats :: "registry option"

definition ops_New :: "'rt \<Rightarrow> registry option \<Rightarrow> 'rt ops_client" where
  "ops_New transport formats = \<lparr>oc_transport = transport, oc_formats = formats\<rparr>"

definition ops_NewClient :: "'rt \<Rightarrow> registry option \<Rightarrow> 'rt ops_client" where
  "ops_NewClient transport formats = \<lparr>oc_transport = transport, oc_formats = formats\<rparr>"

definition ops_SetTransport :: "'rt \<Rightarrow> 'rt ops_client \<Rightarrow> 'rt ops_client" where
  "ops_SetTransport transport a = a\<lparr>oc_transport := transport\<rparr>"

record TransportConfig =
  Host :: string
  BasePath :: string
  Schemes :: "string list"

definition DefaultHost :: string where "DefaultHost = ''localhost''"
definition DefaultBasePath :: string where "DefaultBasePath = ''/''"
definition DefaultSchemes :: "string list" where "DefaultSchemes = [''http'']"

definition DefaultTransportConfig :: TransportConfig where
  "DefaultTransportConfig = \<lparr>Host = DefaultHost, BasePath = DefaultBasePath, Schemes = DefaultSchemes\<rparr>"

definition WithHost :: "string \<Rightarrow> TransportConfig \<Rightarrow> TransportConfig" where
  "WithHost host cfg = cfg\<lparr>Host := host\<rparr>"

definition WithBasePath :: "string \<Rightarrow> TransportConfig \<Rightarrow> TransportConfig" where
  "WithBasePath basePath cfg = cfg\<lparr>BasePath := basePath\<rparr>"

definition WithSchemes :: "string list \<Rightarrow> TransportConfig \<Rightarrow> TransportConfig" where
  "WithSchemes schemes cfg = cfg\<lparr>Schemes := schemes\<rparr>"

record 'rt Firecracker =
  Operations :: "'rt ops_client"
  Transport :: 'rt

definition client_New :: "('rt, 'c) transport_lib \<Rightarrow> 'rt \<Rightarrow> registry option \<Rightarrow> 'rt Firecracker" where
  "client_New lib transport formats =
    (let formats' = (case formats of None \<Rightarrow> strfmt_Default lib | Some f \<Rightarrow> f)
     in \<lparr>Operations = ops_New transport (Some formats'), Transport = transport\<rparr>)"

definition NewHTTPClientWithConfig ::
  "('rt, 'c) transport_lib \<Rightarrow> registry option \<Rightarrow> TransportConfig option \<Rightarrow> 'rt Firecracker" where
  "NewHTTPClientWithConfig lib formats cfg =
    (let cfg' = (case cfg of None \<Rightarrow> DefaultTransportConfig | Some c \<Rightarrow> c)
     in client_New lib (httptransport_New lib (Host cfg') (BasePath cfg') (Schemes cfg')) formats)"

definition NewHTTPClient :: "('rt, 'c) transport_lib \<Rightarrow> registry option \<Rightarrow> 'rt Firecracker" where
  "NewHTTPClient lib formats = NewHTTPClientWithConfig lib formats None"

text \<open>The client that the package makes for itself.\<close>

definition client_Default :: "('rt, 'c) transport_lib \<Rightarrow> 'rt Firecracker" where
  "client_Default lib = NewHTTPClient lib None"

text \<open>The transport is changed \<open>on the client and all its subresources\<close>; the formats are not kept.\<close>

definition SetTransport :: "'rt \<Rightarrow> 'rt Firecracker \<Rightarrow> 'rt Firecracker" where
  "SetTransport transport c = c\<lparr>Transport := transport, Operations := ops_NewClient transport None\<rparr>"

subsection \<open>The client of the SDK\<close>

definition unix_dial :: "('rt, 'c) transport_lib \<Rightarrow> string \<Rightarrow> 'c http_transport" where
  "unix_dial lib socketPath =
    \<lparr>DialContext = (\<lambda>network path.
       case lib_ResolveUnixAddr lib ''unix'' socketPath of
         Inl err \<Rightarrow> Inl err
       | Inr addr \<Rightarrow> lib_DialUnix lib addr)\<rparr>"

definition NewUnixSocketTransport ::
  "('rt, 'c) transport_lib \<Rightarrow> string \<Rightarrow> logger option \<Rightarrow> bool \<Rightarrow> 'rt" where
  "NewUnixSocketTransport lib socketPath logger debug =
    (let transport = rt_set_Transport lib (unix_dial lib socketPath)
           (httptransport_New lib DefaultHost DefaultBasePath DefaultSchemes);
         transport' = (if debug then rt_SetDebug lib debug transport else transport)
     in case logger of None \<Rightarrow> transport' | Some l \<Rightarrow> rt_SetLogger lib l transport')"

definition newFirecrackerClient ::
  "('rt, 'c) transport_lib \<Rightarrow> string \<Rightarrow> logger option \<Rightarrow> bool \<Rightarrow> 'rt Firecracker" where
  "newFirecrackerClient lib socketPath logger debug =
    SetTransport (NewUnixSocketTransport lib socketPath logger debug)
      (NewHTTPClient lib (Some (strfmt_NewFormats lib)))"

definition WithOpsClient :: "'rt ops_client \<Rightarrow> 'rt Firecracker \<Rightarrow> 'rt Firecracker" where
  "WithOpsClient opsClient c = c\<lparr>Operations := opsClient\<rparr>"

subsection \<open>Lemmas\<close>

lemma transport_config_last_wins:
  "NewHTTPClientWithConfig lib formats (Some (WithHost h (WithBasePath b (WithSchemes s cfg)))) =
     client_New lib (httptransport_New lib h b s) formats"
  by (simp add: NewHTTPClientWithConfig_def WithHost_def WithBasePath_def WithSchemes_def)

text \<open>A client always has a registry of formats, unless its transport was set.\<close>

lemma client_New_formats: "oc_formats (Operations (client_New lib transport formats)) \<noteq> None"
  by (simp add: client_New_def ops_New_def)

text \<open>
  The registry that \<open>newFirecrackerClient\<close> makes is lost with the first transport: the client that the
  SDK uses has none. Both clients agree on the transport, which is the one to the socket.
\<close>

lemma newFirecrackerClient_loses_formats:
  "oc_formats (Operations (newFirecrackerClient lib socketPath logger debug)) = None"
  by (simp add: newFirecrackerClient_def SetTransport_def ops_NewClient_def)

lemma newFirecrackerClient_transport:
  "Transport (newFirecrackerClient lib socketPath logger debug) = NewUnixSocketTransport lib socketPath logger debug"
  "oc_transport (Operations (newFirecrackerClient lib socketPath logger debug)) =
     Transport (newFirecrackerClient lib socketPath logger debug)"
  by (simp_all add: newFirecrackerClient_def SetTransport_def ops_NewClient_def)

text \<open>Whatever host a request names, the connection goes to the socket.\<close>

lemma unix_dial_ignores_host:
  "lib_ResolveUnixAddr lib ''unix'' socketPath = Inr addr \<Longrightarrow>
     DialContext (unix_dial lib socketPath) network path = lib_DialUnix lib addr"
  by (simp add: unix_dial_def)

end
