(* ===== verification/SnapshotExample.thy ===== *)
theory SnapshotExample
  imports MachineProps
begin

text \<open>
  The example program of the repository (\<open>examples/cmd/snapshotting/example_demo.go\<close>): it boots a
  machine with a CNI network, runs a command in it over SSH, takes a snapshot, stops the machine,
  and restores the snapshot in a second machine under the same address. It puts the builder of the
  command line, the configuration, the options, and the life of two machines together.

  A function ends by returning, by \<open>log.Fatal\<close>, which ends the process without running any deferred
  call, by a panic, which runs them, or it waits for ever. What the program prints is left out. The
  SSH library and the host's files are the record \<open>host\<close> and events of \<open>World\<close>.
\<close>

subsection \<open>Ways out of a function, and deferred calls\<close>

datatype 'a exit = Done 'a | FatalExit go_error | Crashed go_panic | Hangs

definition run_then :: "'a exit \<times> 's \<Rightarrow> ('a \<Rightarrow> 's \<Rightarrow> 'b exit \<times> 's) \<Rightarrow> 'b exit \<times> 's" where
  "run_then r f =
    (case r of
       (Done x, s) \<Rightarrow> f x s
     | (FatalExit err, s) \<Rightarrow> (FatalExit err, s)
     | (Crashed p, s) \<Rightarrow> (Crashed p, s)
     | (Hangs, s) \<Rightarrow> (Hangs, s))"

definition with_defer :: "('s \<Rightarrow> unit exit \<times> 's) \<Rightarrow> 'a exit \<times> 's \<Rightarrow> 'a exit \<times> 's" where
  "with_defer d r =
    (case r of
       (Done x, s) \<Rightarrow> run_then (d s) (\<lambda>_ s1. (Done x, s1))
     | (Crashed p, s) \<Rightarrow> run_then (d s) (\<lambda>_ s1. (Crashed p, s1))
     | (FatalExit err, s) \<Rightarrow> (FatalExit err, s)
     | (Hangs, s) \<Rightarrow> (Hangs, s))"

lemma run_then_simps [simp]:
  "run_then (Done x, s) f = f x s"
  "run_then (FatalExit err, s) f = (FatalExit err, s)"
  "run_then (Crashed p, s) f = (Crashed p, s)"
  "run_then (Hangs, s) f = (Hangs, s)"
  by (simp_all add: run_then_def)

lemma with_defer_simps [simp]:
  "with_defer d (Done x, s) = run_then (d s) (\<lambda>_ s1. (Done x, s1))"
  "with_defer d (FatalExit err, s) = (FatalExit err, s)"
  "with_defer d (Crashed p, s) = run_then (d s) (\<lambda>_ s1. (Crashed p, s1))"
  "with_defer d (Hangs, s) = (Hangs, s)"
  by (simp_all add: with_defer_def)

lemma run_then_Done_iff:
  "run_then r f = (Done y, s') \<longleftrightarrow> (\<exists>x s. r = (Done x, s) \<and> f x s = (Done y, s'))"
  by (cases r) (auto simp: run_then_def split: exit.splits)

lemma with_defer_Done_iff:
  "with_defer d r = (Done x, s') \<longleftrightarrow> (\<exists>s. r = (Done x, s) \<and> d s = (Done (), s'))"
proof (cases r)
  case (Pair y s)
  then show ?thesis by (cases y) (auto simp: run_then_Done_iff)
qed

text \<open>\<open>if err := f(); err != nil { log.Fatal(err) }\<close> for a method of the machine, and for a call of the host.\<close>

definition fatal_if :: "step \<Rightarrow> unit exit \<times> Machine" where
  "fatal_if r =
    (case r of
       (Returned None, m) \<Rightarrow> (Done (), m)
     | (Returned (Some err), m) \<Rightarrow> (FatalExit err, m)
     | (Panicked p, m) \<Rightarrow> (Crashed p, m)
     | (Blocked, m) \<Rightarrow> (Hangs, m))"

lemma fatal_if_Done_iff [simp]:
  "fatal_if r = (Done x, m) \<longleftrightarrow> r = (Returned None, m)"
  by (cases r) (auto simp: fatal_if_def split: outcome.splits option.splits)

definition fatal_sys :: "go_error option \<times> 's \<Rightarrow> unit exit \<times> 's" where
  "fatal_sys r = (case r of (None, s) \<Rightarrow> (Done (), s) | (Some err, s) \<Rightarrow> (FatalExit err, s))"

lemma fatal_sys_Done_iff [simp]: "fatal_sys r = (Done x, s) \<longleftrightarrow> r = (None, s)"
  by (cases r) (auto simp: fatal_sys_def split: option.splits)

subsection \<open>The host\<close>

text \<open>
  \<open>vm_exits\<close> is the status with which the process of a machine exits when its end is waited for,
  if it ever does.
\<close>

record host =
  h_getwd :: "go_error + string"
  h_getuid :: int
  h_mkdir_temp :: "trace \<Rightarrow> string \<Rightarrow> string \<Rightarrow> go_error + string"
  h_read_file :: "trace \<Rightarrow> string \<Rightarrow> go_error + string"
  h_parse_key :: "string \<Rightarrow> go_error option"
  h_vm_exits :: "trace \<Rightarrow> go_error option option"

text \<open>The error of a deferred \<open>os.Remove\<close> or \<open>Close\<close> is dropped.\<close>

definition drop_error :: "env \<Rightarrow> event \<Rightarrow> trace \<Rightarrow> unit exit \<times> trace" where
  "drop_error e ev tr = (Done (), snd (syscall e ev tr))"

definition drop_error_m :: "env \<Rightarrow> event \<Rightarrow> Machine \<Rightarrow> unit exit \<times> Machine" where
  "drop_error_m e ev m = (Done (), snd (do_sys e ev m))"

subsection \<open>The constants and the configuration\<close>

definition cniCacheDir :: string where "cniCacheDir = ''/var/lib/cni''"
definition ex_networkName :: string where "ex_networkName = ''fcnet''"
definition ifName :: string where "ifName = ''veth0''"
definition networkMask :: string where "networkMask = ''/24''"
definition subnet :: string where "subnet = ''10.168.0.0'' @ networkMask"
definition maxRetries :: nat where "maxRetries = 10"
definition backoffTimeMs :: int64 where "backoffTimeMs = 500"

definition tabs :: "nat \<Rightarrow> string" where
  "tabs n = replicate n (CHR 0x09)"

text \<open>The text between the back quotes of \<open>writeCNIConfWithHostLocalSubnet\<close>, line by line.\<close>

definition cni_conf :: "string \<Rightarrow> string \<Rightarrow> string" where
  "cni_conf networkName sub =
     str_join
       [''{'',
        tabs 2 @ ''\"cniVersion\": \"0.3.1\",'',
        tabs 2 @ ''\"name\": \"'' @ networkName @ ''\",'',
        tabs 2 @ ''\"plugins\": ['',
        tabs 2 @ ''  {'',
        tabs 3 @ ''\"type\": \"ptp\",'',
        tabs 3 @ ''\"ipam\": {'',
        tabs 3 @ ''  \"type\": \"host-local\",'',
        tabs 3 @ ''  \"subnet\": \"'' @ sub @ ''\"'',
        tabs 3 @ ''}'',
        tabs 2 @ ''  },'',
        tabs 2 @ ''  {'',
        tabs 3 @ ''\"type\": \"tc-redirect-tap\"'',
        tabs 2 @ ''  }'',
        tabs 2 @ '']'',
        tabs 1 @ '' }'']
       [CHR 0x0A]"

definition writeCNIConfWithHostLocalSubnet ::
  "env \<Rightarrow> string \<Rightarrow> string \<Rightarrow> string \<Rightarrow> trace \<Rightarrow> go_error option \<times> trace" where
  "writeCNIConfWithHostLocalSubnet e path networkName sub =
     syscall e (EvHost (HWriteFile path (cni_conf networkName sub)))"

text \<open>The zero value of \<open>sdk.Config\<close>, of a drive, and of the structs of an interface.\<close>

definition zero_Config :: Config where
  "zero_Config =
    \<lparr>SocketPath = '''', LogPath = '''', LogFifo = '''', LogLevel = '''', MetricsPath = '''', MetricsFifo = '''',
     KernelImagePath = '''', InitrdPath = '''', KernelArgs = '''', Drives = [], NetworkInterfaces = [],
     FifoLogWriter = None, VsockDevices = [],
     MachineCfg = \<lparr>CPUTemplate = '''', MemSizeMib = None, Smt = None, TrackDirtyPages = None, VcpuCount = None\<rparr>,
     DisableValidation = False, JailerCfg = None, VMID = '''', NetNS = '''', ForwardSignals = None,
     Seccomp = \<lparr>Enabled = False, Filter = ''''\<rparr>, MmdsAddress = None, MmdsVersion = '''',
     Snapshot = \<lparr>MemFilePath = '''', MemBackend = None, SnapshotPath = '''', EnableDiffSnapshots = False,
       ResumeVM = False\<rparr>\<rparr>"

definition root_drive :: Drive where
  "root_drive =
    \<lparr>CacheType = None, DriveID = Some ''root'', IoEngine = None, IsReadOnly = Some False,
     IsRootDevice = Some True, Partuuid = '''', PathOnHost = Some ''root-drive-with-ssh.img'',
     drv_RateLimiter = None\<rparr>"

definition cni_interface_of :: "string \<Rightarrow> (string \<times> string) list \<Rightarrow> NetworkInterface" where
  "cni_interface_of dir args =
    \<lparr>StaticConfiguration = None,
     CNIConfiguration = Some
      \<lparr>NetworkName = ex_networkName, NetworkConfig = None, IfName = ifName, VMIfName = ''eth0'',
       Args = args, BinPath = [path_join [dir, ''bin'']], ConfDir = path_join [dir, ''cni.conf''],
       CacheDir = '''', containerID = '''', netNSPath = '''', Force = False\<rparr>,
     AllowMMDS = False, InRateLimiter = None, OutRateLimiter = None\<rparr>"

definition withNetworkInterface :: "NetworkInterface \<Rightarrow> Config \<Rightarrow> Config" where
  "withNetworkInterface networkInterface c = c\<lparr>NetworkInterfaces := NetworkInterfaces c @ [networkInterface]\<rparr>"

definition createNewConfig :: "host \<Rightarrow> string \<Rightarrow> (Config \<Rightarrow> Config) list \<Rightarrow> Config" where
  "createNewConfig h socketPath opts =
    (let dir = (case h_getwd h of Inl err \<Rightarrow> '''' | Inr d \<Rightarrow> d) in
     apply_opts opts
       (zero_Config\<lparr>SocketPath := socketPath, KernelImagePath := path_join [dir, ''vmlinux''],
          MachineCfg := \<lparr>CPUTemplate = '''', MemSizeMib = Some 256, Smt = Some False,
            TrackDirtyPages = None, VcpuCount = Some 2\<rparr>,
          Drives := [root_drive]\<rparr>))"

definition firecracker_cmd :: "string \<Rightarrow> string \<Rightarrow> command" where
  "firecracker_cmd dir socketFile =
     vb_Build (vb_WithBin (vb_WithSocketPath vb_zero socketFile) (path_join [dir, ''firecracker'']))"

definition cni_conf_path :: "string \<Rightarrow> string" where
  "cni_conf_path dir = path_join [dir, ''cni.conf''] @ ''/'' @ ex_networkName @ ''.conflist''"

subsection \<open>Talking to the machine over SSH\<close>

text \<open>\<open>m.Cfg.NetworkInterfaces[0].StaticConfiguration.IPConfiguration.IPAddr.IP\<close>\<close>

definition vm_ip :: "Machine \<Rightarrow> go_panic + ip" where
  "vm_ip m =
     bind_sum (go_index (NetworkInterfaces (Cfg m)) 0) (\<lambda>iface.
     bind_sum (deref (StaticConfiguration iface)) (\<lambda>sc.
     bind_sum (deref (StaticIP sc)) (\<lambda>ipc. Inr (net_IP (IPAddr ipc)))))"

definition connectToVM ::
  "env \<Rightarrow> host \<Rightarrow> string \<Rightarrow> Machine \<Rightarrow> (go_panic + go_error option) \<times> Machine" where
  "connectToVM e h sshKeyPath m =
    (let m1 = m\<lparr>world := world m @ [EvHost (HReadFile sshKeyPath)]\<rparr> in
     case h_read_file h (world m) sshKeyPath of
       Inl err \<Rightarrow> (Inr (Some err), m1)
     | Inr key \<Rightarrow>
        (case h_parse_key h key of
           Some err \<Rightarrow> (Inr (Some err), m1)
         | None \<Rightarrow>
            if length (NetworkInterfaces (Cfg m1)) = 0
            then (Inr (Some (Errorf ''No network interfaces'' [] None)), m1)
            else
              case vm_ip m1 of
                Inl p \<Rightarrow> (Inl p, m1)
              | Inr ip \<Rightarrow>
                 (case do_sys e (EvHost (HSshDial ''tcp'' (IP_String ip @ '':22''))) m1 of
                    (err, m2) \<Rightarrow> (Inr err, m2))))"

definition sleep :: "Machine \<Rightarrow> Machine" where
  "sleep m = m\<lparr>world := world m @ [EvHost (HSleep (backoffTimeMs * time_Millisecond))]\<rparr>"

text \<open>The loop that tries to connect, with the tries that are left and the error of the last one.\<close>

fun connect_loop ::
  "env \<Rightarrow> host \<Rightarrow> string \<Rightarrow> nat \<Rightarrow> go_error option \<Rightarrow> Machine \<Rightarrow> unit exit \<times> Machine" where
  "connect_loop e h sshKeyPath 0 err m = fatal_sys (err, m)"
| "connect_loop e h sshKeyPath (Suc n) err m =
    (case connectToVM e h sshKeyPath m of
       (Inl p, m1) \<Rightarrow> (Crashed p, m1)
     | (Inr (Some err1), m1) \<Rightarrow> connect_loop e h sshKeyPath n (Some err1) (sleep m1)
     | (Inr None, m1) \<Rightarrow> (Done (), m1))"

text \<open>Connects, opens a session, runs \<open>work\<close> in it, and closes both again.\<close>

definition in_session ::
  "env \<Rightarrow> host \<Rightarrow> string \<Rightarrow> (Machine \<Rightarrow> 'a exit \<times> Machine) \<Rightarrow> Machine \<Rightarrow> 'a exit \<times> Machine" where
  "in_session e h dir work m =
     run_then (connect_loop e h (path_join [dir, ''root-drive-ssh-key'']) maxRetries None m) (\<lambda>_ m1.
     with_defer (drop_error_m e (EvHost HSshClose))
      (run_then (fatal_sys (do_sys e (EvHost HSessionNew) m1)) (\<lambda>_ m2.
       with_defer (drop_error_m e (EvHost HSessionClose)) (work m2))))"

subsection \<open>The two machines\<close>

text \<open>\<open>StopVMM\<close> waits for the goroutine that cleans up when the process has exited.\<close>

definition until_exit :: "env \<Rightarrow> host \<Rightarrow> step \<Rightarrow> step" where
  "until_exit e h r =
    (case r of
       (Blocked, m) \<Rightarrow>
        (case h_vm_exits h (world m) of
           None \<Rightarrow> (Blocked, m)
         | Some status \<Rightarrow> (Returned None, snd (vmm_exit e status m)))
     | (out, m) \<Rightarrow> (out, m))"

definition started_then ::
  "env \<Rightarrow> host \<Rightarrow> ctx \<Rightarrow> (Machine \<Rightarrow> 'a exit \<times> Machine) \<Rightarrow> Machine \<Rightarrow> 'a exit \<times> Machine" where
  "started_then e h ctx work m =
     run_then (fatal_if (Start e no_user ctx m)) (\<lambda>_ m1.
     with_defer (\<lambda>s. fatal_if (until_exit e h (StopVMM e s)))
      (with_defer (\<lambda>s. fatal_if (until_exit e h (Shutdown e ctx s)))
        (work m1)))"

definition take_snapshot ::
  "env \<Rightarrow> ctx \<Rightarrow> string \<Rightarrow> string \<Rightarrow> string \<Rightarrow> Machine \<Rightarrow> string exit \<times> Machine" where
  "take_snapshot e ctx vmIP memPath snapPath m =
     run_then (fatal_sys (do_sys e (EvHost (HSessionStart ''sleep 422'')) m)) (\<lambda>_ m1.
     run_then (fatal_if (PauseVM e ctx [] m1)) (\<lambda>_ m2.
     run_then (fatal_if (mCreateSnapshot e ctx memPath snapPath [] m2)) (\<lambda>_ m3.
     run_then (fatal_if (mResumeVM e ctx [] m3)) (\<lambda>_ m4. (Done vmIP, m4)))))"

text \<open>What \<open>createSnapshotSSH\<close> does once the machine is up and its end has been deferred.\<close>

definition snapshot_work ::
  "env \<Rightarrow> host \<Rightarrow> ctx \<Rightarrow> string \<Rightarrow> string \<Rightarrow> string \<Rightarrow> Machine \<Rightarrow> string exit \<times> Machine" where
  "snapshot_work e h ctx dir memPath snapPath m =
    (case vm_ip m of
       Inl p \<Rightarrow> (Crashed p, m)
     | Inr ip \<Rightarrow> in_session e h dir (take_snapshot e ctx (IP_String ip) memPath snapPath) m)"

definition createSnapshotSSH ::
  "env \<Rightarrow> host \<Rightarrow> ctx \<Rightarrow> string \<Rightarrow> string \<Rightarrow> string \<Rightarrow> trace \<Rightarrow> string exit \<times> trace" where
  "createSnapshotSSH e h ctx socketPath memPath snapPath tr =
    (case h_getwd h of
       Inl err \<Rightarrow> (FatalExit err, tr)
     | Inr dir \<Rightarrow>
        run_then (fatal_sys (writeCNIConfWithHostLocalSubnet e (cni_conf_path dir) ex_networkName subnet tr)) (\<lambda>_ tr1.
        with_defer (drop_error e (EvRemove (cni_conf_path dir)))
         (let socketFile = socketPath @ ''.create'';
              cfg = createNewConfig h socketFile [withNetworkInterface (cni_interface_of dir [])];
              cmd = firecracker_cmd dir socketFile
          in case NewMachine e no_adapter [WithProcessRunner cmd] cfg tr1 of
               Inl p \<Rightarrow> (Crashed p, tr1)
             | Inr (Inl err) \<Rightarrow> (FatalExit err, tr1)
             | Inr (Inr m) \<Rightarrow>
                 with_defer (drop_error e (EvRemove socketFile))
                  (case started_then e h ctx (snapshot_work e h ctx dir memPath snapPath) m of
                     (x, m') \<Rightarrow> (x, world m')))))"

text \<open>Waits until the lease file of the address is gone: the error of the last \<open>os.Stat\<close>, and
  whether the loop was left early.\<close>

fun ip_freed_loop :: "env \<Rightarrow> string \<Rightarrow> nat \<Rightarrow> go_error option \<Rightarrow> trace \<Rightarrow> go_error option \<times> bool \<times> trace" where
  "ip_freed_loop e path 0 err tr = (err, False, tr)"
| "ip_freed_loop e path (Suc n) err tr =
    (case syscall e (EvStat path) tr of
       (None, tr1) \<Rightarrow> ip_freed_loop e path n None (tr1 @ [EvHost (HSleep (backoffTimeMs * time_Millisecond))])
     | (Some err1, tr1) \<Rightarrow> (Some err1, True, tr1))"

definition wait_ip_freed :: "env \<Rightarrow> string \<Rightarrow> trace \<Rightarrow> unit exit \<times> trace" where
  "wait_ip_freed e ipToRestore tr =
    (case ip_freed_loop e (cniCacheDir @ ''/networks/'' @ ex_networkName @ ''/'' @ ipToRestore) maxRetries None tr of
       (err, ipFreed, tr1) \<Rightarrow>
        fatal_sys
         ((if IsNotExist err then None
           else if \<not> ipFreed then Some (Errorf ''IP %v was not freed'' [ipToRestore] None)
           else err), tr1))"

definition look_for_process :: "env \<Rightarrow> Machine \<Rightarrow> unit exit \<times> Machine" where
  "look_for_process e m = fatal_sys (do_sys e (EvHost (HSessionRun ''ps -aux | grep \"sleep 422\"'')) m)"

definition restore_work :: "env \<Rightarrow> host \<Rightarrow> ctx \<Rightarrow> string \<Rightarrow> Machine \<Rightarrow> unit exit \<times> Machine" where
  "restore_work e h ctx dir m =
     run_then (fatal_if (mResumeVM e ctx [] m)) (\<lambda>_ m1. in_session e h dir (look_for_process e) m1)"

definition restore_config :: "string \<Rightarrow> string \<Rightarrow> string \<Rightarrow> Config" where
  "restore_config dir socketPath ipToRestore =
     zero_Config\<lparr>SocketPath := socketPath @ ''.load'', Drives := [root_drive],
       NetworkInterfaces := [cni_interface_of dir [(''IP'', ipToRestore @ networkMask)]]\<rparr>"

definition loadSnapshotSSH ::
  "env \<Rightarrow> host \<Rightarrow> ctx \<Rightarrow> string \<Rightarrow> string \<Rightarrow> string \<Rightarrow> string \<Rightarrow> trace \<Rightarrow> unit exit \<times> trace" where
  "loadSnapshotSSH e h ctx socketPath memPath snapPath ipToRestore tr =
     run_then (wait_ip_freed e ipToRestore tr) (\<lambda>_ tr1.
     case h_getwd h of
       Inl err \<Rightarrow> (FatalExit err, tr1)
     | Inr dir \<Rightarrow>
        run_then (fatal_sys (writeCNIConfWithHostLocalSubnet e (cni_conf_path dir) ex_networkName subnet tr1)) (\<lambda>_ tr2.
        with_defer (drop_error e (EvRemove (cni_conf_path dir)))
         (let socketFile = socketPath @ ''.load'';
              cfg = restore_config dir socketPath ipToRestore;
              cmd = firecracker_cmd dir socketFile
          in case NewMachine e no_adapter [WithProcessRunner cmd, WithSnapshot memPath snapPath []] cfg tr2 of
               Inl p \<Rightarrow> (Crashed p, tr2)
             | Inr (Inl err) \<Rightarrow> (FatalExit err, tr2)
             | Inr (Inr m) \<Rightarrow>
                 with_defer (drop_error e (EvRemove socketFile))
                  (case started_then e h ctx (restore_work e h ctx dir) m of
                     (x, m') \<Rightarrow> (x, world m')))))"

definition mkdir_if_missing :: "env \<Rightarrow> string \<Rightarrow> trace \<Rightarrow> unit exit \<times> trace" where
  "mkdir_if_missing e path tr =
    (case syscall e (EvHost (HMkdir path)) tr of
       (err, tr1) \<Rightarrow> fatal_sys ((if err = Some (OsError EEXIST) then None else err), tr1))"

definition example_main :: "env \<Rightarrow> host \<Rightarrow> trace \<Rightarrow> unit exit \<times> trace" where
  "example_main e h tr =
     run_then (fatal_sys (syscall e (EvHost (HAccess ''/dev/kvm'')) tr)) (\<lambda>_ tr1.
     if h_getuid h \<noteq> 0 then (FatalExit (Errorf ''Root acccess denied'' [] None), tr1)
     else case h_getwd h of
       Inl err \<Rightarrow> (FatalExit err, tr1)
     | Inr dir \<Rightarrow>
        run_then (fatal_sys (syscall e (EvHost (HMkdir (path_join [dir, ''cni.conf'']))) tr1)) (\<lambda>_ tr2.
        with_defer (drop_error e (EvRemove (path_join [dir, ''cni.conf''])))
         (let tr3 = tr2 @ [EvHost (HMkdirTemp '''' ''FCGoSDKSnapshotExample'')] in
          case h_mkdir_temp h tr2 '''' ''FCGoSDKSnapshotExample'' of
            Inl err \<Rightarrow> (FatalExit err, tr3)
          | Inr tempdir \<Rightarrow>
             with_defer (drop_error e (EvRemove tempdir))
              (let socketPath = path_join [tempdir, ''snapshotssh''];
                   snapshotsshPath = path_join [dir, ''snapshotssh'']
               in run_then (mkdir_if_missing e snapshotsshPath tr3) (\<lambda>_ tr4.
                  with_defer (drop_error e (EvHost (HRemoveAll snapshotsshPath)))
                   (let snapPath = path_join [snapshotsshPath, ''SnapFile''];
                        memPath = path_join [snapshotsshPath, ''MemFile'']
                    in run_then (createSnapshotSSH e h CtxBackground socketPath memPath snapPath tr4) (\<lambda>ip tr5.
                       loadSnapshotSSH e h CtxBackground socketPath memPath snapPath ip tr5)))))))"

end
