(* ===== verification/SnapshotProps.thy ===== *)
theory SnapshotProps
  imports SnapshotExample
begin

text \<open>
  What the example program does to its machines: which requests it sends and in which order, that a
  run that returns has stopped both machines, and that a run that ends by \<open>log.Fatal\<close> has not.
\<close>

subsection \<open>Requests in a history\<close>

fun bodies :: "trace \<Rightarrow> api_body option list" where
  "bodies [] = []"
| "bodies (EvApi op # tr) = Body (Params op) # bodies tr"
| "bodies (ev # tr) = bodies tr"

lemma bodies_append [simp]: "bodies (tr @ tr') = bodies tr @ bodies tr'"
  by (induction tr rule: bodies.induct) auto

lemma bodies_no_api: "list_all no_api tr \<Longrightarrow> bodies tr = []"
  by (induction tr rule: bodies.induct) (auto simp: no_api_def)

lemma bodies_cleanup [simp]: "bodies (map (cleanup_event sock) cls) = []"
  by (rule bodies_no_api) (auto simp: list_all_iff cleanup_event_def no_api_def split: cleanup.split)

lemma set_bodies: "b \<in> set (bodies tr) \<longleftrightarrow> (\<exists>op. EvApi op \<in> set tr \<and> Body (Params op) = b)"
  by (induction tr rule: bodies.induct) auto

definition paused_body :: "api_body option" where "paused_body = Some (BVM \<lparr>vm_State = Some ''Paused''\<rparr>)"
definition resumed_body :: "api_body option" where "resumed_body = Some (BVM \<lparr>vm_State = Some ''Resumed''\<rparr>)"
definition boot_body :: "api_body option" where "boot_body = Some (BAction \<lparr>ActionType = Some ''InstanceStart''\<rparr>)"
definition ctrl_alt_del_body :: "api_body option" where
  "ctrl_alt_del_body = Some (BAction \<lparr>ActionType = Some ''SendCtrlAltDel''\<rparr>)"
definition create_body :: "string \<Rightarrow> string \<Rightarrow> api_body option" where
  "create_body mem snap = Some (BSnapshotCreate
     \<lparr>scp_MemFilePath = Some mem, scp_SnapshotPath = Some snap, SnapshotType = '''', scp_Version = ''''\<rparr>)"
definition load_body :: "string \<Rightarrow> string \<Rightarrow> api_body option" where
  "load_body mem snap = Some (BSnapshotLoad
     \<lparr>slp_EnableDiffSnapshots = False, slp_MemBackend = None, slp_MemFilePath = mem,
      slp_ResumeVM = False, slp_SnapshotPath = Some snap\<rparr>)"

lemmas body_defs = paused_body_def resumed_body_def boot_body_def ctrl_alt_del_body_def create_body_def load_body_def

subsection \<open>Work on a running machine\<close>

text \<open>
  Between the start and the end of a machine the program only talks: to the host, to the SSH server
  and to the API. \<open>works B m r\<close>: the run \<open>r\<close> has done to \<open>m\<close> nothing else, and its requests are
  those of \<open>B\<close>, all of them if it returned.
\<close>

definition talk :: "event \<Rightarrow> bool" where
  "talk ev \<longleftrightarrow> (case ev of EvApi op \<Rightarrow> True | EvHost hev \<Rightarrow> True | _ \<Rightarrow> False)"

definition works :: "api_body option list \<Rightarrow> Machine \<Rightarrow> 'a exit \<times> Machine \<Rightarrow> bool" where
  "works B m r \<longleftrightarrow>
    (\<exists>new. snd r = m\<lparr>world := world m @ new\<rparr> \<and> list_all talk new
       \<and> (case fst r of Done x \<Rightarrow> bodies new = B | _ \<Rightarrow> prefix (bodies new) B))"

lemma worksI:
  "snd r = m\<lparr>world := world m @ new\<rparr> \<Longrightarrow> list_all talk new \<Longrightarrow> bodies new = B \<Longrightarrow> works B m r"
  by (auto simp: works_def split: exit.split)

lemma works_stay: "works [] m (x, m)"
  by (rule worksI [where new = "[]"]) auto

lemma works_cases:
  assumes "works B m r"
  obtains (ret) x new where "r = (Done x, m\<lparr>world := world m @ new\<rparr>)" "list_all talk new" "bodies new = B"
  | (stop) y new where "r = (y, m\<lparr>world := world m @ new\<rparr>)" "list_all talk new" "prefix (bodies new) B"
      "\<forall>x. y \<noteq> Done x"
proof -
  obtain new where new: "snd r = m\<lparr>world := world m @ new\<rparr>" "list_all talk new"
    "case fst r of Done x \<Rightarrow> bodies new = B | _ \<Rightarrow> prefix (bodies new) B"
    using assms by (auto simp: works_def)
  show thesis
  proof (cases "fst r")
    case (Done x)
    show thesis
      by (rule ret [of x new]) (use new(2,3) in \<open>simp_all add: prod_eq_iff new(1) Done\<close>)
  qed (rule stop [of "fst r" new]; use new(2,3) in \<open>simp add: prod_eq_iff new(1)\<close>)+
qed

lemma works_retI:
  "list_all talk new \<Longrightarrow> bodies new = B \<Longrightarrow> works B m (x, m\<lparr>world := world m @ new\<rparr>)"
  by (rule worksI) simp_all

lemma works_stopI:
  assumes "list_all talk new" and "prefix (bodies new) B" and "\<forall>x. y \<noteq> Done x"
  shows "works B m (y, m\<lparr>world := world m @ new\<rparr>)"
  unfolding works_def by (rule exI [of _ new]) (use assms in \<open>simp split: exit.split\<close>)

lemma works_stop:
  assumes "\<forall>y. x \<noteq> Done y"
  shows "works B m (x, m)"
  using works_stopI [of "[]" B x m] assms by simp

lemma works_then:
  assumes "works B m r" and "\<And>x m1. works B' m1 (f x m1)"
  shows "works (B @ B') m (run_then r f)"
  using assms(1)
proof (cases rule: works_cases)
  case (ret x new)
  let ?m1 = "m\<lparr>world := world m @ new\<rparr>"
  have r: "run_then r f = f x ?m1" using ret(1) by simp
  from assms(2) [of ?m1 x] show ?thesis
  proof (cases rule: works_cases)
    case (ret y new')
    then have "run_then r f = (Done y, m\<lparr>world := world m @ (new @ new')\<rparr>)" by (simp add: r)
    then show ?thesis
      using ret \<open>bodies new = B\<close> \<open>list_all talk new\<close> by (simp only:) (rule works_retI; simp)
  next
    case (stop y new')
    then have "run_then r f = (y, m\<lparr>world := world m @ (new @ new')\<rparr>)" by (simp add: r)
    then show ?thesis
      using stop \<open>bodies new = B\<close> \<open>list_all talk new\<close> by (simp only:) (rule works_stopI; simp)
  qed
next
  case (stop y new)
  have "prefix (bodies new) (B @ B')" using stop(3) by (rule prefix_prefix)
  moreover obtain z where "run_then r f = (z, m\<lparr>world := world m @ new\<rparr>)" "\<forall>x. z \<noteq> Done x"
    using stop(1,4) by (cases y) auto
  ultimately show ?thesis using stop(2) by (simp only:) (rule works_stopI; simp)
qed

lemma works_defer:
  assumes "works B m r"
  shows "works B m (with_defer (drop_error_m e (EvHost ev)) r)"
  using assms
proof (cases rule: works_cases)
  case (ret x new)
  then have "with_defer (drop_error_m e (EvHost ev)) r = (Done x, m\<lparr>world := world m @ (new @ [EvHost ev])\<rparr>)"
    by (simp add: drop_error_m_def do_sys_def)
  with ret show ?thesis by (simp only:) (rule works_retI; simp add: talk_def)
next
  case (stop y new)
  show ?thesis
  proof (cases "\<exists>p. y = Crashed p")
    case True
    then have d: "with_defer (drop_error_m e (EvHost ev)) r = (y, m\<lparr>world := world m @ (new @ [EvHost ev])\<rparr>)"
      by (auto simp: stop(1) drop_error_m_def do_sys_def)
    show ?thesis unfolding d by (rule works_stopI) (use stop(2-4) in \<open>simp_all add: talk_def\<close>)
  next
    case False
    then have d: "with_defer (drop_error_m e (EvHost ev)) r = r"
      using stop(4) unfolding stop(1) by (cases y) simp_all
    show ?thesis unfolding d by (rule assms)
  qed
qed

lemma works_host: "works [] m (fatal_sys (do_sys e (EvHost ev) m))"
  by (auto simp: fatal_sys_def do_sys_def talk_def split: option.split intro!: worksI [where new = "[EvHost ev]"])

lemma api_step_sends:
  assumes "\<exists>op. (\<forall>tr. snd (call tr) = tr @ [EvApi op]) \<and> Body (Params op) = b"
  shows "\<exists>op. snd (api_step call m) = m\<lparr>world := world m @ [EvApi op]\<rparr> \<and> Body (Params op) = b"
proof -
  obtain op where op: "\<And>tr. snd (call tr) = tr @ [EvApi op]" "Body (Params op) = b"
    using assms by blast
  show ?thesis by (rule exI [of _ op]) (simp add: op api_step_def do_api_def split_beta)
qed

lemma works_call:
  assumes "\<exists>op. (\<forall>tr. snd (call tr) = tr @ [EvApi op]) \<and> Body (Params op) = b"
  shows "works [b] m (fatal_if (api_step call m))"
proof -
  obtain op where op: "snd (api_step call m) = m\<lparr>world := world m @ [EvApi op]\<rparr>" "Body (Params op) = b"
    using api_step_sends [OF assms] by blast
  show ?thesis
  proof (rule worksI)
    show "snd (fatal_if (api_step call m)) = m\<lparr>world := world m @ [EvApi op]\<rparr>"
      unfolding op(1) [symmetric] by (simp add: fatal_if_def split_beta split: outcome.split option.split)
  qed (use op in \<open>auto simp: talk_def\<close>)
qed

lemmas request_defs = client_defs ops_defs params_defs

lemma works_PauseVM: "works [paused_body] m (fatal_if (PauseVM e ctx [] m))"
  unfolding PauseVM_def
  by (rule works_call) (simp add: request_defs body_defs VMStatePaused_def go_unfold)

lemma works_ResumeVM: "works [resumed_body] m (fatal_if (mResumeVM e ctx [] m))"
  unfolding mResumeVM_def
  by (rule works_call) (simp add: request_defs body_defs VMStateResumed_def go_unfold)

lemma works_CreateSnapshot:
  "works [create_body mem snap] m (fatal_if (mCreateSnapshot e ctx mem snap [] m))"
  unfolding mCreateSnapshot_def
  by (rule works_call) (simp add: request_defs body_defs go_unfold)


lemma works_connectToVM: "\<exists>new. snd (connectToVM e h key m) = m\<lparr>world := world m @ new\<rparr>
    \<and> list_all talk new \<and> bodies new = []"
proof -
  let ?r = "EvHost (HReadFile key)"
  let ?m1 = "m\<lparr>world := world m @ [?r]\<rparr>"
  show ?thesis
  proof (cases "snd (connectToVM e h key m) = ?m1")
    case True
    then show ?thesis by (intro exI [of _ "[?r]"]) (simp add: talk_def)
  next
    case False
    obtain k where k: "h_read_file h (world m) key = Inr k"
      using False by (cases "h_read_file h (world m) key") (simp_all add: connectToVM_def Let_def)
    moreover have "h_parse_key h k = None"
      using False k by (cases "h_parse_key h k") (simp_all add: connectToVM_def Let_def)
    moreover have "length (NetworkInterfaces (Cfg ?m1)) \<noteq> 0"
      using False k by (auto simp: connectToVM_def Let_def split: option.splits)
    moreover obtain ip where "vm_ip ?m1 = Inr ip"
      using False k by (cases "vm_ip ?m1") (auto simp: connectToVM_def Let_def split: option.splits)
    ultimately have "snd (connectToVM e h key m)
        = m\<lparr>world := world m @ [?r, EvHost (HSshDial ''tcp'' (IP_String ip @ '':22''))]\<rparr>"
      by (simp add: connectToVM_def Let_def do_sys_def)
    then show ?thesis
      by (intro exI [of _ "[?r, EvHost (HSshDial ''tcp'' (IP_String ip @ '':22''))]"]) (simp add: talk_def)
  qed
qed

lemma works_connect: "works [] m (connect_loop e h key n err m)"
proof (induction n arbitrary: err m)
  case 0
  then show ?case by (cases err) (simp_all add: fatal_sys_def works_stay works_stop)
next
  case (Suc n)
  obtain q m1 where c: "connectToVM e h key m = (q, m1)" by fastforce
  then obtain new where new: "m1 = m\<lparr>world := world m @ new\<rparr>" "list_all talk new" "bodies new = []"
    using works_connectToVM [of e h key m] by auto
  show ?case
  proof (cases q)
    case (Inl p)
    show ?thesis unfolding connect_loop.simps c Inl prod.case sum.case new(1)
      by (rule works_stopI) (use new in simp_all)
  next
    case (Inr oerr)
    show ?thesis
    proof (cases oerr)
      case None
      show ?thesis unfolding connect_loop.simps c Inr None prod.case sum.case option.case new(1)
        by (rule works_retI) (use new in simp_all)
    next
      case (Some err1)
      let ?new = "new @ [EvHost (HSleep (backoffTimeMs * time_Millisecond))]"
      have m2: "sleep m1 = m\<lparr>world := world m @ ?new\<rparr>" by (simp add: sleep_def new(1))
      have t: "list_all talk ?new" "bodies ?new = []" using new by (simp_all add: talk_def)
      have w: "works [] (sleep m1) (connect_loop e h key n (Some err1) (sleep m1))" by (rule Suc.IH)
      have eq: "connect_loop e h key (Suc n) err m = connect_loop e h key n (Some err1) (sleep m1)"
        by (simp add: c Inr Some)
      from w show ?thesis unfolding eq
      proof (cases rule: works_cases)
        case (ret x new')
        have "connect_loop e h key n (Some err1) (sleep m1) = (Done x, m\<lparr>world := world m @ (?new @ new')\<rparr>)"
          using ret(1) by (simp add: m2)
        then show "works [] m (connect_loop e h key n (Some err1) (sleep m1))"
          using ret t by (simp only:) (rule works_retI; simp)
      next
        case (stop y new')
        have "connect_loop e h key n (Some err1) (sleep m1) = (y, m\<lparr>world := world m @ (?new @ new')\<rparr>)"
          using stop(1) by (simp add: m2)
        then show "works [] m (connect_loop e h key n (Some err1) (sleep m1))"
          using stop t by (simp only:) (rule works_stopI; simp)
      qed
    qed
  qed
qed

lemma works_session:
  assumes "\<And>m. works B m (work m)"
  shows "works B m (in_session e h dir work m)"
proof -
  have "works ([] @ [] @ B) m (in_session e h dir work m)"
    unfolding in_session_def
    by (intro works_then works_connect works_defer works_host assms)
  then show ?thesis by simp
qed

lemma works_take_snapshot:
  "works [paused_body, create_body mem snap, resumed_body] m (take_snapshot e ctx ip mem snap m)"
proof -
  have "works ([] @ [paused_body] @ [create_body mem snap] @ [resumed_body] @ []) m (take_snapshot e ctx ip mem snap m)"
    unfolding take_snapshot_def
    by (intro works_then works_host works_PauseVM works_CreateSnapshot works_ResumeVM works_stay)
  then show ?thesis by simp
qed

lemma works_snapshot:
  "works [paused_body, create_body mem snap, resumed_body] m (snapshot_work e h ctx dir mem snap m)"
  by (cases "vm_ip m") (simp_all add: snapshot_work_def works_stop works_session works_take_snapshot)

lemma works_restore: "works [resumed_body] m (restore_work e h ctx dir m)"
proof -
  have "works ([resumed_body] @ []) m (restore_work e h ctx dir m)"
    unfolding restore_work_def look_for_process_def
    by (intro works_then works_ResumeVM works_session works_host)
  then show ?thesis by simp
qed


subsection \<open>The end of a machine\<close>

lemma bodies_doCleanup [simp]: "bodies (world (snd (doCleanup e m))) = bodies (world m)"
  by (simp add: doCleanup_snd)

lemma bodies_vmm_exit: "vmm_exit e st m = (r, m1) \<Longrightarrow> bodies (world m1) = bodies (world m)"
  by (cases "doCleanup e m") (use bodies_doCleanup [of e m] in \<open>auto simp: vmm_exit_def\<close>)

lemma bodies_until_exit: "bodies (world (snd (until_exit e h r))) = bodies (world (snd r))"
  by (cases r)
    (auto simp: until_exit_def bodies_vmm_exit [OF surjective_pairing] split: outcome.split option.split)

lemma bodies_StopVMM: "bodies (world (snd (StopVMM e m))) = bodies (world m)"
  by (auto simp: StopVMM_def stopVMM_def do_sys_def step_defs split: option.split)

lemma bodies_ctrl_alt_del:
  "bodies (world (snd (sendCtrlAltDel e ctx m))) = bodies (world m) @ [ctrl_alt_del_body]"
proof -
  have "\<exists>op. snd (sendCtrlAltDel e ctx m) = m\<lparr>world := world m @ [EvApi op]\<rparr>
      \<and> Body (Params op) = ctrl_alt_del_body"
    unfolding sendCtrlAltDel_def
    by (rule api_step_sends) (simp add: request_defs body_defs action_info_def ActionSendCtrlAltDel_def)
  then show ?thesis by auto
qed

lemma until_exit_Returned:
  "(\<forall>m1. r \<noteq> (Blocked, m1)) \<Longrightarrow> until_exit e h r = r"
  by (cases r) (auto simp: until_exit_def split: outcome.split)

lemma sendCtrlAltDel_not_blocked: "sendCtrlAltDel e ctx m \<noteq> (Blocked, m1)"
  by (auto simp: sendCtrlAltDel_def api_step_def api_outcome_def split: prod.splits sum.splits)

text \<open>A \<open>StopVMM\<close> that is waited for and returns nil has signalled the process, if there is one, and
  the clean-up is over.\<close>

lemma StopVMM_until_exit:
  assumes "until_exit e h (StopVMM e m) = (Returned None, m')"
  shows "Process m = None \<or> (cleanupCh m' \<and> EvSignal \<in> set (world m'))"
proof (cases "Process m")
  case (Some pid)
  then have "cleanupCh m' \<and> EvSignal \<in> set (world m')"
    using assms doCleanup_snd [of e "m\<lparr>world := world m @ [EvSignal]\<rparr>"]
    by (auto simp: StopVMM_def stopVMM_def do_sys_def step_defs until_exit_def vmm_exit_def
        split: option.splits if_splits prod.splits)
  then show ?thesis by simp
qed simp


lemma Shutdown_bodies:
  assumes "\<not> shutdownCh m"
  shows "bodies (world (snd (Shutdown e ctx m))) =
    bodies (world m) @ (if goarch e \<noteq> ''arm64'' then [ctrl_alt_del_body] else [])"
  using assms bodies_ctrl_alt_del [of e ctx "m\<lparr>shutdownCh := True\<rparr>"] bodies_StopVMM [of e "m\<lparr>shutdownCh := True\<rparr>"]
  by (simp add: Shutdown_def Let_def)

definition end_bodies :: "env \<Rightarrow> api_body option list" where
  "end_bodies e = (if goarch e \<noteq> ''arm64'' then [ctrl_alt_del_body] else [])"

lemma Shutdown_Done: "Shutdown e ctx m = (Returned None, m') \<Longrightarrow> \<not> shutdownCh m"
  by (auto simp: Shutdown_def)

lemma Shutdown_Process: "Process (snd (until_exit e h (Shutdown e ctx m))) = Process m"
proof -
  have v: "Process (snd (vmm_exit e st m)) = Process m" for st m
    using vmm_exit_keeps [of e st m] by (cases "vmm_exit e st m") auto
  have s: "Process (snd (Shutdown e ctx m)) = Process m"
    by (auto simp: Shutdown_def Let_def sendCtrlAltDel_def api_step_def do_api_def StopVMM_def stopVMM_def
        do_sys_def step_defs split_beta split: option.split)
  have "Process (snd (until_exit e h r)) = Process (snd r)" for r
    using v by (cases r) (auto simp: until_exit_def split: outcome.split option.split)
  with s show ?thesis by simp
qed

lemma Shutdown_until_exit_Done:
  assumes "until_exit e h (Shutdown e ctx m) = (Returned None, m')"
  shows "bodies (world m') = bodies (world m) @ end_bodies e \<and> Process m' = Process m"
proof -
  have "\<not> shutdownCh m"
    using assms by (auto simp: Shutdown_def until_exit_def)
  moreover have "m' = snd (until_exit e h (Shutdown e ctx m))" using assms by simp
  ultimately show ?thesis
    using Shutdown_bodies [of m e ctx] bodies_until_exit [of e h "Shutdown e ctx m"] Shutdown_Process [of e h ctx m]
    by (simp add: end_bodies_def)
qed

lemma started_then_Done:
  assumes "started_then e h ctx work m = (Done x, m')" and "\<And>m. works B m (work m)"
  shows "\<exists>m1. Start e no_user ctx m = (Returned None, m1)
    \<and> bodies (world m') = bodies (world m1) @ B @ end_bodies e
    \<and> (Process m1 = None \<or> (cleanupCh m' \<and> EvSignal \<in> set (world m')))"
proof -
  obtain m1 m2 m3 where run: "Start e no_user ctx m = (Returned None, m1)"
    "work m1 = (Done x, m2)" "until_exit e h (Shutdown e ctx m2) = (Returned None, m3)"
    "until_exit e h (StopVMM e m3) = (Returned None, m')"
    using assms(1) by (auto simp: started_then_def run_then_Done_iff with_defer_Done_iff)
  obtain new where new: "m2 = m1\<lparr>world := world m1 @ new\<rparr>" "bodies new = B"
    using assms(2) [of m1] run(2) by (auto simp: works_def)
  have "bodies (world m') = bodies (world m3)"
    using bodies_until_exit [of e h "StopVMM e m3"] bodies_StopVMM [of e m3] run(4) by simp
  with Shutdown_until_exit_Done [OF run(3)] StopVMM_until_exit [OF run(4)] run(1) new show ?thesis by simp
qed


subsection \<open>Starting from a snapshot\<close>

interpretation quiet_since: step_invariant
  "\<lambda>m. \<exists>new. world m = tr @ new \<and> list_all (\<lambda>ev. \<not> start_action ev) new" for tr
  by unfold_locales (auto simp: no_api_no_start sdk_no_start)

interpretation snapshot_kept: step_invariant "\<lambda>m. Snapshot (Cfg m) = s" for s
  by unfold_locales (auto simp: same_data_def)

lemma boot_is_start: "Body (Params op) = boot_body \<longleftrightarrow> start_action (EvApi op)"
  by (simp add: boot_body_def start_action_def action_info_def ActionInstanceStart_def)

lemma no_boot_bodies: "list_all (\<lambda>ev. \<not> start_action ev) tr \<Longrightarrow> boot_body \<notin> set (bodies tr)"
  by (auto simp: set_bodies list_all_iff boot_is_start)

lemma loadSnapshot_body:
  assumes "MemBackend s = None" and "\<not> EnableDiffSnapshots s" and "\<not> ResumeVM s"
  shows "bodies (world (snd (loadSnapshot e ctx s m))) = bodies (world m) @ [load_body (MemFilePath s) (SnapshotPath s)]"
proof -
  let ?p = "\<lparr>slp_EnableDiffSnapshots = EnableDiffSnapshots s, slp_MemBackend = MemBackend s,
        slp_MemFilePath = MemFilePath s, slp_ResumeVM = ResumeVM s, slp_SnapshotPath = Some (SnapshotPath s)\<rparr>"
  have "\<exists>op. snd (api_step (LoadSnapshot e (client m) ctx ?p []) m) = m\<lparr>world := world m @ [EvApi op]\<rparr>
      \<and> Body (Params op) = load_body (MemFilePath s) (SnapshotPath s)"
    by (rule api_step_sends) (simp add: request_defs body_defs assms)
  then have "bodies (world (snd (api_step (LoadSnapshot e (client m) ctx ?p []) m)))
      = bodies (world m) @ [load_body (MemFilePath s) (SnapshotPath s)]" by auto
  then show ?thesis
    by (auto simp: loadSnapshot_def Let_def step_defs split: prod.split outcome.split option.split)
qed

text \<open>A machine that is set up for a snapshot: the last handler loads it, and starting the machine
  ends with the request that does, without the boot action having been sent.\<close>

lemma Start_loads_snapshot:
  assumes "Start e no_user ctx m = (Returned None, m1)"
    and "FcInit (mHandlers m) = l @ [LoadSnapshotHandler]"
    and "MemBackend (Snapshot (Cfg m)) = None" and "\<not> EnableDiffSnapshots (Snapshot (Cfg m))"
    and "\<not> ResumeVM (Snapshot (Cfg m))" and "SnapshotPath (Snapshot (Cfg m)) \<noteq> ''''"
  shows "\<exists>B. bodies (world m1) = bodies (world m) @ B @
      [load_body (MemFilePath (Snapshot (Cfg m))) (SnapshotPath (Snapshot (Cfg m)))] \<and> boot_body \<notin> set B"
proof -
  let ?s = "Snapshot (Cfg m)" and ?m = "m\<lparr>started := True\<rparr>"
  let ?exec = "run_handler e no_user ctx"
  define pre where "pre = (if DisableValidation (Cfg m) then [] else Validation (mHandlers m)) @ l"
  have hs: "Handlers_list (mHandlers m) (DisableValidation (Cfg m)) = pre @ [LoadSnapshotHandler]"
    by (simp add: Handlers_list_def Append_def pre_def assms(2))
  obtain m2 where run: "run_all e no_user ctx ?m = (Returned None, m2)" "startInstance e ctx m2 = (Returned None, m1)"
    using assms(1) by (auto simp: Start_def step_defs and_then_None split: if_splits prod.splits outcome.splits option.splits)
  obtain m3 where m3: "HandlerList_Run ?exec pre ?m = (Returned None, m3)"
    "loadSnapshot e ctx (Snapshot (Cfg m3)) m3 = (Returned None, m2)"
    using run(1)
    by (auto simp: run_all_def Handlers_Run_def hs HandlerList_Run_append run_handler_def LoadSnapshotHandler_def
        split: prod.splits outcome.splits option.splits)
  have "Snapshot (Cfg (snd (HandlerList_Run ?exec pre ?m))) = ?s"
    by (rule HandlerList_Run_inv, rule snapshot_kept.P_run_handler) (simp_all add: no_user_def)
  then have s3: "Snapshot (Cfg m3) = ?s" using m3(1) by simp
  have "\<exists>new. world (snd (HandlerList_Run ?exec pre ?m)) = world m @ new \<and> list_all (\<lambda>ev. \<not> start_action ev) new"
    by (rule HandlerList_Run_inv, rule quiet_since.P_run_handler) (simp_all add: no_user_def)
  then obtain new where new: "world m3 = world m @ new" "boot_body \<notin> set (bodies new)"
    using m3(1) no_boot_bodies by auto
  have b2: "bodies (world m2) = bodies (world m3) @ [load_body (MemFilePath ?s) (SnapshotPath ?s)]"
    using loadSnapshot_body [of ?s e ctx m3] assms(3-5) m3(2) by (simp add: s3)
  have "Snapshot (Cfg m2) = ?s"
    using snapshot_kept.P_loadSnapshot [of m3 ?s e ctx] s3 m3(2) by simp
  then have "m1 = m2" using run(2) assms(6) by (simp add: startInstance_def hasSnapshot_def step_defs)
  with b2 new show ?thesis by (intro exI [of _ "bodies new"]) simp
qed

lemma Start_boots:
  assumes "Start e no_user ctx m = (Returned None, m1)" and "\<not> hasSnapshot (Cfg m)"
  shows "\<exists>B. bodies (world m1) = bodies (world m) @ B @ [boot_body]"
proof -
  let ?m = "m\<lparr>started := True\<rparr>"
  obtain m2 where run: "run_all e no_user ctx ?m = (Returned None, m2)" "startInstance e ctx m2 = (Returned None, m1)"
    using assms(1) by (auto simp: Start_def step_defs and_then_None split: if_splits prod.splits outcome.splits option.splits)
  have s2: "Snapshot (Cfg m2) = Snapshot (Cfg m)"
    using snapshot_kept.P_run_all [of ?m "Snapshot (Cfg m)" no_user e ctx] run(1) by (simp add: no_user_def)
  have "\<exists>new. world (snd (run_all e no_user ctx ?m)) = world m @ new \<and> list_all (\<lambda>ev. \<not> start_action ev) new"
    by (rule quiet_since.P_run_all) (simp_all add: no_user_def)
  then obtain new where new: "world m2 = world m @ new" using run(1) by auto
  have "\<exists>op. snd (api_step (CreateSyncAction e (client m2) ctx (action_info ActionInstanceStart) []) m2)
      = m2\<lparr>world := world m2 @ [EvApi op]\<rparr> \<and> Body (Params op) = boot_body"
    by (rule api_step_sends) (simp add: request_defs body_defs action_info_def ActionInstanceStart_def)
  moreover have "\<not> hasSnapshot (Cfg m2)" using assms(2) s2 by (simp add: hasSnapshot_def)
  ultimately have "bodies (world m1) = bodies (world m2) @ [boot_body]"
    using run(2) by (auto simp: startInstance_def)
  with new show ?thesis by (intro exI [of _ "bodies new"]) simp
qed

subsection \<open>The machines of the example\<close>

lemma finish_machine_opts:
  "\<exists>m'. finish_machine e opts m cfg = apply_opts opts m' \<and> mHandlers m' = mHandlers m \<and> world m' = world m
     \<and> Snapshot (Cfg m') = Snapshot cfg"
  by (auto simp: finish_machine_def Let_def intro!: exI [of _ "if _ then _ else _"])

lemma NewMachine_opts:
  assumes "JailerCfg cfg = None" and "NewMachine e adapt opts cfg tr = Inr (Inr m)"
  shows "\<exists>m'. m = apply_opts opts m' \<and> bodies (world m') = bodies tr \<and> Snapshot (Cfg m') = Snapshot cfg"
proof -
  obtain cfg1 tr1 where a: "assign_VMID e cfg tr = (Inr cfg1, tr1)"
    using assms(2) by (cases "assign_VMID e cfg tr") (auto simp: NewMachine_def split: sum.splits)
  then have c: "bodies tr1 = bodies tr" "Snapshot cfg1 = Snapshot cfg" "JailerCfg cfg1 = None"
    using assms(1) by (auto simp: assign_VMID_def split: if_splits sum.splits)
  let ?m = "(add_validation ConfigValidationHandler (fresh_machine tr1 cfg1))\<lparr>
      cmd := vb_Build (configureBuilder defaultFirecrackerVMMCommandBuilder cfg1)\<rparr>"
  have "m = finish_machine e opts ?m cfg1" using assms(2) a c(3) by (simp add: NewMachine_def Let_def)
  with finish_machine_opts [of e opts ?m cfg1] c show ?thesis
    by (auto simp: add_validation_def fresh_machine_def)
qed

lemma WithSnapshot_last:
  "\<exists>l. FcInit (mHandlers (WithSnapshot mem snap opts m)) = l @ [LoadSnapshotHandler]"
  by (auto simp: WithSnapshot_def Let_def modifyHandlersForLoadSnapshot_def Append_def)

lemma clean_elems_nonempty:
  "'''' \<notin> set stk \<Longrightarrow> '''' \<notin> set (clean_elems rooted stk es)"
  by (induction rooted stk es rule: clean_elems.induct) (auto split: list.split)

lemma str_join_nonempty: "'''' \<notin> set ws \<Longrightarrow> ws \<noteq> [] \<Longrightarrow> str_join ws sep \<noteq> ''''"
  by (cases "(ws, sep)" rule: str_join.cases) auto

lemma path_clean_nonempty: "path_clean p \<noteq> ''''"
  using str_join_nonempty [OF clean_elems_nonempty, of "[]"] by (auto simp: path_clean_def Let_def)

lemma path_join2_nonempty: "b \<noteq> '''' \<Longrightarrow> path_join [a, b] \<noteq> ''''"
  by (simp add: path_clean_nonempty)

lemma drop_error_Done [simp]: "drop_error e ev tr = (x, tr') \<longleftrightarrow> x = Done () \<and> tr' = tr @ [ev]"
  by (auto simp: drop_error_def)

lemma createNewConfig_start:
  "JailerCfg (createNewConfig h p [withNetworkInterface i]) = None"
  "Snapshot (createNewConfig h p [withNetworkInterface i]) = Snapshot zero_Config"
  by (simp_all add: createNewConfig_def zero_Config_def withNetworkInterface_def Let_def apply_opts_def)

lemma createSnapshotSSH_Done:
  assumes "createSnapshotSSH e h ctx sock mem snap tr = (Done ip, tr')"
  shows "\<exists>B. bodies tr' = bodies tr @ B @ [boot_body, paused_body, create_body mem snap, resumed_body] @ end_bodies e"
proof -
  obtain dir where dir: "h_getwd h = Inr dir"
    using assms by (cases "h_getwd h") (simp_all add: createSnapshotSSH_def)
  define tr1 where "tr1 = tr @ [EvHost (HWriteFile (cni_conf_path dir) (cni_conf ex_networkName subnet))]"
  obtain m m' where d:
    "NewMachine e no_adapter [WithProcessRunner (firecracker_cmd dir (sock @ ''.create''))]
        (createNewConfig h (sock @ ''.create'') [withNetworkInterface (cni_interface_of dir [])]) tr1 = Inr (Inr m)"
    "started_then e h ctx (snapshot_work e h ctx dir mem snap) m = (Done ip, m')"
    "tr' = world m' @ [EvRemove (sock @ ''.create''), EvRemove (cni_conf_path dir)]"
    using assms
    by (auto simp: createSnapshotSSH_def run_then_Done_iff with_defer_Done_iff Let_def dir tr1_def
        writeCNIConfWithHostLocalSubnet_def syscall_def split: sum.splits prod.splits)
  have tr1: "bodies tr1 = bodies tr" by (simp add: tr1_def)
  obtain m0 where m0: "m = WithProcessRunner (firecracker_cmd dir (sock @ ''.create'')) m0"
    "bodies (world m0) = bodies tr1" "Snapshot (Cfg m0) = Snapshot zero_Config"
    using NewMachine_opts [OF createNewConfig_start(1) d(1)] by (auto simp: createNewConfig_start apply_opts_def)
  then have m: "bodies (world m) = bodies tr" "\<not> hasSnapshot (Cfg m)"
    by (simp_all add: WithProcessRunner_def tr1 hasSnapshot_def GetMemBackendPath_def zero_Config_def)
  obtain m1 where m1: "Start e no_user ctx m = (Returned None, m1)"
    "bodies (world m') = bodies (world m1) @ [paused_body, create_body mem snap, resumed_body] @ end_bodies e"
    using started_then_Done [OF d(2) works_snapshot] by auto
  from Start_boots [OF m1(1) m(2)] m1(2) m(1) d(3) show ?thesis by auto
qed

lemma wait_ip_freed_bodies:
  assumes "wait_ip_freed e ip tr = (Done x, tr')"
  shows "bodies tr' = bodies tr"
proof -
  have "bodies (snd (snd (ip_freed_loop e p n err tr))) = bodies tr" for p n err tr
    by (induction n arbitrary: err tr) (auto simp: syscall_def split: option.split)
  from this [of _ maxRetries None tr] show ?thesis
    using assms by (auto simp: wait_ip_freed_def split: prod.splits) (metis snd_conv)
qed

lemma loadSnapshotSSH_Done:
  assumes "loadSnapshotSSH e h ctx sock mem snap ip tr = (Done x, tr')" and "snap \<noteq> ''''"
  shows "\<exists>B. bodies tr' = bodies tr @ B @ [load_body mem snap, resumed_body] @ end_bodies e \<and> boot_body \<notin> set B"
proof -
  obtain tr0 where tr0: "wait_ip_freed e ip tr = (Done (), tr0)"
    using assms(1) by (auto simp: loadSnapshotSSH_def run_then_Done_iff)
  obtain dir where dir: "h_getwd h = Inr dir"
    using assms(1) tr0 by (cases "h_getwd h") (simp_all add: loadSnapshotSSH_def)
  define tr1 where "tr1 = tr0 @ [EvHost (HWriteFile (cni_conf_path dir) (cni_conf ex_networkName subnet))]"
  obtain m m' where d:
    "NewMachine e no_adapter [WithProcessRunner (firecracker_cmd dir (sock @ ''.load'')), WithSnapshot mem snap []]
        (restore_config dir sock ip) tr1 = Inr (Inr m)"
    "started_then e h ctx (restore_work e h ctx dir) m = (Done x, m')"
    "tr' = world m' @ [EvRemove (sock @ ''.load''), EvRemove (cni_conf_path dir)]"
    using assms(1)
    by (auto simp: loadSnapshotSSH_def run_then_Done_iff with_defer_Done_iff Let_def dir tr0 tr1_def
        writeCNIConfWithHostLocalSubnet_def syscall_def split: sum.splits prod.splits)
  have tr1: "bodies tr1 = bodies tr" using wait_ip_freed_bodies [OF tr0] by (simp add: tr1_def)
  have j: "JailerCfg (restore_config dir sock ip) = None"
    "Snapshot (restore_config dir sock ip) = Snapshot zero_Config"
    by (simp_all add: restore_config_def zero_Config_def)
  obtain m0 where m0: "m = WithSnapshot mem snap [] (WithProcessRunner (firecracker_cmd dir (sock @ ''.load'')) m0)"
    "bodies (world m0) = bodies tr1" "Snapshot (Cfg m0) = Snapshot zero_Config"
    using NewMachine_opts [OF j(1) d(1)] by (auto simp: j apply_opts_def)
  then have m: "bodies (world m) = bodies tr"
    and s: "Snapshot (Cfg m) = (Snapshot zero_Config)\<lparr>MemFilePath := mem, SnapshotPath := snap\<rparr>"
    by (simp_all add: WithProcessRunner_def WithSnapshot_def Let_def tr1 apply_opts_def)
  obtain m1 where m1: "Start e no_user ctx m = (Returned None, m1)"
    "bodies (world m') = bodies (world m1) @ [resumed_body] @ end_bodies e"
    using started_then_Done [OF d(2) works_restore] by auto
  obtain l where "FcInit (mHandlers m) = l @ [LoadSnapshotHandler]"
    using WithSnapshot_last unfolding m0(1) by blast
  from Start_loads_snapshot [OF m1(1) this] m1(2) m d(3) show ?thesis
    using assms(2) by (auto simp: s zero_Config_def)
qed

text \<open>C29: If the example program returns, it has booted a machine, paused it, saved it and resumed it,
  and then restored in a second machine, which it did not boot, exactly the files that it had saved,
  and resumed that one; both machines were told to shut down after that, and nothing else was asked
  of them but what starting them takes.\<close>

theorem example_restores_what_it_saved:
  assumes "example_main e h tr = (Done (), tr')"
  shows "\<exists>mem snap B B'. bodies tr' = bodies tr
      @ B @ [boot_body, paused_body, create_body mem snap, resumed_body] @ end_bodies e
      @ B' @ [load_body mem snap, resumed_body] @ end_bodies e
    \<and> boot_body \<notin> set B'"
proof -
  obtain dir where dir: "h_getwd h = Inr dir"
    using assms by (cases "h_getwd h") (auto simp: example_main_def run_then_Done_iff split: if_splits)
  let ?d = "path_join [dir, ''snapshotssh'']"
  define mem where "mem = path_join [?d, ''MemFile'']"
  define snap where "snap = path_join [?d, ''SnapFile'']"
  have snap: "snap \<noteq> ''''" unfolding snap_def by (rule path_join2_nonempty) simp
  obtain tmp tr1 tr2 tr3 ip where run:
    "mkdir_if_missing e ?d (tr @ [EvHost (HAccess ''/dev/kvm''), EvHost (HMkdir (path_join [dir, ''cni.conf''])),
       EvHost (HMkdirTemp '''' ''FCGoSDKSnapshotExample'')]) = (Done (), tr1)"
    "createSnapshotSSH e h CtxBackground (path_join [tmp, ''snapshotssh'']) mem snap tr1 = (Done ip, tr2)"
    "loadSnapshotSSH e h CtxBackground (path_join [tmp, ''snapshotssh'']) mem snap ip tr2 = (Done (), tr3)"
    "tr' = tr3 @ [EvHost (HRemoveAll ?d), EvRemove tmp, EvRemove (path_join [dir, ''cni.conf''])]"
    using assms
    by (auto simp: example_main_def dir run_then_Done_iff with_defer_Done_iff Let_def syscall_def
        mem_def snap_def simp del: path_join.simps split: if_splits sum.splits)
  have b1: "bodies tr1 = bodies tr"
    using run(1) by (auto simp: mkdir_if_missing_def syscall_def)
  from createSnapshotSSH_Done [OF run(2)] obtain B where b2: "bodies tr2 = bodies tr1 @ B
      @ [boot_body, paused_body, create_body mem snap, resumed_body] @ end_bodies e" by blast
  from loadSnapshotSSH_Done [OF run(3) snap] obtain B' where b3: "bodies tr3 = bodies tr2 @ B'
      @ [load_body mem snap, resumed_body] @ end_bodies e" "boot_body \<notin> set B'" by blast
  have "bodies tr' = bodies tr3" by (simp add: run(4) del: path_join.simps)
  with b1 b2 b3 show ?thesis
    by (intro exI [of _ mem] exI [of _ snap] exI [of _ B] exI [of _ B']) simp
qed

subsection \<open>Runs of the example\<close>

definition after_starts :: "nat \<Rightarrow> trace \<Rightarrow> go_error option" where
  "after_starts n tr = (if n \<le> length (filter is_start_cmd tr) then None else Some (OsError ENOENT))"

text \<open>Everything succeeds; the sockets appear when the processes have been started, and the lease
  file is gone.\<close>

definition demo_env :: env where
  "demo_env = calm_env\<lparr>sys := (\<lambda>tr ev. case ev of
     EvStat p \<Rightarrow>
       if p = ''/t/snapshotssh.create'' then after_starts 1 tr
       else if p = ''/t/snapshotssh.load'' then after_starts 2 tr
       else if take (length cniCacheDir) p = cniCacheDir then Some (OsError ENOENT)
       else None
   | _ \<Rightarrow> None),
   ns_check := (\<lambda>tr p. NsIsNS)\<rparr>"

definition demo_host :: host where
  "demo_host = \<lparr>h_getwd = Inr ''/w'', h_getuid = 0, h_mkdir_temp = (\<lambda>tr dir pattern. Inr ''/t''),
     h_read_file = (\<lambda>tr p. Inr ''key''), h_parse_key = (\<lambda>k. None), h_vm_exits = (\<lambda>tr. Some None)\<rparr>"

lemma demo_example_returns: "fst (example_main demo_env demo_host []) = Done ()"
  by code_simp

theorem example_restores_what_it_saved_witness:
  "\<exists>mem snap B B'. bodies (snd (example_main demo_env demo_host [])) = bodies []
      @ B @ [boot_body, paused_body, create_body mem snap, resumed_body] @ end_bodies demo_env
      @ B' @ [load_body mem snap, resumed_body] @ end_bodies demo_env
    \<and> boot_body \<notin> set B'"
proof -
  have "example_main demo_env demo_host [] = (Done (), snd (example_main demo_env demo_host []))"
    using demo_example_returns by (simp add: prod_eq_iff)
  then show ?thesis by (rule example_restores_what_it_saved)
qed

text \<open>The SSH server of the machine refuses to open a session.\<close>

definition no_session :: go_error where "no_session = LibError 1"

definition deaf_env :: env where
  "deaf_env = demo_env\<lparr>sys := (\<lambda>tr ev. case ev of
     EvHost hev \<Rightarrow> (case hev of HSessionNew \<Rightarrow> Some no_session | _ \<Rightarrow> None)
   | _ \<Rightarrow> sys demo_env tr ev)\<rparr>"

definition demo_start :: trace where
  "demo_start = [EvHost (HWriteFile (cni_conf_path ''/w'') (cni_conf ex_networkName subnet))]"

definition first_machine :: Machine where
  "first_machine =
    (case NewMachine deaf_env no_adapter [WithProcessRunner (firecracker_cmd ''/w'' ''/t/snapshotssh.create'')]
        (createNewConfig demo_host ''/t/snapshotssh.create'' [withNetworkInterface (cni_interface_of ''/w'' [])])
        demo_start of
       Inr (Inr m) \<Rightarrow> m | _ \<Rightarrow> calm_machine)"

definition first_run :: "(bool \<times> bool) \<times> bool" where
  "first_run =
    (case Start deaf_env no_user CtxBackground first_machine of
       (out, m1) \<Rightarrow> ((out = Returned None, Process m1 = Some 42 \<and> \<not> cleaned m1),
         fst (snapshot_work deaf_env demo_host CtxBackground ''/w'' ''/m'' ''/s'' m1) = FatalExit no_session))"

lemma first_run_leaves: "first_run = ((True, True), True)"
  by code_simp

lemma first_machine_new:
  "NewMachine deaf_env no_adapter [WithProcessRunner (firecracker_cmd ''/w'' ''/t/snapshotssh.create'')]
     (createNewConfig demo_host ''/t/snapshotssh.create'' [withNetworkInterface (cni_interface_of ''/w'' [])])
     demo_start = Inr (Inr first_machine)"
proof -
  let ?cfg = "createNewConfig demo_host ''/t/snapshotssh.create'' [withNetworkInterface (cni_interface_of ''/w'' [])]"
  have "VMID ?cfg = ''''" and "JailerCfg ?cfg = None"
    by (simp_all add: createNewConfig_def zero_Config_def withNetworkInterface_def Let_def apply_opts_def)
  moreover have "new_uuid deaf_env tr = Inr ''vm1''" for tr by (simp add: deaf_env_def demo_env_def calm_env_def)
  ultimately show ?thesis by (simp add: first_machine_def NewMachine_def assign_VMID_def Let_def)
qed


end
