(* ===== verification/Mocks.thy ===== *)
theory Mocks
  imports Operations Netlink
begin

text \<open>
  The doubles for tests that the repository ships: \<open>MockClient\<close> of \<open>fctesting/firecracker_mock_client.go\<close>, which
  stands in for the generated operations client, \<open>MockNetlinkOps\<close>, \<open>MockLink\<close> and \<open>MockNetNS\<close> of
  \<open>cni/internal/mocks.go\<close>, which stand in for netlink, and the guards of \<open>fctesting/utils.go\<close>.
\<close>

subsection \<open>The operations client\<close>

text \<open>
  A method calls the function of its field, or returns two nils if the field is nil: a payload that
  is \<open>None\<close> is the nil pointer, which the operations themselves never return without an error.
\<close>

type_synonym 'p mock_fn = "(api_params \<Rightarrow> trace \<Rightarrow> 'p option api_result \<times> trace) option"

record MockClient =
  CreateSnapshotMock :: "unit mock_fn"
  CreateSyncActionMock :: "unit mock_fn"
  DescribeBalloonConfigMock :: "Balloon mock_fn"
  DescribeBalloonStatsMock :: "BalloonStats mock_fn"
  DescribeInstanceMock :: "InstanceInfo mock_fn"
  GetExportVMConfigMock :: "FullVMConfiguration mock_fn"
  GetFirecrackerVersionMock :: "FirecrackerVersion mock_fn"
  GetMachineConfigurationMock :: "MachineConfiguration mock_fn"
  GetMmdsMock :: "string mock_fn"
  LoadSnapshotMock :: "unit mock_fn"
  PatchBalloonMock :: "unit mock_fn"
  PatchBalloonStatsIntervalMock :: "unit mock_fn"
  PatchGuestDriveByIDMock :: "unit mock_fn"
  PatchGuestNetworkInterfaceByIDMock :: "unit mock_fn"
  PatchMachineConfigurationMock :: "unit mock_fn"
  PatchMmdsMock :: "unit mock_fn"
  PatchVMMock :: "unit mock_fn"
  PutBalloonMock :: "unit mock_fn"
  PutCPUConfigurationMock :: "unit mock_fn"
  PutEntropyDeviceMock :: "unit mock_fn"
  PutGuestBootSourceMock :: "unit mock_fn"
  PutGuestDriveByIDMock :: "unit mock_fn"
  PutGuestNetworkInterfaceByIDMock :: "unit mock_fn"
  PutGuestVsockMock :: "unit mock_fn"
  PutLoggerMock :: "unit mock_fn"
  PutMachineConfigurationMock :: "unit mock_fn"
  PutMetricsMock :: "unit mock_fn"
  PutMmdsMock :: "unit mock_fn"
  PutMmdsConfigMock :: "unit mock_fn"

definition mock_call :: "'p mock_fn \<Rightarrow> api_params \<Rightarrow> trace \<Rightarrow> 'p option api_result \<times> trace" where
  "mock_call fn params tr = (case fn of Some f \<Rightarrow> f params tr | None \<Rightarrow> (Inr (Inr None), tr))"

definition mock_CreateSnapshot :: "MockClient \<Rightarrow> api_params \<Rightarrow> trace \<Rightarrow> unit option api_result \<times> trace" where
  "mock_CreateSnapshot c = mock_call (CreateSnapshotMock c)"
definition mock_CreateSyncAction :: "MockClient \<Rightarrow> api_params \<Rightarrow> trace \<Rightarrow> unit option api_result \<times> trace" where
  "mock_CreateSyncAction c = mock_call (CreateSyncActionMock c)"
definition mock_DescribeBalloonConfig :: "MockClient \<Rightarrow> api_params \<Rightarrow> trace \<Rightarrow> Balloon option api_result \<times> trace" where
  "mock_DescribeBalloonConfig c = mock_call (DescribeBalloonConfigMock c)"
definition mock_DescribeBalloonStats :: "MockClient \<Rightarrow> api_params \<Rightarrow> trace \<Rightarrow> BalloonStats option api_result \<times> trace" where
  "mock_DescribeBalloonStats c = mock_call (DescribeBalloonStatsMock c)"
definition mock_DescribeInstance :: "MockClient \<Rightarrow> api_params \<Rightarrow> trace \<Rightarrow> InstanceInfo option api_result \<times> trace" where
  "mock_DescribeInstance c = mock_call (DescribeInstanceMock c)"
definition mock_GetExportVMConfig :: "MockClient \<Rightarrow> api_params \<Rightarrow> trace \<Rightarrow> FullVMConfiguration option api_result \<times> trace" where
  "mock_GetExportVMConfig c = mock_call (GetExportVMConfigMock c)"
definition mock_GetFirecrackerVersion :: "MockClient \<Rightarrow> api_params \<Rightarrow> trace \<Rightarrow> FirecrackerVersion option api_result \<times> trace" where
  "mock_GetFirecrackerVersion c = mock_call (GetFirecrackerVersionMock c)"
definition mock_GetMachineConfiguration :: "MockClient \<Rightarrow> api_params \<Rightarrow> trace \<Rightarrow> MachineConfiguration option api_result \<times> trace" where
  "mock_GetMachineConfiguration c = mock_call (GetMachineConfigurationMock c)"
definition mock_GetMmds :: "MockClient \<Rightarrow> api_params \<Rightarrow> trace \<Rightarrow> string option api_result \<times> trace" where
  "mock_GetMmds c = mock_call (GetMmdsMock c)"
definition mock_LoadSnapshot :: "MockClient \<Rightarrow> api_params \<Rightarrow> trace \<Rightarrow> unit option api_result \<times> trace" where
  "mock_LoadSnapshot c = mock_call (LoadSnapshotMock c)"
definition mock_PatchBalloon :: "MockClient \<Rightarrow> api_params \<Rightarrow> trace \<Rightarrow> unit option api_result \<times> trace" where
  "mock_PatchBalloon c = mock_call (PatchBalloonMock c)"
definition mock_PatchBalloonStatsInterval :: "MockClient \<Rightarrow> api_params \<Rightarrow> trace \<Rightarrow> unit option api_result \<times> trace" where
  "mock_PatchBalloonStatsInterval c = mock_call (PatchBalloonStatsIntervalMock c)"
definition mock_PatchGuestDriveByID :: "MockClient \<Rightarrow> api_params \<Rightarrow> trace \<Rightarrow> unit option api_result \<times> trace" where
  "mock_PatchGuestDriveByID c = mock_call (PatchGuestDriveByIDMock c)"
definition mock_PatchGuestNetworkInterfaceByID :: "MockClient \<Rightarrow> api_params \<Rightarrow> trace \<Rightarrow> unit option api_result \<times> trace" where
  "mock_PatchGuestNetworkInterfaceByID c = mock_call (PatchGuestNetworkInterfaceByIDMock c)"
definition mock_PatchMachineConfiguration :: "MockClient \<Rightarrow> api_params \<Rightarrow> trace \<Rightarrow> unit option api_result \<times> trace" where
  "mock_PatchMachineConfiguration c = mock_call (PatchMachineConfigurationMock c)"
definition mock_PatchMmds :: "MockClient \<Rightarrow> api_params \<Rightarrow> trace \<Rightarrow> unit option api_result \<times> trace" where
  "mock_PatchMmds c = mock_call (PatchMmdsMock c)"
definition mock_PatchVM :: "MockClient \<Rightarrow> api_params \<Rightarrow> trace \<Rightarrow> unit option api_result \<times> trace" where
  "mock_PatchVM c = mock_call (PatchVMMock c)"
definition mock_PutBalloon :: "MockClient \<Rightarrow> api_params \<Rightarrow> trace \<Rightarrow> unit option api_result \<times> trace" where
  "mock_PutBalloon c = mock_call (PutBalloonMock c)"
definition mock_PutCPUConfiguration :: "MockClient \<Rightarrow> api_params \<Rightarrow> trace \<Rightarrow> unit option api_result \<times> trace" where
  "mock_PutCPUConfiguration c = mock_call (PutCPUConfigurationMock c)"
definition mock_PutEntropyDevice :: "MockClient \<Rightarrow> api_params \<Rightarrow> trace \<Rightarrow> unit option api_result \<times> trace" where
  "mock_PutEntropyDevice c = mock_call (PutEntropyDeviceMock c)"
definition mock_PutGuestBootSource :: "MockClient \<Rightarrow> api_params \<Rightarrow> trace \<Rightarrow> unit option api_result \<times> trace" where
  "mock_PutGuestBootSource c = mock_call (PutGuestBootSourceMock c)"
definition mock_PutGuestDriveByID :: "MockClient \<Rightarrow> api_params \<Rightarrow> trace \<Rightarrow> unit option api_result \<times> trace" where
  "mock_PutGuestDriveByID c = mock_call (PutGuestDriveByIDMock c)"
definition mock_PutGuestNetworkInterfaceByID :: "MockClient \<Rightarrow> api_params \<Rightarrow> trace \<Rightarrow> unit option api_result \<times> trace" where
  "mock_PutGuestNetworkInterfaceByID c = mock_call (PutGuestNetworkInterfaceByIDMock c)"
definition mock_PutGuestVsock :: "MockClient \<Rightarrow> api_params \<Rightarrow> trace \<Rightarrow> unit option api_result \<times> trace" where
  "mock_PutGuestVsock c = mock_call (PutGuestVsockMock c)"
definition mock_PutLogger :: "MockClient \<Rightarrow> api_params \<Rightarrow> trace \<Rightarrow> unit option api_result \<times> trace" where
  "mock_PutLogger c = mock_call (PutLoggerMock c)"
definition mock_PutMachineConfiguration :: "MockClient \<Rightarrow> api_params \<Rightarrow> trace \<Rightarrow> unit option api_result \<times> trace" where
  "mock_PutMachineConfiguration c = mock_call (PutMachineConfigurationMock c)"
definition mock_PutMetrics :: "MockClient \<Rightarrow> api_params \<Rightarrow> trace \<Rightarrow> unit option api_result \<times> trace" where
  "mock_PutMetrics c = mock_call (PutMetricsMock c)"
definition mock_PutMmds :: "MockClient \<Rightarrow> api_params \<Rightarrow> trace \<Rightarrow> unit option api_result \<times> trace" where
  "mock_PutMmds c = mock_call (PutMmdsMock c)"
definition mock_PutMmdsConfig :: "MockClient \<Rightarrow> api_params \<Rightarrow> trace \<Rightarrow> unit option api_result \<times> trace" where
  "mock_PutMmdsConfig c = mock_call (PutMmdsConfigMock c)"

lemmas mock_defs = mock_CreateSnapshot_def mock_CreateSyncAction_def mock_DescribeBalloonConfig_def mock_DescribeBalloonStats_def mock_DescribeInstance_def mock_GetExportVMConfig_def mock_GetFirecrackerVersion_def mock_GetMachineConfiguration_def mock_GetMmds_def mock_LoadSnapshot_def mock_PatchBalloon_def mock_PatchBalloonStatsInterval_def mock_PatchGuestDriveByID_def mock_PatchGuestNetworkInterfaceByID_def mock_PatchMachineConfiguration_def mock_PatchMmds_def mock_PatchVM_def mock_PutBalloon_def mock_PutCPUConfiguration_def mock_PutEntropyDevice_def mock_PutGuestBootSource_def mock_PutGuestDriveByID_def mock_PutGuestNetworkInterfaceByID_def mock_PutGuestVsock_def mock_PutLogger_def mock_PutMachineConfiguration_def mock_PutMetrics_def mock_PutMmds_def mock_PutMmdsConfig_def

text \<open>A reply of the operations client, as a reply with a pointer.\<close>

definition lift_reply :: "'p api_result \<times> trace \<Rightarrow> 'p option api_result \<times> trace" where
  "lift_reply r = (case r of (q, tr) \<Rightarrow>
     (case q of Inl p \<Rightarrow> Inl p | Inr (Inl err) \<Rightarrow> Inr (Inl err) | Inr (Inr x) \<Rightarrow> Inr (Inr (Some x)), tr))"

definition forwarding :: "env \<Rightarrow> MockClient" where
  "forwarding e =
    \<lparr>CreateSnapshotMock = Some (\<lambda>p tr. lift_reply (ops_CreateSnapshot e p tr)),
     CreateSyncActionMock = Some (\<lambda>p tr. lift_reply (ops_CreateSyncAction e p tr)),
     DescribeBalloonConfigMock = Some (\<lambda>p tr. lift_reply (ops_DescribeBalloonConfig e p tr)),
     DescribeBalloonStatsMock = Some (\<lambda>p tr. lift_reply (ops_DescribeBalloonStats e p tr)),
     DescribeInstanceMock = Some (\<lambda>p tr. lift_reply (ops_DescribeInstance e p tr)),
     GetExportVMConfigMock = Some (\<lambda>p tr. lift_reply (ops_GetExportVMConfig e p tr)),
     GetFirecrackerVersionMock = Some (\<lambda>p tr. lift_reply (ops_GetFirecrackerVersion e p tr)),
     GetMachineConfigurationMock = Some (\<lambda>p tr. lift_reply (ops_GetMachineConfiguration e p tr)),
     GetMmdsMock = Some (\<lambda>p tr. lift_reply (ops_GetMmds e p tr)),
     LoadSnapshotMock = Some (\<lambda>p tr. lift_reply (ops_LoadSnapshot e p tr)),
     PatchBalloonMock = Some (\<lambda>p tr. lift_reply (ops_PatchBalloon e p tr)),
     PatchBalloonStatsIntervalMock = Some (\<lambda>p tr. lift_reply (ops_PatchBalloonStatsInterval e p tr)),
     PatchGuestDriveByIDMock = Some (\<lambda>p tr. lift_reply (ops_PatchGuestDriveByID e p tr)),
     PatchGuestNetworkInterfaceByIDMock = Some (\<lambda>p tr. lift_reply (ops_PatchGuestNetworkInterfaceByID e p tr)),
     PatchMachineConfigurationMock = Some (\<lambda>p tr. lift_reply (ops_PatchMachineConfiguration e p tr)),
     PatchMmdsMock = Some (\<lambda>p tr. lift_reply (ops_PatchMmds e p tr)),
     PatchVMMock = Some (\<lambda>p tr. lift_reply (ops_PatchVM e p tr)),
     PutBalloonMock = Some (\<lambda>p tr. lift_reply (ops_PutBalloon e p tr)),
     PutCPUConfigurationMock = Some (\<lambda>p tr. lift_reply (ops_PutCPUConfiguration e p tr)),
     PutEntropyDeviceMock = Some (\<lambda>p tr. lift_reply (ops_PutEntropyDevice e p tr)),
     PutGuestBootSourceMock = Some (\<lambda>p tr. lift_reply (ops_PutGuestBootSource e p tr)),
     PutGuestDriveByIDMock = Some (\<lambda>p tr. lift_reply (ops_PutGuestDriveByID e p tr)),
     PutGuestNetworkInterfaceByIDMock = Some (\<lambda>p tr. lift_reply (ops_PutGuestNetworkInterfaceByID e p tr)),
     PutGuestVsockMock = Some (\<lambda>p tr. lift_reply (ops_PutGuestVsock e p tr)),
     PutLoggerMock = Some (\<lambda>p tr. lift_reply (ops_PutLogger e p tr)),
     PutMachineConfigurationMock = Some (\<lambda>p tr. lift_reply (ops_PutMachineConfiguration e p tr)),
     PutMetricsMock = Some (\<lambda>p tr. lift_reply (ops_PutMetrics e p tr)),
     PutMmdsMock = Some (\<lambda>p tr. lift_reply (ops_PutMmds e p tr)),
     PutMmdsConfigMock = Some (\<lambda>p tr. lift_reply (ops_PutMmdsConfig e p tr))\<rparr>"

definition unset :: MockClient where
  "unset =
    \<lparr>CreateSnapshotMock = None,
     CreateSyncActionMock = None,
     DescribeBalloonConfigMock = None,
     DescribeBalloonStatsMock = None,
     DescribeInstanceMock = None,
     GetExportVMConfigMock = None,
     GetFirecrackerVersionMock = None,
     GetMachineConfigurationMock = None,
     GetMmdsMock = None,
     LoadSnapshotMock = None,
     PatchBalloonMock = None,
     PatchBalloonStatsIntervalMock = None,
     PatchGuestDriveByIDMock = None,
     PatchGuestNetworkInterfaceByIDMock = None,
     PatchMachineConfigurationMock = None,
     PatchMmdsMock = None,
     PatchVMMock = None,
     PutBalloonMock = None,
     PutCPUConfigurationMock = None,
     PutEntropyDeviceMock = None,
     PutGuestBootSourceMock = None,
     PutGuestDriveByIDMock = None,
     PutGuestNetworkInterfaceByIDMock = None,
     PutGuestVsockMock = None,
     PutLoggerMock = None,
     PutMachineConfigurationMock = None,
     PutMetricsMock = None,
     PutMmdsMock = None,
     PutMmdsConfigMock = None\<rparr>"

text \<open>The doubles of a test: what a mock replies when its functions hand every call on to the
  operations client is what the client replies, and an empty one replies nil without any request.\<close>

lemma lift_reply_trace [simp]: "snd (lift_reply r) = snd r"
  by (cases r) (simp add: lift_reply_def)

lemma lift_reply_never_nil: "fst (lift_reply r) \<noteq> Inr (Inr None)"
  by (cases r) (auto simp: lift_reply_def split: sum.split)

lemma mock_call_simps [simp]:
  "mock_call None params tr = (Inr (Inr None), tr)"
  "mock_call (Some f) params tr = f params tr"
  by (simp_all add: mock_call_def)

lemma forwarding_sends:
  "\<exists>op. snd (mock_CreateSnapshot (forwarding e) p tr) = tr @ [EvApi op] \<and> Params op = p"
  "\<exists>op. snd (mock_CreateSyncAction (forwarding e) p tr) = tr @ [EvApi op] \<and> Params op = p"
  "\<exists>op. snd (mock_DescribeBalloonConfig (forwarding e) p tr) = tr @ [EvApi op] \<and> Params op = p"
  "\<exists>op. snd (mock_DescribeBalloonStats (forwarding e) p tr) = tr @ [EvApi op] \<and> Params op = p"
  "\<exists>op. snd (mock_DescribeInstance (forwarding e) p tr) = tr @ [EvApi op] \<and> Params op = p"
  "\<exists>op. snd (mock_GetExportVMConfig (forwarding e) p tr) = tr @ [EvApi op] \<and> Params op = p"
  "\<exists>op. snd (mock_GetFirecrackerVersion (forwarding e) p tr) = tr @ [EvApi op] \<and> Params op = p"
  "\<exists>op. snd (mock_GetMachineConfiguration (forwarding e) p tr) = tr @ [EvApi op] \<and> Params op = p"
  "\<exists>op. snd (mock_GetMmds (forwarding e) p tr) = tr @ [EvApi op] \<and> Params op = p"
  "\<exists>op. snd (mock_LoadSnapshot (forwarding e) p tr) = tr @ [EvApi op] \<and> Params op = p"
  "\<exists>op. snd (mock_PatchBalloon (forwarding e) p tr) = tr @ [EvApi op] \<and> Params op = p"
  "\<exists>op. snd (mock_PatchBalloonStatsInterval (forwarding e) p tr) = tr @ [EvApi op] \<and> Params op = p"
  "\<exists>op. snd (mock_PatchGuestDriveByID (forwarding e) p tr) = tr @ [EvApi op] \<and> Params op = p"
  "\<exists>op. snd (mock_PatchGuestNetworkInterfaceByID (forwarding e) p tr) = tr @ [EvApi op] \<and> Params op = p"
  "\<exists>op. snd (mock_PatchMachineConfiguration (forwarding e) p tr) = tr @ [EvApi op] \<and> Params op = p"
  "\<exists>op. snd (mock_PatchMmds (forwarding e) p tr) = tr @ [EvApi op] \<and> Params op = p"
  "\<exists>op. snd (mock_PatchVM (forwarding e) p tr) = tr @ [EvApi op] \<and> Params op = p"
  "\<exists>op. snd (mock_PutBalloon (forwarding e) p tr) = tr @ [EvApi op] \<and> Params op = p"
  "\<exists>op. snd (mock_PutCPUConfiguration (forwarding e) p tr) = tr @ [EvApi op] \<and> Params op = p"
  "\<exists>op. snd (mock_PutEntropyDevice (forwarding e) p tr) = tr @ [EvApi op] \<and> Params op = p"
  "\<exists>op. snd (mock_PutGuestBootSource (forwarding e) p tr) = tr @ [EvApi op] \<and> Params op = p"
  "\<exists>op. snd (mock_PutGuestDriveByID (forwarding e) p tr) = tr @ [EvApi op] \<and> Params op = p"
  "\<exists>op. snd (mock_PutGuestNetworkInterfaceByID (forwarding e) p tr) = tr @ [EvApi op] \<and> Params op = p"
  "\<exists>op. snd (mock_PutGuestVsock (forwarding e) p tr) = tr @ [EvApi op] \<and> Params op = p"
  "\<exists>op. snd (mock_PutLogger (forwarding e) p tr) = tr @ [EvApi op] \<and> Params op = p"
  "\<exists>op. snd (mock_PutMachineConfiguration (forwarding e) p tr) = tr @ [EvApi op] \<and> Params op = p"
  "\<exists>op. snd (mock_PutMetrics (forwarding e) p tr) = tr @ [EvApi op] \<and> Params op = p"
  "\<exists>op. snd (mock_PutMmds (forwarding e) p tr) = tr @ [EvApi op] \<and> Params op = p"
  "\<exists>op. snd (mock_PutMmdsConfig (forwarding e) p tr) = tr @ [EvApi op] \<and> Params op = p"
  by (simp_all add: mock_defs forwarding_def ops_defs)

lemma unset_sends_nothing:
  "mock_CreateSnapshot unset p tr = (Inr (Inr None), tr)"
  "mock_CreateSyncAction unset p tr = (Inr (Inr None), tr)"
  "mock_DescribeBalloonConfig unset p tr = (Inr (Inr None), tr)"
  "mock_DescribeBalloonStats unset p tr = (Inr (Inr None), tr)"
  "mock_DescribeInstance unset p tr = (Inr (Inr None), tr)"
  "mock_GetExportVMConfig unset p tr = (Inr (Inr None), tr)"
  "mock_GetFirecrackerVersion unset p tr = (Inr (Inr None), tr)"
  "mock_GetMachineConfiguration unset p tr = (Inr (Inr None), tr)"
  "mock_GetMmds unset p tr = (Inr (Inr None), tr)"
  "mock_LoadSnapshot unset p tr = (Inr (Inr None), tr)"
  "mock_PatchBalloon unset p tr = (Inr (Inr None), tr)"
  "mock_PatchBalloonStatsInterval unset p tr = (Inr (Inr None), tr)"
  "mock_PatchGuestDriveByID unset p tr = (Inr (Inr None), tr)"
  "mock_PatchGuestNetworkInterfaceByID unset p tr = (Inr (Inr None), tr)"
  "mock_PatchMachineConfiguration unset p tr = (Inr (Inr None), tr)"
  "mock_PatchMmds unset p tr = (Inr (Inr None), tr)"
  "mock_PatchVM unset p tr = (Inr (Inr None), tr)"
  "mock_PutBalloon unset p tr = (Inr (Inr None), tr)"
  "mock_PutCPUConfiguration unset p tr = (Inr (Inr None), tr)"
  "mock_PutEntropyDevice unset p tr = (Inr (Inr None), tr)"
  "mock_PutGuestBootSource unset p tr = (Inr (Inr None), tr)"
  "mock_PutGuestDriveByID unset p tr = (Inr (Inr None), tr)"
  "mock_PutGuestNetworkInterfaceByID unset p tr = (Inr (Inr None), tr)"
  "mock_PutGuestVsock unset p tr = (Inr (Inr None), tr)"
  "mock_PutLogger unset p tr = (Inr (Inr None), tr)"
  "mock_PutMachineConfiguration unset p tr = (Inr (Inr None), tr)"
  "mock_PutMetrics unset p tr = (Inr (Inr None), tr)"
  "mock_PutMmds unset p tr = (Inr (Inr None), tr)"
  "mock_PutMmdsConfig unset p tr = (Inr (Inr None), tr)"
  by (simp_all add: mock_defs unset_def)

subsection \<open>Netlink\<close>

text \<open>A nil interface is \<open>None\<close>; calling a method of it panics.\<close>

record MockNetlinkOps =
  CreatedTap :: "nl_link option"
  RedirectIface :: "nl_link option"
  AddIngressQdiscErr :: "go_error option"
  GetIngressQdiscErr :: "go_error option"
  RemoveIngressQdiscErr :: "go_error option"
  RemoveIngressQdiscCalls :: "nl_link list"
  AddRedirectFilterErr :: "go_error option"
  GetRedirectFilterErr :: "go_error option"
  CreateTapErr :: "go_error option"
  RemoveLinkErr :: "go_error option"
  RemoveLinkCalls :: "string list"
  GetLinkErr :: "go_error option"

definition mock_AddIngressQdisc :: "nl_link \<Rightarrow> MockNetlinkOps \<Rightarrow> go_error option \<times> MockNetlinkOps" where
  "mock_AddIngressQdisc link m = (AddIngressQdiscErr m, m)"

definition mock_GetIngressQdisc ::
  "nl_link \<Rightarrow> MockNetlinkOps \<Rightarrow> (qdisc option \<times> go_error option) \<times> MockNetlinkOps" where
  "mock_GetIngressQdisc sourceLink m = ((None, GetIngressQdiscErr m), m)"

definition mock_RemoveIngressQdisc :: "nl_link \<Rightarrow> MockNetlinkOps \<Rightarrow> go_error option \<times> MockNetlinkOps" where
  "mock_RemoveIngressQdisc sourceLink m =
     (RemoveIngressQdiscErr m, m\<lparr>RemoveIngressQdiscCalls := RemoveIngressQdiscCalls m @ [sourceLink]\<rparr>)"

definition mock_AddRedirectFilter ::
  "nl_link \<Rightarrow> nl_link \<Rightarrow> MockNetlinkOps \<Rightarrow> go_error option \<times> MockNetlinkOps" where
  "mock_AddRedirectFilter sourceLink targetLink m = (AddRedirectFilterErr m, m)"

definition mock_GetRedirectFilter ::
  "nl_link \<Rightarrow> nl_link \<Rightarrow> MockNetlinkOps \<Rightarrow> (nl_filter option \<times> go_error option) \<times> MockNetlinkOps" where
  "mock_GetRedirectFilter sourceLink targetLink m = ((None, GetRedirectFilterErr m), m)"

text \<open>The switch over the two names, in its order.\<close>

definition mock_lookup :: "string \<Rightarrow> MockNetlinkOps \<Rightarrow> go_panic + nl_link option" where
  "mock_lookup name m =
     bind_sum (deref (RedirectIface m)) (\<lambda>r.
     if name = nl_Name r then Inr (Some r)
     else bind_sum (deref (CreatedTap m)) (\<lambda>t. if name = nl_Name t then Inr (Some t) else Inr None))"

definition mock_GetLink :: "string \<Rightarrow> MockNetlinkOps \<Rightarrow> (go_panic + go_error + nl_link) \<times> MockNetlinkOps" where
  "mock_GetLink name m =
    (case GetLinkErr m of
       Some err \<Rightarrow> (Inr (Inl err), m)
     | None \<Rightarrow>
        (bind_sum (mock_lookup name m)
           (\<lambda>l. case l of Some link \<Rightarrow> Inr (Inr link) | None \<Rightarrow> Inr (Inl (LinkNotFoundError []))), m))"

definition mock_RemoveLink :: "string \<Rightarrow> MockNetlinkOps \<Rightarrow> (go_panic + go_error option) \<times> MockNetlinkOps" where
  "mock_RemoveLink name m =
    (case RemoveLinkErr m of
       Some err \<Rightarrow> (Inr (Some err), m)
     | None \<Rightarrow>
        (let m1 = m\<lparr>RemoveLinkCalls := RemoveLinkCalls m @ [name]\<rparr> in
         (bind_sum (mock_lookup name m1)
           (\<lambda>l. case l of Some link \<Rightarrow> Inr None | None \<Rightarrow> Inr (Some (LinkNotFoundError []))), m1)))"

definition mock_CreateTap ::
  "string \<Rightarrow> int \<Rightarrow> int \<Rightarrow> int \<Rightarrow> MockNetlinkOps \<Rightarrow> (nl_link option \<times> go_error option) \<times> MockNetlinkOps" where
  "mock_CreateTap name mtu ownerUID ownerGID m = ((CreatedTap m, CreateTapErr m), m)"

text \<open>A link that is looked up has the name that was asked for, a link can be removed exactly when the
  lookup finds it, and every removal is recorded, also one of a link that is not there.\<close>

lemma mock_GetLink_name:
  "fst (mock_GetLink name m) = Inr (Inr link) \<Longrightarrow> nl_Name link = name"
  by (cases "RedirectIface m"; cases "CreatedTap m")
    (auto simp: mock_GetLink_def mock_lookup_def deref_def split: option.splits if_splits)

lemma mock_RemoveLink_iff:
  assumes "GetLinkErr m = None" and "RemoveLinkErr m = None"
  shows "fst (mock_RemoveLink name m) = Inr None \<longleftrightarrow> (\<exists>link. fst (mock_GetLink name m) = Inr (Inr link))"
  using assms by (cases "RedirectIface m"; cases "CreatedTap m")
    (auto simp: mock_RemoveLink_def mock_GetLink_def mock_lookup_def deref_def Let_def split: option.splits if_splits)

lemma mock_RemoveLink_records:
  "RemoveLinkCalls (snd (mock_RemoveLink name m)) =
     RemoveLinkCalls m @ (if RemoveLinkErr m = None then [name] else [])"
  by (auto simp: mock_RemoveLink_def Let_def split: option.split)

text \<open>\<open>MockLink\<close> and \<open>MockNetNS\<close>: the attributes of a link, and a callback that runs where it is.\<close>

record MockLink =
  LinkAttrs :: nl_link

definition Attrs :: "MockLink \<Rightarrow> nl_link" where
  "Attrs l = LinkAttrs l"

record MockNetNS =
  MockPath :: string

definition mock_Do :: "(MockNetNS option \<Rightarrow> 's \<Rightarrow> go_error option \<times> 's) \<Rightarrow> MockNetNS \<Rightarrow> 's \<Rightarrow> go_error option \<times> 's" where
  "mock_Do f m = f None"

definition mock_Path :: "MockNetNS \<Rightarrow> string" where
  "mock_Path m = MockPath m"

subsection \<open>Writers and guards of tests\<close>

text \<open>\<open>TestWriter\<close> of \<open>fctesting/test_writer.go\<close>: calling a nil function panics.\<close>

record 's TestWriter =
  WriteFn :: "(byte list \<Rightarrow> 's \<Rightarrow> (int \<times> go_error option) \<times> 's) option"

definition Write ::
  "byte list \<Rightarrow> 's TestWriter \<Rightarrow> 's \<Rightarrow> (go_panic + int \<times> go_error option) \<times> 's" where
  "Write b w s =
    (case WriteFn w of
       None \<Rightarrow> (Inl NilDereference, s)
     | Some f \<Rightarrow> (case f b s of (r, s1) \<Rightarrow> (Inr r, s1)))"

datatype test_exit = Skipped string "string list" "go_error option" | TestFatal string "string list" "go_error option"

definition rootDisableEnvName :: string where "rootDisableEnvName = ''DISABLE_ROOT_TESTS''"
definition logLevelEnvName :: string where "logLevelEnvName = ''FC_TEST_LOG_LEVEL''"

definition rootDisabled :: "env \<Rightarrow> bool" where
  "rootDisabled e \<longleftrightarrow> length (getenv e rootDisableEnvName) \<noteq> 0"

text \<open>A guard either ends the test or lets it go on (\<open>None\<close>). The user, the user id and whether the
  device can be written are the host's.\<close>

definition RequiresKVM :: "go_error option \<Rightarrow> go_error + string \<Rightarrow> int \<Rightarrow> test_exit option" where
  "RequiresKVM accessErr user uid =
    (case accessErr of
       None \<Rightarrow> None
     | Some err \<Rightarrow>
        (let name = (case user of Inl uerr \<Rightarrow> [] | Inr n \<Rightarrow> n);
             name = (if name = [] then ''uid='' @ itoa uid else name)
         in Some (Skipped ''/dev/kvm is not writable from %s: %s'' [name] (Some err))))"

definition RequiresRoot :: "env \<Rightarrow> int \<Rightarrow> test_exit option" where
  "RequiresRoot e uid =
    (if rootDisabled e then Some (Skipped ''skipping test that requires root'' [] None)
     else if uid \<noteq> 0 then
       Some (TestFatal ''This test must be run as root. To disable tests that require root, run the tests with the %s environment variable set.''
         [rootDisableEnvName] None)
     else None)"

text \<open>The level of a new logger; \<open>info\<close> is logrus' default, and parsing a level is logrus' business.\<close>

definition newLogger :: "env \<Rightarrow> (string \<Rightarrow> go_error + 'level) \<Rightarrow> 'level \<Rightarrow> test_exit + 'level" where
  "newLogger e parse info =
    (let str = getenv e logLevelEnvName in
     if str = [] then Inr info
     else case parse str of
       Inl err \<Rightarrow> Inl (TestFatal ''Failed to parse %q as Log Level: %v'' [str] (Some err))
     | Inr logLevel \<Rightarrow> Inr logLevel)"

definition NewLogEntry :: "env \<Rightarrow> (string \<Rightarrow> go_error + 'level) \<Rightarrow> 'level \<Rightarrow> test_exit + 'level" where
  "NewLogEntry e parse info = newLogger e parse info"

end
